(* ===== verification/Prelude.thy ===== *)
theory Prelude
  imports Complex_Main "HOL-Library.Word" "HOL-Library.Monad_Syntax" "HOL-Library.State_Monad"
begin

text \<open>
  Shared vocabulary of the development: the machine integer types of the C++ sources, the
  collections of facts the component theories add to, and lemmas on words, lists and options
  that more than one component uses.
\<close>

unbundle bit_operations_syntax

text \<open>The fixed-width integers of \<open><cstdint>\<close>. A signed \<open>std::int64_t\<close> is kept as the
  64-bit word of its two's complement representation; signed comparisons read it with \<open>sint\<close>.\<close>

type_synonym byte = "8 word"
type_synonym u16 = "16 word"
type_synonym u32 = "32 word"
type_synonym u64 = "64 word"
type_synonym i64 = "64 word"
type_synonym bytes = "8 word list"

named_theorems codec_intros \<open>round-trip facts of the binary codecs, one per field type\<close>

subsection \<open>Lists\<close>

lemma list_update_neq_iff:
  assumes "i < length xs"
  shows "xs[i := v] = xs \<longleftrightarrow> xs ! i = v"
  using assms by (metis list_update_id nth_list_update_eq)

lemma take_drop_nth_update:
  assumes "i < length xs"
  shows "xs[i := v] = take i xs @ v # drop (Suc i) xs"
  using assms by (simp add: upd_conv_take_nth_drop)

lemma drop_Suc_nth: "n < length xs \<Longrightarrow> drop n xs = xs ! n # drop (Suc n) xs"
  by (rule Cons_nth_drop_Suc [symmetric])

lemma drop_eq_ConsD:
  assumes "drop n xs = y # ys"
  shows "n < length xs" "xs ! n = y" "drop (Suc n) xs = ys"
proof -
  show n: "n < length xs"
    using assms by (metis drop_all leI list.distinct(1))
  from assms n show "xs ! n = y" "drop (Suc n) xs = ys"
    by (simp_all add: drop_Suc_nth)
qed

subsection \<open>Words\<close>

lemma word_odd_mult_cancel:
  fixes p pinv :: "'a::len word"
  assumes "p * pinv = 1"
  shows "x * p = y * p \<longleftrightarrow> x = y"
proof
  assume "x * p = y * p"
  then have "x * p * pinv = y * p * pinv" by simp
  then show "x = y" using assms by (simp add: mult.assoc)
qed simp

lemma xor_cancel_right [simp]:
  fixes x y z :: "'a::len word"
  shows "x XOR z = y XOR z \<longleftrightarrow> x = y"
proof
  assume "x XOR z = y XOR z"
  then have "(x XOR z) XOR z = (y XOR z) XOR z" by simp
  then show "x = y" by (simp add: xor.assoc)
qed simp

lemma xor_cancel_left [simp]:
  fixes x y z :: "'a::len word"
  shows "z XOR x = z XOR y \<longleftrightarrow> x = y"
  by (metis xor_cancel_right xor.commute)

lemma ucast_byte_inj:
  fixes a b :: byte
  assumes "8 \<le> LENGTH('a::len)"
  shows "(ucast a :: 'a word) = ucast b \<longleftrightarrow> a = b"
proof
  assume "(ucast a :: 'a word) = ucast b"
  then have eq: "bit (ucast a :: 'a word) n = bit (ucast b :: 'a word) n" for n
    by simp
  show "a = b"
  proof (rule bit_word_eqI)
    fix n
    assume "n < LENGTH(8)"
    with assms have "n < LENGTH('a)" by simp
    with eq [of n] show "bit a n = bit b n"
      by (simp add: bit_ucast_iff)
  qed
qed simp

end
