(* ===== verification/Double64.thy ===== *)
theory Double64
  imports Prelude "HOL-Library.Log_Nat"
begin

text \<open>
  IEEE-754 binary64 arithmetic, the semantics of the C++ \<open>double\<close> that the sources compute
  with. A double is its 64-bit pattern, because the sources copy the pattern into their files,
  frames and digests (\<open>std::memcpy\<close> to \<open>std::uint64_t\<close>). The low 63 bits are the magnitude:
  as numbers they are ordered like the values they denote, the pattern \<open>0x7FF0...0\<close> is
  infinity and everything above it is a NaN. Arithmetic rounds the exact rational result to
  nearest, ties to even. All operations are executable on concrete patterns.

  The lemmas show that rounding is correct (\<open>round_mag_spec\<close>: the result is the closest grid
  point, ties to the even pattern), monotone and exact on representable values, that comparison
  is comparison of real values, and which operations can produce a NaN.
\<close>

datatype double = F64 (f64_bits: u64)

definition inf_mag :: int where
  "inf_mag = 0x7FF0000000000000"

definition f64_sign :: "double \<Rightarrow> bool" where
  "f64_sign x = bit (f64_bits x) 63"

definition f64_mag :: "double \<Rightarrow> int" where
  "f64_mag x = uint (take_bit 63 (f64_bits x))"

definition f64_make :: "bool \<Rightarrow> int \<Rightarrow> double" where
  "f64_make s m = F64 (if s then of_int m + 0x8000000000000000 else of_int m)"

definition f64_is_nan :: "double \<Rightarrow> bool" where
  "f64_is_nan x \<longleftrightarrow> inf_mag < f64_mag x"

definition f64_is_inf :: "double \<Rightarrow> bool" where
  "f64_is_inf x \<longleftrightarrow> f64_mag x = inf_mag"

definition f64_isfinite :: "double \<Rightarrow> bool" where
  "f64_isfinite x \<longleftrightarrow> f64_mag x < inf_mag"

text \<open>A finite magnitude denotes significand times a power of two. \<open>mag_scaled\<close> is the value in
  units of the smallest subnormal \<open>2 ^ -1074\<close>, which is always an integer.\<close>

definition mag_mant :: "int \<Rightarrow> int" where
  "mag_mant m = (if m div 2 ^ 52 = 0 then m mod 2 ^ 52 else 2 ^ 52 + m mod 2 ^ 52)"

definition mag_exp :: "int \<Rightarrow> int" where
  "mag_exp m = max 1 (m div 2 ^ 52) - 1075"

definition mag_scaled :: "int \<Rightarrow> int" where
  "mag_scaled m = mag_mant m * 2 ^ nat (max 1 (m div 2 ^ 52) - 1)"

definition f64_real :: "double \<Rightarrow> real" where
  "f64_real x = (if f64_sign x then -1 else 1) * (real_of_int (mag_scaled (f64_mag x)) / 2 ^ 1074)"

subsection \<open>Rounding to nearest, ties to even\<close>

text \<open>\<open>round_mag n d\<close> is the magnitude pattern nearest to the positive rational \<open>n / d\<close>,
  without the overflow cut. The exponent of the last place is found from the bit lengths.\<close>

definition scale_frac :: "int \<Rightarrow> int \<Rightarrow> int \<Rightarrow> int \<times> int" where
  "scale_frac n d q = (if 0 \<le> q then (n, d * 2 ^ nat q) else (n * 2 ^ nat (- q), d))"

definition last_place :: "int \<Rightarrow> int \<Rightarrow> int" where
  "last_place n d =
     (let q0 = max (-1074) (bitlen n - bitlen d - 53);
          (num, den) = scale_frac n d q0
      in if 2 ^ 53 \<le> num div den then q0 + 1 else q0)"

definition round_mag :: "int \<Rightarrow> int \<Rightarrow> int" where
  "round_mag n d =
     (if n = 0 then 0 else
      let q = last_place n d;
          (num, den) = scale_frac n d q;
          m = num div den;
          r = num mod den
      in (q + 1074) * 2 ^ 52 + (if den < 2 * r \<or> (2 * r = den \<and> odd m) then m + 1 else m))"

definition f64_round :: "bool \<Rightarrow> int \<Rightarrow> int \<Rightarrow> double" where
  "f64_round s n d = f64_make s (min inf_mag (round_mag n d))"

text \<open>A decimal literal of the source, such as \<open>0.85\<close> = \<open>f64_lit 85 100\<close>.\<close>

definition f64_lit :: "int \<Rightarrow> int \<Rightarrow> double" where
  "f64_lit n d = f64_round False n d"

subsection \<open>Arithmetic and comparison\<close>

definition f64_nan :: double where
  "f64_nan = F64 0x7FF8000000000000"

definition f64_inf :: "bool \<Rightarrow> double" where
  "f64_inf s = f64_make s inf_mag"

definition f64_zero :: double where
  "f64_zero = F64 0"

definition f64_one :: double where
  "f64_one = F64 0x3FF0000000000000"

definition f64_is_zero :: "double \<Rightarrow> bool" where
  "f64_is_zero x \<longleftrightarrow> f64_mag x = 0"

definition f64_neg :: "double \<Rightarrow> double" where
  "f64_neg x = f64_make (\<not> f64_sign x) (f64_mag x)"

definition f64_fabs :: "double \<Rightarrow> double" where
  "f64_fabs x = f64_make False (f64_mag x)"

definition f64_sig :: "double \<Rightarrow> int" where
  "f64_sig x = (if f64_sign x then - mag_mant (f64_mag x) else mag_mant (f64_mag x))"

text \<open>Rounding of \<open>S * 2 ^ e\<close>; an exact zero sum is \<open>+0\<close> unless both operands are negative.\<close>

definition round_scaled :: "bool \<Rightarrow> int \<Rightarrow> int \<Rightarrow> int \<Rightarrow> double" where
  "round_scaled s n d e =
     (if 0 \<le> e then f64_round s (n * 2 ^ nat e) d else f64_round s n (d * 2 ^ nat (- e)))"

definition f64_add_finite :: "double \<Rightarrow> double \<Rightarrow> double" where
  "f64_add_finite a b =
     (let ea = mag_exp (f64_mag a); eb = mag_exp (f64_mag b); e = min ea eb;
          S = f64_sig a * 2 ^ nat (ea - e) + f64_sig b * 2 ^ nat (eb - e)
      in if S = 0 then f64_make (f64_sign a \<and> f64_sign b) 0
         else round_scaled (S < 0) \<bar>S\<bar> 1 e)"

definition f64_add :: "double \<Rightarrow> double \<Rightarrow> double" where
  "f64_add a b =
     (if f64_is_nan a \<or> f64_is_nan b then f64_nan
      else if f64_is_inf a \<and> f64_is_inf b \<and> f64_sign a \<noteq> f64_sign b then f64_nan
      else if f64_is_inf a then a
      else if f64_is_inf b then b
      else f64_add_finite a b)"

definition f64_sub :: "double \<Rightarrow> double \<Rightarrow> double" where
  "f64_sub a b = (if f64_is_nan b then f64_nan else f64_add a (f64_neg b))"

definition f64_mul :: "double \<Rightarrow> double \<Rightarrow> double" where
  "f64_mul a b =
     (let s = (f64_sign a \<noteq> f64_sign b)
      in if f64_is_nan a \<or> f64_is_nan b then f64_nan
         else if f64_is_inf a \<and> f64_is_zero b \<or> f64_is_zero a \<and> f64_is_inf b then f64_nan
         else if f64_is_inf a \<or> f64_is_inf b then f64_inf s
         else round_scaled s (mag_mant (f64_mag a) * mag_mant (f64_mag b)) 1
                (mag_exp (f64_mag a) + mag_exp (f64_mag b)))"

definition f64_div :: "double \<Rightarrow> double \<Rightarrow> double" where
  "f64_div a b =
     (let s = (f64_sign a \<noteq> f64_sign b)
      in if f64_is_nan a \<or> f64_is_nan b then f64_nan
         else if f64_is_inf a \<and> f64_is_inf b \<or> f64_is_zero a \<and> f64_is_zero b then f64_nan
         else if f64_is_inf a \<or> f64_is_zero b then f64_inf s
         else if f64_is_inf b then f64_make s 0
         else round_scaled s (mag_mant (f64_mag a)) (mag_mant (f64_mag b))
                (mag_exp (f64_mag a) - mag_exp (f64_mag b)))"

definition f64_key :: "double \<Rightarrow> int" where
  "f64_key x = (if f64_sign x then - f64_mag x else f64_mag x)"

definition f64_lt :: "double \<Rightarrow> double \<Rightarrow> bool" where
  "f64_lt a b \<longleftrightarrow> \<not> f64_is_nan a \<and> \<not> f64_is_nan b \<and> f64_key a < f64_key b"

definition f64_le :: "double \<Rightarrow> double \<Rightarrow> bool" where
  "f64_le a b \<longleftrightarrow> \<not> f64_is_nan a \<and> \<not> f64_is_nan b \<and> f64_key a \<le> f64_key b"

definition f64_eq :: "double \<Rightarrow> double \<Rightarrow> bool" where
  "f64_eq a b \<longleftrightarrow> \<not> f64_is_nan a \<and> \<not> f64_is_nan b \<and> f64_key a = f64_key b"

text \<open>\<open>static_cast<double>\<close> of an unsigned and of a signed 64-bit integer.\<close>

definition f64_of_u64 :: "u64 \<Rightarrow> double" where
  "f64_of_u64 n = f64_round False (uint n) 1"

definition f64_of_i64 :: "i64 \<Rightarrow> double" where
  "f64_of_i64 i = f64_round (sint i < 0) \<bar>sint i\<bar> 1"

text \<open>\<open>std::min\<close> and \<open>std::clamp\<close> of \<open><algorithm>\<close> on doubles.\<close>

definition f64_min :: "double \<Rightarrow> double \<Rightarrow> double" where
  "f64_min a b = (if f64_lt b a then b else a)"

definition f64_clamp :: "double \<Rightarrow> double \<Rightarrow> double \<Rightarrow> double" where
  "f64_clamp v lo hi = (if f64_lt v lo then lo else if f64_lt hi v then hi else v)"


subsection \<open>Patterns, signs and magnitudes\<close>

lemma f64_mag_nonneg [simp]: "0 \<le> f64_mag x"
  by (simp add: f64_mag_def)

lemma f64_mag_not_neg [simp]: "\<not> f64_mag x < 0"
  by (simp add: not_less)

lemma f64_mag_bound [simp]: "f64_mag x < 0x8000000000000000"
  using take_bit_int_less_exp [of 63 "uint (f64_bits x)"]
  by (simp add: f64_mag_def unsigned_take_bit_eq)

lemma inf_mag_bounds [simp]: "0 \<le> inf_mag" "0 < inf_mag" "inf_mag < 0x8000000000000000" "even inf_mag" "\<not> inf_mag < 0"
  by (simp_all add: inf_mag_def)

lemma bits_make_neg:
  assumes "0 \<le> m" "m < 2 ^ 63"
  shows "uint (of_int m + 0x8000000000000000 :: u64) = m + 2 ^ 63"
proof -
  have "uint (of_int m + 0x8000000000000000 :: u64) = (m + 2 ^ 63) mod 2 ^ 64"
    by (simp add: uint_word_ariths uint_word_of_int_eq take_bit_eq_mod mod_simps)
  with assms show ?thesis by simp
qed

lemma f64_make_mag [simp]:
  assumes "0 \<le> m" "m < 2 ^ 63"
  shows "f64_mag (f64_make s m) = m"
proof (cases s)
  case True
  have "take_bit 63 (m + 2 ^ 63 :: int) = m"
    using assms by (simp add: take_bit_eq_mod)
  with True assms show ?thesis
    by (simp add: f64_mag_def f64_make_def unsigned_take_bit_eq bits_make_neg)
next
  case False
  have "take_bit 63 m = m" using assms by (simp add: take_bit_eq_mod)
  moreover have "take_bit 64 m = m" using assms by (simp add: take_bit_eq_mod)
  ultimately show ?thesis using False
    by (simp add: f64_mag_def f64_make_def unsigned_take_bit_eq uint_word_of_int_eq)
qed

lemma f64_make_sign [simp]:
  assumes "0 \<le> m" "m < 2 ^ 63"
  shows "f64_sign (f64_make s m) = s"
proof -
  have eq: "f64_sign (F64 w) \<longleftrightarrow> odd (uint w div 2 ^ 63)" for w
    using bit_iff_odd [of "uint w" 63] by (simp add: f64_sign_def bit_uint_iff)
  show ?thesis
  proof (cases s)
    case True
    have "(m + 2 ^ 63) div 2 ^ 63 = 1" using assms by simp
    with True assms show ?thesis by (simp add: f64_make_def eq bits_make_neg)
  next
    case False
    have "take_bit 64 m = m" using assms by (simp add: take_bit_eq_mod)
    with False assms show ?thesis
      by (simp add: f64_make_def eq uint_word_of_int_eq)
  qed
qed

lemma f64_zero_simps [simp]:
  "f64_mag f64_zero = 0" "f64_sign f64_zero = False"
  "f64_is_nan f64_zero = False" "f64_isfinite f64_zero" "f64_key f64_zero = 0"
  by (simp_all add: f64_zero_def f64_mag_def f64_sign_def f64_is_nan_def f64_isfinite_def
      f64_key_def inf_mag_def)

lemma f64_nan_is_nan [simp]: "f64_is_nan f64_nan"
  by (simp add: f64_is_nan_def f64_nan_def f64_mag_def inf_mag_def)

lemma f64_inf_simps [simp]:
  "f64_mag (f64_inf s) = inf_mag" "f64_sign (f64_inf s) = s" "\<not> f64_is_nan (f64_inf s)"
  "f64_is_inf (f64_inf s)" "\<not> f64_isfinite (f64_inf s)"
  by (simp_all add: f64_inf_def f64_is_nan_def f64_is_inf_def f64_isfinite_def)

lemma f64_cases: "f64_is_nan x \<or> f64_is_inf x \<or> f64_isfinite x"
  by (auto simp: f64_is_nan_def f64_is_inf_def f64_isfinite_def)

lemma f64_finite_not [simp]:
  "f64_isfinite x \<Longrightarrow> \<not> f64_is_nan x" "f64_isfinite x \<Longrightarrow> \<not> f64_is_inf x"
  by (auto simp: f64_is_nan_def f64_is_inf_def f64_isfinite_def)


subsection \<open>The grid of finite magnitudes\<close>

lemma mag_scaled_enc:
  assumes "0 \<le> k" "0 \<le> m" "m \<le> 2 ^ 53" "k = 0 \<or> 2 ^ 52 \<le> m"
  shows "mag_scaled (k * 2 ^ 52 + m) = m * 2 ^ nat k"
proof -
  have dm: "(k * 2 ^ 52 + m) div 2 ^ 52 = k + m div 2 ^ 52"
    "(k * 2 ^ 52 + m) mod 2 ^ 52 = m mod 2 ^ 52"
    by simp_all
  consider "m < 2 ^ 52" | "2 ^ 52 \<le> m" "m < 2 ^ 53" | "m = 2 ^ 53"
    using assms(3) by force
  then show ?thesis
  proof cases
    case 1
    with assms have "k = 0" "m div 2 ^ 52 = 0" "m mod 2 ^ 52 = m" by auto
    then show ?thesis by (simp add: mag_scaled_def mag_mant_def)
  next
    case 2
    then have m: "m div 2 ^ 52 = 1" "m mod 2 ^ 52 = m - 2 ^ 52"
      by (simp_all add: int_div_pos_eq minus_div_mult_eq_mod [symmetric])
    have "mag_mant (k * 2 ^ 52 + m) = m"
      unfolding mag_mant_def dm m using assms(1) by simp
    moreover have "nat (max 1 (k + 1) - 1) = nat k" using assms(1) by simp
    ultimately show ?thesis unfolding mag_scaled_def dm m by simp
  next
    case 3
    then have m: "m div 2 ^ 52 = 2" "m mod 2 ^ 52 = 0" by simp_all
    have "mag_mant (k * 2 ^ 52 + m) = 2 ^ 52"
      unfolding mag_mant_def dm m using assms(1) by simp
    moreover have "nat (max 1 (k + 2) - 1) = Suc (nat k)" using assms(1) by simp
    ultimately show ?thesis unfolding mag_scaled_def dm m using 3
      by (simp only: power_Suc) simp
  qed
qed

lemma mag_decompose:
  fixes m :: int
  assumes "0 \<le> m"
  obtains k M where "m = k * 2 ^ 52 + M" "0 \<le> k" "0 \<le> M" "M < 2 ^ 53" "k = 0 \<or> 2 ^ 52 \<le> M"
proof (cases "m < 2 ^ 52")
  case True
  with assms that [of 0 m] show ?thesis by simp
next
  case False
  let ?k = "m div 2 ^ 52 - 1" and ?M = "2 ^ 52 + m mod 2 ^ 52"
  have "m = ?k * 2 ^ 52 + ?M"
    using div_mult_mod_eq [of m "2 ^ 52"] by (simp add: algebra_simps)
  moreover from False have "1 \<le> m div 2 ^ 52" by (simp add: zdiv_mono1 int_div_pos_eq pos_imp_zdiv_pos_iff)
  moreover have "?M < 2 ^ 53" "2 ^ 52 \<le> ?M" by simp_all
  ultimately show ?thesis using that [of ?k ?M] by force
qed

lemma mag_scaled_Suc:
  assumes "0 \<le> m"
  shows "mag_scaled m < mag_scaled (m + 1)"
proof -
  obtain k M where m: "m = k * 2 ^ 52 + M" and k: "0 \<le> k" "0 \<le> M" "M < 2 ^ 53" "k = 0 \<or> 2 ^ 52 \<le> M"
    using assms by (rule mag_decompose)
  have "mag_scaled m = M * 2 ^ nat k" unfolding m by (rule mag_scaled_enc) (use k in auto)
  moreover have "m + 1 = k * 2 ^ 52 + (M + 1)" using m by simp
  then have "mag_scaled (m + 1) = (M + 1) * 2 ^ nat k"
    using k by (simp only:) (rule mag_scaled_enc; force)
  ultimately show ?thesis by (simp add: algebra_simps)
qed

lemma mag_scaled_strict_mono:
  assumes "0 \<le> a" "a < b"
  shows "mag_scaled a < mag_scaled b"
  using assms(2,1)
proof (induction rule: int_gr_induct)
  case base
  then show ?case by (rule mag_scaled_Suc)
next
  case (step i)
  then show ?case using mag_scaled_Suc [of i] by simp
qed

lemma mag_scaled_less_iff:
  assumes "0 \<le> a" "0 \<le> b"
  shows "mag_scaled a < mag_scaled b \<longleftrightarrow> a < b"
  using assms mag_scaled_strict_mono by (metis less_asym linorder_neqE_linordered_idom)

lemma mag_scaled_le_iff:
  assumes "0 \<le> a" "0 \<le> b"
  shows "mag_scaled a \<le> mag_scaled b \<longleftrightarrow> a \<le> b"
  using assms mag_scaled_less_iff [of b a] by (simp add: not_less [symmetric])

lemma mag_scaled_0 [simp]: "mag_scaled 0 = 0"
  by (simp add: mag_scaled_def mag_mant_def)

lemma mag_scaled_nonneg: "0 \<le> m \<Longrightarrow> 0 \<le> mag_scaled m"
  using mag_scaled_le_iff [of 0 m] by simp


subsection \<open>Rounding is correct\<close>

lemma scale_frac_ratio:
  assumes "0 < d" "scale_frac n d q = (num, den)"
  shows "0 < den" "real_of_int num / real_of_int den = real_of_int n / real_of_int d * 2 powi (- q)"
proof -
  show "0 < den" using assms by (auto simp: scale_frac_def split: if_splits)
  show "real_of_int num / real_of_int den = real_of_int n / real_of_int d * 2 powi (- q)"
    using assms
    by (auto simp: scale_frac_def power_int_def field_simps split: if_splits)
qed

lemma bitlen_ratio:
  assumes "0 < n" "0 < d"
  shows "2 powi (bitlen n - bitlen d - 1) \<le> real_of_int n / real_of_int d"
    and "real_of_int n / real_of_int d < 2 powi (bitlen n - bitlen d + 1)"
proof -
  have pw: "(2::real) powi (bitlen x - 1) \<le> real_of_int x" "real_of_int x < 2 powi bitlen x"
    if "0 < x" for x
  proof -
    have "1 \<le> bitlen x" using that by (simp add: bitlen_alt_def)
    then have "(2::real) powi (bitlen x - 1) = real_of_int (2 ^ nat (bitlen x - 1))"
      "(2::real) powi bitlen x = real_of_int (2 ^ nat (bitlen x))"
      by (simp_all add: power_int_def)
    with bitlen_bounds [OF that] show "(2::real) powi (bitlen x - 1) \<le> real_of_int x"
      "real_of_int x < 2 powi bitlen x"
      by (simp_all only: of_int_le_iff of_int_less_iff)
  qed
  have "2 powi (bitlen n - bitlen d - 1) = (2::real) powi (bitlen n - 1) / 2 powi bitlen d"
    by (simp add: power_int_diff [symmetric] algebra_simps)
  also have "\<dots> \<le> real_of_int n / real_of_int d"
    using pw [OF assms(1)] pw [OF assms(2)] assms by (intro frac_le) auto
  finally show "2 powi (bitlen n - bitlen d - 1) \<le> real_of_int n / real_of_int d" .
  have "real_of_int n / real_of_int d < (2::real) powi bitlen n / 2 powi (bitlen d - 1)"
    using pw [OF assms(1)] pw [OF assms(2)] assms by (intro frac_less) auto
  also have "\<dots> = 2 powi (bitlen n - bitlen d + 1)"
    by (simp add: power_int_diff [symmetric] algebra_simps)
  finally show "real_of_int n / real_of_int d < 2 powi (bitlen n - bitlen d + 1)" .
qed

lemma last_place_bounds:
  assumes "0 < n" "0 < d" "q = last_place n d"
  shows "-1074 \<le> q"
    and "real_of_int n / real_of_int d * 2 powi (- q) < 2 ^ 53"
    and "q = -1074 \<or> 2 ^ 52 \<le> real_of_int n / real_of_int d * 2 powi (- q)"
proof -
  let ?R = "real_of_int n / real_of_int d"
  define q0 where "q0 = max (-1074) (bitlen n - bitlen d - 53)"
  obtain num den where sf: "scale_frac n d q0 = (num, den)" by fastforce
  note ratio = scale_frac_ratio [OF assms(2) sf]
  have q: "q = (if 2 ^ 53 \<le> num div den then q0 + 1 else q0)"
    using assms(3) by (simp add: last_place_def q0_def [symmetric] sf)
  have fl: "2 ^ 53 \<le> num div den \<longleftrightarrow> 2 ^ 53 \<le> ?R * 2 powi (- q0)"
    unfolding floor_divide_of_int_eq [symmetric, where ?'a = real] le_floor_iff ratio(2) by simp
  have half: "?R * 2 powi (- (q0 + 1)) = ?R * 2 powi (- q0) / 2"
    by (simp add: power_int_diff)
  have "?R * 2 powi (- q0) < 2 powi (bitlen n - bitlen d + 1) * 2 powi (- q0)"
    using bitlen_ratio(2) [OF assms(1,2)] by (intro mult_strict_right_mono) auto
  also have "\<dots> = 2 powi (bitlen n - bitlen d + 1 - q0)"
    by (simp add: power_int_add [symmetric])
  also have "\<dots> \<le> 2 powi 54"
    by (rule power_int_increasing) (auto simp: q0_def)
  finally have up: "?R * 2 powi (- q0) < 2 ^ 54" by simp
  have low: "q0 = -1074 \<or> 2 ^ 52 \<le> ?R * 2 powi (- q0)"
  proof (cases "q0 = -1074")
    case False
    then have e: "bitlen n - bitlen d - 1 = 52 + q0" by (auto simp: q0_def max_def split: if_splits)
    have "2 ^ 52 = (2::real) powi (bitlen n - bitlen d - 1) * 2 powi (- q0)"
      unfolding e by (simp add: power_int_add [symmetric])
    also have "\<dots> \<le> ?R * 2 powi (- q0)"
      using bitlen_ratio(1) [OF assms(1,2)] by (intro mult_right_mono) auto
    finally show ?thesis by simp
  qed simp
  have "-1074 \<le> q0" by (simp add: q0_def)
  then show "-1074 \<le> q" by (simp add: q)
  show "q = -1074 \<or> 2 ^ 52 \<le> ?R * 2 powi (- q)" "?R * 2 powi (- q) < 2 ^ 53"
  proof -
    define Y where "Y = ?R * 2 powi (- q0)"
    have "?R * 2 powi (- q) = (if 2 ^ 53 \<le> num div den then Y / 2 else Y)"
      by (simp only: q half Y_def split: if_splits) simp
    moreover have "2 ^ 53 \<le> num div den \<longleftrightarrow> 2 ^ 53 \<le> Y" "Y < 2 ^ 54" "q0 = -1074 \<or> 2 ^ 52 \<le> Y"
      using fl up low by (simp_all only: Y_def)
    ultimately show "q = -1074 \<or> 2 ^ 52 \<le> ?R * 2 powi (- q)" "?R * 2 powi (- q) < 2 ^ 53"
      by (auto simp: q simp del: times_divide_eq_left)
  qed
qed

definition mid_above :: "int \<Rightarrow> real" where
  "mid_above b = real_of_int (mag_scaled b) + real_of_int (mag_scaled (b + 1))"

text \<open>\<open>is_nearest X b\<close>: among all grid points, \<open>b\<close> is nearest to the scaled value \<open>X\<close>; on a tie
  the even pattern is taken.\<close>

definition is_nearest :: "real \<Rightarrow> int \<Rightarrow> bool" where
  "is_nearest X b \<longleftrightarrow> 0 \<le> b
     \<and> (b = 0 \<or> mid_above (b - 1) \<le> 2 * X) \<and> 2 * X \<le> mid_above b
     \<and> (odd b \<longrightarrow> mid_above (b - 1) < 2 * X \<and> 2 * X < mid_above b)"

lemma is_nearest_floor:
  assumes b: "0 \<le> b" and lo: "real_of_int (mag_scaled b) \<le> X"
    and hi: "X < real_of_int (mag_scaled (b + 1))"
  shows "is_nearest X (if mid_above b < 2 * X \<or> (2 * X = mid_above b \<and> odd b) then b + 1 else b)"
proof -
  have "mag_scaled b < mag_scaled (b + 1)" "mag_scaled (b + 1) < mag_scaled (b + 1 + 1)"
    using mag_scaled_Suc [of b] mag_scaled_Suc [of "b + 1"] b by simp_all
  moreover have "0 < b \<Longrightarrow> mag_scaled (b - 1) < mag_scaled b"
    using mag_scaled_Suc [of "b - 1"] by simp
  moreover have "odd b \<Longrightarrow> 0 < b" using b by (cases "b = 0") auto
  ultimately show ?thesis using assms
    by (cases "b = 0") (auto simp: is_nearest_def mid_above_def)
qed

lemma round_mag_nearest:
  assumes n: "0 \<le> n" and d: "0 < d"
  shows "is_nearest (real_of_int n / real_of_int d * 2 ^ 1074) (round_mag n d)"
proof (cases "n = 0")
  case True
  then show ?thesis
    using mag_scaled_Suc [of 0] by (simp add: round_mag_def is_nearest_def mid_above_def)
next
  case False
  with n have n: "0 < n" by simp
  define q where "q = last_place n d"
  obtain num den where sf: "scale_frac n d q = (num, den)" by fastforce
  note ratio = scale_frac_ratio [OF d sf] and lp = last_place_bounds [OF n d q_def]
  define k where "k = q + 1074"
  define X where "X = real_of_int n / real_of_int d * 2 ^ 1074"
  define m where "m = num div den"
  define r where "r = num mod den"
  define b where "b = k * 2 ^ 52 + m"
  have k: "0 \<le> k" using lp(1) by (simp add: k_def)
  have X: "X = real_of_int num / real_of_int den * 2 ^ nat k"
  proof -
    have "(2::real) ^ nat k = 2 powi q * 2 ^ 1074"
    proof -
      have "(2::real) ^ nat k = 2 powi k" using k by (simp add: power_int_def)
      also have "\<dots> = 2 powi q * 2 powi 1074" unfolding k_def by (rule power_int_add) simp
      finally show ?thesis by simp
    qed
    then show ?thesis by (simp add: X_def ratio(2) power_int_minus field_simps)
  qed
  have r: "0 \<le> r" "r < den" using ratio(1) by (simp_all add: r_def)
  have "real_of_int num = real_of_int (m * den + r)"
    unfolding m_def r_def by simp
  then have quot: "real_of_int num / real_of_int den = real_of_int m + real_of_int r / real_of_int den"
    using ratio(1) by (simp add: field_simps)
  have fl: "m = \<lfloor>real_of_int num / real_of_int den\<rfloor>"
    by (simp add: m_def floor_divide_of_int_eq)
  have m0: "0 \<le> m" unfolding fl using n d ratio(2) by simp
  have m53: "m < 2 ^ 53"
    unfolding fl floor_less_iff using lp(2) ratio(2) by simp
  have m52: "k = 0 \<or> 2 ^ 52 \<le> m"
    unfolding fl le_floor_iff using lp(3) ratio(2) by (auto simp: k_def)
  have g: "mag_scaled b = m * 2 ^ nat k" "mag_scaled (b + 1) = (m + 1) * 2 ^ nat k"
    unfolding b_def add.assoc by (rule mag_scaled_enc; use k m0 m52 m53 in force)+
  have X2: "2 * X = (2 * m + 2 * (real_of_int r / real_of_int den)) * 2 ^ nat k"
    by (simp add: X quot field_simps)
  have mid: "mid_above b = (2 * m + 1) * 2 ^ nat k"
    unfolding mid_above_def g by (simp add: algebra_simps)
  have "mid_above b < 2 * X \<longleftrightarrow> den < 2 * r" "2 * X = mid_above b \<longleftrightarrow> 2 * r = den"
    unfolding X2 mid using ratio(1) by (auto simp: field_simps) 
  moreover have "odd b \<longleftrightarrow> odd m" by (simp add: b_def)
  ultimately have "round_mag n d = (if mid_above b < 2 * X \<or> (2 * X = mid_above b \<and> odd b) then b + 1 else b)"
    using n by (simp add: round_mag_def q_def [symmetric] sf m_def [symmetric] r_def [symmetric] b_def k_def)
  moreover have "is_nearest X \<dots>"
  proof (rule is_nearest_floor)
    show "0 \<le> b" using k m0 by (simp add: b_def)
    show "real_of_int (mag_scaled b) \<le> X" "X < real_of_int (mag_scaled (b + 1))"
      unfolding X quot g using r ratio(1) by (simp_all add: field_simps)
  qed
  ultimately show ?thesis by (simp add: X_def)
qed


lemma mid_above_mono: "0 \<le> a \<Longrightarrow> a \<le> b \<Longrightarrow> mid_above a \<le> mid_above b"
  using mag_scaled_le_iff [of a b] mag_scaled_le_iff [of "a + 1" "b + 1"]
  by (simp add: mid_above_def)

lemma mid_above_strict_mono: "0 \<le> a \<Longrightarrow> a < b \<Longrightarrow> mid_above a < mid_above b"
  using mag_scaled_less_iff [of a b] mag_scaled_less_iff [of "a + 1" "b + 1"]
  by (simp add: mid_above_def)

lemma is_nearest_mono:
  assumes "is_nearest X a" "is_nearest Y b" "X \<le> Y"
  shows "a \<le> b"
proof (rule ccontr)
  assume "\<not> a \<le> b"
  then have ba: "b \<le> a - 1" by simp
  from assms have nn: "0 \<le> b" "0 < a" and lo: "mid_above (a - 1) \<le> 2 * X" and hi: "2 * Y \<le> mid_above b"
    using ba by (auto simp: is_nearest_def)
  have "mid_above b \<le> mid_above (a - 1)" by (rule mid_above_mono) (use nn ba in auto)
  with lo hi assms(3) have eq: "mid_above (a - 1) = mid_above b" "mid_above (a - 1) = 2 * X" "2 * Y = mid_above b"
    by linarith+
  then have "\<not> b < a - 1" using mid_above_strict_mono [of b "a - 1"] nn by auto
  with ba have "a = b + 1" by simp
  then have "odd a \<or> odd b" by simp
  with assms eq show False by (auto simp: is_nearest_def)
qed

lemma is_nearest_unique: "is_nearest X a \<Longrightarrow> is_nearest X b \<Longrightarrow> a = b"
  using is_nearest_mono [of X a X b] is_nearest_mono [of X b X a] by simp

lemma is_nearest_exact:
  assumes "0 \<le> b"
  shows "is_nearest (real_of_int (mag_scaled b)) b"
proof -
  have "mag_scaled b < mag_scaled (b + 1)" by (rule mag_scaled_Suc [OF assms])
  moreover have "0 < b \<Longrightarrow> mag_scaled (b - 1) < mag_scaled b"
    using mag_scaled_Suc [of "b - 1"] by simp
  moreover have "odd b \<Longrightarrow> 0 < b" using assms by (cases "b = 0") auto
  ultimately show ?thesis using assms by (cases "b = 0") (auto simp: is_nearest_def mid_above_def)
qed

lemma round_mag_nonneg: "0 \<le> n \<Longrightarrow> 0 < d \<Longrightarrow> 0 \<le> round_mag n d"
  using round_mag_nearest [of n d] by (simp add: is_nearest_def)

lemma round_mag_mono:
  assumes "0 \<le> n" "0 < d" "0 \<le> n'" "0 < d'" "n * d' \<le> n' * d"
  shows "round_mag n d \<le> round_mag n' d'"
proof (rule is_nearest_mono [OF round_mag_nearest round_mag_nearest])
  have "real_of_int (n * d') \<le> real_of_int (n' * d)" using assms by (simp only: of_int_le_iff)
  then have "real_of_int n / real_of_int d \<le> real_of_int n' / real_of_int d'"
    using assms by (simp add: field_simps)
  then show "real_of_int n / real_of_int d * 2 ^ 1074 \<le> real_of_int n' / real_of_int d' * 2 ^ 1074"
    by (rule mult_right_mono) simp
qed (use assms in auto)

lemma round_mag_exact:
  assumes "0 \<le> b" "0 < d" "n * 2 ^ 1074 = mag_scaled b * d"
  shows "round_mag n d = b"
proof -
  have n: "0 \<le> n" using assms mag_scaled_nonneg [OF assms(1)]
    by (metis mult_nonneg_nonneg order.strict_implies_order zero_le_mult_iff zero_less_numeral
        zero_less_power not_less mult_neg_pos)
  have "real_of_int (n * 2 ^ 1074) = real_of_int (mag_scaled b * d)" using assms(3) by simp
  then have "real_of_int n / real_of_int d * 2 ^ 1074 = real_of_int (mag_scaled b)"
    using assms(2) by (simp only: of_int_mult of_int_power) (simp add: field_simps)
  then show ?thesis
    using round_mag_nearest [OF n assms(2)] is_nearest_exact [OF assms(1)] is_nearest_unique
    by metis
qed

subsection \<open>Comparison is comparison of values\<close>

lemma signed_less:
  fixes p q :: real and a b :: int
  assumes "0 \<le> p" "0 \<le> q" "0 \<le> a" "0 \<le> b" "p < q \<longleftrightarrow> a < b" "q < p \<longleftrightarrow> b < a"
    "p = 0 \<longleftrightarrow> a = 0" "q = 0 \<longleftrightarrow> b = 0"
  shows "(if s then - a else a) < (if t then - b else b) \<longleftrightarrow>
    (if s then -1 else 1) * p < (if t then -1 else 1) * q"
proof (cases s; cases t)
  assume "s" "\<not> t"
  moreover have "- a < b \<longleftrightarrow> a \<noteq> 0 \<or> b \<noteq> 0" "- p < q \<longleftrightarrow> p \<noteq> 0 \<or> q \<noteq> 0" using assms(1-4) by linarith+
  ultimately show ?thesis using assms(7,8) by simp
next
  assume "\<not> s" "t"
  moreover have "\<not> a < - b" "\<not> p < - q" using assms(1-4) by linarith+
  ultimately show ?thesis by simp
qed (use assms in auto)

lemma f64_key_real:
  "f64_key a < f64_key b \<longleftrightarrow> f64_real a < f64_real b"
proof -
  have pos: "(0::real) < 2 ^ 1074" by simp
  have z: "real_of_int (mag_scaled (f64_mag x)) / 2 ^ 1074 < real_of_int (mag_scaled (f64_mag y)) / 2 ^ 1074
      \<longleftrightarrow> f64_mag x < f64_mag y" for x y
    using mag_scaled_less_iff [of "f64_mag x" "f64_mag y"] by (simp add: divide_less_cancel)
  have nn: "0 \<le> real_of_int (mag_scaled (f64_mag x)) / 2 ^ 1074" for x
    using mag_scaled_nonneg [of "f64_mag x"] by simp
  have zero: "real_of_int (mag_scaled (f64_mag x)) / 2 ^ 1074 = 0 \<longleftrightarrow> f64_mag x = 0" for x
  proof (cases "f64_mag x = 0")
    case False
    then have "0 < f64_mag x" using f64_mag_nonneg [of x] by linarith
    with mag_scaled_strict_mono [of 0 "f64_mag x"] False show ?thesis by simp
  qed simp
  show ?thesis
    unfolding f64_key_def f64_real_def
    by (rule signed_less) (rule nn z zero f64_mag_nonneg)+
qed

lemma f64_lt_real:
  assumes "\<not> f64_is_nan a" "\<not> f64_is_nan b"
  shows "f64_lt a b \<longleftrightarrow> f64_real a < f64_real b" "f64_le a b \<longleftrightarrow> f64_real a \<le> f64_real b"
  using assms f64_key_real [of a b] f64_key_real [of b a]
  by (auto simp: f64_lt_def f64_le_def not_less [symmetric])

lemma f64_lt_le: "f64_lt a b \<Longrightarrow> f64_le a b"
  by (simp add: f64_lt_def f64_le_def)

lemma f64_not_lt: "\<not> f64_is_nan a \<Longrightarrow> \<not> f64_is_nan b \<Longrightarrow> \<not> f64_lt a b \<longleftrightarrow> f64_le b a"
  by (auto simp: f64_lt_def f64_le_def)

lemma f64_le_trans: "f64_le a b \<Longrightarrow> f64_le b c \<Longrightarrow> f64_le a c"
  by (auto simp: f64_le_def)

lemma f64_lt_le_trans: "f64_lt a b \<Longrightarrow> f64_le b c \<Longrightarrow> f64_lt a c"
  by (auto simp: f64_lt_def f64_le_def)

lemma f64_le_lt_trans: "f64_le a b \<Longrightarrow> f64_lt b c \<Longrightarrow> f64_lt a c"
  by (auto simp: f64_lt_def f64_le_def)

lemma f64_le_refl: "\<not> f64_is_nan a \<Longrightarrow> f64_le a a"
  by (auto simp: f64_le_def)

lemma f64_le_not_nan: "f64_le a b \<Longrightarrow> \<not> f64_is_nan a" "f64_le a b \<Longrightarrow> \<not> f64_is_nan b"
  by (auto simp: f64_le_def)

lemma f64_lt_not_nan: "f64_lt a b \<Longrightarrow> \<not> f64_is_nan a" "f64_lt a b \<Longrightarrow> \<not> f64_is_nan b"
  by (auto simp: f64_lt_def)

subsection \<open>Results of the operations\<close>

lemma f64_round_mag:
  assumes "0 \<le> n" "0 < d"
  shows "f64_mag (f64_round s n d) = min inf_mag (round_mag n d)" "f64_sign (f64_round s n d) = s"
proof -
  have "0 \<le> min inf_mag (round_mag n d)" "min inf_mag (round_mag n d) < 2 ^ 63"
    using round_mag_nonneg [OF assms] inf_mag_bounds by (simp_all add: min_less_iff_disj)
  then show "f64_mag (f64_round s n d) = min inf_mag (round_mag n d)" "f64_sign (f64_round s n d) = s"
    by (simp_all add: f64_round_def)
qed

lemma f64_round_not_nan [simp]:
  assumes "0 \<le> n" "0 < d"
  shows "\<not> f64_is_nan (f64_round s n d)"
  by (simp add: f64_is_nan_def f64_round_mag [OF assms])

lemma round_scaled_cases:
  assumes "0 \<le> n" "0 < d"
  obtains n' d' where "round_scaled s n d e = f64_round s n' d'" "0 \<le> n'" "0 < d'"
    "n = 0 \<longleftrightarrow> n' = 0"
  using assms by (cases "0 \<le> e") (auto simp: round_scaled_def)

lemma round_scaled_simps:
  assumes "0 \<le> n" "0 < d"
  shows "\<not> f64_is_nan (round_scaled s n d e)" "f64_sign (round_scaled s n d e) = s"
  using round_scaled_cases [OF assms] f64_round_mag f64_round_not_nan by metis+

lemma mag_mant_nonneg [simp]: "0 \<le> mag_mant m"
  unfolding mag_mant_def by (simp del: mod_pos_pos_trivial) 

lemma mag_mant_pos: "0 < m \<Longrightarrow> 0 < mag_mant m"
  using div_mult_mod_eq [of m "2 ^ 52"] by (auto simp: mag_mant_def add_pos_nonneg)

lemma f64_add_finite_not_nan: "\<not> f64_is_nan (f64_add_finite a b)"
  unfolding f64_add_finite_def Let_def
  by (simp add: round_scaled_simps) (simp add: f64_is_nan_def)

subsection \<open>Signs, and freedom from NaN\<close>

lemma f64_mag_pos [simp]: "0 < f64_mag x \<longleftrightarrow> f64_mag x \<noteq> 0" "f64_mag x \<le> 0 \<longleftrightarrow> f64_mag x = 0"
  using f64_mag_nonneg [of x] by linarith+

lemma f64_round_zero: "0 < d \<Longrightarrow> f64_mag (f64_round s 0 d) = 0"
  using round_mag_exact [of 0 d 0] by (simp add: f64_round_mag)

lemma round_scaled_zero: "0 < d \<Longrightarrow> f64_mag (round_scaled s 0 d e) = 0"
  by (simp add: round_scaled_def f64_round_zero)

lemma mag_mant_0 [simp]: "mag_mant 0 = 0"
  by (simp add: mag_mant_def)

lemma f64_le_zero_iff: "f64_le f64_zero x \<longleftrightarrow> \<not> f64_is_nan x \<and> (f64_sign x \<longrightarrow> f64_mag x = 0)"
  by (auto simp: f64_le_def f64_key_def)

lemma f64_lt_zero_iff: "f64_lt f64_zero x \<longleftrightarrow> \<not> f64_is_nan x \<and> \<not> f64_sign x \<and> f64_mag x \<noteq> 0"
  by (auto simp: f64_lt_def f64_key_def)

lemma f64_sig_nonneg: "f64_le f64_zero x \<Longrightarrow> 0 \<le> f64_sig x"
  by (auto simp: f64_le_zero_iff f64_sig_def)

lemma f64_le_zero_round_scaled: "0 \<le> n \<Longrightarrow> 0 < d \<Longrightarrow> f64_le f64_zero (round_scaled False n d e)"
  by (simp add: f64_le_zero_iff round_scaled_simps)

lemma f64_add_nonneg:
  assumes "f64_le f64_zero a" "f64_le f64_zero b"
  shows "f64_le f64_zero (f64_add a b)"
proof -
  have inf: "f64_is_inf x \<Longrightarrow> f64_mag x \<noteq> 0" for x by (simp add: f64_is_inf_def inf_mag_def)
  have mk: "f64_le f64_zero (f64_make s 0)" for s by (simp add: f64_le_zero_iff f64_is_nan_def)
  have "f64_le f64_zero (f64_add_finite a b)"
  proof -
    let ?e = "min (mag_exp (f64_mag a)) (mag_exp (f64_mag b))"
    define S where "S = f64_sig a * 2 ^ nat (mag_exp (f64_mag a) - ?e) + f64_sig b * 2 ^ nat (mag_exp (f64_mag b) - ?e)"
    have "0 \<le> S" unfolding S_def using assms by (simp add: f64_sig_nonneg)
    then have "f64_le f64_zero (round_scaled (S < 0) \<bar>S\<bar> 1 ?e)"
      by (simp add: not_less [THEN iffD2] f64_le_zero_round_scaled)
    with mk show ?thesis unfolding f64_add_finite_def Let_def S_def [symmetric] by simp
  qed
  then show ?thesis
    using assms inf by (auto simp: f64_add_def f64_le_zero_iff)
qed

lemma f64_sum_nonneg:
  assumes "f64_le f64_zero a" "\<forall>v\<in>set vs. f64_le f64_zero v"
  shows "f64_le f64_zero (foldl f64_add a vs)"
  using assms by (induction vs arbitrary: a) (simp_all add: f64_add_nonneg)

lemma f64_mul_nonneg:
  assumes "f64_le f64_zero a" "f64_lt f64_zero b" "f64_isfinite b"
  shows "f64_le f64_zero (f64_mul a b)"
proof -
  have "\<not> f64_sign b" "f64_mag b \<noteq> 0" "\<not> f64_is_nan b" "\<not> f64_is_inf b" "\<not> f64_is_nan a"
    "f64_sign a \<longrightarrow> f64_mag a = 0"
    using assms by (auto simp: f64_le_zero_iff f64_lt_zero_iff)
  moreover have "f64_is_inf a \<Longrightarrow> \<not> f64_sign a"
    using calculation by (auto simp: f64_is_inf_def inf_mag_def)
  ultimately show ?thesis
    by (cases "f64_sign a")
      (auto simp: f64_mul_def Let_def f64_is_zero_def round_scaled_simps round_scaled_zero f64_le_zero_iff)
qed

lemma f64_div_not_nan:
  assumes "\<not> f64_is_nan a" "f64_isfinite b" "\<not> f64_is_zero b"
  shows "\<not> f64_is_nan (f64_div a b)"
proof -
  have "0 < mag_mant (f64_mag b)"
    using assms(3) by (intro mag_mant_pos) (auto simp: f64_is_zero_def)
  with assms show ?thesis
    by (auto simp: f64_div_def Let_def round_scaled_simps)
qed

lemma f64_div_nonneg:
  assumes "f64_le f64_zero a" "f64_lt f64_zero b" "f64_isfinite b"
  shows "f64_le f64_zero (f64_div a b)"
proof -
  have b: "\<not> f64_sign b" "f64_mag b \<noteq> 0" "\<not> f64_is_nan b" "\<not> f64_is_inf b" "\<not> f64_is_nan a"
    and a: "f64_sign a \<longrightarrow> f64_mag a = 0"
    using assms by (auto simp: f64_le_zero_iff f64_lt_zero_iff)
  have "0 < mag_mant (f64_mag b)" using b by (intro mag_mant_pos) auto
  moreover have "f64_is_inf a \<Longrightarrow> \<not> f64_sign a"
    using a by (auto simp: f64_is_inf_def inf_mag_def)
  ultimately show ?thesis using a b
    by (cases "f64_sign a")
      (auto simp: f64_div_def Let_def f64_is_zero_def round_scaled_simps round_scaled_zero f64_le_zero_iff)
qed

lemma f64_neg_simps [simp]:
  "f64_mag (f64_neg x) = f64_mag x" "f64_sign (f64_neg x) \<longleftrightarrow> \<not> f64_sign x"
  "f64_is_nan (f64_neg x) \<longleftrightarrow> f64_is_nan x" "f64_is_inf (f64_neg x) \<longleftrightarrow> f64_is_inf x"
  by (simp_all add: f64_neg_def f64_is_nan_def f64_is_inf_def)

lemma f64_sub_not_nan: "\<not> f64_is_nan a \<Longrightarrow> f64_isfinite b \<Longrightarrow> \<not> f64_is_nan (f64_sub a b)"
  by (simp add: f64_sub_def f64_add_def f64_add_finite_not_nan)

lemma f64_sub_self: "f64_isfinite a \<Longrightarrow> f64_sub a a = f64_zero"
proof -
  have "f64_make False 0 = f64_zero" by (simp add: f64_make_def f64_zero_def)
  then show "f64_isfinite a \<Longrightarrow> f64_sub a a = f64_zero"
    by (auto simp: f64_sub_def f64_add_def f64_add_finite_def Let_def f64_sig_def)
qed

lemma f64_fabs_nonneg: "\<not> f64_is_nan x \<Longrightarrow> f64_le f64_zero (f64_fabs x)"
  by (simp add: f64_le_zero_iff f64_fabs_def f64_is_nan_def)

lemma f64_of_u64_nonneg: "f64_le f64_zero (f64_of_u64 n)"
  by (simp add: f64_of_u64_def f64_le_zero_iff f64_round_mag)

lemma round_mag_one: "round_mag 1 1 = 0x3FF0000000000000"
  by code_simp

lemma round_mag_2_64: "round_mag 0x10000000000000000 1 = 0x43F0000000000000"
  by code_simp

lemma f64_of_u64_mag:
  assumes "n \<noteq> 0"
  shows "0x3FF0000000000000 \<le> f64_mag (f64_of_u64 n)" "f64_mag (f64_of_u64 n) \<le> 0x43F0000000000000"
proof -
  have "1 \<le> uint n" using assms uint_ge_0 [of n] uint_0_iff [of n] by linarith
  moreover have "uint n \<le> 0x10000000000000000"
    using uint_lt2p [of n] by simp
  ultimately have "round_mag 1 1 \<le> round_mag (uint n) 1" "round_mag (uint n) 1 \<le> round_mag 0x10000000000000000 1"
    by (auto intro: round_mag_mono)
  then show "0x3FF0000000000000 \<le> f64_mag (f64_of_u64 n)" "f64_mag (f64_of_u64 n) \<le> 0x43F0000000000000"
    by (simp_all add: f64_of_u64_def f64_round_mag round_mag_one round_mag_2_64 inf_mag_def)
qed

lemma f64_of_u64_pos:
  assumes "n \<noteq> 0"
  shows "f64_lt f64_zero (f64_of_u64 n)" "f64_isfinite (f64_of_u64 n)"
proof -
  have "\<not> f64_sign (f64_of_u64 n)" by (simp add: f64_of_u64_def f64_round_mag)
  then show "f64_lt f64_zero (f64_of_u64 n)" "f64_isfinite (f64_of_u64 n)"
    using f64_of_u64_mag [OF assms]
    by (auto simp: f64_lt_zero_iff f64_isfinite_def f64_is_nan_def inf_mag_def)
qed

lemma f64_of_u64_0: "f64_mag (f64_of_u64 0) = 0"
  by (simp add: f64_of_u64_def f64_round_zero)

lemma f64_of_u64_signs [simp]: "\<not> f64_sign (f64_of_u64 n)" "\<not> f64_is_nan (f64_of_u64 n)"
  by (simp_all add: f64_of_u64_def f64_round_mag)

lemma round_scaled_pos:
  assumes "0 < d" "d \<le> 2 * n" "-64 \<le> e"
  shows "f64_lt f64_zero (round_scaled False n d e)"
proof -
  have n: "0 \<le> n" using assms by linarith
  have tiny: "0 < round_mag 1 0x20000000000000000" by code_simp
  have pos: "f64_lt f64_zero (f64_round False a b)" if "0 \<le> a" "0 < b" "b \<le> a * 0x20000000000000000" for a b
  proof -
    have "round_mag 1 0x20000000000000000 \<le> round_mag a b" using that by (intro round_mag_mono) auto
    with tiny have "min inf_mag (round_mag a b) \<noteq> 0" using inf_mag_bounds by linarith
    with that show ?thesis by (simp add: f64_lt_zero_iff f64_round_mag)
  qed
  show ?thesis
  proof (cases "0 \<le> e")
    case True
    have "n * 1 \<le> n * 2 ^ nat e" using n by (intro mult_left_mono) simp_all
    then have "d \<le> n * 2 ^ nat e * 0x20000000000000000" using assms(2) n by linarith
    with True n assms(1) show ?thesis by (simp add: round_scaled_def pos)
  next
    case False
    have "(2::int) ^ nat (- e) \<le> 2 ^ 64" using assms(3) by (intro power_increasing) auto
    then have "d * 2 ^ nat (- e) \<le> (2 * n) * 2 ^ 64"
      using assms(1,2) by (intro mult_mono) auto
    with False n assms(1) show ?thesis by (simp add: round_scaled_def pos)
  qed
qed

lemma f64_div_u64_pos:
  assumes "n \<noteq> 0"
  shows "f64_lt f64_zero (f64_div (f64_of_u64 n) (f64_of_u64 m))"
proof (cases "m = 0")
  case True
  then show ?thesis
    using f64_of_u64_pos [OF assms]
    by (auto simp: f64_div_def Let_def f64_of_u64_0 f64_is_zero_def f64_lt_zero_iff f64_of_u64_signs
        f64_isfinite_def)
next
  case False
  let ?a = "f64_mag (f64_of_u64 n)" and ?b = "f64_mag (f64_of_u64 m)"
  have mant: "2 ^ 52 \<le> mag_mant x" "mag_mant x < 2 ^ 53" "-52 \<le> mag_exp x" "mag_exp x \<le> 12"
    if "0x3FF0000000000000 \<le> x" "x \<le> 0x43F0000000000000" for x
  proof -
    have "0x3FF \<le> x div 2 ^ 52" "x div 2 ^ 52 \<le> 0x43F"
      using zdiv_mono1 [OF that(1), of "2 ^ 52"] zdiv_mono1 [OF that(2), of "2 ^ 52"] by simp_all
    then show "-52 \<le> mag_exp x" "mag_exp x \<le> 12" "2 ^ 52 \<le> mag_mant x" "mag_mant x < 2 ^ 53"
      using pos_mod_bound [of "2 ^ 52" x] pos_mod_sign [of "2 ^ 52" x]
      by (auto simp: mag_exp_def mag_mant_def)
  qed
  note a = mant [OF f64_of_u64_mag [OF assms]] and b = mant [OF f64_of_u64_mag [OF False]]
  have "f64_lt f64_zero (round_scaled False (mag_mant ?a) (mag_mant ?b) (mag_exp ?a - mag_exp ?b))"
    using a b by (intro round_scaled_pos) simp_all
  moreover have "f64_isfinite (f64_of_u64 n)" "f64_isfinite (f64_of_u64 m)" "\<not> f64_sign (f64_of_u64 n)"
    "\<not> f64_sign (f64_of_u64 m)" "f64_mag (f64_of_u64 m) \<noteq> 0"
    using f64_of_u64_pos [OF assms] f64_of_u64_pos [OF False] by (auto simp: f64_lt_zero_iff)
  ultimately show ?thesis by (simp add: f64_div_def Let_def f64_is_zero_def)
qed

lemma f64_clamp_bounds:
  assumes "\<not> f64_is_nan v" "f64_le lo hi"
  shows "f64_le lo (f64_clamp v lo hi)" "f64_le (f64_clamp v lo hi) hi"
  using assms by (auto simp: f64_clamp_def f64_lt_def f64_le_def)

text \<open>\<open>f64_units x\<close> is the value of a finite \<open>x\<close> in units of the smallest subnormal.\<close>

definition f64_units :: "double \<Rightarrow> int" where
  "f64_units x = (if f64_sign x then - mag_scaled (f64_mag x) else mag_scaled (f64_mag x))"

lemma f64_real_units: "f64_real x = real_of_int (f64_units x) / 2 ^ 1074"
  by (simp add: f64_real_def f64_units_def)

lemma mag_exp_ge: "-1074 \<le> mag_exp m"
  by (simp add: mag_exp_def)

lemma f64_units_sig: "f64_units x = f64_sig x * 2 ^ nat (mag_exp (f64_mag x) + 1074)"
  by (simp add: f64_units_def f64_sig_def mag_scaled_def mag_exp_def)

lemma f64_add_units:
  defines "e a b \<equiv> min (mag_exp (f64_mag a)) (mag_exp (f64_mag b))"
  shows "(f64_sig a * 2 ^ nat (mag_exp (f64_mag a) - e a b) + f64_sig b * 2 ^ nat (mag_exp (f64_mag b) - e a b)) *
      2 ^ nat (e a b + 1074) = f64_units a + f64_units b"
proof -
  have "nat (mag_exp (f64_mag x) - e a b) + nat (e a b + 1074) = nat (mag_exp (f64_mag x) + 1074)"
    if "e a b \<le> mag_exp (f64_mag x)" for x
    using that mag_exp_ge [of "f64_mag a"] mag_exp_ge [of "f64_mag b"] by (auto simp: e_def)
  then have "(2::int) ^ nat (mag_exp (f64_mag x) - e a b) * 2 ^ nat (e a b + 1074) = 2 ^ nat (mag_exp (f64_mag x) + 1074)"
    if "e a b \<le> mag_exp (f64_mag x)" for x
    using that by (simp flip: power_add)
  from this [of a] this [of b] show ?thesis
    by (simp add: f64_units_sig distrib_right mult.assoc) (simp add: e_def)
qed

lemma f64_add_finite_sign:
  "0 \<le> f64_units a + f64_units b \<Longrightarrow> f64_le f64_zero (f64_add_finite a b)"
  "f64_units a + f64_units b \<le> 0 \<Longrightarrow> f64_le (f64_add_finite a b) f64_zero"
proof -
  let ?e = "min (mag_exp (f64_mag a)) (mag_exp (f64_mag b))"
  define S where "S = f64_sig a * 2 ^ nat (mag_exp (f64_mag a) - ?e) + f64_sig b * 2 ^ nat (mag_exp (f64_mag b) - ?e)"
  have S: "S * 2 ^ nat (?e + 1074) = f64_units a + f64_units b"
    unfolding S_def by (rule f64_add_units)
  have r: "f64_add_finite a b = (if S = 0 then f64_make (f64_sign a \<and> f64_sign b) 0 else round_scaled (S < 0) \<bar>S\<bar> 1 ?e)"
    by (simp add: f64_add_finite_def Let_def S_def)
  have z: "f64_le f64_zero (f64_make s 0)" "f64_le (f64_make s 0) f64_zero" for s
    by (simp_all add: f64_le_def f64_is_nan_def f64_key_def)
  have p: "0 \<le> S \<longleftrightarrow> 0 \<le> f64_units a + f64_units b" "S \<le> 0 \<longleftrightarrow> f64_units a + f64_units b \<le> 0"
    unfolding S [symmetric] by (simp_all add: zero_le_mult_iff mult_le_0_iff)
  show "f64_le f64_zero (f64_add_finite a b)" if "0 \<le> f64_units a + f64_units b"
    using that z unfolding p(1) [symmetric] r by (auto simp: f64_le_zero_round_scaled)
  show "f64_le (f64_add_finite a b) f64_zero" if "f64_units a + f64_units b \<le> 0"
    using that z unfolding p(2) [symmetric] r
    by (auto simp: f64_le_def f64_key_def round_scaled_simps)
qed

lemma f64_units_le: "f64_le a b \<Longrightarrow> f64_units a \<le> f64_units b"
  using f64_lt_real(2) [OF f64_le_not_nan(1,2), of a b a b]
  by (simp add: f64_real_units divide_le_cancel)

lemma f64_units_neg [simp]: "f64_units (f64_neg x) = - f64_units x"
  by (simp add: f64_units_def)

lemma f64_mag_neg_inf: "\<not> f64_mag x \<le> - inf_mag" "\<not> inf_mag \<le> - f64_mag x"
  using f64_mag_nonneg [of x] inf_mag_bounds(2) by linarith+

lemma f64_sub_nonneg:
  assumes "f64_le b a" "f64_isfinite b"
  shows "f64_le f64_zero (f64_sub a b)"
proof (cases "f64_is_inf a")
  case True
  then have "\<not> f64_sign a"
    using assms by (auto simp: f64_le_def f64_key_def f64_is_inf_def f64_isfinite_def f64_mag_neg_inf split: if_splits)
  with True assms show ?thesis by (simp add: f64_sub_def f64_add_def f64_le_def f64_key_def)
next
  case False
  with assms f64_units_le [OF assms(1)] show ?thesis
    by (simp add: f64_sub_def f64_add_def f64_le_not_nan f64_add_finite_sign)
qed

lemma f64_sub_nonpos:
  assumes "f64_le a b" "f64_isfinite b"
  shows "f64_le (f64_sub a b) f64_zero"
proof (cases "f64_is_inf a")
  case True
  then have "f64_sign a"
    using assms by (auto simp: f64_le_def f64_key_def f64_is_inf_def f64_isfinite_def f64_mag_neg_inf split: if_splits)
  with True assms show ?thesis by (simp add: f64_sub_def f64_add_def f64_le_def f64_key_def)
next
  case False
  with assms f64_units_le [OF assms(1)] show ?thesis
    by (simp add: f64_sub_def f64_add_def f64_le_not_nan f64_add_finite_sign)
qed

lemma f64_div_nonpos:
  assumes "f64_le a f64_zero" "f64_lt f64_zero b" "f64_isfinite b"
  shows "f64_le (f64_div a b) f64_zero"
proof -
  have b: "\<not> f64_sign b" "f64_mag b \<noteq> 0" "\<not> f64_is_nan b" "\<not> f64_is_inf b" "\<not> f64_is_nan a"
    and a: "\<not> f64_sign a \<longrightarrow> f64_mag a = 0"
    using assms by (auto simp: f64_le_def f64_key_def f64_lt_zero_iff split: if_splits)
  have "0 < mag_mant (f64_mag b)" using b by (intro mag_mant_pos) auto
  moreover have "f64_is_inf a \<Longrightarrow> f64_sign a"
    using a by (auto simp: f64_is_inf_def inf_mag_def)
  ultimately show ?thesis using a b
    by (cases "f64_sign a")
      (auto simp: f64_div_def Let_def f64_is_zero_def round_scaled_simps round_scaled_zero f64_le_def f64_key_def)
qed

lemma f64_eqI:
  assumes "f64_sign x = f64_sign y" "f64_mag x = f64_mag y"
  shows "x = y"
proof (rule double.expand, rule bit_word_eqI)
  fix n
  assume "n < LENGTH(64)"
  have "take_bit 63 (f64_bits x) = take_bit 63 (f64_bits y)"
    using assms(2) unfolding f64_mag_def by (rule word_uint_eqI)
  then have "bit (take_bit 63 (f64_bits x)) n = bit (take_bit 63 (f64_bits y)) n" by simp
  with assms(1) \<open>n < LENGTH(64)\<close> show "bit (f64_bits x) n = bit (f64_bits y) n"
    by (cases "n = 63") (auto simp: bit_take_bit_iff f64_sign_def)
qed

lemma f64_make_eta: "f64_make (f64_sign x) (f64_mag x) = x"
  by (rule f64_eqI) simp_all

lemma f64_add_finite_zero:
  assumes "f64_mag a = 0" "f64_mag b \<noteq> 0" "f64_mag b < inf_mag"
  shows "f64_add_finite a b = b"
proof -
  let ?m = "f64_mag b"
  have e: "mag_exp 0 = -1074" by (simp add: mag_exp_def)
  have ge: "-1074 \<le> mag_exp ?m" by (rule mag_exp_ge)
  have pos: "0 < mag_mant ?m" using assms by (intro mag_mant_pos) simp
  define S where "S = f64_sig b * 2 ^ nat (mag_exp ?m + 1074)"
  have S: "S \<noteq> 0" "S < 0 \<longleftrightarrow> f64_sign b" "\<bar>S\<bar> = mag_scaled ?m"
    using pos unfolding S_def f64_sig_def mag_scaled_def mag_exp_def
    by (auto simp: abs_mult mult_less_0_iff)
  have "f64_add_finite a b = round_scaled (f64_sign b) (mag_scaled ?m) 1 (-1074)"
    using assms(1) ge S unfolding f64_add_finite_def Let_def
    by (simp add: e f64_sig_def [of a] S_def [symmetric])
  also have "\<dots> = f64_make (f64_sign b) (min inf_mag (round_mag (mag_scaled ?m) (2 ^ 1074)))"
    by (simp add: round_scaled_def f64_round_def)
  also have "round_mag (mag_scaled ?m) (2 ^ 1074) = ?m"
    by (rule round_mag_exact) simp_all
  finally show ?thesis using assms(3) by (simp add: f64_make_eta)
qed

lemma f64_add_finite_commute: "f64_add_finite a b = f64_add_finite b a"
  unfolding f64_add_finite_def Let_def by (simp add: min.commute add.commute conj_commute)

text \<open>Evaluation skips the alignment of a zero operand.\<close>

lemma f64_add_finite_code [code]:
  "f64_add_finite a b =
     (if f64_mag a = 0 \<and> f64_mag b \<noteq> 0 \<and> f64_mag b < inf_mag then b
      else if f64_mag b = 0 \<and> f64_mag a \<noteq> 0 \<and> f64_mag a < inf_mag then a
      else let ea = mag_exp (f64_mag a); eb = mag_exp (f64_mag b); e = min ea eb;
               S = f64_sig a * 2 ^ nat (ea - e) + f64_sig b * 2 ^ nat (eb - e)
           in if S = 0 then f64_make (f64_sign a \<and> f64_sign b) 0
              else round_scaled (S < 0) \<bar>S\<bar> 1 e)"
  unfolding f64_add_finite_def [of a b, symmetric]
  using f64_add_finite_zero [of a b] f64_add_finite_zero [of b a] f64_add_finite_commute [of a b]
  by (auto simp del: f64_mag_pos)

lemma round_scaled_code [code]:
  "round_scaled s n d e =
     (if n = 0 \<and> 0 < d then f64_make s 0
      else if 0 \<le> e then f64_round s (n * 2 ^ nat e) d else f64_round s n (d * 2 ^ nat (- e)))"
proof -
  have "round_scaled s 0 d e = f64_make s 0" if "0 < d"
    by (rule f64_eqI) (use that in \<open>simp_all add: round_scaled_zero round_scaled_simps\<close>)
  then show ?thesis by (auto simp: round_scaled_def)
qed

end
