(* ===== verification/Ids.thy ===== *)
theory Ids
  imports Prelude Double64
begin

text \<open>
  \<open>checked.hpp\<close> (checked 64-bit arithmetic and the finiteness tests of doubles) and
  \<open>ids.hpp\<close> (strongly typed identities and their decimal parser). The \<open>Tag\<close> parameter of the
  C++ template is a phantom type parameter, so identities of different authority domains are of
  different types here as well. The lemmas characterise the checked operations and the parser by
  exact arithmetic on natural numbers.
\<close>

subsection \<open>Checked arithmetic\<close>

text \<open>A \<open>bool\<close> result with an out-parameter written on success is an option.\<close>

definition add_u64 :: "u64 \<Rightarrow> u64 \<Rightarrow> u64 option" where
  "add_u64 a b = (if b > (-1) - a then None else Some (a + b))"

definition mul_u64 :: "u64 \<Rightarrow> u64 \<Rightarrow> u64 option" where
  "mul_u64 a b = (if a \<noteq> 0 \<and> b > (-1) div a then None else Some (a * b))"

definition sub_u64 :: "u64 \<Rightarrow> u64 \<Rightarrow> u64 option" where
  "sub_u64 a b = (if b > a then None else Some (a - b))"

definition is_finite :: "double \<Rightarrow> bool" where
  "is_finite v \<longleftrightarrow> f64_isfinite v"

definition is_finite_nonneg :: "double \<Rightarrow> bool" where
  "is_finite_nonneg v \<longleftrightarrow> f64_isfinite v \<and> f64_le f64_zero v"

definition is_finite_signed :: "double \<Rightarrow> bool" where
  "is_finite_signed v \<longleftrightarrow> f64_isfinite v"

datatype overflow_error = Overflow_error string

definition add_u64_throwing :: "u64 \<Rightarrow> u64 \<Rightarrow> overflow_error + u64" where
  "add_u64_throwing a b =
     (case add_u64 a b of None \<Rightarrow> Inl (Overflow_error ''iobs checked add overflow'') | Some out \<Rightarrow> Inr out)"

definition mul_u64_throwing :: "u64 \<Rightarrow> u64 \<Rightarrow> overflow_error + u64" where
  "mul_u64_throwing a b =
     (case mul_u64 a b of None \<Rightarrow> Inl (Overflow_error ''iobs checked mul overflow'') | Some out \<Rightarrow> Inr out)"

subsection \<open>Identities\<close>

datatype 'tag id = Id (id_value: u64)

definition id_is_nil :: "'tag id \<Rightarrow> bool" where
  "id_is_nil i \<longleftrightarrow> id_value i = 0"

definition nil_id :: "'tag id" where
  "nil_id = Id 0"

instantiation id :: (type) linorder
begin

definition less_eq_id :: "'a id \<Rightarrow> 'a id \<Rightarrow> bool" where
  "less_eq_id a b \<longleftrightarrow> id_value a \<le> id_value b"

definition less_id :: "'a id \<Rightarrow> 'a id \<Rightarrow> bool" where
  "less_id a b \<longleftrightarrow> id_value a < id_value b"

instance
  by standard (auto simp: less_eq_id_def less_id_def id.expand)

end

datatype CoordinatorEpoch_tag = CoordinatorEpoch_tag
datatype ObservatoryId_tag = ObservatoryId_tag
datatype ObservatoryGeneration_tag = ObservatoryGeneration_tag
datatype SourceId_tag = SourceId_tag
datatype SourceGeneration_tag = SourceGeneration_tag
datatype WorkerId_tag = WorkerId_tag
datatype WorkerBootId_tag = WorkerBootId_tag
datatype HostId_tag = HostId_tag
datatype HostGeneration_tag = HostGeneration_tag
datatype DeviceId_tag = DeviceId_tag
datatype DeviceGeneration_tag = DeviceGeneration_tag
datatype ResourceId_tag = ResourceId_tag
datatype ResourceGeneration_tag = ResourceGeneration_tag
datatype WorkloadId_tag = WorkloadId_tag
datatype WorkloadGeneration_tag = WorkloadGeneration_tag
datatype ExperimentId_tag = ExperimentId_tag
datatype ExperimentGeneration_tag = ExperimentGeneration_tag
datatype EpisodeId_tag = EpisodeId_tag
datatype EpisodeGeneration_tag = EpisodeGeneration_tag
datatype BaselineId_tag = BaselineId_tag
datatype BaselineGeneration_tag = BaselineGeneration_tag
datatype EvidenceId_tag = EvidenceId_tag
datatype EvidenceGeneration_tag = EvidenceGeneration_tag
datatype ObservationId_tag = ObservationId_tag
datatype ObservationGeneration_tag = ObservationGeneration_tag
datatype ComparisonId_tag = ComparisonId_tag
datatype ComparisonGeneration_tag = ComparisonGeneration_tag
datatype InterferenceClassId_tag = InterferenceClassId_tag
datatype TopologyGeneration_tag = TopologyGeneration_tag
datatype TransferGeneration_tag = TransferGeneration_tag
datatype CollectiveGeneration_tag = CollectiveGeneration_tag
datatype StorageGeneration_tag = StorageGeneration_tag
datatype NUMAGeneration_tag = NUMAGeneration_tag

type_synonym CoordinatorEpoch = "CoordinatorEpoch_tag id"
type_synonym ObservatoryId = "ObservatoryId_tag id"
type_synonym ObservatoryGeneration = "ObservatoryGeneration_tag id"
type_synonym SourceId = "SourceId_tag id"
type_synonym SourceGeneration = "SourceGeneration_tag id"
type_synonym WorkerId = "WorkerId_tag id"
type_synonym WorkerBootId = "WorkerBootId_tag id"
type_synonym HostId = "HostId_tag id"
type_synonym HostGeneration = "HostGeneration_tag id"
type_synonym DeviceId = "DeviceId_tag id"
type_synonym DeviceGeneration = "DeviceGeneration_tag id"
type_synonym ResourceId = "ResourceId_tag id"
type_synonym ResourceGeneration = "ResourceGeneration_tag id"
type_synonym WorkloadId = "WorkloadId_tag id"
type_synonym WorkloadGeneration = "WorkloadGeneration_tag id"
type_synonym ExperimentId = "ExperimentId_tag id"
type_synonym ExperimentGeneration = "ExperimentGeneration_tag id"
type_synonym EpisodeId = "EpisodeId_tag id"
type_synonym EpisodeGeneration = "EpisodeGeneration_tag id"
type_synonym BaselineId = "BaselineId_tag id"
type_synonym BaselineGeneration = "BaselineGeneration_tag id"
type_synonym EvidenceId = "EvidenceId_tag id"
type_synonym EvidenceGeneration = "EvidenceGeneration_tag id"
type_synonym ObservationId = "ObservationId_tag id"
type_synonym ObservationGeneration = "ObservationGeneration_tag id"
type_synonym ComparisonId = "ComparisonId_tag id"
type_synonym ComparisonGeneration = "ComparisonGeneration_tag id"
type_synonym InterferenceClassId = "InterferenceClassId_tag id"
type_synonym TopologyGeneration = "TopologyGeneration_tag id"
type_synonym TransferGeneration = "TransferGeneration_tag id"
type_synonym CollectiveGeneration = "CollectiveGeneration_tag id"
type_synonym StorageGeneration = "StorageGeneration_tag id"
type_synonym NUMAGeneration = "NUMAGeneration_tag id"

subsection \<open>Decimal identities\<close>

text \<open>The loop of \<open>parse_id_value\<close>: the accumulated value, or \<open>None\<close> on a non-digit or when the
  next step would leave 64 bits.\<close>

fun parse_digits :: "u64 \<Rightarrow> string \<Rightarrow> u64 option" where
  "parse_digits value [] = Some value"
| "parse_digits value (c # s) =
     (if of_char c < (48 :: nat) \<or> of_char c > (57 :: nat) then None
      else let digit = of_nat (of_char c - 48) in
        if value > ((-1) - digit) div 10 then None
        else parse_digits (value * 10 + digit) s)"

definition parse_id_value :: "string \<Rightarrow> u64 option" where
  "parse_id_value s = (if s = [] then None else parse_digits 0 s)"

definition parse_id :: "string \<Rightarrow> 'tag id option" where
  "parse_id s = map_option Id (parse_id_value s)"

text \<open>\<open>operator<<\<close> on an identity prints the decimal digits of its value.\<close>

fun decimal :: "nat \<Rightarrow> string" where
  "decimal n = (if n < 10 then [char_of (48 + n)] else decimal (n div 10) @ [char_of (48 + n mod 10)])"

declare decimal.simps [simp del]

definition id_to_string :: "'tag id \<Rightarrow> string" where
  "id_to_string i = decimal (unat (id_value i))"

subsection \<open>Lemmas on checked arithmetic\<close>

lemma unat_u64_less [simp]: "unat (v :: u64) < 18446744073709551616"
  using unsigned_less [of v] by simp

lemma unat_u64_le [simp]: "unat (v :: u64) \<le> 18446744073709551615"
  using unat_u64_less [of v] by linarith

lemma unat_u64_max [simp]: "unat (-1 :: u64) = 18446744073709551615"
  by (simp add: unsigned_minus_1_eq_mask mask_eq_exp_minus_1)

lemma unat_max_minus: "unat ((-1) - a :: u64) = 2 ^ 64 - 1 - unat a"
  by (subst unat_sub) (simp_all add: word_le_nat_alt)

lemma add_u64_spec:
  "add_u64 a b = (if unat a + unat b < 2 ^ 64 then Some (a + b) else None)"
  using unat_u64_less [of a] unat_u64_less [of b]
  by (auto simp del: unat_u64_less simp: add_u64_def word_less_nat_alt unat_max_minus)

lemma add_u64_value: "add_u64 a b = Some c \<Longrightarrow> unat c = unat a + unat b"
  by (auto simp: add_u64_spec unat_word_ariths split: if_splits)

lemma unat_max_div: "unat ((-1) div a :: u64) = (2 ^ 64 - 1) div unat a"
  by (simp add: unat_div)

lemma mul_u64_spec:
  "mul_u64 a b = (if unat a * unat b < 2 ^ 64 then Some (a * b) else None)"
proof (cases "a = 0")
  case True
  then show ?thesis by (simp add: mul_u64_def)
next
  case False
  then have "0 < unat a" by (simp add: unat_gt_0)
  then have "(2 ^ 64 - 1) div unat a < unat b \<longleftrightarrow> 2 ^ 64 - 1 < unat b * unat a"
    by (simp add: div_less_iff_less_mult)
  with False show ?thesis
    by (auto simp: mul_u64_def word_less_nat_alt unat_max_div mult.commute)
qed

lemma mul_u64_value: "mul_u64 a b = Some c \<Longrightarrow> unat c = unat a * unat b"
  by (auto simp: mul_u64_spec unat_word_ariths split: if_splits)

lemma sub_u64_spec: "sub_u64 a b = (if unat b \<le> unat a then Some (a - b) else None)"
  by (auto simp: sub_u64_def word_less_nat_alt)

lemma sub_u64_value: "sub_u64 a b = Some c \<Longrightarrow> unat c = unat a - unat b"
  by (auto simp: sub_u64_spec unat_sub word_le_nat_alt split: if_splits)

subsection \<open>Lemmas on the decimal parser\<close>

definition is_digit :: "char \<Rightarrow> bool" where
  "is_digit c \<longleftrightarrow> 48 \<le> (of_char c :: nat) \<and> (of_char c :: nat) \<le> 57"

fun dec_value :: "nat \<Rightarrow> string \<Rightarrow> nat" where
  "dec_value acc [] = acc"
| "dec_value acc (c # s) = dec_value (acc * 10 + (of_char c - 48)) s"

lemma dec_value_ge: "acc \<le> dec_value acc s"
proof (induction acc s rule: dec_value.induct)
  case (2 acc c s)
  have "acc \<le> acc * 10 + (of_char c - 48)" by simp
  with 2 show ?case by (simp add: order.trans)
qed simp

lemma parse_digits_spec:
  "parse_digits v s =
     (if (\<forall>c\<in>set s. is_digit c) \<and> dec_value (unat v) s < 2 ^ 64
      then Some (of_nat (dec_value (unat v) s)) else None)"
proof (induction v s rule: parse_digits.induct)
  case (1 v)
  then show ?case by simp
next
  case (2 v c s)
  show ?case
  proof (cases "is_digit c")
    case False
    then show ?thesis by (auto simp: is_digit_def)
  next
    case True
    define D where "D = (of_char c :: nat) - 48"
    have D: "D \<le> 9" "unat (of_nat D :: u64) = D"
    proof -
      show "D \<le> 9" using True unfolding D_def is_digit_def by linarith
      then show "unat (of_nat D :: u64) = D" by (simp add: unat_of_nat)
    qed
    have q: "unat (((-1) - of_nat D) div 10 :: u64) = (2 ^ 64 - 1 - D) div 10"
      using D by (simp add: unat_div unat_max_minus)
    have guard: "((-1) - of_nat D) div 10 < v \<longleftrightarrow> 2 ^ 64 \<le> unat v * 10 + D"
      unfolding word_less_nat_alt q using D(1) by (auto simp: div_less_iff_less_mult)
    show ?thesis
    proof (cases "2 ^ 64 \<le> unat v * 10 + D")
      case True
      with dec_value_ge [of "unat v * 10 + D" s] guard \<open>is_digit c\<close> show ?thesis
        by (auto simp: D_def [symmetric] is_digit_def Let_def)
    next
      case False
      then have "unat (v * 10 + of_nat D) = unat v * 10 + D"
        using D by (simp add: unat_word_ariths)
      with 2 False guard True show ?thesis
        by (auto simp: D_def [symmetric] is_digit_def Let_def)
    qed
  qed
qed

lemma dec_value_append: "dec_value acc (s @ t) = dec_value (dec_value acc s) t"
  by (induction acc s rule: dec_value.induct) auto

lemma decimal_digits: "\<forall>c\<in>set (decimal n). is_digit c"
proof (induction n rule: decimal.induct)
  case (1 n)
  then show ?case
    by (subst decimal.simps) (auto simp: is_digit_def of_char_of)
qed

lemma dec_value_decimal: "dec_value 0 (decimal n) = n"
proof (induction n rule: decimal.induct)
  case (1 n)
  then show ?case
    by (subst decimal.simps) (auto simp: dec_value_append of_char_of)
qed

lemma decimal_nonempty: "decimal n \<noteq> []"
  by (subst decimal.simps) simp

text \<open>The identity parser is exact: it accepts a string exactly when it is a non-empty sequence of
  decimal digits whose value fits 64 bits, and returns that value; printing an identity and parsing
  it again gives it back.\<close>

theorem parse_id_exact:
  "(parse_id s = Some (Id v) \<longleftrightarrow> s \<noteq> [] \<and> (\<forall>c\<in>set s. is_digit c) \<and> dec_value 0 s = unat v) \<and>
   parse_id (id_to_string i) = Some i"
proof
  have eq: "of_nat n = v \<and> n < 2 ^ 64 \<longleftrightarrow> n = unat v" for n
    using unat_u64_less [of v] by (auto simp: unat_of_nat simp del: unat_u64_less)
  show "parse_id s = Some (Id v) \<longleftrightarrow> s \<noteq> [] \<and> (\<forall>c\<in>set s. is_digit c) \<and> dec_value 0 s = unat v"
    using eq [of "dec_value 0 s"] by (auto simp: parse_id_def parse_id_value_def parse_digits_spec)
  show "parse_id (id_to_string i) = Some i"
    using decimal_digits [of "unat (id_value i)"] decimal_nonempty [of "unat (id_value i)"]
    by (simp add: parse_id_def parse_id_value_def parse_digits_spec id_to_string_def dec_value_decimal)
qed

theorem parse_id_exact_witness:
  "parse_id ''18446744073709551615'' = Some (Id 18446744073709551615 :: unit id) \<and>
   parse_id ''18446744073709551616'' \<noteq> Some (Id 0 :: unit id)"
proof -
  have d: "\<forall>c\<in>set ''18446744073709551615''. is_digit c" by (simp add: is_digit_def)
  have v: "dec_value 0 ''18446744073709551615'' = 18446744073709551615"
    "dec_value 0 ''18446744073709551616'' = 18446744073709551616" by simp_all
  have "parse_id ''18446744073709551615'' = Some (Id 18446744073709551615 :: unit id)"
    using parse_id_exact [where 'a = unit and 'b = unit and s = "''18446744073709551615''" and v = 18446744073709551615] d v
    by simp
  moreover have "parse_id ''18446744073709551616'' \<noteq> Some (Id 0 :: unit id)"
    using parse_id_exact [where 'a = unit and 'b = unit and s = "''18446744073709551616''" and v = 0] v by simp
  ultimately show ?thesis ..
qed

text \<open>Checked arithmetic is exact: a sum, product or difference of 64-bit values is returned exactly
  when the mathematical result is a 64-bit value, and then it is that result.\<close>

theorem checked_arithmetic_exact:
  "(add_u64 a b = Some c \<longleftrightarrow> unat a + unat b = unat c) \<and>
   (mul_u64 a b = Some c \<longleftrightarrow> unat a * unat b = unat c) \<and>
   (sub_u64 a b = Some c \<longleftrightarrow> unat a = unat b + unat c)"
proof (intro conjI)
  have c: "unat c < 2 ^ 64" using unat_u64_less [of c] by simp
  show "add_u64 a b = Some c \<longleftrightarrow> unat a + unat b = unat c"
    using c by (auto simp: add_u64_spec unat_word_ariths word_unat_eq_iff)
  show "mul_u64 a b = Some c \<longleftrightarrow> unat a * unat b = unat c"
    using c by (auto simp: mul_u64_spec unat_word_ariths word_unat_eq_iff)
  show "sub_u64 a b = Some c \<longleftrightarrow> unat a = unat b + unat c"
    by (auto simp: sub_u64_spec unat_sub word_le_nat_alt word_unat_eq_iff)
qed

end
