(* ===== verification/Domain.thy ===== *)
theory Domain
  imports Prelude
begin

text \<open>
  The enumerations of \<open>domain.hpp\<close>, \<open>metric.hpp\<close>, \<open>baseline.hpp\<close>, \<open>observation.hpp\<close>,
  \<open>experiment.hpp\<close> and \<open>status.hpp\<close> with their \<open>to_string\<close> functions. A C++ \<open>enum class\<close>
  with underlying type \<open>std::uint8_t\<close> may hold any byte, and the readers of the sources make
  such values with \<open>static_cast\<close>; the enumerations that are read from bytes therefore have one
  constructor per enumerator and a last constructor for a byte without enumerator. The conversion
  from a byte always yields the enumerator when there is one (\<open>canonical\<close>), and a C++ value of the
  type is exactly a canonical one. \<open>Status\<close>, \<open>BaselineFit\<close> and \<open>LaunchOrder\<close> are never read
  from bytes and have enumerators only.
\<close>

definition canonical :: "('e \<Rightarrow> byte) \<Rightarrow> (byte \<Rightarrow> 'e) \<Rightarrow> 'e \<Rightarrow> bool" where
  "canonical to_u8 of_u8 x \<longleftrightarrow> of_u8 (to_u8 x) = x"

subsection \<open>Enumerations\<close>

datatype interference_domain =
    Domain_ComputeExecution
  | Domain_Cache
  | Domain_MemoryBandwidth
  | Domain_MemoryCapacity
  | Domain_Pcie
  | Domain_Transfer
  | Domain_Collective
  | Domain_Network
  | Domain_Numa
  | Domain_Storage
  | Domain_HostCpu
  | Domain_Residency
  | Domain_SharedEngine
  | Domain_Unknown
  | Domain_Byte byte

primrec interference_domain_u8 :: "interference_domain \<Rightarrow> byte" where
  "interference_domain_u8 Domain_ComputeExecution = 0"
| "interference_domain_u8 Domain_Cache = 1"
| "interference_domain_u8 Domain_MemoryBandwidth = 2"
| "interference_domain_u8 Domain_MemoryCapacity = 3"
| "interference_domain_u8 Domain_Pcie = 4"
| "interference_domain_u8 Domain_Transfer = 5"
| "interference_domain_u8 Domain_Collective = 6"
| "interference_domain_u8 Domain_Network = 7"
| "interference_domain_u8 Domain_Numa = 8"
| "interference_domain_u8 Domain_Storage = 9"
| "interference_domain_u8 Domain_HostCpu = 10"
| "interference_domain_u8 Domain_Residency = 11"
| "interference_domain_u8 Domain_SharedEngine = 12"
| "interference_domain_u8 Domain_Unknown = 13"
| "interference_domain_u8 (Domain_Byte b) = b"

definition interference_domain_of_u8 :: "byte \<Rightarrow> interference_domain" where
  "interference_domain_of_u8 b =
    (if b = 0 then Domain_ComputeExecution
     else if b = 1 then Domain_Cache
     else if b = 2 then Domain_MemoryBandwidth
     else if b = 3 then Domain_MemoryCapacity
     else if b = 4 then Domain_Pcie
     else if b = 5 then Domain_Transfer
     else if b = 6 then Domain_Collective
     else if b = 7 then Domain_Network
     else if b = 8 then Domain_Numa
     else if b = 9 then Domain_Storage
     else if b = 10 then Domain_HostCpu
     else if b = 11 then Domain_Residency
     else if b = 12 then Domain_SharedEngine
     else if b = 13 then Domain_Unknown
     else Domain_Byte b)"

primrec interference_domain_name :: "interference_domain \<Rightarrow> string" where
  "interference_domain_name Domain_ComputeExecution = ''COMPUTE_EXECUTION''"
| "interference_domain_name Domain_Cache = ''CACHE''"
| "interference_domain_name Domain_MemoryBandwidth = ''MEMORY_BANDWIDTH''"
| "interference_domain_name Domain_MemoryCapacity = ''MEMORY_CAPACITY''"
| "interference_domain_name Domain_Pcie = ''PCIE''"
| "interference_domain_name Domain_Transfer = ''TRANSFER''"
| "interference_domain_name Domain_Collective = ''COLLECTIVE''"
| "interference_domain_name Domain_Network = ''NETWORK''"
| "interference_domain_name Domain_Numa = ''NUMA''"
| "interference_domain_name Domain_Storage = ''STORAGE''"
| "interference_domain_name Domain_HostCpu = ''HOST_CPU''"
| "interference_domain_name Domain_Residency = ''RESIDENCY''"
| "interference_domain_name Domain_SharedEngine = ''SHARED_ENGINE''"
| "interference_domain_name Domain_Unknown = ''UNKNOWN''"
| "interference_domain_name (Domain_Byte b) = ''UNKNOWN_DOMAIN''"

datatype outcome =
    Outcome_NoInterferenceDetected
  | Outcome_PotentialInterference
  | Outcome_InterferenceDetected
  | Outcome_SevereInterference
  | Outcome_InsufficientEvidence
  | Outcome_BaselineInvalid
  | Outcome_RevalidationRequired
  | Outcome_Unsupported
  | Outcome_Unknown
  | Outcome_Byte byte

primrec outcome_u8 :: "outcome \<Rightarrow> byte" where
  "outcome_u8 Outcome_NoInterferenceDetected = 0"
| "outcome_u8 Outcome_PotentialInterference = 1"
| "outcome_u8 Outcome_InterferenceDetected = 2"
| "outcome_u8 Outcome_SevereInterference = 3"
| "outcome_u8 Outcome_InsufficientEvidence = 4"
| "outcome_u8 Outcome_BaselineInvalid = 5"
| "outcome_u8 Outcome_RevalidationRequired = 6"
| "outcome_u8 Outcome_Unsupported = 7"
| "outcome_u8 Outcome_Unknown = 8"
| "outcome_u8 (Outcome_Byte b) = b"

definition outcome_of_u8 :: "byte \<Rightarrow> outcome" where
  "outcome_of_u8 b =
    (if b = 0 then Outcome_NoInterferenceDetected
     else if b = 1 then Outcome_PotentialInterference
     else if b = 2 then Outcome_InterferenceDetected
     else if b = 3 then Outcome_SevereInterference
     else if b = 4 then Outcome_InsufficientEvidence
     else if b = 5 then Outcome_BaselineInvalid
     else if b = 6 then Outcome_RevalidationRequired
     else if b = 7 then Outcome_Unsupported
     else if b = 8 then Outcome_Unknown
     else Outcome_Byte b)"

primrec outcome_name :: "outcome \<Rightarrow> string" where
  "outcome_name Outcome_NoInterferenceDetected = ''NO_INTERFERENCE_DETECTED''"
| "outcome_name Outcome_PotentialInterference = ''POTENTIAL_INTERFERENCE''"
| "outcome_name Outcome_InterferenceDetected = ''INTERFERENCE_DETECTED''"
| "outcome_name Outcome_SevereInterference = ''SEVERE_INTERFERENCE''"
| "outcome_name Outcome_InsufficientEvidence = ''INSUFFICIENT_EVIDENCE''"
| "outcome_name Outcome_BaselineInvalid = ''BASELINE_INVALID''"
| "outcome_name Outcome_RevalidationRequired = ''REVALIDATION_REQUIRED''"
| "outcome_name Outcome_Unsupported = ''UNSUPPORTED''"
| "outcome_name Outcome_Unknown = ''UNKNOWN''"
| "outcome_name (Outcome_Byte b) = ''UNKNOWN_OUTCOME''"

datatype attribution_strength =
    Attribution_Unknown
  | Attribution_TemporallyAssociated
  | Attribution_Correlated
  | Attribution_ControlledComparison
  | Attribution_StrongCounterfactualEvidence
  | Attribution_DirectResourceEvidence
  | Attribution_Byte byte

primrec attribution_strength_u8 :: "attribution_strength \<Rightarrow> byte" where
  "attribution_strength_u8 Attribution_Unknown = 0"
| "attribution_strength_u8 Attribution_TemporallyAssociated = 1"
| "attribution_strength_u8 Attribution_Correlated = 2"
| "attribution_strength_u8 Attribution_ControlledComparison = 3"
| "attribution_strength_u8 Attribution_StrongCounterfactualEvidence = 4"
| "attribution_strength_u8 Attribution_DirectResourceEvidence = 5"
| "attribution_strength_u8 (Attribution_Byte b) = b"

definition attribution_strength_of_u8 :: "byte \<Rightarrow> attribution_strength" where
  "attribution_strength_of_u8 b =
    (if b = 0 then Attribution_Unknown
     else if b = 1 then Attribution_TemporallyAssociated
     else if b = 2 then Attribution_Correlated
     else if b = 3 then Attribution_ControlledComparison
     else if b = 4 then Attribution_StrongCounterfactualEvidence
     else if b = 5 then Attribution_DirectResourceEvidence
     else Attribution_Byte b)"

primrec attribution_strength_name :: "attribution_strength \<Rightarrow> string" where
  "attribution_strength_name Attribution_Unknown = ''UNKNOWN''"
| "attribution_strength_name Attribution_TemporallyAssociated = ''TEMPORALLY_ASSOCIATED''"
| "attribution_strength_name Attribution_Correlated = ''CORRELATED''"
| "attribution_strength_name Attribution_ControlledComparison = ''CONTROLLED_COMPARISON''"
| "attribution_strength_name Attribution_StrongCounterfactualEvidence = ''STRONG_COUNTERFACTUAL_EVIDENCE''"
| "attribution_strength_name Attribution_DirectResourceEvidence = ''DIRECT_RESOURCE_EVIDENCE''"
| "attribution_strength_name (Attribution_Byte b) = ''UNKNOWN_STRENGTH''"

datatype provenance =
    Provenance_Measured
  | Provenance_Reported
  | Provenance_Derived
  | Provenance_Controlled
  | Provenance_Synthetic
  | Provenance_Replayed
  | Provenance_Unknown
  | Provenance_Byte byte

primrec provenance_u8 :: "provenance \<Rightarrow> byte" where
  "provenance_u8 Provenance_Measured = 0"
| "provenance_u8 Provenance_Reported = 1"
| "provenance_u8 Provenance_Derived = 2"
| "provenance_u8 Provenance_Controlled = 3"
| "provenance_u8 Provenance_Synthetic = 4"
| "provenance_u8 Provenance_Replayed = 5"
| "provenance_u8 Provenance_Unknown = 6"
| "provenance_u8 (Provenance_Byte b) = b"

definition provenance_of_u8 :: "byte \<Rightarrow> provenance" where
  "provenance_of_u8 b =
    (if b = 0 then Provenance_Measured
     else if b = 1 then Provenance_Reported
     else if b = 2 then Provenance_Derived
     else if b = 3 then Provenance_Controlled
     else if b = 4 then Provenance_Synthetic
     else if b = 5 then Provenance_Replayed
     else if b = 6 then Provenance_Unknown
     else Provenance_Byte b)"

primrec provenance_name :: "provenance \<Rightarrow> string" where
  "provenance_name Provenance_Measured = ''MEASURED''"
| "provenance_name Provenance_Reported = ''REPORTED''"
| "provenance_name Provenance_Derived = ''DERIVED''"
| "provenance_name Provenance_Controlled = ''CONTROLLED''"
| "provenance_name Provenance_Synthetic = ''SYNTHETIC''"
| "provenance_name Provenance_Replayed = ''REPLAYED''"
| "provenance_name Provenance_Unknown = ''UNKNOWN''"
| "provenance_name (Provenance_Byte b) = ''UNKNOWN_PROVENANCE''"

datatype freshness =
    Freshness_Current
  | Freshness_Stale
  | Freshness_Expired
  | Freshness_RevalidationRequired
  | Freshness_Historical
  | Freshness_Unknown
  | Freshness_Byte byte

primrec freshness_u8 :: "freshness \<Rightarrow> byte" where
  "freshness_u8 Freshness_Current = 0"
| "freshness_u8 Freshness_Stale = 1"
| "freshness_u8 Freshness_Expired = 2"
| "freshness_u8 Freshness_RevalidationRequired = 3"
| "freshness_u8 Freshness_Historical = 4"
| "freshness_u8 Freshness_Unknown = 5"
| "freshness_u8 (Freshness_Byte b) = b"

definition freshness_of_u8 :: "byte \<Rightarrow> freshness" where
  "freshness_of_u8 b =
    (if b = 0 then Freshness_Current
     else if b = 1 then Freshness_Stale
     else if b = 2 then Freshness_Expired
     else if b = 3 then Freshness_RevalidationRequired
     else if b = 4 then Freshness_Historical
     else if b = 5 then Freshness_Unknown
     else Freshness_Byte b)"

primrec freshness_name :: "freshness \<Rightarrow> string" where
  "freshness_name Freshness_Current = ''CURRENT''"
| "freshness_name Freshness_Stale = ''STALE''"
| "freshness_name Freshness_Expired = ''EXPIRED''"
| "freshness_name Freshness_RevalidationRequired = ''REVALIDATION_REQUIRED''"
| "freshness_name Freshness_Historical = ''HISTORICAL''"
| "freshness_name Freshness_Unknown = ''UNKNOWN''"
| "freshness_name (Freshness_Byte b) = ''UNKNOWN_FRESHNESS''"

datatype source_health =
    Health_Healthy
  | Health_Degraded
  | Health_Stale
  | Health_Disconnected
  | Health_RevalidationRequired
  | Health_Unsupported
  | Health_Unknown
  | Health_Byte byte

primrec source_health_u8 :: "source_health \<Rightarrow> byte" where
  "source_health_u8 Health_Healthy = 0"
| "source_health_u8 Health_Degraded = 1"
| "source_health_u8 Health_Stale = 2"
| "source_health_u8 Health_Disconnected = 3"
| "source_health_u8 Health_RevalidationRequired = 4"
| "source_health_u8 Health_Unsupported = 5"
| "source_health_u8 Health_Unknown = 6"
| "source_health_u8 (Health_Byte b) = b"

definition source_health_of_u8 :: "byte \<Rightarrow> source_health" where
  "source_health_of_u8 b =
    (if b = 0 then Health_Healthy
     else if b = 1 then Health_Degraded
     else if b = 2 then Health_Stale
     else if b = 3 then Health_Disconnected
     else if b = 4 then Health_RevalidationRequired
     else if b = 5 then Health_Unsupported
     else if b = 6 then Health_Unknown
     else Health_Byte b)"

primrec source_health_name :: "source_health \<Rightarrow> string" where
  "source_health_name Health_Healthy = ''HEALTHY''"
| "source_health_name Health_Degraded = ''DEGRADED''"
| "source_health_name Health_Stale = ''STALE''"
| "source_health_name Health_Disconnected = ''DISCONNECTED''"
| "source_health_name Health_RevalidationRequired = ''REVALIDATION_REQUIRED''"
| "source_health_name Health_Unsupported = ''UNSUPPORTED''"
| "source_health_name Health_Unknown = ''UNKNOWN''"
| "source_health_name (Health_Byte b) = ''UNKNOWN_HEALTH''"

datatype metric_kind =
    Metric_Latency
  | Metric_Throughput
  | Metric_DeviceTime
  | Metric_TransferTime
  | Metric_CollectiveTime
  | Metric_StallTime
  | Metric_MemoryBandwidth
  | Metric_TailLatency
  | Metric_CompletionRate
  | Metric_Byte byte

primrec metric_kind_u8 :: "metric_kind \<Rightarrow> byte" where
  "metric_kind_u8 Metric_Latency = 0"
| "metric_kind_u8 Metric_Throughput = 1"
| "metric_kind_u8 Metric_DeviceTime = 2"
| "metric_kind_u8 Metric_TransferTime = 3"
| "metric_kind_u8 Metric_CollectiveTime = 4"
| "metric_kind_u8 Metric_StallTime = 5"
| "metric_kind_u8 Metric_MemoryBandwidth = 6"
| "metric_kind_u8 Metric_TailLatency = 7"
| "metric_kind_u8 Metric_CompletionRate = 8"
| "metric_kind_u8 (Metric_Byte b) = b"

definition metric_kind_of_u8 :: "byte \<Rightarrow> metric_kind" where
  "metric_kind_of_u8 b =
    (if b = 0 then Metric_Latency
     else if b = 1 then Metric_Throughput
     else if b = 2 then Metric_DeviceTime
     else if b = 3 then Metric_TransferTime
     else if b = 4 then Metric_CollectiveTime
     else if b = 5 then Metric_StallTime
     else if b = 6 then Metric_MemoryBandwidth
     else if b = 7 then Metric_TailLatency
     else if b = 8 then Metric_CompletionRate
     else Metric_Byte b)"

primrec metric_kind_name :: "metric_kind \<Rightarrow> string" where
  "metric_kind_name Metric_Latency = ''LATENCY''"
| "metric_kind_name Metric_Throughput = ''THROUGHPUT''"
| "metric_kind_name Metric_DeviceTime = ''DEVICE_TIME''"
| "metric_kind_name Metric_TransferTime = ''TRANSFER_TIME''"
| "metric_kind_name Metric_CollectiveTime = ''COLLECTIVE_TIME''"
| "metric_kind_name Metric_StallTime = ''STALL_TIME''"
| "metric_kind_name Metric_MemoryBandwidth = ''MEMORY_BANDWIDTH''"
| "metric_kind_name Metric_TailLatency = ''TAIL_LATENCY''"
| "metric_kind_name Metric_CompletionRate = ''COMPLETION_RATE''"
| "metric_kind_name (Metric_Byte b) = ''UNKNOWN_METRIC''"

datatype baseline_type =
    BaselineType_Isolated
  | BaselineType_HistoricalIsolated
  | BaselineType_ControlRun
  | BaselineType_RecentHealthy
  | BaselineType_ConfiguredReference
  | BaselineType_SyntheticReference
  | BaselineType_Byte byte

primrec baseline_type_u8 :: "baseline_type \<Rightarrow> byte" where
  "baseline_type_u8 BaselineType_Isolated = 0"
| "baseline_type_u8 BaselineType_HistoricalIsolated = 1"
| "baseline_type_u8 BaselineType_ControlRun = 2"
| "baseline_type_u8 BaselineType_RecentHealthy = 3"
| "baseline_type_u8 BaselineType_ConfiguredReference = 4"
| "baseline_type_u8 BaselineType_SyntheticReference = 5"
| "baseline_type_u8 (BaselineType_Byte b) = b"

definition baseline_type_of_u8 :: "byte \<Rightarrow> baseline_type" where
  "baseline_type_of_u8 b =
    (if b = 0 then BaselineType_Isolated
     else if b = 1 then BaselineType_HistoricalIsolated
     else if b = 2 then BaselineType_ControlRun
     else if b = 3 then BaselineType_RecentHealthy
     else if b = 4 then BaselineType_ConfiguredReference
     else if b = 5 then BaselineType_SyntheticReference
     else BaselineType_Byte b)"

primrec baseline_type_name :: "baseline_type \<Rightarrow> string" where
  "baseline_type_name BaselineType_Isolated = ''ISOLATED''"
| "baseline_type_name BaselineType_HistoricalIsolated = ''HISTORICAL_ISOLATED''"
| "baseline_type_name BaselineType_ControlRun = ''CONTROL_RUN''"
| "baseline_type_name BaselineType_RecentHealthy = ''RECENT_HEALTHY''"
| "baseline_type_name BaselineType_ConfiguredReference = ''CONFIGURED_REFERENCE''"
| "baseline_type_name BaselineType_SyntheticReference = ''SYNTHETIC_REFERENCE''"
| "baseline_type_name (BaselineType_Byte b) = ''UNKNOWN_BASELINE''"

datatype confounder =
    Confounder_ThermalThrottling
  | Confounder_PowerThrottling
  | Confounder_ClockChange
  | Confounder_BackgroundOSLoad
  | Confounder_DifferentWorkloadInput
  | Confounder_DifferentKernelVersion
  | Confounder_DifferentDriverRuntimeState
  | Confounder_ColdStart
  | Confounder_CacheWarmup
  | Confounder_AllocationWarmup
  | Confounder_FrequencyScaling
  | Confounder_DeviceTemperature
  | Confounder_MemoryPressure
  | Confounder_RetryRecovery
  | Confounder_WorkerRestart
  | Confounder_DifferentPlacement
  | Confounder_Unknown
  | Confounder_Byte byte

primrec confounder_u8 :: "confounder \<Rightarrow> byte" where
  "confounder_u8 Confounder_ThermalThrottling = 0"
| "confounder_u8 Confounder_PowerThrottling = 1"
| "confounder_u8 Confounder_ClockChange = 2"
| "confounder_u8 Confounder_BackgroundOSLoad = 3"
| "confounder_u8 Confounder_DifferentWorkloadInput = 4"
| "confounder_u8 Confounder_DifferentKernelVersion = 5"
| "confounder_u8 Confounder_DifferentDriverRuntimeState = 6"
| "confounder_u8 Confounder_ColdStart = 7"
| "confounder_u8 Confounder_CacheWarmup = 8"
| "confounder_u8 Confounder_AllocationWarmup = 9"
| "confounder_u8 Confounder_FrequencyScaling = 10"
| "confounder_u8 Confounder_DeviceTemperature = 11"
| "confounder_u8 Confounder_MemoryPressure = 12"
| "confounder_u8 Confounder_RetryRecovery = 13"
| "confounder_u8 Confounder_WorkerRestart = 14"
| "confounder_u8 Confounder_DifferentPlacement = 15"
| "confounder_u8 Confounder_Unknown = 16"
| "confounder_u8 (Confounder_Byte b) = b"

definition confounder_of_u8 :: "byte \<Rightarrow> confounder" where
  "confounder_of_u8 b =
    (if b = 0 then Confounder_ThermalThrottling
     else if b = 1 then Confounder_PowerThrottling
     else if b = 2 then Confounder_ClockChange
     else if b = 3 then Confounder_BackgroundOSLoad
     else if b = 4 then Confounder_DifferentWorkloadInput
     else if b = 5 then Confounder_DifferentKernelVersion
     else if b = 6 then Confounder_DifferentDriverRuntimeState
     else if b = 7 then Confounder_ColdStart
     else if b = 8 then Confounder_CacheWarmup
     else if b = 9 then Confounder_AllocationWarmup
     else if b = 10 then Confounder_FrequencyScaling
     else if b = 11 then Confounder_DeviceTemperature
     else if b = 12 then Confounder_MemoryPressure
     else if b = 13 then Confounder_RetryRecovery
     else if b = 14 then Confounder_WorkerRestart
     else if b = 15 then Confounder_DifferentPlacement
     else if b = 16 then Confounder_Unknown
     else Confounder_Byte b)"

primrec confounder_name :: "confounder \<Rightarrow> string" where
  "confounder_name Confounder_ThermalThrottling = ''THERMAL_THROTTLING''"
| "confounder_name Confounder_PowerThrottling = ''POWER_THROTTLING''"
| "confounder_name Confounder_ClockChange = ''CLOCK_CHANGE''"
| "confounder_name Confounder_BackgroundOSLoad = ''BACKGROUND_OS_LOAD''"
| "confounder_name Confounder_DifferentWorkloadInput = ''DIFFERENT_WORKLOAD_INPUT''"
| "confounder_name Confounder_DifferentKernelVersion = ''DIFFERENT_KERNEL_VERSION''"
| "confounder_name Confounder_DifferentDriverRuntimeState = ''DIFFERENT_DRIVER_RUNTIME_STATE''"
| "confounder_name Confounder_ColdStart = ''COLD_START''"
| "confounder_name Confounder_CacheWarmup = ''CACHE_WARMUP''"
| "confounder_name Confounder_AllocationWarmup = ''ALLOCATION_WARMUP''"
| "confounder_name Confounder_FrequencyScaling = ''FREQUENCY_SCALING''"
| "confounder_name Confounder_DeviceTemperature = ''DEVICE_TEMPERATURE''"
| "confounder_name Confounder_MemoryPressure = ''MEMORY_PRESSURE''"
| "confounder_name Confounder_RetryRecovery = ''RETRY_RECOVERY''"
| "confounder_name Confounder_WorkerRestart = ''WORKER_RESTART''"
| "confounder_name Confounder_DifferentPlacement = ''DIFFERENT_PLACEMENT''"
| "confounder_name Confounder_Unknown = ''UNKNOWN''"
| "confounder_name (Confounder_Byte b) = ''UNKNOWN_CONFOUNDER''"

datatype baseline_fit =
    Fit_Compatible
  | Fit_Incompatible
  | Fit_Stale
  | Fit_Expired
  | Fit_Missing
  | Fit_Invalid

primrec baseline_fit_name :: "baseline_fit \<Rightarrow> string" where
  "baseline_fit_name Fit_Compatible = ''COMPATIBLE''"
| "baseline_fit_name Fit_Incompatible = ''INCOMPATIBLE''"
| "baseline_fit_name Fit_Stale = ''STALE''"
| "baseline_fit_name Fit_Expired = ''EXPIRED''"
| "baseline_fit_name Fit_Missing = ''MISSING''"
| "baseline_fit_name Fit_Invalid = ''INVALID''"

datatype launch_order =
    Launch_PrimaryFirst
  | Launch_NeighborFirst
  | Launch_Simultaneous

primrec launch_order_name :: "launch_order \<Rightarrow> string" where
  "launch_order_name Launch_PrimaryFirst = ''PRIMARY_FIRST''"
| "launch_order_name Launch_NeighborFirst = ''NEIGHBOR_FIRST''"
| "launch_order_name Launch_Simultaneous = ''SIMULTANEOUS''"

datatype status =
    Status_Ok
  | Status_InvalidInput
  | Status_IncompatibleBaseline
  | Status_MissingBaseline
  | Status_StaleBaseline
  | Status_StaleAuthority
  | Status_StaleSource
  | Status_InsufficientEvidence
  | Status_NoInterferenceDetected
  | Status_Unsupported
  | Status_OutcomeUnknown
  | Status_Confounded
  | Status_PersistenceCorrupt
  | Status_ProtocolError
  | Status_Overflow
  | Status_ResourceExhausted
  | Status_Cancelled
  | Status_ShuttingDown

primrec status_name :: "status \<Rightarrow> string" where
  "status_name Status_Ok = ''OK''"
| "status_name Status_InvalidInput = ''INVALID_INPUT''"
| "status_name Status_IncompatibleBaseline = ''INCOMPATIBLE_BASELINE''"
| "status_name Status_MissingBaseline = ''MISSING_BASELINE''"
| "status_name Status_StaleBaseline = ''STALE_BASELINE''"
| "status_name Status_StaleAuthority = ''STALE_AUTHORITY''"
| "status_name Status_StaleSource = ''STALE_SOURCE''"
| "status_name Status_InsufficientEvidence = ''INSUFFICIENT_EVIDENCE''"
| "status_name Status_NoInterferenceDetected = ''NO_INTERFERENCE_DETECTED''"
| "status_name Status_Unsupported = ''UNSUPPORTED''"
| "status_name Status_OutcomeUnknown = ''OUTCOME_UNKNOWN''"
| "status_name Status_Confounded = ''CONFOUNDED''"
| "status_name Status_PersistenceCorrupt = ''PERSISTENCE_CORRUPT''"
| "status_name Status_ProtocolError = ''PROTOCOL_ERROR''"
| "status_name Status_Overflow = ''OVERFLOW''"
| "status_name Status_ResourceExhausted = ''RESOURCE_EXHAUSTED''"
| "status_name Status_Cancelled = ''CANCELLED''"
| "status_name Status_ShuttingDown = ''SHUTTING_DOWN''"

text \<open>\<open>parse_interference_domain\<close>: the canonical name of a domain, except the name
  \<open>UNKNOWN\<close>, which the source does not accept.\<close>

definition parse_interference_domain :: "string \<Rightarrow> interference_domain option" where
  "parse_interference_domain s =
    (if s = ''COMPUTE_EXECUTION'' then Some Domain_ComputeExecution
     else if s = ''CACHE'' then Some Domain_Cache
     else if s = ''MEMORY_BANDWIDTH'' then Some Domain_MemoryBandwidth
     else if s = ''MEMORY_CAPACITY'' then Some Domain_MemoryCapacity
     else if s = ''PCIE'' then Some Domain_Pcie
     else if s = ''TRANSFER'' then Some Domain_Transfer
     else if s = ''COLLECTIVE'' then Some Domain_Collective
     else if s = ''NETWORK'' then Some Domain_Network
     else if s = ''NUMA'' then Some Domain_Numa
     else if s = ''STORAGE'' then Some Domain_Storage
     else if s = ''HOST_CPU'' then Some Domain_HostCpu
     else if s = ''RESIDENCY'' then Some Domain_Residency
     else if s = ''SHARED_ENGINE'' then Some Domain_SharedEngine
     else None)"

text \<open>\<open>metric_natural_unit\<close>.\<close>

fun metric_natural_unit :: "metric_kind \<Rightarrow> string" where
  "metric_natural_unit Metric_Throughput = ''ops/s''"
| "metric_natural_unit Metric_MemoryBandwidth = ''MiB/s''"
| "metric_natural_unit Metric_CompletionRate = ''work/s''"
| "metric_natural_unit (Metric_Byte b) = []"
| "metric_natural_unit _ = ''ms''"

subsection \<open>Conversion to and from bytes\<close>

locale enum_codec =
  fixes to_u8 :: "'e \<Rightarrow> byte" and of_u8 :: "byte \<Rightarrow> 'e"
  assumes to_of: "to_u8 (of_u8 b) = b"
begin

lemma of_u8_canonical: "canonical to_u8 of_u8 (of_u8 b)"
  by (simp add: canonical_def to_of)

lemma canonical_inj: "canonical to_u8 of_u8 x \<Longrightarrow> canonical to_u8 of_u8 y \<Longrightarrow> to_u8 x = to_u8 y \<Longrightarrow> x = y"
  by (metis canonical_def)

lemma canonical_iff: "canonical to_u8 of_u8 x \<longleftrightarrow> x \<in> range of_u8"
  by (metis canonical_def of_u8_canonical rangeE rangeI)

end

interpretation interference_domain_codec: enum_codec interference_domain_u8 interference_domain_of_u8
  by unfold_locales (simp add: interference_domain_of_u8_def)

interpretation outcome_codec: enum_codec outcome_u8 outcome_of_u8
  by unfold_locales (simp add: outcome_of_u8_def)

interpretation attribution_strength_codec: enum_codec attribution_strength_u8 attribution_strength_of_u8
  by unfold_locales (simp add: attribution_strength_of_u8_def)

interpretation provenance_codec: enum_codec provenance_u8 provenance_of_u8
  by unfold_locales (simp add: provenance_of_u8_def)

interpretation freshness_codec: enum_codec freshness_u8 freshness_of_u8
  by unfold_locales (simp add: freshness_of_u8_def)

interpretation source_health_codec: enum_codec source_health_u8 source_health_of_u8
  by unfold_locales (simp add: source_health_of_u8_def)

interpretation metric_kind_codec: enum_codec metric_kind_u8 metric_kind_of_u8
  by unfold_locales (simp add: metric_kind_of_u8_def)

interpretation baseline_type_codec: enum_codec baseline_type_u8 baseline_type_of_u8
  by unfold_locales (simp add: baseline_type_of_u8_def)

interpretation confounder_codec: enum_codec confounder_u8 confounder_of_u8
  by unfold_locales (simp add: confounder_of_u8_def)

subsection \<open>Domains are ordered by their underlying value\<close>

text \<open>\<open>CellKey\<close> and the recovery tuples compare domains with the built-in \<open>operator<\<close> of the
  enumeration. On canonical values the order below is that of the underlying bytes.\<close>

definition domain_key :: "interference_domain \<Rightarrow> nat" where
  "domain_key d = 2 * unat (interference_domain_u8 d) + (case d of Domain_Byte _ \<Rightarrow> 1 | _ \<Rightarrow> 0)"

lemma domain_key_inj: "domain_key x = domain_key y \<Longrightarrow> x = y"
  by (cases x; cases y) (simp_all add: domain_key_def word_unat_eq_iff, presburger+)

instantiation interference_domain :: linorder
begin

definition less_eq_interference_domain :: "interference_domain \<Rightarrow> interference_domain \<Rightarrow> bool" where
  "less_eq_interference_domain x y \<longleftrightarrow> domain_key x \<le> domain_key y"

definition less_interference_domain :: "interference_domain \<Rightarrow> interference_domain \<Rightarrow> bool" where
  "less_interference_domain x y \<longleftrightarrow> domain_key x < domain_key y"

instance
  by standard
    (auto simp: less_eq_interference_domain_def less_interference_domain_def intro: domain_key_inj)

end

lemma canonical_domain_less:
  assumes "canonical interference_domain_u8 interference_domain_of_u8 x"
    and "canonical interference_domain_u8 interference_domain_of_u8 y"
  shows "x < y \<longleftrightarrow> interference_domain_u8 x < interference_domain_u8 y"
proof -
  have key: "unat (interference_domain_u8 x) = unat (interference_domain_u8 y) \<Longrightarrow> x = y"
    using interference_domain_codec.canonical_inj [OF assms] by (simp add: word_unat_eq_iff)
  show ?thesis
    using key
    by (cases "interference_domain_u8 x = interference_domain_u8 y")
      (auto simp: less_interference_domain_def domain_key_def word_less_nat_alt
        word_unat_eq_iff split: interference_domain.splits)
qed

text \<open>Domain names are parsed faithfully: the parser accepts exactly the printed names of the
  enumerated domains other than UNKNOWN, and returns the domain that prints so.\<close>

theorem parse_domain_exact:
  "parse_interference_domain s = Some d \<longleftrightarrow>
     d \<noteq> Domain_Unknown \<and> (\<nexists>b. d = Domain_Byte b) \<and> s = interference_domain_name d"
  by (cases d) (auto simp: parse_interference_domain_def)

end
