(* ===== verification/Std_Map.thy ===== *)
theory Std_Map
  imports Prelude
begin

text \<open>
  The ordered containers of the C++ standard library that hold the observatory's state. A
  \<open>std::map\<close> is its in-order sequence of key/value pairs, because the sources iterate over maps
  when they serialize, select a baseline or list episodes, and the order is part of the result.
  The invariant \<open>map_inv\<close> says that keys are strictly increasing; a \<open>std::set\<close> is likewise its
  in-order sequence of elements.

  The locale \<open>ordered_store\<close> states what clients rely on; it is interpreted on the functions
  below, and the components use the interpretation's facts.
\<close>

type_synonym ('k, 'v) std_map = "('k \<times> 'v) list"
type_synonym 'a std_set = "'a list"

definition map_inv :: "('k::linorder, 'v) std_map \<Rightarrow> bool" where
  "map_inv m \<longleftrightarrow> sorted_wrt (<) (map fst m)"

definition map_find :: "('k, 'v) std_map \<Rightarrow> 'k \<Rightarrow> 'v option" where
  "map_find m k = map_of m k"

text \<open>\<open>m[k] = v\<close>: insert or overwrite.\<close>

fun map_assign :: "('k::linorder, 'v) std_map \<Rightarrow> 'k \<Rightarrow> 'v \<Rightarrow> ('k, 'v) std_map" where
  "map_assign [] k v = [(k, v)]"
| "map_assign ((k', v') # m) k v =
     (if k < k' then (k, v) # (k', v') # m
      else if k = k' then (k, v) # m
      else (k', v') # map_assign m k v)"

text \<open>\<open>m.emplace(k, v)\<close>: insert only when the key is absent.\<close>

definition map_emplace :: "('k::linorder, 'v) std_map \<Rightarrow> 'k \<Rightarrow> 'v \<Rightarrow> ('k, 'v) std_map" where
  "map_emplace m k v = (if map_find m k = None then map_assign m k v else m)"

text \<open>\<open>for (auto& [k, v] : m) v = f(v)\<close>: update every value in place.\<close>

definition map_update_all :: "('v \<Rightarrow> 'v) \<Rightarrow> ('k, 'v) std_map \<Rightarrow> ('k, 'v) std_map" where
  "map_update_all f m = map (\<lambda>(k, v). (k, f v)) m"

fun set_insert :: "'a::linorder std_set \<Rightarrow> 'a \<Rightarrow> 'a std_set" where
  "set_insert [] x = [x]"
| "set_insert (y # s) x = (if x < y then x # y # s else if x = y then y # s else y # set_insert s x)"

definition set_inv :: "'a::linorder std_set \<Rightarrow> bool" where
  "set_inv s \<longleftrightarrow> sorted_wrt (<) s"

subsection \<open>The contract of an ordered store\<close>

locale ordered_store =
  fixes empty :: "'m"
    and find :: "'m \<Rightarrow> 'k::linorder \<Rightarrow> 'v option"
    and assign :: "'m \<Rightarrow> 'k \<Rightarrow> 'v \<Rightarrow> 'm"
    and emplace :: "'m \<Rightarrow> 'k \<Rightarrow> 'v \<Rightarrow> 'm"
    and entries :: "'m \<Rightarrow> ('k \<times> 'v) list"
    and invar :: "'m \<Rightarrow> bool"
  assumes invar_empty: "invar empty"
    and find_empty: "find empty k = None"
    and find_assign: "find (assign m k v) k' = (if k' = k then Some v else find m k')"
    and invar_assign: "invar m \<Longrightarrow> invar (assign m k v)"
    and emplace_absent: "find m k = None \<Longrightarrow> emplace m k v = assign m k v"
    and emplace_present: "find m k = Some w \<Longrightarrow> emplace m k v = m"
    and entries_find: "invar m \<Longrightarrow> (k, v) \<in> set (entries m) \<longleftrightarrow> find m k = Some v"
    and entries_sorted: "invar m \<Longrightarrow> sorted_wrt (<) (map fst (entries m))"
begin

lemma invar_emplace: "invar m \<Longrightarrow> invar (emplace m k v)"
  by (cases "find m k") (simp_all add: emplace_absent emplace_present invar_assign)

lemma find_emplace:
  "find (emplace m k v) k' = (case find m k of None \<Rightarrow> if k' = k then Some v else find m k' | Some _ \<Rightarrow> find m k')"
  by (cases "find m k") (auto simp: emplace_absent emplace_present find_assign)

lemma emplace_never_overwrites: "find m k' = Some w \<Longrightarrow> find (emplace m k v) k' = Some w"
  by (auto simp: find_emplace split: option.splits)

text \<open>A property of every stored value is kept by \<open>assign\<close> and \<open>emplace\<close> of a good value.\<close>

lemma all_assign:
  assumes "invar m" "\<forall>(k, v)\<in>set (entries m). P k v" "P k v"
  shows "\<forall>(k, v)\<in>set (entries (assign m k v)). P k v"
  using assms by (auto simp: entries_find invar_assign find_assign split: if_splits)

lemma all_emplace:
  assumes "invar m" "\<forall>(k, v)\<in>set (entries m). P k v" "P k v"
  shows "\<forall>(k, v)\<in>set (entries (emplace m k v)). P k v"
  by (cases "find m k") (use all_assign [OF assms] assms(2) in \<open>simp_all add: emplace_absent emplace_present\<close>)

lemma entries_distinct: "invar m \<Longrightarrow> distinct (map fst (entries m))"
  using entries_sorted [of m] strict_sorted_iff by blast

lemma find_unique: "invar m \<Longrightarrow> (k, v) \<in> set (entries m) \<Longrightarrow> (k, w) \<in> set (entries m) \<Longrightarrow> v = w"
  by (simp add: entries_find)

end

subsection \<open>The sorted sequences satisfy it\<close>

lemma map_find_assign [simp]:
  "map_find (map_assign m k v) k' = (if k' = k then Some v else map_find m k')"
  by (induction m k v rule: map_assign.induct) (auto simp: map_find_def)

lemma map_find_Nil [simp]: "map_find [] k = None"
  by (simp add: map_find_def)

lemma fst_map_assign: "fst ` set (map_assign m k v) = insert k (fst ` set m)"
  by (induction m k v rule: map_assign.induct) auto

lemma map_inv_Cons: "map_inv ((k, v) # m) \<longleftrightarrow> (\<forall>k'\<in>fst ` set m. k < k') \<and> map_inv m"
  by (simp add: map_inv_def)

lemma map_inv_Nil [simp]: "map_inv []"
  by (simp add: map_inv_def)

lemma map_inv_assign [simp]: "map_inv m \<Longrightarrow> map_inv (map_assign m k v)"
  by (induction m k v rule: map_assign.induct)
     (auto simp: map_inv_Cons fst_map_assign)

lemma map_find_in: "map_inv m \<Longrightarrow> (k, v) \<in> set m \<longleftrightarrow> map_find m k = Some v"
  unfolding map_inv_def map_find_def strict_sorted_iff by (auto simp: map_of_eq_Some_iff)

interpretation smap: ordered_store "[] :: ('k::linorder, 'v) std_map" map_find map_assign map_emplace "\<lambda>m. m" map_inv
  by unfold_locales (auto simp: map_find_in map_emplace_def, simp add: map_inv_def)

lemma map_assign_above:
  assumes "\<forall>k'\<in>fst ` set m. k' < k"
  shows "map_assign m k v = m @ [(k, v)]"
  using assms by (induction m k v rule: map_assign.induct) auto

lemma map_emplace_above:
  assumes "\<forall>k'\<in>fst ` set m. k' < k"
  shows "map_emplace m k v = m @ [(k, v)]"
proof -
  have "map_find m k = None"
    using assms by (auto simp: map_find_def map_of_eq_None_iff)
  with map_assign_above [OF assms] show ?thesis by (simp add: map_emplace_def)
qed

lemma map_inv_append:
  "map_inv (m @ (k, v) # m') \<Longrightarrow> (\<forall>k'\<in>fst ` set m. k' < k)"
  by (auto simp: map_inv_def sorted_wrt_append)

lemma map_inv_update_all [simp]: "map_inv (map_update_all f m) \<longleftrightarrow> map_inv m"
proof -
  have "map fst (map_update_all f m) = map fst m"
    by (induction m) (auto simp: map_update_all_def)
  then show ?thesis by (simp add: map_inv_def)
qed

lemma map_find_update_all [simp]: "map_find (map_update_all f m) k = map_option f (map_find m k)"
  unfolding map_find_def map_update_all_def by (induction m) auto

lemma map_assign_length:
  "length (map_assign m k v) = (if map_find m k = None then Suc (length m) else length m)" if "map_inv m"
  using that
proof (induction m k v rule: map_assign.induct)
  case (2 k' v' m k v)
  have "k < k' \<Longrightarrow> map_of m k = None"
    using 2(2) by (fastforce simp: map_inv_Cons map_of_eq_None_iff)
  with 2 show ?case by (auto simp: map_inv_Cons map_find_def)
qed (simp add: map_find_def)

lemma map_ext_eq:
  assumes "map_inv m" "map_inv m'" "map_find m = map_find m'"
  shows "m = m'"
proof -
  have "set m = set m'" using assms by (auto simp: map_find_in)
  moreover have "inj_on fst (set m)" "inj_on fst (set m')"
    using assms(1,2) by (auto simp: map_find_in intro!: inj_onI)
  moreover have "map fst m = map fst m'"
    using assms(1,2) \<open>set m = set m'\<close> unfolding map_inv_def
    by (metis list.set_map strict_sorted_equal)
  ultimately show ?thesis by (metis inj_on_map_eq_map Un_absorb)
qed

text \<open>Assignments at different keys commute: a \<open>std::map\<close> has no memory of insertion order.\<close>

lemma map_assign_commute:
  assumes "map_inv m" "k \<noteq> k'"
  shows "map_assign (map_assign m k v) k' v' = map_assign (map_assign m k' v') k v"
  using assms by (intro map_ext_eq) (auto simp: fun_eq_iff)

lemma set_insert_set [simp]: "set (set_insert s x) = insert x (set s)"
  by (induction s x rule: set_insert.induct) auto

lemma set_inv_insert [simp]: "set_inv s \<Longrightarrow> set_inv (set_insert s x)"
  unfolding set_inv_def by (induction s x rule: set_insert.induct) auto

lemma set_insert_above: "\<forall>y\<in>set s. y < x \<Longrightarrow> set_insert s x = s @ [x]"
  by (induction s x rule: set_insert.induct) auto

lemma set_insert_present: "set_inv s \<Longrightarrow> x \<in> set s \<Longrightarrow> set_insert s x = s"
  unfolding set_inv_def by (induction s x rule: set_insert.induct) auto

end
