(* ===== verification/Data_Model.thy ===== *)
theory Data_Model
  imports Ids Domain Std_Map
begin

text \<open>
  The value types of \<open>include/observatory\<close>: measurements, observations, baselines, workload
  descriptors, episodes, pairwise results and the matrix, policies, capabilities, explanations
  and experiment plans, each as a record with the fields of the C++ struct (prefixed by the
  struct's initial) and with the struct's member functions. \<open>default_*\<close> is the value of a
  default-initialised object.
\<close>

subsection \<open>Capabilities (capability.hpp, capability.cpp)\<close>

record capabilities =
  cuda_device_discovery :: bool
  cuda_memory_alloc :: bool
  cuda_h2d :: bool
  cuda_d2h :: bool
  cuda_kernels :: bool
  cuda_events :: bool
  cuda_memory_accounting :: bool
  nvml_utilization :: bool
  pcie_counters :: bool
  cache_counters :: bool
  memory_bandwidth_counters :: bool
  nvlink_counters :: bool
  collective_metrics :: bool
  numa_topology :: bool
  storage_metrics :: bool
  power_clock_telemetry :: bool
  host_cpu_metrics :: bool

definition default_capabilities :: capabilities where
  "default_capabilities = \<lparr>cuda_device_discovery = False, cuda_memory_alloc = False,
     cuda_h2d = False, cuda_d2h = False, cuda_kernels = False, cuda_events = False,
     cuda_memory_accounting = False, nvml_utilization = False, pcie_counters = False,
     cache_counters = False, memory_bandwidth_counters = False, nvlink_counters = False,
     collective_metrics = False, numa_topology = False, storage_metrics = False,
     power_clock_telemetry = False, host_cpu_metrics = False\<rparr>"

definition has_cuda :: "capabilities \<Rightarrow> bool" where
  "has_cuda c \<longleftrightarrow> cuda_device_discovery c \<and> cuda_memory_alloc c \<and> cuda_h2d c \<and> cuda_d2h c \<and>
     cuda_kernels c \<and> cuda_events c"

definition available :: "capabilities \<Rightarrow> string list" where
  "available c =
     (if cuda_device_discovery c then [''CUDA_DEVICE_DISCOVERY''] else []) @
     (if cuda_memory_alloc c then [''CUDA_MEMORY_ALLOC''] else []) @
     (if cuda_h2d c then [''CUDA_H2D''] else []) @
     (if cuda_d2h c then [''CUDA_D2H''] else []) @
     (if cuda_kernels c then [''CUDA_KERNELS''] else []) @
     (if cuda_events c then [''CUDA_EVENTS''] else []) @
     (if cuda_memory_accounting c then [''CUDA_MEMORY_ACCOUNTING''] else []) @
     (if nvml_utilization c then [''NVML_UTILIZATION''] else []) @
     (if pcie_counters c then [''PCIE_COUNTERS''] else []) @
     (if cache_counters c then [''CACHE_COUNTERS''] else []) @
     (if memory_bandwidth_counters c then [''MEMORY_BANDWIDTH_COUNTERS''] else []) @
     (if nvlink_counters c then [''NVLINK_COUNTERS''] else []) @
     (if collective_metrics c then [''COLLECTIVE_METRICS''] else []) @
     (if numa_topology c then [''NUMA_TOPOLOGY''] else []) @
     (if storage_metrics c then [''STORAGE_METRICS''] else []) @
     (if power_clock_telemetry c then [''POWER_CLOCK_TELEMETRY''] else []) @
     (if host_cpu_metrics c then [''HOST_CPU_METRICS''] else [])"

subsection \<open>Metrics (metric.hpp)\<close>

record measurement =
  m_kind :: metric_kind
  m_value :: double
  m_unit :: string
  m_sample_count :: u64
  m_variance :: double
  m_p95 :: double
  m_has_p95 :: bool

definition default_measurement :: measurement where
  "default_measurement = \<lparr>m_kind = Metric_Latency, m_value = f64_zero, m_unit = [],
     m_sample_count = 1, m_variance = f64_zero, m_p95 = f64_zero, m_has_p95 = False\<rparr>"

definition measurement_is_valid :: "measurement \<Rightarrow> bool" where
  "measurement_is_valid m =
     (if \<not> is_finite_nonneg (m_value m) then False
      else if m_sample_count m = 0 then False
      else if \<not> is_finite_nonneg (m_variance m) then False
      else True)"

record metric_delta =
  d_kind :: metric_kind
  d_absolute :: double
  d_relative :: double
  d_sample_count :: u64
  d_variance :: double

text \<open>\<open>operator==\<close> on \<open>MetricDelta\<close>; it does not compare the variance.\<close>

definition metric_delta_eq :: "metric_delta \<Rightarrow> metric_delta \<Rightarrow> bool" where
  "metric_delta_eq a b \<longleftrightarrow> d_kind a = d_kind b \<and> f64_eq (d_absolute a) (d_absolute b) \<and>
     f64_eq (d_relative a) (d_relative b) \<and> d_sample_count a = d_sample_count b"

record degradation =
  g_deltas :: "metric_delta list"
  g_sample_count :: u64
  g_worst_relative :: double

definition default_degradation :: degradation where
  "default_degradation = \<lparr>g_deltas = [], g_sample_count = 0, g_worst_relative = f64_zero\<rparr>"

definition degradation_empty :: "degradation \<Rightarrow> bool" where
  "degradation_empty g \<longleftrightarrow> g_deltas g = []"

fun find_delta :: "metric_delta list \<Rightarrow> metric_kind \<Rightarrow> metric_delta option" where
  "find_delta [] k = None"
| "find_delta (d # ds) k = (if d_kind d = k then Some d else find_delta ds k)"

definition degradation_find :: "degradation \<Rightarrow> metric_kind \<Rightarrow> metric_delta option" where
  "degradation_find g k = find_delta (g_deltas g) k"

subsection \<open>Observations (observation.hpp)\<close>

record observation =
  o_id :: ObservationId
  o_generation :: ObservationGeneration
  o_source_id :: SourceId
  o_source_generation :: SourceGeneration
  o_worker_id :: WorkerId
  o_worker_boot :: WorkerBootId
  o_workload_id :: WorkloadId
  o_workload_generation :: WorkloadGeneration
  o_device_id :: DeviceId
  o_device_generation :: DeviceGeneration
  o_timestamp_ms :: i64
  o_measurement :: measurement
  o_provenance :: provenance
  o_freshness :: freshness
  o_source_health :: source_health
  o_capabilities :: capabilities
  o_co_run_peers :: "WorkloadId list"
  o_confounders :: "confounder list"

definition default_observation :: observation where
  "default_observation = \<lparr>o_id = nil_id, o_generation = nil_id, o_source_id = nil_id,
     o_source_generation = nil_id, o_worker_id = nil_id, o_worker_boot = nil_id,
     o_workload_id = nil_id, o_workload_generation = nil_id, o_device_id = nil_id,
     o_device_generation = nil_id, o_timestamp_ms = 0, o_measurement = default_measurement,
     o_provenance = Provenance_Unknown, o_freshness = Freshness_Current,
     o_source_health = Health_Unknown, o_capabilities = default_capabilities,
     o_co_run_peers = [], o_confounders = []\<rparr>"

subsection \<open>Baselines (baseline.hpp)\<close>

record baseline =
  b_id :: BaselineId
  b_generation :: BaselineGeneration
  b_type :: baseline_type
  b_workload_id :: WorkloadId
  b_workload_generation :: WorkloadGeneration
  b_device_id :: DeviceId
  b_device_generation :: DeviceGeneration
  b_worker_id :: WorkerId
  b_worker_boot :: WorkerBootId
  b_config_fingerprint :: string
  b_problem_size_fingerprint :: string
  b_runtime_generation :: string
  b_kernel_generation :: string
  b_policy_generation :: string
  b_topology_generation :: TopologyGeneration
  b_source_generation :: SourceGeneration
  b_evidence_generation :: EvidenceGeneration
  b_timestamp_ms :: i64
  b_interval_ms :: i64
  b_provenance :: provenance
  b_freshness :: freshness
  b_sample_count :: u64
  b_variance :: double
  b_confidence :: double
  b_mean_value :: double
  b_metric_kind :: metric_kind
  b_valid :: bool

definition default_baseline :: baseline where
  "default_baseline = \<lparr>b_id = nil_id, b_generation = nil_id, b_type = BaselineType_Isolated,
     b_workload_id = nil_id, b_workload_generation = nil_id, b_device_id = nil_id,
     b_device_generation = nil_id, b_worker_id = nil_id, b_worker_boot = nil_id,
     b_config_fingerprint = [], b_problem_size_fingerprint = [], b_runtime_generation = [],
     b_kernel_generation = [], b_policy_generation = [], b_topology_generation = nil_id,
     b_source_generation = nil_id, b_evidence_generation = nil_id, b_timestamp_ms = 0,
     b_interval_ms = 0, b_provenance = Provenance_Controlled, b_freshness = Freshness_Current,
     b_sample_count = 0, b_variance = f64_zero, b_confidence = f64_one, b_mean_value = f64_zero,
     b_metric_kind = Metric_Latency, b_valid = True\<rparr>"

record binding =
  g_workload_generation :: WorkloadGeneration
  g_device_generation :: DeviceGeneration
  g_worker_boot :: WorkerBootId
  g_config_fingerprint :: string
  g_problem_size_fingerprint :: string
  g_runtime_generation :: string
  g_kernel_generation :: string
  g_policy_generation :: string
  g_topology_generation :: TopologyGeneration

definition baseline_binding :: "baseline \<Rightarrow> binding" where
  "baseline_binding b = \<lparr>g_workload_generation = b_workload_generation b,
     g_device_generation = b_device_generation b, g_worker_boot = b_worker_boot b,
     g_config_fingerprint = b_config_fingerprint b,
     g_problem_size_fingerprint = b_problem_size_fingerprint b,
     g_runtime_generation = b_runtime_generation b, g_kernel_generation = b_kernel_generation b,
     g_policy_generation = b_policy_generation b, g_topology_generation = b_topology_generation b\<rparr>"

definition binding_matches :: "baseline \<Rightarrow> binding \<Rightarrow> bool" where
  "binding_matches b g \<longleftrightarrow>
     b_workload_generation b = g_workload_generation g \<and>
     b_device_generation b = g_device_generation g \<and>
     b_worker_boot b = g_worker_boot g \<and>
     b_config_fingerprint b = g_config_fingerprint g \<and>
     b_problem_size_fingerprint b = g_problem_size_fingerprint g \<and>
     b_runtime_generation b = g_runtime_generation g \<and>
     b_kernel_generation b = g_kernel_generation g \<and>
     b_policy_generation b = g_policy_generation g \<and>
     b_topology_generation b = g_topology_generation g"

definition is_usable :: "baseline \<Rightarrow> bool" where
  "is_usable b \<longleftrightarrow> b_valid b \<and> b_sample_count b > 0 \<and> f64_lt f64_zero (b_confidence b) \<and>
     is_finite_nonneg (b_mean_value b)"

subsection \<open>Workloads (workload.hpp)\<close>

record workload_descriptor =
  wl_id :: WorkloadId
  wl_generation :: WorkloadGeneration
  wl_name :: string
  wl_config_fingerprint :: string
  wl_problem_size_fingerprint :: string
  wl_device_id :: DeviceId
  wl_device_generation :: DeviceGeneration
  wl_worker_id :: WorkerId
  wl_worker_boot :: WorkerBootId
  wl_policy_generation :: string
  wl_runtime_generation :: string
  wl_kernel_generation :: string
  wl_topology_generation :: TopologyGeneration
  wl_start_ms :: i64
  wl_end_ms :: i64
  wl_attempt_id :: u64
  wl_priority_class :: string

definition workload_compatible :: "workload_descriptor \<Rightarrow> workload_descriptor \<Rightarrow> bool" where
  "workload_compatible w w' \<longleftrightarrow>
     wl_generation w = wl_generation w' \<and>
     wl_config_fingerprint w = wl_config_fingerprint w' \<and>
     wl_problem_size_fingerprint w = wl_problem_size_fingerprint w' \<and>
     wl_device_id w = wl_device_id w' \<and>
     wl_device_generation w = wl_device_generation w' \<and>
     wl_worker_boot w = wl_worker_boot w' \<and>
     wl_policy_generation w = wl_policy_generation w' \<and>
     wl_runtime_generation w = wl_runtime_generation w' \<and>
     wl_kernel_generation w = wl_kernel_generation w' \<and>
     wl_topology_generation w = wl_topology_generation w'"

definition workload_binding :: "workload_descriptor \<Rightarrow> binding" where
  "workload_binding w = \<lparr>g_workload_generation = wl_generation w,
     g_device_generation = wl_device_generation w, g_worker_boot = wl_worker_boot w,
     g_config_fingerprint = wl_config_fingerprint w,
     g_problem_size_fingerprint = wl_problem_size_fingerprint w,
     g_runtime_generation = wl_runtime_generation w, g_kernel_generation = wl_kernel_generation w,
     g_policy_generation = wl_policy_generation w, g_topology_generation = wl_topology_generation w\<rparr>"

subsection \<open>Episodes (episode.hpp)\<close>

record evidence =
  v_id :: EvidenceId
  v_generation :: EvidenceGeneration
  v_provenance :: provenance
  v_strength :: attribution_strength
  v_outcome :: outcome
  v_summary :: string

record episode =
  e_id :: EpisodeId
  e_generation :: EpisodeGeneration
  e_start_ms :: i64
  e_end_ms :: i64
  e_open :: bool
  e_affected :: WorkloadId
  e_co_running :: "WorkloadId list"
  e_domains :: "interference_domain list"
  e_baseline_id :: BaselineId
  e_degradation :: degradation
  e_evidence :: "evidence list"
  e_confidence :: double
  e_classification :: outcome
  e_provenance :: provenance
  e_freshness :: freshness
  e_epoch :: CoordinatorEpoch

subsection \<open>Pairwise results and the matrix (pairwise.hpp)\<close>

record pairwise =
  p_victim :: WorkloadId
  p_neighbor :: WorkloadId
  p_domain :: interference_domain
  p_baseline_id :: BaselineId
  p_degradation :: degradation
  p_confidence :: double
  p_sample_count :: u64
  p_freshness :: freshness
  p_outcome :: outcome
  p_attribution :: attribution_strength
  p_episode_id :: EpisodeId
  p_comparison_id :: ComparisonId
  p_comparison_generation :: ComparisonGeneration
  p_epoch :: CoordinatorEpoch
  p_evidence_sources :: "provenance list"
  p_confounded :: bool
  p_unresolved_confounders :: "confounder list"

definition default_pairwise :: pairwise where
  "default_pairwise = \<lparr>p_victim = nil_id, p_neighbor = nil_id, p_domain = Domain_Unknown,
     p_baseline_id = nil_id, p_degradation = default_degradation, p_confidence = f64_zero,
     p_sample_count = 0, p_freshness = Freshness_Unknown, p_outcome = Outcome_Unknown,
     p_attribution = Attribution_Unknown, p_episode_id = nil_id, p_comparison_id = nil_id,
     p_comparison_generation = nil_id, p_epoch = nil_id, p_evidence_sources = [],
     p_confounded = False, p_unresolved_confounders = []\<rparr>"

datatype cell_key = CellKey (k_victim: WorkloadId) (k_neighbor: WorkloadId) (k_domain: interference_domain)

text \<open>\<open>operator<\<close> on \<open>CellKey\<close>, the order of the matrix.\<close>

definition cell_key_lt :: "cell_key \<Rightarrow> cell_key \<Rightarrow> bool" where
  "cell_key_lt a b =
     (if k_victim a \<noteq> k_victim b then k_victim a < k_victim b
      else if k_neighbor a \<noteq> k_neighbor b then k_neighbor a < k_neighbor b
      else k_domain a < k_domain b)"

instantiation cell_key :: linorder
begin

definition less_cell_key :: "cell_key \<Rightarrow> cell_key \<Rightarrow> bool" where
  "less_cell_key a b = cell_key_lt a b"

definition less_eq_cell_key :: "cell_key \<Rightarrow> cell_key \<Rightarrow> bool" where
  "less_eq_cell_key a b \<longleftrightarrow> a < b \<or> a = b"

instance
proof
  fix x y :: cell_key
  show "x \<le> y \<or> y \<le> x"
    by (cases x; cases y) (auto simp: less_cell_key_def cell_key_lt_def less_eq_cell_key_def)
qed (auto simp: less_cell_key_def cell_key_lt_def less_eq_cell_key_def split: if_splits)

end

type_synonym matrix = "(cell_key, pairwise) std_map"

definition matrix_set :: "matrix \<Rightarrow> cell_key \<Rightarrow> pairwise \<Rightarrow> matrix" where
  "matrix_set m key value = map_assign m key value"

definition matrix_get :: "matrix \<Rightarrow> cell_key \<Rightarrow> pairwise option" where
  "matrix_get m key = map_find m key"

subsection \<open>Policy (policy.hpp)\<close>

record policy =
  potential_threshold :: double
  detected_threshold :: double
  severe_threshold :: double
  min_samples :: u64
  min_confidence :: double
  stale_after_ms :: i64
  max_age_ms :: i64
  allow_no_evidence_to_be_unknown :: bool

definition default_policy :: policy where
  "default_policy = \<lparr>potential_threshold = f64_lit 2 100, detected_threshold = f64_lit 10 100,
     severe_threshold = f64_lit 50 100, min_samples = 3, min_confidence = f64_lit 60 100,
     stale_after_ms = 15 * 60 * 1000, max_age_ms = 60 * 60 * 1000,
     allow_no_evidence_to_be_unknown = True\<rparr>"

definition policy_isValid :: "policy \<Rightarrow> bool" where
  "policy_isValid p \<longleftrightarrow>
     f64_le f64_zero (potential_threshold p) \<and>
     f64_le (potential_threshold p) (detected_threshold p) \<and>
     f64_le (detected_threshold p) (severe_threshold p) \<and> 1 \<le> min_samples p \<and>
     f64_le f64_zero (min_confidence p) \<and> f64_le (min_confidence p) f64_one"

subsection \<open>Explanations (explanation.hpp)\<close>

record explanation =
  x_affected :: WorkloadId
  x_associated :: "WorkloadId list"
  x_domain :: interference_domain
  x_baseline_id :: BaselineId
  x_has_baseline :: bool
  x_degradation :: degradation
  x_sample_count :: u64
  x_variance :: double
  x_timeline_overlap_fraction :: double
  x_confounders_checked :: "confounder list"
  x_confounders_unresolved :: "confounder list"
  x_provenance :: provenance
  x_freshness :: freshness
  x_confidence :: double
  x_attribution :: attribution_strength
  x_outcome :: outcome
  x_supporting_observations :: "ObservationId list"
  x_unknown_components :: "string list"
  x_what_would_strengthen_evidence :: "string list"
  x_authority_only :: bool

definition default_explanation :: explanation where
  "default_explanation = \<lparr>x_affected = nil_id, x_associated = [], x_domain = Domain_Unknown,
     x_baseline_id = nil_id, x_has_baseline = False, x_degradation = default_degradation,
     x_sample_count = 0, x_variance = f64_zero, x_timeline_overlap_fraction = f64_zero,
     x_confounders_checked = [], x_confounders_unresolved = [], x_provenance = Provenance_Unknown,
     x_freshness = Freshness_Unknown, x_confidence = f64_zero,
     x_attribution = Attribution_Unknown, x_outcome = Outcome_Unknown,
     x_supporting_observations = [], x_unknown_components = [],
     x_what_would_strengthen_evidence = [], x_authority_only = True\<rparr>"

subsection \<open>Experiments (experiment.hpp)\<close>

record experiment_plan =
  plan_id :: ExperimentId
  plan_generation :: ExperimentGeneration
  plan_primary :: WorkloadId
  plan_neighbor :: WorkloadId
  plan_domain :: interference_domain
  plan_launch_order :: launch_order
  plan_warmup :: bool
  plan_warmup_repetitions :: u64
  plan_repetitions :: u64
  plan_start_ms :: i64
  plan_end_ms :: i64

definition total_trials :: "experiment_plan \<Rightarrow> u64" where
  "total_trials p = plan_repetitions p + (if plan_warmup p then plan_warmup_repetitions p else 0)"

record experiment_result =
  res_experiment_id :: ExperimentId
  res_generation :: ExperimentGeneration
  res_primary_as_victim :: "pairwise option"
  res_neighbor_as_victim :: "pairwise option"
  res_repetitions_executed :: u64
  res_complete :: bool

subsection \<open>Bindings\<close>

text \<open>A baseline matches a binding exactly when it would itself produce that binding.\<close>

lemma binding_matches_iff: "binding_matches b g \<longleftrightarrow> baseline_binding b = g"
  by (auto simp: binding_matches_def baseline_binding_def)

lemma workload_compatible_binding:
  "workload_compatible w w' \<longleftrightarrow> workload_binding w = workload_binding w' \<and> wl_device_id w = wl_device_id w'"
  by (auto simp: workload_compatible_def workload_binding_def)

end
