(* ===== verification/Codec.thy ===== *)
theory Codec
  imports Ids Domain
begin

text \<open>
  The bounded binary codec: \<open>Writer\<close> and \<open>Reader\<close> of \<open>observatory.cpp\<close> (the copies in
  \<open>protocol.hpp\<close> have the same member functions and the same 16 MiB string bound). A writer
  call appends bytes, so it is the list of bytes it appends. A reader call is an action of the
  state monad over the reader's fields; on a short buffer it clears \<open>ok\<close> and returns a partial
  value, exactly as the source does, and reading goes on.

  \<open>parses m bs v\<close> says that action \<open>m\<close>, started at bytes \<open>bs\<close>, consumes exactly them and
  yields \<open>v\<close>. The locale \<open>codec\<close> is the contract between a writer and a reader; its
  interpretations give the round trip of every field type.
\<close>

subsection \<open>Writer\<close>

definition w_u8 :: "byte \<Rightarrow> bytes" where
  "w_u8 v = [v]"

text \<open>\<open>for (i < n) { push_back(v & 0xFF); v >>= 8; }\<close>\<close>

primrec w_le :: "nat \<Rightarrow> 'a::len word \<Rightarrow> bytes" where
  "w_le 0 v = []"
| "w_le (Suc n) v = ucast (v AND 0xFF) # w_le n (drop_bit 8 v)"

definition w_u32 :: "u32 \<Rightarrow> bytes" where
  "w_u32 v = w_le 4 v"

definition w_u64 :: "u64 \<Rightarrow> bytes" where
  "w_u64 v = w_le 8 v"

definition w_i64 :: "i64 \<Rightarrow> bytes" where
  "w_i64 v = w_u64 v"

definition w_f64 :: "double \<Rightarrow> bytes" where
  "w_f64 v = w_u64 (f64_bits v)"

definition w_flag :: "bool \<Rightarrow> bytes" where
  "w_flag v = w_u8 (if v then 1 else 0)"

text \<open>\<open>static_cast<std::uint8_t>(c)\<close> and its inverse, on the bytes of a string.\<close>

definition char_u8 :: "char \<Rightarrow> byte" where
  "char_u8 c = of_nat (of_char c)"

definition u8_char :: "byte \<Rightarrow> char" where
  "u8_char b = char_of (unat b)"

definition w_str :: "string \<Rightarrow> bytes" where
  "w_str s = w_u64 (of_nat (length s)) @ concat (map (\<lambda>c. w_u8 (char_u8 c)) s)"

definition w_id :: "'tag id \<Rightarrow> bytes" where
  "w_id v = w_u64 (id_value v)"

text \<open>\<open>en(e)\<close> writes \<open>static_cast<std::uint8_t>(e)\<close>.\<close>

definition w_en :: "('e \<Rightarrow> byte) \<Rightarrow> 'e \<Rightarrow> bytes" where
  "w_en to_u8 e = w_u8 (to_u8 e)"

subsection \<open>Reader\<close>

record reader =
  rd_buf :: bytes
  rd_pos :: nat
  rd_ok :: bool

type_synonym 'a rd = "(reader, 'a) state"

definition reader_of :: "bytes \<Rightarrow> reader" where
  "reader_of p = \<lparr>rd_buf = p, rd_pos = 0, rd_ok = True\<rparr>"

definition rd_need :: "reader \<Rightarrow> nat \<Rightarrow> bool" where
  "rd_need r k \<longleftrightarrow> rd_pos r + k \<le> length (rd_buf r)"

definition r_u8 :: "byte rd" where
  "r_u8 = State (\<lambda>r. if \<not> rd_need r 1 then (0, r\<lparr>rd_ok := False\<rparr>)
     else (rd_buf r ! rd_pos r, r\<lparr>rd_pos := rd_pos r + 1\<rparr>))"

text \<open>The loop shared by \<open>u32\<close> and \<open>u64\<close>: \<open>v |= (T)p[pos++] << (i * 8)\<close>.\<close>

primrec r_le :: "nat \<Rightarrow> nat \<Rightarrow> 'a::len word \<Rightarrow> reader \<Rightarrow> 'a word \<times> reader" where
  "r_le 0 i v r = (v, r)"
| "r_le (Suc n) i v r =
     (if \<not> rd_need r 1 then (v, r\<lparr>rd_ok := False\<rparr>)
      else r_le n (i + 1) (v OR push_bit (i * 8) (ucast (rd_buf r ! rd_pos r)))
             (r\<lparr>rd_pos := rd_pos r + 1\<rparr>))"

definition r_u32 :: "u32 rd" where
  "r_u32 = State (r_le 4 0 0)"

definition r_u64 :: "u64 rd" where
  "r_u64 = State (r_le 8 0 0)"

definition r_i64 :: "i64 rd" where
  "r_i64 = r_u64"

definition r_f64 :: "double rd" where
  "r_f64 = do { bits \<leftarrow> r_u64; State_Monad.return (F64 bits) }"

definition r_flag :: "bool rd" where
  "r_flag = do { b \<leftarrow> r_u8; State_Monad.return (b \<noteq> 0) }"

definition max_str :: u64 where
  "max_str = 16 * 1024 * 1024"

definition r_str_body :: "u64 \<Rightarrow> string rd" where
  "r_str_body len = State (\<lambda>r.
     if \<not> rd_ok r \<or> len > max_str then ([], r\<lparr>rd_ok := False\<rparr>)
     else if \<not> rd_need r (unat len) then ([], r\<lparr>rd_ok := False\<rparr>)
     else (map u8_char (take (unat len) (drop (rd_pos r) (rd_buf r))),
           r\<lparr>rd_pos := rd_pos r + unat len\<rparr>))"

definition r_str :: "string rd" where
  "r_str = do { len \<leftarrow> r_u64; r_str_body len }"

definition r_id :: "'tag id rd" where
  "r_id = do { v \<leftarrow> r_u64; State_Monad.return (Id v) }"

definition r_en :: "(byte \<Rightarrow> 'e) \<Rightarrow> 'e rd" where
  "r_en of_u8 = do { b \<leftarrow> r_u8; State_Monad.return (of_u8 b) }"

text \<open>\<open>for (j = 0; j < n && r.ok; ++j) xs.push_back(m());\<close>\<close>

primrec r_list :: "nat \<Rightarrow> 'a rd \<Rightarrow> 'a list rd" where
  "r_list 0 m = State_Monad.return []"
| "r_list (Suc n) m = State (\<lambda>r.
     if \<not> rd_ok r then ([], r)
     else run_state (do { x \<leftarrow> m; xs \<leftarrow> r_list n m; State_Monad.return (x # xs) }) r)"

text \<open>\<open>finish()\<close> of the protocol's reader: every byte must have been consumed.\<close>

definition r_finish :: "unit rd" where
  "r_finish = State (\<lambda>r. ((), if rd_pos r \<noteq> length (rd_buf r) then r\<lparr>rd_ok := False\<rparr> else r))"

subsection \<open>Little-endian words\<close>

lemma w_le_length [simp]: "length (w_le n v) = n"
  by (induction n arbitrary: v) simp_all

lemma take_bit_low_byte:
  "push_bit (8 * i) (ucast (ucast (v AND 0xFF) :: byte) :: 'a::len word) OR
     push_bit (8 * Suc i) (take_bit (8 * n) (drop_bit 8 v)) =
   push_bit (8 * i) (take_bit (8 * Suc n) (v :: 'a::len word))"
proof (rule bit_word_eqI)
  fix k
  assume "k < LENGTH('a)"
  have ff: "v AND 0xFF = take_bit 8 v" by (simp add: take_bit_eq_mask mask_eq_exp_minus_1)
  have ar: "\<not> k - 8 * i < 8 \<Longrightarrow> 8 + (k - (8 + 8 * i)) = k - 8 * i" by arith
  show "bit (push_bit (8 * i) (ucast (ucast (v AND 0xFF) :: byte) :: 'a word) OR
     push_bit (8 * Suc i) (take_bit (8 * n) (drop_bit 8 v))) k =
    bit (push_bit (8 * i) (take_bit (8 * Suc n) v)) k"
    using \<open>k < LENGTH('a)\<close> ar unfolding ff
    by (cases "k - 8 * i < 8")
      (auto simp: bit_or_iff bit_push_bit_iff bit_take_bit_iff bit_drop_bit_eq bit_ucast_iff)
qed

lemma r_le_w_le:
  assumes "drop (rd_pos r) (rd_buf r) = w_le n v @ rest"
  shows "r_le n i acc r =
    (acc OR push_bit (8 * i) (take_bit (8 * n) v), r\<lparr>rd_pos := rd_pos r + n\<rparr>)"
  using assms
proof (induction n arbitrary: v i acc r)
  case 0
  then show ?case by simp
next
  case (Suc n)
  note d = drop_eq_ConsD [OF Suc.prems [unfolded w_le.simps append_Cons]]
  have need: "rd_need r 1" using d(1) by (simp add: rd_need_def)
  have "r_le (Suc n) i acc r =
    r_le n (i + 1) (acc OR push_bit (i * 8) (ucast (ucast (v AND 0xFF) :: byte)))
      (r\<lparr>rd_pos := rd_pos r + 1\<rparr>)"
    using need d(2) by simp
  also have "\<dots> = ((acc OR push_bit (i * 8) (ucast (ucast (v AND 0xFF) :: byte))) OR
      push_bit (8 * (i + 1)) (take_bit (8 * n) (drop_bit 8 v)), r\<lparr>rd_pos := rd_pos r + 1 + n\<rparr>)"
    by (subst Suc.IH [of _ "drop_bit 8 v"]) (use d(3) in \<open>simp_all add: or.assoc\<close>)
  also have "\<dots> = (acc OR push_bit (8 * i) (take_bit (8 * Suc n) v), r\<lparr>rd_pos := rd_pos r + Suc n\<rparr>)"
    using take_bit_low_byte [of i v n] by (simp add: or.assoc mult.commute)
  finally show ?case .
qed

subsection \<open>The round-trip relation\<close>

definition rd_at :: "reader \<Rightarrow> bytes \<Rightarrow> bool" where
  "rd_at r bs \<longleftrightarrow> rd_ok r \<and> rd_pos r \<le> length (rd_buf r) \<and> drop (rd_pos r) (rd_buf r) = bs"

definition parses :: "'a rd \<Rightarrow> bytes \<Rightarrow> 'a \<Rightarrow> bool" where
  "parses m bs v \<longleftrightarrow> (\<forall>r rest. rd_at r (bs @ rest) \<longrightarrow>
     run_state m r = (v, r\<lparr>rd_pos := rd_pos r + length bs\<rparr>))"

lemma parsesI:
  assumes "\<And>r rest. rd_at r (bs @ rest) \<Longrightarrow> run_state m r = (v, r\<lparr>rd_pos := rd_pos r + length bs\<rparr>)"
  shows "parses m bs v"
  using assms by (simp add: parses_def)

lemma parsesD:
  "parses m bs v \<Longrightarrow> rd_at r (bs @ rest) \<Longrightarrow>
     run_state m r = (v, r\<lparr>rd_pos := rd_pos r + length bs\<rparr>)"
  unfolding parses_def by blast

lemma rd_at_advance:
  assumes "rd_at r (bs @ rest)"
  shows "rd_at (r\<lparr>rd_pos := rd_pos r + length bs\<rparr>) rest"
proof -
  have "length (rd_buf r) - rd_pos r = length bs + length rest"
    using assms by (metis length_append length_drop rd_at_def)
  with assms show ?thesis
    by (auto simp: rd_at_def add.commute [of _ "length bs"] drop_drop [symmetric])
qed

lemma parses_return: "v = w \<Longrightarrow> parses (State_Monad.return v) [] w"
  by (simp add: parses_def)

lemma parses_bind:
  assumes "parses m bs v" "parses (f v) cs w"
  shows "parses (State_Monad.bind m f) (bs @ cs) w"
proof (rule parsesI)
  fix r :: reader and rest :: bytes
  assume at: "rd_at r ((bs @ cs) @ rest)"
  then have at': "rd_at r (bs @ cs @ rest)" by simp
  show "run_state (State_Monad.bind m f) r = (w, r\<lparr>rd_pos := rd_pos r + length (bs @ cs)\<rparr>)"
    using parsesD [OF assms(1) at'] parsesD [OF assms(2) rd_at_advance [OF at']]
    by (simp add: add.assoc)
qed

lemma parses_map:
  assumes "parses m bs v" "g v = w"
  shows "parses (State_Monad.bind m (\<lambda>x. State_Monad.return (g x))) bs w"
  using parses_bind [OF assms(1), of "\<lambda>x. State_Monad.return (g x)" "[]"] assms(2)
  by (simp add: parses_return)

subsection \<open>The codec contract\<close>

locale codec =
  fixes enc :: "'a \<Rightarrow> bytes" and dec :: "'a rd" and dom :: "'a \<Rightarrow> bool"
  assumes parses: "dom v \<Longrightarrow> parses dec (enc v) v"
begin

lemma parses_list:
  assumes "\<forall>x\<in>set xs. dom x"
  shows "parses (r_list (length xs) dec) (concat (map enc xs)) xs"
  using assms
proof (induction xs)
  case Nil
  then show ?case by (simp add: parses_return)
next
  case (Cons x xs)
  let ?body = "State_Monad.bind dec (\<lambda>x. State_Monad.bind (r_list (length xs) dec) (\<lambda>xs. State_Monad.return (x # xs)))"
  have "parses ?body (enc x @ concat (map enc xs)) (x # xs)"
    using Cons parses [of x] by (intro parses_bind parses_map) simp_all
  moreover have "rd_at r bs \<Longrightarrow> run_state (r_list (length (x # xs)) dec) r = run_state ?body r" for r bs
    by (simp add: rd_at_def)
  ultimately show ?case by (auto simp: parses_def simp del: r_list.simps)
qed

text \<open>Two encodings that a reader consumes alike are encodings of the same value: the writer is
  injective, also when more bytes follow.\<close>

lemma enc_inj:
  assumes "dom v" "dom w" "enc v @ xs = enc w @ ys"
  shows "v = w"
proof -
  let ?r = "reader_of (enc v @ xs)"
  have "run_state dec ?r = (v, ?r\<lparr>rd_pos := rd_pos ?r + length (enc v)\<rparr>)"
    by (rule parsesD [OF parses [OF assms(1)]]) (simp_all add: reader_of_def rd_at_def)
  moreover have "run_state dec ?r = (w, ?r\<lparr>rd_pos := rd_pos ?r + length (enc w)\<rparr>)"
    by (rule parsesD [OF parses [OF assms(2)]]) (simp_all add: reader_of_def rd_at_def assms(3))
  ultimately show ?thesis by simp
qed

end

subsection \<open>Field codecs\<close>

lemma parses_u8 [codec_intros]: "parses r_u8 (w_u8 v) v"
  by (rule parsesI) (auto simp: rd_at_def r_u8_def w_u8_def rd_need_def Suc_le_eq dest: drop_eq_ConsD)

lemma parses_u32 [codec_intros]: "parses r_u32 (w_u32 v) v"
proof (rule parsesI)
  fix r :: reader and rest :: bytes
  assume "rd_at r (w_u32 v @ rest)"
  then have "drop (rd_pos r) (rd_buf r) = w_le 4 v @ rest" by (simp add: rd_at_def w_u32_def)
  from r_le_w_le [OF this, of 0 0]
  show "run_state r_u32 r = (v, r\<lparr>rd_pos := rd_pos r + length (w_u32 v)\<rparr>)"
    by (simp add: r_u32_def w_u32_def take_bit_word_eq_self)
qed

lemma parses_u64 [codec_intros]: "parses r_u64 (w_u64 v) v"
proof (rule parsesI)
  fix r :: reader and rest :: bytes
  assume "rd_at r (w_u64 v @ rest)"
  then have "drop (rd_pos r) (rd_buf r) = w_le 8 v @ rest" by (simp add: rd_at_def w_u64_def)
  from r_le_w_le [OF this, of 0 0]
  show "run_state r_u64 r = (v, r\<lparr>rd_pos := rd_pos r + length (w_u64 v)\<rparr>)"
    by (simp add: r_u64_def w_u64_def take_bit_word_eq_self)
qed

lemma parses_i64 [codec_intros]: "parses r_i64 (w_i64 v) v"
  by (simp add: r_i64_def w_i64_def parses_u64)

lemma parses_f64 [codec_intros]: "parses r_f64 (w_f64 v) v"
  unfolding r_f64_def w_f64_def by (rule parses_map [OF parses_u64]) simp

lemma parses_flag [codec_intros]: "parses r_flag (w_flag v) v"
  unfolding r_flag_def w_flag_def by (rule parses_map [OF parses_u8]) simp

lemma parses_id [codec_intros]: "parses r_id (w_id v) v"
  unfolding r_id_def w_id_def by (rule parses_map [OF parses_u64]) simp

lemma parses_en [codec_intros]:
  "canonical to_u8 of_u8 e \<Longrightarrow> parses (r_en of_u8) (w_en to_u8 e) e"
  unfolding r_en_def w_en_def by (rule parses_map [OF parses_u8]) (simp add: canonical_def)

definition str_ok :: "string \<Rightarrow> bool" where
  "str_ok s \<longleftrightarrow> length s \<le> 16 * 1024 * 1024"

lemma u8_char_u8 [simp]: "u8_char (char_u8 c) = c"
proof -
  have "unat (of_nat (of_char c) :: byte) = of_char c"
    by (simp add: unat_of_nat)
  then show ?thesis by (simp add: u8_char_def char_u8_def)
qed

lemma concat_w_u8: "concat (map (\<lambda>c. w_u8 (f c)) s) = map f s"
  by (induction s) (simp_all add: w_u8_def)

lemma parses_str [codec_intros]: "str_ok s \<Longrightarrow> parses r_str (w_str s) s"
proof -
  assume s: "str_ok s"
  let ?len = "of_nat (length s) :: u64"
  have len: "unat ?len = length s" "?len \<le> max_str"
    using s by (simp_all add: str_ok_def max_str_def unat_of_nat word_le_nat_alt)
  have inv: "map (u8_char \<circ> char_u8) s = s"
    by (rule map_idI) simp
  have "parses (r_str_body ?len) (map char_u8 s) s"
  proof (rule parsesI)
    fix r :: reader and rest :: bytes
    assume at: "rd_at r (map char_u8 s @ rest)"
    then have "length (rd_buf r) - rd_pos r = length s + length rest"
      by (metis length_append length_drop length_map rd_at_def)
    with at have "rd_need r (length s)" by (auto simp: rd_need_def rd_at_def)
    then show "run_state (r_str_body ?len) r = (s, r\<lparr>rd_pos := rd_pos r + length (map char_u8 s)\<rparr>)"
      using at len inv by (auto simp: r_str_body_def rd_at_def not_less)
  qed
  then show ?thesis
    unfolding r_str_def w_str_def concat_w_u8 by (rule parses_bind [OF parses_u64])
qed

interpretation u8_codec: codec w_u8 r_u8 "\<lambda>_. True"
  by unfold_locales (rule parses_u8)

interpretation u64_codec: codec w_u64 r_u64 "\<lambda>_. True"
  by unfold_locales (rule parses_u64)

interpretation f64_codec: codec w_f64 r_f64 "\<lambda>_. True"
  by unfold_locales (rule parses_f64)

interpretation id_codec: codec "w_id :: 'tag id \<Rightarrow> bytes" r_id "\<lambda>_. True"
  by unfold_locales (rule parses_id)

interpretation str_codec: codec w_str r_str str_ok
  by unfold_locales (rule parses_str)

interpretation domain_codec: codec "w_en interference_domain_u8" "r_en interference_domain_of_u8"
    "canonical interference_domain_u8 interference_domain_of_u8"
  by unfold_locales (rule parses_en)

interpretation provenance_enc: codec "w_en provenance_u8" "r_en provenance_of_u8"
    "canonical provenance_u8 provenance_of_u8"
  by unfold_locales (rule parses_en)

interpretation confounder_enc: codec "w_en confounder_u8" "r_en confounder_of_u8"
    "canonical confounder_u8 confounder_of_u8"
  by unfold_locales (rule parses_en)

subsection \<open>Lengths\<close>

lemma w_lengths [simp]:
  "length (w_u8 v) = 1" "length (w_u32 x) = 4" "length (w_u64 y) = 8" "length (w_i64 z) = 8"
  "length (w_f64 d) = 8" "length (w_flag c) = 1" "length (w_id i) = 8" "length (w_en e t) = 1"
  "length (w_str s) = 8 + length s"
  by (simp_all add: w_u8_def w_u32_def w_u64_def w_i64_def w_f64_def w_flag_def w_id_def w_en_def w_str_def concat_w_u8)

end
