(* ===== verification/Digest.thy ===== *)
theory Digest
  imports Codec
begin

text \<open>
  \<open>digest.hpp\<close>: the FNV-1a digest builder. The builder's only field is \<open>hash_\<close>, so its
  member functions are functions on the 64-bit hash. The lemmas show that every absorbing step
  is a bijection of the hash and injective in the absorbed byte, so two streams that differ in
  one byte, or histories that differ before a common continuation, never share a digest; and that
  the hexadecimal rendering loses nothing.
\<close>

definition kPrime :: u64 where
  "kPrime = 0x100000001b3"

definition digest_init :: u64 where
  "digest_init = 0xcbf29ce484222325"

definition dg_u8 :: "u64 \<Rightarrow> byte \<Rightarrow> u64" where
  "dg_u8 h v = (h XOR ucast v) * kPrime"

primrec dg_le :: "nat \<Rightarrow> u64 \<Rightarrow> u64 \<Rightarrow> u64" where
  "dg_le 0 h v = h"
| "dg_le (Suc n) h v = dg_le n ((h XOR ucast (ucast (v AND 0xFF) :: byte)) * kPrime) (drop_bit 8 v)"

definition dg_u64 :: "u64 \<Rightarrow> u64 \<Rightarrow> u64" where
  "dg_u64 h v = dg_le 8 h v"

definition dg_i64 :: "u64 \<Rightarrow> i64 \<Rightarrow> u64" where
  "dg_i64 h v = dg_u64 h v"

definition dg_bool :: "u64 \<Rightarrow> bool \<Rightarrow> u64" where
  "dg_bool h v = dg_u8 h (if v then 1 else 0)"

definition dg_double :: "u64 \<Rightarrow> double \<Rightarrow> u64" where
  "dg_double h v = dg_u64 h (f64_bits v)"

definition dg_str :: "u64 \<Rightarrow> string \<Rightarrow> u64" where
  "dg_str h s = foldl (\<lambda>h c. dg_u8 h (char_u8 c)) (dg_u64 h (of_nat (length s))) s"

definition dg_id :: "u64 \<Rightarrow> 'tag id \<Rightarrow> u64" where
  "dg_id h i = dg_u64 h (id_value i)"

definition dg_enum :: "('e \<Rightarrow> byte) \<Rightarrow> u64 \<Rightarrow> 'e \<Rightarrow> u64" where
  "dg_enum to_u8 h e = dg_u8 h (to_u8 e)"

definition dg_bytes :: "u64 \<Rightarrow> bytes \<Rightarrow> u64" where
  "dg_bytes h p = foldl dg_u8 (dg_u64 h (of_nat (length p))) p"

definition hex_char :: "byte \<Rightarrow> char" where
  "hex_char n = ''0123456789abcdef'' ! unat n"

text \<open>\<open>for (i = 7; i >= 0; --i)\<close> two characters of byte \<open>i\<close>.\<close>

primrec hex_from :: "nat \<Rightarrow> u64 \<Rightarrow> string" where
  "hex_from 0 h = []"
| "hex_from (Suc i) h =
     (let b = (ucast (drop_bit (i * 8) h AND 0xFF) :: byte)
      in hex_char (drop_bit 4 b) # hex_char (b AND 0xF) # hex_from i h)"

definition dg_finish :: "u64 \<Rightarrow> string" where
  "dg_finish h = hex_from 8 h"

subsection \<open>The builder absorbs the canonical bytes of what it is given\<close>

lemma dg_le_bytes: "dg_le n h v = foldl dg_u8 h (w_le n v)"
  by (induction n arbitrary: h v) (simp_all add: dg_u8_def)

lemma dg_u64_bytes: "dg_u64 h v = foldl dg_u8 h (w_u64 v)"
  by (simp add: dg_u64_def dg_le_bytes w_u64_def)

lemma dg_str_bytes: "dg_str h s = foldl dg_u8 h (w_str s)"
  by (simp add: dg_str_def dg_u64_bytes w_str_def concat_w_u8 foldl_map)

lemma dg_bytes_bytes: "dg_bytes h p = foldl dg_u8 h (w_u64 (of_nat (length p)) @ p)"
  by (simp add: dg_bytes_def dg_u64_bytes)

subsection \<open>Every step is injective\<close>

lemma kPrime_inverse: "kPrime * 0xce965057aff6957b = 1"
  by (simp add: kPrime_def)

lemma dg_u8_inj_hash: "dg_u8 h v = dg_u8 h' v \<longleftrightarrow> h = h'"
  by (simp add: dg_u8_def word_odd_mult_cancel [OF kPrime_inverse])

lemma dg_u8_inj_byte: "dg_u8 h v = dg_u8 h v' \<longleftrightarrow> v = v'"
  by (simp add: dg_u8_def word_odd_mult_cancel [OF kPrime_inverse] ucast_byte_inj)

lemma dg_fold_inj: "foldl dg_u8 h bs = foldl dg_u8 h' bs \<longleftrightarrow> h = h'"
  by (induction bs arbitrary: h h') (simp_all add: dg_u8_inj_hash)

lemma dg_fold_single_byte:
  assumes "b \<noteq> b'"
  shows "foldl dg_u8 h (xs @ b # ys) \<noteq> foldl dg_u8 h (xs @ b' # ys)"
  using assms by (simp add: dg_fold_inj dg_u8_inj_byte)

subsection \<open>Hexadecimal rendering\<close>

lemma nibble_less: "unat (drop_bit 4 (b :: byte)) < 16" "unat (b AND 0xF) < 16"
proof -
  have "unat (drop_bit 4 b) = unat b div 16" by (simp add: drop_bit_eq_div unat_div)
  moreover have "unat b < 256" using unsigned_less [of b] by simp
  ultimately show "unat (drop_bit 4 b) < 16" by simp
  have "unat (b AND 0xF) \<le> unat (0xF :: byte)"
    by (rule word_and_le1 [THEN word_le_nat_alt [THEN iffD1]])
  then show "unat (b AND 0xF) < 16" by simp
qed

lemma hex_char_inj:
  assumes "unat a < 16" "unat b < 16" "hex_char a = hex_char b"
  shows "a = b"
proof -
  have "distinct ''0123456789abcdef''" "length ''0123456789abcdef'' = 16" by simp_all
  then have "unat a = unat b"
    using assms unfolding hex_char_def by (metis nth_eq_iff_index_eq)
  then show ?thesis by (simp add: word_unat_eq_iff)
qed

lemma byte_of_nibbles: "b = b'" if "drop_bit 4 b = drop_bit 4 b'" "b AND 0xF = b' AND (0xF :: byte)"
proof -
  have f: "x AND 0xF = take_bit 4 x" for x :: byte by (simp add: take_bit_eq_mask mask_eq_exp_minus_1)
  have "push_bit 4 (drop_bit 4 b) + take_bit 4 b = push_bit 4 (drop_bit 4 b') + take_bit 4 b'"
    using that by (simp add: f)
  then show ?thesis by (simp only: bits_ident)
qed

lemma hex_from_inj:
  assumes "hex_from n h = hex_from n h'"
  shows "take_bit (8 * n) h = take_bit (8 * n) h'"
  using assms
proof (induction n)
  case (Suc n)
  define b b' where "b = (ucast (drop_bit (n * 8) h AND 0xFF) :: byte)"
    and "b' = (ucast (drop_bit (n * 8) h' AND 0xFF) :: byte)"
  have hc: "hex_char (drop_bit 4 b) = hex_char (drop_bit 4 b')" "hex_char (b AND 0xF) = hex_char (b' AND 0xF)"
    and low: "hex_from n h = hex_from n h'"
    using Suc.prems by (simp_all add: Let_def b_def b'_def)
  have "b = b'"
    by (rule byte_of_nibbles [OF hex_char_inj [OF nibble_less(1) nibble_less(1) hc(1)]
          hex_char_inj [OF nibble_less(2) nibble_less(2) hc(2)]])
  then have bb: "bit b k = bit b' k" for k by simp
  have ff: "x AND 0xFF = take_bit 8 x" for x :: u64 by (simp add: take_bit_eq_mask mask_eq_exp_minus_1)
  have lowb: "bit (take_bit (8 * n) h) k = bit (take_bit (8 * n) h') k" for k
    using Suc.IH [OF low] by simp
  show ?case
  proof (rule bit_word_eqI)
    fix k
    assume "k < LENGTH(64)"
    show "bit (take_bit (8 * Suc n) h) k = bit (take_bit (8 * Suc n) h') k"
    proof (cases "k < 8 * n")
      case True
      with lowb [of k] show ?thesis by (simp add: bit_take_bit_iff)
    next
      case False
      show ?thesis
      proof (cases "k < 8 * Suc n")
        case True
        with False have "k - 8 * n < 8" "n * 8 + (k - 8 * n) = k" by simp_all
        with bb [of "k - 8 * n"] True show ?thesis
          by (simp add: bit_take_bit_iff b_def b'_def ff bit_ucast_iff bit_drop_bit_eq)
      qed (simp add: bit_take_bit_iff)
    qed
  qed
qed simp

lemma dg_finish_inj: "dg_finish h = dg_finish h' \<longleftrightarrow> h = h'"
  using hex_from_inj [of 8 h h'] by (auto simp: dg_finish_def take_bit_word_eq_self)

lemma dg_finish_length: "length (dg_finish h) = 16"
proof -
  have "length (hex_from n h) = 2 * n" for n by (induction n) (simp_all add: Let_def)
  then show ?thesis by (simp add: dg_finish_def)
qed

text \<open>The digest notices any one-byte change: two byte strings that differ in exactly one byte
  have different hexadecimal digests, from whatever state the digest was in.\<close>

theorem digest_single_byte:
  assumes "b \<noteq> b'"
  shows "dg_finish (dg_bytes h (xs @ b # ys)) \<noteq> dg_finish (dg_bytes h (xs @ b' # ys))"
  using dg_fold_single_byte [OF assms, of h "w_u64 (of_nat (length (xs @ b # ys))) @ xs" ys]
  by (simp add: dg_finish_inj dg_bytes_bytes)

theorem digest_single_byte_witness:
  "dg_finish (dg_bytes digest_init ([1] @ 2 # [3])) \<noteq> dg_finish (dg_bytes digest_init ([1] @ 7 # [3]))"
  by (rule digest_single_byte) simp

end
