(* ===== verification/Comparison.thy ===== *)
theory Comparison
  imports Data_Model Digest
begin

text \<open>
  The pure part of the comparison engine of \<open>observatory.cpp\<close>: the free helpers
  (\<open>metric_is_worse\<close> to \<open>classify_outcome\<close>, \<open>is_hard_confounder\<close>) and the blocks of
  \<open>InterferenceObservatory::compare\<close> in source order, one definition per block: baseline
  selection, freshness window, aggregation of the co-run measurements, confounder analysis,
  degradation, confidence, attribution, evidence provenance and content-derived identities.
  \<open>Observatory\<close> composes them and threads the state.
\<close>

subsection \<open>Free helpers\<close>

definition valid_enum_value :: "('e \<Rightarrow> byte) \<Rightarrow> 'e \<Rightarrow> byte \<Rightarrow> bool" where
  "valid_enum_value to_u8 e mx \<longleftrightarrow> to_u8 e < mx"

definition is_hard_confounder :: "confounder \<Rightarrow> bool" where
  "is_hard_confounder c = (case c of
       Confounder_ThermalThrottling \<Rightarrow> True
     | Confounder_PowerThrottling \<Rightarrow> True
     | Confounder_ClockChange \<Rightarrow> True
     | Confounder_DifferentWorkloadInput \<Rightarrow> True
     | Confounder_DifferentKernelVersion \<Rightarrow> True
     | Confounder_DifferentDriverRuntimeState \<Rightarrow> True
     | Confounder_WorkerRestart \<Rightarrow> True
     | Confounder_DifferentPlacement \<Rightarrow> True
     | _ \<Rightarrow> False)"

definition metric_is_worse :: "metric_kind \<Rightarrow> double \<Rightarrow> bool" where
  "metric_is_worse kind rel = (case kind of
       Metric_Latency \<Rightarrow> f64_lt f64_zero rel
     | Metric_DeviceTime \<Rightarrow> f64_lt f64_zero rel
     | Metric_TransferTime \<Rightarrow> f64_lt f64_zero rel
     | Metric_CollectiveTime \<Rightarrow> f64_lt f64_zero rel
     | Metric_StallTime \<Rightarrow> f64_lt f64_zero rel
     | Metric_TailLatency \<Rightarrow> f64_lt f64_zero rel
     | Metric_Throughput \<Rightarrow> f64_lt rel f64_zero
     | Metric_CompletionRate \<Rightarrow> f64_lt rel f64_zero
     | Metric_MemoryBandwidth \<Rightarrow> f64_lt rel f64_zero
     | Metric_Byte _ \<Rightarrow> False)"

definition degradation_magnitude :: "metric_kind \<Rightarrow> double \<Rightarrow> double" where
  "degradation_magnitude kind rel = (if metric_is_worse kind rel then f64_fabs rel else f64_zero)"

definition relative_degradation :: "baseline \<Rightarrow> measurement \<Rightarrow> double" where
  "relative_degradation b m =
     (if f64_le (b_mean_value b) f64_zero then f64_zero
      else f64_div (f64_sub (m_value m) (b_mean_value b)) (b_mean_value b))"

definition classify_outcome :: "double \<Rightarrow> policy \<Rightarrow> outcome" where
  "classify_outcome worst p =
     (if f64_lt worst (potential_threshold p) then Outcome_NoInterferenceDetected
      else if f64_lt worst (detected_threshold p) then Outcome_PotentialInterference
      else if f64_lt worst (severe_threshold p) then Outcome_InterferenceDetected
      else Outcome_SevereInterference)"

subsection \<open>Baseline selection and freshness\<close>

definition concerns :: "workload_descriptor \<Rightarrow> baseline \<Rightarrow> bool" where
  "concerns w b \<longleftrightarrow> b_workload_id b = wl_id w \<and> b_device_id b = wl_device_id w"

definition eligible :: "workload_descriptor \<Rightarrow> baseline \<Rightarrow> bool" where
  "eligible w b \<longleftrightarrow> is_usable b \<and> binding_matches b (workload_binding w)"

definition supersedes :: "baseline \<Rightarrow> baseline \<Rightarrow> bool" where
  "supersedes b u \<longleftrightarrow> sint (b_timestamp_ms b) > sint (b_timestamp_ms u) \<or>
     (b_timestamp_ms b = b_timestamp_ms u \<and> id_value (b_id b) > id_value (b_id u))"

text \<open>The loop over \<open>impl_->baselines\<close> with the pointers \<open>usable\<close> and \<open>any_match\<close>.\<close>

definition select_step ::
  "workload_descriptor \<Rightarrow> baseline option \<times> baseline option \<Rightarrow> BaselineId \<times> baseline \<Rightarrow>
   baseline option \<times> baseline option" where
  "select_step w acc e =
     (case acc of (usable, any_match) \<Rightarrow> case e of (bid, b) \<Rightarrow>
       if concerns w b then
         (if eligible w b then
            (case usable of None \<Rightarrow> Some b | Some u \<Rightarrow> if supersedes b u then Some b else Some u)
          else usable,
          case any_match of None \<Rightarrow> Some b | Some a \<Rightarrow> Some a)
       else (usable, any_match))"

definition select_baseline ::
  "workload_descriptor \<Rightarrow> (BaselineId, baseline) std_map \<Rightarrow> baseline option \<times> baseline option" where
  "select_baseline w bs = foldl (select_step w) (None, None) bs"

definition last_timestamp :: "observation list \<Rightarrow> i64" where
  "last_timestamp obs = (if obs = [] then 0 else o_timestamp_ms (last obs))"

definition first_timestamp :: "observation list \<Rightarrow> i64" where
  "first_timestamp obs = (if obs = [] then 0 else o_timestamp_ms (hd obs))"

text \<open>\<open>baseline_fresh\<close> and \<open>fresh_ok\<close>; the subtraction \<open>now - timestamp_ms\<close> is on 64-bit words.\<close>

definition freshness_window :: "baseline \<Rightarrow> i64 \<Rightarrow> policy \<Rightarrow> freshness \<times> bool" where
  "freshness_window b now p =
     (if b_freshness b = Freshness_Current then
        let age = now - b_timestamp_ms b in
        if sint age \<le> sint (stale_after_ms p) then (Freshness_Current, True)
        else if sint age \<le> sint (max_age_ms p) then (Freshness_Stale, False)
        else (Freshness_Expired, False)
      else (b_freshness b, False))"

subsection \<open>Aggregation\<close>

record aggregate =
  a_vals :: "double list"
  a_p95 :: double
  a_has_p95 :: bool
  a_overlap :: bool
  a_n :: u64

definition counted :: "workload_descriptor \<Rightarrow> baseline \<Rightarrow> observation \<Rightarrow> bool" where
  "counted w b ob \<longleftrightarrow> o_workload_id ob = wl_id w \<and> m_kind (o_measurement ob) = b_metric_kind b \<and>
     measurement_is_valid (o_measurement ob)"

definition aggregate_step ::
  "workload_descriptor \<Rightarrow> workload_descriptor \<Rightarrow> baseline \<Rightarrow> aggregate \<Rightarrow> observation \<Rightarrow> aggregate" where
  "aggregate_step w peer b a ob =
     (if o_workload_id ob \<noteq> wl_id w then a
      else if m_kind (o_measurement ob) \<noteq> b_metric_kind b then a
      else if \<not> measurement_is_valid (o_measurement ob) then a
      else let m = o_measurement ob; better = m_has_p95 m \<and> f64_lt (a_p95 a) (m_p95 m)
           in \<lparr>a_vals = a_vals a @ [m_value m],
               a_p95 = (if better then m_p95 m else a_p95 a),
               a_has_p95 = (a_has_p95 a \<or> better),
               a_overlap = (a_overlap a \<or> wl_id peer \<in> set (o_co_run_peers ob)),
               a_n = a_n a + 1\<rparr>)"

definition aggregate_obs ::
  "workload_descriptor \<Rightarrow> workload_descriptor \<Rightarrow> baseline \<Rightarrow> observation list \<Rightarrow> aggregate" where
  "aggregate_obs w peer b obs = foldl (aggregate_step w peer b)
     \<lparr>a_vals = [], a_p95 = f64_zero, a_has_p95 = False, a_overlap = False, a_n = 0\<rparr> obs"

definition mean_of :: "double list \<Rightarrow> u64 \<Rightarrow> double" where
  "mean_of vals n = f64_div (foldl f64_add f64_zero vals) (f64_of_u64 n)"

definition variance_of :: "double list \<Rightarrow> double \<Rightarrow> u64 \<Rightarrow> double" where
  "variance_of vals mean n =
     (if n > 1 then
        f64_div (foldl (\<lambda>s v. let d = f64_sub v mean in f64_add s (f64_mul d d)) f64_zero vals)
          (f64_of_u64 (n - 1))
      else f64_zero)"

subsection \<open>Confounders\<close>

definition confounder_step ::
  "confounder list \<times> confounder list \<Rightarrow> confounder \<Rightarrow> confounder list \<times> confounder list" where
  "confounder_step acc c = (case acc of (hard, soft) \<Rightarrow>
     if c \<notin> set hard \<and> c \<notin> set soft
     then (if is_hard_confounder c then (hard @ [c], soft) else (hard, soft @ [c]))
     else (hard, soft))"

definition analyse_confounders ::
  "workload_descriptor \<Rightarrow> observation list \<Rightarrow> confounder list \<times> confounder list" where
  "analyse_confounders w obs = foldl
     (\<lambda>acc ob. if o_workload_id ob \<noteq> wl_id w then acc
        else foldl confounder_step acc (o_confounders ob)) ([], []) obs"

subsection \<open>Degradation, confidence and attribution\<close>

definition make_degradation :: "baseline \<Rightarrow> double \<Rightarrow> double \<Rightarrow> double \<Rightarrow> double \<Rightarrow> u64 \<Rightarrow> degradation" where
  "make_degradation b mean rel magnitude variance n =
     \<lparr>g_deltas = [\<lparr>d_kind = b_metric_kind b, d_absolute = f64_sub mean (b_mean_value b),
        d_relative = rel, d_sample_count = n, d_variance = variance\<rparr>],
      g_sample_count = n, g_worst_relative = magnitude\<rparr>"

definition confidence_of ::
  "baseline \<Rightarrow> bool \<Rightarrow> freshness \<Rightarrow> u64 \<Rightarrow> policy \<Rightarrow> bool \<Rightarrow> confounder list \<Rightarrow> double" where
  "confidence_of b fresh_ok baseline_fresh n p confounded soft =
     (let c0 = b_confidence b;
          c1 = (if fresh_ok \<and> baseline_fresh = Freshness_Stale then f64_mul c0 (f64_lit 5 10) else c0);
          c2 = f64_mul c1 (f64_min f64_one (f64_div (f64_of_u64 n) (f64_of_u64 (min_samples p * 2))));
          c3 = (if \<not> confounded then foldl (\<lambda>c _. f64_mul c (f64_lit 85 100)) c2 soft
                else f64_mul c2 (f64_lit 2 10))
      in f64_clamp c3 f64_zero f64_one)"

definition attribution_of :: "bool \<Rightarrow> confounder list \<Rightarrow> bool \<Rightarrow> attribution_strength" where
  "attribution_of overlap hard has_recovery =
     (if \<not> overlap then Attribution_Unknown
      else if hard \<noteq> [] then
        (if length hard \<ge> 2 then Attribution_TemporallyAssociated else Attribution_Correlated)
      else if has_recovery then Attribution_StrongCounterfactualEvidence
      else Attribution_ControlledComparison)"

definition all_measured :: "workload_descriptor \<Rightarrow> observation list \<Rightarrow> bool" where
  "all_measured w obs = foldl (\<lambda>ok ob.
     if o_workload_id ob \<noteq> wl_id w then ok
     else if o_provenance ob \<noteq> Provenance_Measured \<and> o_provenance ob \<noteq> Provenance_Controlled then False
     else ok) True obs"

subsection \<open>Content-derived identities\<close>

definition nonzero_digest :: "u64 \<Rightarrow> u64" where
  "nonzero_digest v = (if v = 0 then 1 else v)"

definition comparison_digest ::
  "WorkloadId \<Rightarrow> WorkloadId \<Rightarrow> interference_domain \<Rightarrow> BaselineId \<Rightarrow> u64 \<Rightarrow> ComparisonId" where
  "comparison_digest victim neighbor domain bid n =
     Id (nonzero_digest (dg_u64 (dg_id (dg_enum interference_domain_u8
       (dg_id (dg_id (dg_u8 digest_init 0xA1) victim) neighbor) domain) bid) n))"

definition episode_digest :: "WorkloadId \<Rightarrow> interference_domain \<Rightarrow> BaselineId \<Rightarrow> EpisodeId" where
  "episode_digest victim domain bid =
     Id (nonzero_digest (dg_id (dg_enum interference_domain_u8
       (dg_id (dg_u8 digest_init 0xB2) victim) domain) bid))"

subsection \<open>Baseline selection\<close>

lemma supersedes_key:
  "supersedes b u \<longleftrightarrow> sint (b_timestamp_ms u) < sint (b_timestamp_ms b) \<or>
     (sint (b_timestamp_ms u) = sint (b_timestamp_ms b) \<and> id_value (b_id u) < id_value (b_id b))"
  by (auto simp: supersedes_def dest: signed_word_eqI)

lemma supersedes_chain: "\<not> supersedes b u \<Longrightarrow> supersedes c u \<Longrightarrow> \<not> supersedes b c"
  by (auto simp: supersedes_key)

lemma supersedes_irrefl [simp]: "\<not> supersedes b b"
  by (simp add: supersedes_key)

definition selected :: "workload_descriptor \<Rightarrow> baseline set \<Rightarrow> baseline option \<Rightarrow> bool" where
  "selected w B r = (case r of
      None \<Rightarrow> \<forall>b\<in>B. \<not> (concerns w b \<and> eligible w b)
    | Some u \<Rightarrow> u \<in> B \<and> concerns w u \<and> eligible w u \<and>
        (\<forall>b\<in>B. concerns w b \<and> eligible w b \<longrightarrow> \<not> supersedes b u))"

lemma select_fold:
  assumes "selected w B (fst acc)" "snd acc = None \<longleftrightarrow> (\<forall>b\<in>B. \<not> concerns w b)"
  shows "selected w (B \<union> snd ` set bs) (fst (foldl (select_step w) acc bs)) \<and>
    (snd (foldl (select_step w) acc bs) = None \<longleftrightarrow> (\<forall>b\<in>B \<union> snd ` set bs. \<not> concerns w b))"
  using assms
proof (induction bs arbitrary: acc B)
  case (Cons e bs)
  obtain usable any_match where acc: "acc = (usable, any_match)" by (cases acc)
  obtain bid b where e: "e = (bid, b)" by (cases e)
  let ?acc = "select_step w acc e"
  have "selected w (insert b B) (fst ?acc)"
    using Cons.prems(1) supersedes_chain [of _ _ b] unfolding acc e select_step_def selected_def
    by (auto split: option.splits)
  moreover have "snd ?acc = None \<longleftrightarrow> (\<forall>b\<in>insert b B. \<not> concerns w b)"
    using Cons.prems(2) unfolding acc e select_step_def by (auto split: option.splits)
  ultimately show ?case using Cons.IH [of "insert b B" ?acc] by (simp add: e)
qed auto

lemma select_baseline_selected: "selected w (snd ` set bs) (fst (select_baseline w bs))"
  using select_fold [of w "{}" "(None, None)" bs] by (simp add: select_baseline_def selected_def)

lemma select_baseline_any:
  "snd (select_baseline w bs) = None \<longleftrightarrow> (\<forall>b\<in>snd ` set bs. \<not> concerns w b)"
  using select_fold [of w "{}" "(None, None)" bs] by (simp add: select_baseline_def selected_def)

lemma select_baseline_SomeD:
  assumes "fst (select_baseline w bs) = Some u"
  shows "u \<in> snd ` set bs" "concerns w u" "is_usable u" "binding_matches u (workload_binding w)"
  using select_baseline_selected [of w bs] assms by (auto simp: selected_def eligible_def)

subsection \<open>Freshness\<close>

lemma freshness_window_ok:
  "snd (freshness_window b now p) \<longleftrightarrow>
     b_freshness b = Freshness_Current \<and> sint (now - b_timestamp_ms b) \<le> sint (stale_after_ms p)"
  by (simp add: freshness_window_def Let_def)

lemma freshness_window_ok_current: "snd (freshness_window b now p) \<Longrightarrow> fst (freshness_window b now p) = Freshness_Current"
  by (simp add: freshness_window_def Let_def split: if_splits)

subsection \<open>Aggregation\<close>

lemma aggregate_fold:
  "foldl (aggregate_step w peer b) a obs =
     \<lparr>a_vals = a_vals a @ map (\<lambda>ob. m_value (o_measurement ob)) (filter (counted w b) obs),
      a_p95 = a_p95 (foldl (aggregate_step w peer b) a obs),
      a_has_p95 = a_has_p95 (foldl (aggregate_step w peer b) a obs),
      a_overlap = (a_overlap a \<or> (\<exists>ob\<in>set obs. counted w b ob \<and> wl_id peer \<in> set (o_co_run_peers ob))),
      a_n = a_n a + of_nat (length (filter (counted w b) obs))\<rparr>"
proof (induction obs arbitrary: a)
  case (Cons ob obs)
  show ?case
    by (subst foldl_Cons, subst Cons.IH)
      (auto simp: aggregate_step_def counted_def Let_def add.assoc)
qed simp

lemma aggregate_obs_simps:
  "a_vals (aggregate_obs w peer b obs) = map (\<lambda>ob. m_value (o_measurement ob)) (filter (counted w b) obs)"
  "a_overlap (aggregate_obs w peer b obs) \<longleftrightarrow> (\<exists>ob\<in>set obs. counted w b ob \<and> wl_id peer \<in> set (o_co_run_peers ob))"
  "a_n (aggregate_obs w peer b obs) = of_nat (length (filter (counted w b) obs))"
  unfolding aggregate_obs_def by (subst aggregate_fold, simp)+

lemma counted_value: "counted w b ob \<Longrightarrow> f64_isfinite (m_value (o_measurement ob)) \<and> f64_le f64_zero (m_value (o_measurement ob))"
  by (auto simp: counted_def measurement_is_valid_def is_finite_nonneg_def split: if_splits)

lemma aggregate_vals_nonneg: "\<forall>v\<in>set (a_vals (aggregate_obs w peer b obs)). f64_le f64_zero v"
  by (auto simp: aggregate_obs_simps counted_value)

subsection \<open>Degradation magnitude\<close>

lemma mean_nonneg:
  assumes "n \<noteq> 0" "\<forall>v\<in>set vs. f64_le f64_zero v"
  shows "f64_le f64_zero (mean_of vs n)"
  unfolding mean_of_def
  by (intro f64_div_nonneg f64_sum_nonneg f64_of_u64_pos assms) (simp add: f64_le_zero_iff)

lemma is_finite_nonneg_iff: "is_finite_nonneg x \<longleftrightarrow> f64_isfinite x \<and> f64_le f64_zero x"
  by (auto simp: is_finite_nonneg_def)

lemma relative_not_nan:
  assumes "is_finite_nonneg (b_mean_value b)" "\<not> f64_is_nan (m_value m)"
  shows "\<not> f64_is_nan (relative_degradation b m)"
proof (cases "f64_le (b_mean_value b) f64_zero")
  case True
  then show ?thesis by (simp add: relative_degradation_def)
next
  case False
  then have "\<not> f64_is_zero (b_mean_value b)"
    using assms(1) by (auto simp: is_finite_nonneg_iff f64_is_zero_def f64_le_def f64_key_def split: if_splits)
  with False assms show ?thesis
    by (simp add: relative_degradation_def is_finite_nonneg_iff f64_div_not_nan f64_sub_not_nan)
qed

lemma magnitude_nonneg: "\<not> f64_is_nan rel \<Longrightarrow> f64_le f64_zero (degradation_magnitude k rel)"
  by (simp add: degradation_magnitude_def f64_fabs_nonneg f64_le_refl)

subsection \<open>Confounders\<close>

lemma confounder_fold:
  assumes "distinct h" "distinct s" "\<forall>c\<in>set h. is_hard_confounder c" "\<forall>c\<in>set s. \<not> is_hard_confounder c"
    "foldl confounder_step (h, s) cs = (h', s')"
  shows "distinct h' \<and> distinct s' \<and> set h' = set h \<union> {c\<in>set cs. is_hard_confounder c} \<and>
    set s' = set s \<union> {c\<in>set cs. \<not> is_hard_confounder c}"
  using assms
proof (induction cs arbitrary: h s)
  case (Cons c cs)
  obtain h1 s1 where st: "confounder_step (h, s) c = (h1, s1)" by fastforce
  have inv: "distinct h1" "distinct s1" "set h1 = set h \<union> {x. x = c \<and> is_hard_confounder c}"
    "set s1 = set s \<union> {x. x = c \<and> \<not> is_hard_confounder c}"
    using Cons.prems(1-4) st by (auto simp: confounder_step_def split: if_splits)
  have "distinct h' \<and> distinct s' \<and> set h' = set h1 \<union> {c\<in>set cs. is_hard_confounder c} \<and>
    set s' = set s1 \<union> {c\<in>set cs. \<not> is_hard_confounder c}"
    by (rule Cons.IH) (use Cons.prems inv st in auto)
  with inv show ?case by auto
qed auto

lemma analyse_flat:
  "analyse_confounders w obs =
     foldl confounder_step ([], []) (concat (map o_confounders (filter (\<lambda>ob. o_workload_id ob = wl_id w) obs)))"
proof -
  have "foldl (\<lambda>acc ob. if o_workload_id ob \<noteq> wl_id w then acc else foldl confounder_step acc (o_confounders ob)) acc obs =
    foldl confounder_step acc (concat (map o_confounders (filter (\<lambda>ob. o_workload_id ob = wl_id w) obs)))" for acc
    by (induction obs arbitrary: acc) auto
  then show ?thesis by (simp add: analyse_confounders_def)
qed

lemma analyse_confounders_spec:
  assumes "analyse_confounders w obs = (hard, soft)"
  shows "distinct hard" "distinct soft"
    "set hard = {c. is_hard_confounder c \<and> (\<exists>ob\<in>set obs. o_workload_id ob = wl_id w \<and> c \<in> set (o_confounders ob))}"
    "set soft = {c. \<not> is_hard_confounder c \<and> (\<exists>ob\<in>set obs. o_workload_id ob = wl_id w \<and> c \<in> set (o_confounders ob))}"
  using confounder_fold [of "[]" "[]", OF _ _ _ _ assms [unfolded analyse_flat]] by auto

subsection \<open>Confidence\<close>

lemma lit_pos:
  "f64_lt f64_zero (f64_lit 5 10)" "f64_lt f64_zero (f64_lit 85 100)" "f64_lt f64_zero (f64_lit 2 10)"
  "f64_isfinite (f64_lit 5 10)" "f64_isfinite (f64_lit 85 100)" "f64_isfinite (f64_lit 2 10)"
  by code_simp+

lemma min_one_pos: "f64_lt f64_zero x \<Longrightarrow> f64_lt f64_zero (f64_min f64_one x) \<and> f64_isfinite (f64_min f64_one x)"
proof -
  assume x: "f64_lt f64_zero x"
  have one: "f64_lt f64_zero f64_one" "f64_isfinite f64_one" "\<not> f64_sign f64_one" by code_simp+
  have "f64_isfinite x" if "f64_lt x f64_one"
    using that x one unfolding f64_lt_def f64_isfinite_def f64_is_nan_def f64_key_def
    by (auto split: if_splits)
  with x one show ?thesis by (auto simp: f64_min_def)
qed

lemma damp_nonneg:
  "f64_le f64_zero c \<Longrightarrow> f64_lt f64_zero k \<Longrightarrow> f64_isfinite k \<Longrightarrow>
     f64_le f64_zero (foldl (\<lambda>c _. f64_mul c k) c xs)"
  by (induction xs arbitrary: c) (simp_all add: f64_mul_nonneg)

lemma confidence_bounds:
  assumes "is_usable b" "n \<noteq> 0"
  shows "f64_le f64_zero (confidence_of b ok fr n p conf soft)"
    "f64_le (confidence_of b ok fr n p conf soft) f64_one"
proof -
  let ?q = "f64_min f64_one (f64_div (f64_of_u64 n) (f64_of_u64 (min_samples p * 2)))"
  define c1 where "c1 = (if ok \<and> fr = Freshness_Stale then f64_mul (b_confidence b) (f64_lit 5 10) else b_confidence b)"
  define c3 where "c3 = (if \<not> conf then foldl (\<lambda>c _. f64_mul c (f64_lit 85 100)) (f64_mul c1 ?q) soft
    else f64_mul (f64_mul c1 ?q) (f64_lit 2 10))"
  have q: "f64_lt f64_zero ?q" "f64_isfinite ?q"
    using min_one_pos [OF f64_div_u64_pos [OF assms(2)]] by auto
  have "f64_le f64_zero (b_confidence b)" using assms(1) by (simp add: is_usable_def f64_lt_le)
  then have "f64_le f64_zero c1" by (simp add: c1_def f64_mul_nonneg lit_pos)
  then have "f64_le f64_zero (f64_mul c1 ?q)" using q by (rule f64_mul_nonneg)
  then have "f64_le f64_zero c3" by (auto simp: c3_def intro: damp_nonneg f64_mul_nonneg lit_pos)
  then have c3: "\<not> f64_is_nan c3" by (rule f64_le_not_nan)
  have eq: "confidence_of b ok fr n p conf soft = f64_clamp c3 f64_zero f64_one"
    by (simp add: confidence_of_def Let_def c1_def c3_def)
  have "f64_le f64_zero f64_one" by code_simp
  from f64_clamp_bounds [OF c3 this]
  show "f64_le f64_zero (confidence_of b ok fr n p conf soft)"
    "f64_le (confidence_of b ok fr n p conf soft) f64_one" by (simp_all add: eq)
qed

definition lower_is_better :: "metric_kind \<Rightarrow> bool" where
  "lower_is_better k \<longleftrightarrow> k \<in> {Metric_Latency, Metric_DeviceTime, Metric_TransferTime,
     Metric_CollectiveTime, Metric_StallTime, Metric_TailLatency}"

definition higher_is_better :: "metric_kind \<Rightarrow> bool" where
  "higher_is_better k \<longleftrightarrow> k \<in> {Metric_Throughput, Metric_CompletionRate, Metric_MemoryBandwidth}"

lemma metric_is_worse_iff:
  "metric_is_worse k rel \<longleftrightarrow> lower_is_better k \<and> f64_lt f64_zero rel \<or> higher_is_better k \<and> f64_lt rel f64_zero"
  by (cases k) (simp_all add: metric_is_worse_def lower_is_better_def higher_is_better_def)

lemma relative_sign:
  assumes "is_finite_nonneg (b_mean_value b)" "\<not> f64_is_nan (m_value m)"
  shows "f64_lt f64_zero (relative_degradation b m) \<Longrightarrow> f64_lt (b_mean_value b) (m_value m)"
    "f64_lt (relative_degradation b m) f64_zero \<Longrightarrow> f64_lt (m_value m) (b_mean_value b)"
proof -
  let ?B = "b_mean_value b" and ?r = "relative_degradation b m"
  have fin: "f64_isfinite ?B" "\<not> f64_is_nan ?B" using assms(1) by (auto simp: is_finite_nonneg_iff)
  have zero: "?r = f64_zero" if "\<not> f64_lt f64_zero ?B"
    using that fin by (simp add: relative_degradation_def f64_not_lt)
  have pos: "?r = f64_div (f64_sub (m_value m) ?B) ?B" if "f64_lt f64_zero ?B"
    using that by (auto simp: relative_degradation_def f64_lt_def f64_le_def)
  have up: "f64_le f64_zero ?r" if "f64_le ?B (m_value m)" "f64_lt f64_zero ?B"
    using that fin by (simp add: pos f64_div_nonneg f64_sub_nonneg)
  have dn: "f64_le ?r f64_zero" if "f64_le (m_value m) ?B" "f64_lt f64_zero ?B"
    using that fin by (simp add: pos f64_div_nonpos f64_sub_nonpos)
  have irr: "\<not> f64_lt f64_zero f64_zero" by (simp add: f64_lt_def)
  show "f64_lt ?B (m_value m)" if "f64_lt f64_zero ?r"
    using that dn zero irr f64_not_lt [OF fin(2) assms(2)] f64_lt_le_trans by metis
  show "f64_lt (m_value m) ?B" if "f64_lt ?r f64_zero"
    using that up zero irr f64_not_lt [OF assms(2) fin(2)] f64_le_lt_trans by metis
qed

lemma magnitude_direction:
  assumes "is_finite_nonneg (b_mean_value b)" "\<not> f64_is_nan (m_value m)"
    "f64_lt f64_zero (degradation_magnitude k (relative_degradation b m))"
  shows "lower_is_better k \<and> f64_lt (b_mean_value b) (m_value m) \<or>
    higher_is_better k \<and> f64_lt (m_value m) (b_mean_value b)"
proof -
  have "\<not> f64_lt f64_zero f64_zero" by (simp add: f64_lt_def)
  with assms(3) have "metric_is_worse k (relative_degradation b m)"
    by (auto simp: degradation_magnitude_def split: if_splits)
  then show ?thesis using relative_sign [OF assms(1,2)] by (auto simp: metric_is_worse_iff)
qed

text \<open>Classification is monotone: under a valid policy a larger degradation is never put into a
  milder class (the classes are ordered by their wire value, from 0 for no interference to 3 for
  severe).\<close>

theorem classify_outcome_monotone:
  assumes "policy_isValid p" "f64_le x y"
  shows "outcome_u8 (classify_outcome x p) \<le> outcome_u8 (classify_outcome y p)"
proof -
  have "f64_lt y t \<Longrightarrow> f64_lt x t" for t using assms(2) by (rule f64_le_lt_trans)
  moreover have "f64_lt z (potential_threshold p) \<Longrightarrow> f64_lt z (detected_threshold p)"
    "f64_lt z (detected_threshold p) \<Longrightarrow> f64_lt z (severe_threshold p)" for z
    using assms(1) f64_lt_le_trans by (auto simp: policy_isValid_def)
  ultimately show ?thesis by (auto simp: classify_outcome_def)
qed

theorem classify_outcome_monotone_witness:
  "outcome_u8 (classify_outcome (f64_lit 5 100) default_policy) \<le>
   outcome_u8 (classify_outcome (f64_lit 7 10) default_policy)"
proof (rule classify_outcome_monotone)
  show "policy_isValid default_policy" by code_simp
  show "f64_le (f64_lit 5 100) (f64_lit 7 10)" by code_simp
qed

end
