(* ===== verification/Observatory.thy ===== *)
theory Observatory
  imports Comparison "HOL-Library.Product_Lexorder"
begin

text \<open>
  \<open>InterferenceObservatory\<close> (\<open>observatory.hpp\<close>, \<open>observatory.cpp\<close>): the state \<open>Impl\<close> as a record
  and every member function that reads or writes it. A member function that takes the lock and
  updates \<open>impl_\<close> is a function on the record that returns its result and the new record; the
  mutex itself is modelled at the end, because \<open>run_experiment\<close> calls \<open>compare\<close> while holding it.
\<close>

subsection \<open>State\<close>

record source_rec =
  s_generation :: SourceGeneration
  s_name :: string
  s_caps :: capabilities
  s_freshness :: freshness

record worker_rec =
  wk_boot :: WorkerBootId
  wk_name :: string
  wk_connected :: bool

type_synonym recovery_key = "WorkloadId \<times> WorkloadId \<times> interference_domain"

record impl =
  i_id :: ObservatoryId
  i_generation :: ObservatoryGeneration
  i_epoch :: CoordinatorEpoch
  i_sources :: "(SourceId, source_rec) std_map"
  i_workers :: "(WorkerId, worker_rec) std_map"
  i_workloads :: "(WorkloadId, workload_descriptor) std_map"
  i_baselines :: "(BaselineId, baseline) std_map"
  i_observations :: "(ObservationId, observation) std_map"
  i_episodes :: "(EpisodeId, episode) std_map"
  i_comparisons :: "(ComparisonId, pairwise) std_map"
  i_matrix :: matrix
  i_recoveries :: "recovery_key std_set"

definition new_observatory :: "ObservatoryId \<Rightarrow> ObservatoryGeneration \<Rightarrow> impl" where
  "new_observatory oid gen = \<lparr>i_id = oid, i_generation = gen, i_epoch = Id 1, i_sources = [],
     i_workers = [], i_workloads = [], i_baselines = [], i_observations = [], i_episodes = [],
     i_comparisons = [], i_matrix = [], i_recoveries = []\<rparr>"

subsection \<open>Identity and epoch\<close>

definition observatory_id :: "impl \<Rightarrow> ObservatoryId" where
  "observatory_id s = i_id s"

definition observatory_generation :: "impl \<Rightarrow> ObservatoryGeneration" where
  "observatory_generation s = i_generation s"

definition coordinator_epoch :: "impl \<Rightarrow> CoordinatorEpoch" where
  "coordinator_epoch s = i_epoch s"

definition revalidate_baseline :: "baseline \<Rightarrow> baseline" where
  "revalidate_baseline b =
     (if b_type b = BaselineType_HistoricalIsolated \<or> b_freshness b = Freshness_Historical then b
      else b\<lparr>b_freshness := Freshness_RevalidationRequired\<rparr>)"

definition revalidate_source :: "source_rec \<Rightarrow> source_rec" where
  "revalidate_source s =
     (if s_freshness s \<noteq> Freshness_Historical then s\<lparr>s_freshness := Freshness_RevalidationRequired\<rparr> else s)"

definition disconnect_worker :: "worker_rec \<Rightarrow> worker_rec" where
  "disconnect_worker w = w\<lparr>wk_connected := False\<rparr>"

definition set_coordinator_epoch :: "CoordinatorEpoch \<Rightarrow> impl \<Rightarrow> impl" where
  "set_coordinator_epoch epoch s =
     (if epoch = i_epoch s then s
      else s\<lparr>i_epoch := epoch,
             i_baselines := map_update_all revalidate_baseline (i_baselines s),
             i_sources := map_update_all revalidate_source (i_sources s),
             i_workers := map_update_all disconnect_worker (i_workers s)\<rparr>)"

subsection \<open>Registration\<close>

definition register_source ::
  "SourceId \<Rightarrow> SourceGeneration \<Rightarrow> string \<Rightarrow> capabilities \<Rightarrow> impl \<Rightarrow> status \<times> impl" where
  "register_source sid gen name caps s =
     (if id_is_nil sid \<or> id_is_nil gen then (Status_InvalidInput, s)
      else case map_find (i_sources s) sid of
        Some r \<Rightarrow>
          if s_generation r \<noteq> gen then
            (Status_StaleAuthority, s\<lparr>i_sources := map_assign (i_sources s) sid
               (r\<lparr>s_generation := gen, s_name := name, s_caps := caps,
                  s_freshness := Freshness_RevalidationRequired\<rparr>)\<rparr>)
          else
            (Status_Ok, s\<lparr>i_sources := map_assign (i_sources s) sid
               (r\<lparr>s_name := name, s_caps := caps, s_freshness := Freshness_Current\<rparr>)\<rparr>)
      | None \<Rightarrow>
          (Status_Ok, s\<lparr>i_sources := map_emplace (i_sources s) sid
             \<lparr>s_generation = gen, s_name = name, s_caps = caps, s_freshness = Freshness_Current\<rparr>\<rparr>))"

definition register_worker ::
  "WorkerId \<Rightarrow> WorkerBootId \<Rightarrow> string \<Rightarrow> bool \<Rightarrow> impl \<Rightarrow> status \<times> impl" where
  "register_worker wid boot name conn s =
     (if id_is_nil wid \<or> id_is_nil boot then (Status_InvalidInput, s)
      else case map_find (i_workers s) wid of
        Some r \<Rightarrow>
          if wk_boot r \<noteq> boot then
            (Status_StaleAuthority, s\<lparr>i_workers := map_assign (i_workers s) wid
               (r\<lparr>wk_boot := boot, wk_name := name, wk_connected := conn\<rparr>)\<rparr>)
          else
            (Status_Ok, s\<lparr>i_workers := map_assign (i_workers s) wid
               (r\<lparr>wk_name := name, wk_connected := conn\<rparr>)\<rparr>)
      | None \<Rightarrow>
          (Status_Ok, s\<lparr>i_workers := map_emplace (i_workers s) wid
             \<lparr>wk_boot = boot, wk_name = name, wk_connected = conn\<rparr>\<rparr>))"

definition register_workload :: "workload_descriptor \<Rightarrow> impl \<Rightarrow> status \<times> impl" where
  "register_workload w s =
     (if id_is_nil (wl_id w) \<or> id_is_nil (wl_generation w) then (Status_InvalidInput, s)
      else (Status_Ok, s\<lparr>i_workloads := map_assign (i_workloads s) (wl_id w) w\<rparr>))"

subsection \<open>Baselines and observations\<close>

definition known_metric :: "metric_kind \<Rightarrow> bool" where
  "known_metric k \<longleftrightarrow> k = Metric_Latency \<or> k = Metric_Throughput \<or> k = Metric_DeviceTime \<or>
     k = Metric_TransferTime \<or> k = Metric_CollectiveTime \<or> k = Metric_StallTime \<or>
     k = Metric_TailLatency \<or> k = Metric_CompletionRate \<or> k = Metric_MemoryBandwidth"

text \<open>The comparison that makes a duplicate id idempotent.\<close>

definition same_baseline :: "baseline \<Rightarrow> baseline \<Rightarrow> bool" where
  "same_baseline b c \<longleftrightarrow> b_generation b = b_generation c \<and> b_workload_id b = b_workload_id c \<and>
     b_device_id b = b_device_id c \<and> f64_eq (b_mean_value b) (b_mean_value c) \<and>
     b_sample_count b = b_sample_count c"

definition publish_baseline :: "baseline \<Rightarrow> impl \<Rightarrow> status \<times> impl" where
  "publish_baseline b s =
     (if id_is_nil (b_id b) \<or> id_is_nil (b_generation b) then (Status_InvalidInput, s)
      else if \<not> is_usable b then (Status_InsufficientEvidence, s)
      else if \<not> is_finite (b_confidence b) \<or> f64_lt (b_confidence b) f64_zero \<or>
        f64_lt f64_one (b_confidence b) then (Status_InvalidInput, s)
      else if \<not> is_finite (b_variance b) \<or> f64_lt (b_variance b) f64_zero then (Status_InvalidInput, s)
      else if b_sample_count b = 0 then (Status_InsufficientEvidence, s)
      else if \<not> known_metric (b_metric_kind b) then (Status_InvalidInput, s)
      else case map_find (i_baselines s) (b_id b) of
        Some b' \<Rightarrow> if same_baseline b' b then (Status_Ok, s) else (Status_InvalidInput, s)
      | None \<Rightarrow>
          let stored = (if b_freshness b = Freshness_Unknown then b\<lparr>b_freshness := Freshness_Current\<rparr> else b)
          in (Status_Ok, s\<lparr>i_baselines := map_emplace (i_baselines s) (b_id b) stored\<rparr>))"

definition lookup_baseline :: "BaselineId \<Rightarrow> impl \<Rightarrow> baseline option" where
  "lookup_baseline bid s = map_find (i_baselines s) bid"

definition same_observation :: "observation \<Rightarrow> observation \<Rightarrow> bool" where
  "same_observation a b \<longleftrightarrow> o_timestamp_ms a = o_timestamp_ms b \<and>
     f64_eq (m_value (o_measurement a)) (m_value (o_measurement b)) \<and> o_workload_id a = o_workload_id b"

definition record_observation :: "observation \<Rightarrow> impl \<Rightarrow> status \<times> impl" where
  "record_observation ob s =
     (if id_is_nil (o_id ob) \<or> id_is_nil (o_generation ob) then (Status_InvalidInput, s)
      else if id_is_nil (o_workload_id ob) then (Status_InvalidInput, s)
      else if \<not> measurement_is_valid (o_measurement ob) then (Status_InvalidInput, s)
      else if \<not> is_finite (f64_of_i64 (o_timestamp_ms ob)) then (Status_InvalidInput, s)
      else case map_find (i_observations s) (o_id ob) of
        Some o' \<Rightarrow> if same_observation o' ob then (Status_Ok, s) else (Status_InvalidInput, s)
      | None \<Rightarrow> (Status_Ok, s\<lparr>i_observations := map_emplace (i_observations s) (o_id ob) ob\<rparr>))"

definition record_recovery ::
  "WorkloadId \<Rightarrow> WorkloadId \<Rightarrow> interference_domain \<Rightarrow> impl \<Rightarrow> status \<times> impl" where
  "record_recovery victim neighbor domain s =
     (if id_is_nil victim \<or> id_is_nil neighbor then (Status_InvalidInput, s)
      else (Status_Ok, s\<lparr>i_recoveries := set_insert (i_recoveries s) (victim, neighbor, domain)\<rparr>))"

subsection \<open>Comparison\<close>

definition empty_result ::
  "workload_descriptor \<Rightarrow> workload_descriptor \<Rightarrow> interference_domain \<Rightarrow> impl \<Rightarrow> pairwise" where
  "empty_result affected associated domain s = default_pairwise\<lparr>p_victim := wl_id affected,
     p_neighbor := wl_id associated, p_domain := domain, p_comparison_generation := Id 1,
     p_epoch := i_epoch s, p_freshness := Freshness_Unknown\<rparr>"

text \<open>From the mean of the counted measurements to the comparison id: everything \<open>compare\<close> writes
  into \<open>result\<close> once the evidence suffices.\<close>

definition score ::
  "workload_descriptor \<Rightarrow> workload_descriptor \<Rightarrow> interference_domain \<Rightarrow> observation list \<Rightarrow> policy \<Rightarrow>
   impl \<Rightarrow> baseline \<Rightarrow> bool \<Rightarrow> aggregate \<Rightarrow> pairwise \<Rightarrow> pairwise" where
  "score affected associated domain obs p s b fresh_ok agg result =
     (let n = a_n agg;
          mean = mean_of (a_vals agg) n;
          variance = variance_of (a_vals agg) mean n;
          rel = relative_degradation b
            (default_measurement\<lparr>m_kind := b_metric_kind b, m_value := mean\<rparr>);
          magnitude = degradation_magnitude (b_metric_kind b) rel;
          (hard, soft) = analyse_confounders affected obs;
          confounded = (hard \<noteq> []);
          has_recovery = ((wl_id affected, wl_id associated, domain) \<in> set (i_recoveries s))
      in result\<lparr>
           p_confounded := confounded,
           p_unresolved_confounders := hard @ soft,
           p_degradation := make_degradation b mean rel magnitude variance n,
           p_confidence := confidence_of b fresh_ok (p_freshness result) n p confounded soft,
           p_outcome := (if a_overlap agg then classify_outcome magnitude p
                         else Outcome_NoInterferenceDetected),
           p_attribution := attribution_of (a_overlap agg) hard has_recovery,
           p_evidence_sources := p_evidence_sources result @
             [if all_measured affected obs then Provenance_Measured else Provenance_Controlled],
           p_comparison_id := comparison_digest (wl_id affected) (wl_id associated) domain (b_id b) n\<rparr>)"

definition indicates_interference :: "outcome \<Rightarrow> bool" where
  "indicates_interference oc \<longleftrightarrow> oc = Outcome_PotentialInterference \<or> oc = Outcome_InterferenceDetected \<or>
     oc = Outcome_SevereInterference"

definition make_episode ::
  "workload_descriptor \<Rightarrow> workload_descriptor \<Rightarrow> interference_domain \<Rightarrow> observation list \<Rightarrow> impl \<Rightarrow>
   baseline \<Rightarrow> pairwise \<Rightarrow> episode" where
  "make_episode affected associated domain obs s b result =
     (let prov = (if all_measured affected obs then Provenance_Measured else Provenance_Controlled)
      in \<lparr>e_id = episode_digest (wl_id affected) domain (b_id b), e_generation = Id 1,
          e_start_ms = first_timestamp obs, e_end_ms = last_timestamp obs, e_open = False,
          e_affected = wl_id affected, e_co_running = [wl_id associated], e_domains = [domain],
          e_baseline_id = b_id b, e_degradation = p_degradation result,
          e_evidence = [\<lparr>v_id = Id 1, v_generation = Id 1, v_provenance = prov,
             v_strength = p_attribution result, v_outcome = p_outcome result,
             v_summary = ''controlled co-run degradation''\<rparr>],
          e_confidence = p_confidence result, e_classification = p_outcome result,
          e_provenance = prov, e_freshness = p_freshness result, e_epoch = i_epoch s\<rparr>)"

text \<open>Recording: the comparison and the matrix cell are stored before the episode id is written
  into the result that is returned.\<close>

definition commit ::
  "workload_descriptor \<Rightarrow> workload_descriptor \<Rightarrow> interference_domain \<Rightarrow> observation list \<Rightarrow>
   baseline \<Rightarrow> pairwise \<Rightarrow> impl \<Rightarrow> pairwise \<times> impl" where
  "commit affected associated domain obs b result s =
     (let s1 = s\<lparr>i_comparisons := map_assign (i_comparisons s) (p_comparison_id result) result,
                 i_matrix := matrix_set (i_matrix s)
                   (CellKey (wl_id affected) (wl_id associated) domain) result\<rparr>
      in if indicates_interference (p_outcome result) then
           let ep = make_episode affected associated domain obs s1 b result
           in (result\<lparr>p_episode_id := e_id ep\<rparr>,
               s1\<lparr>i_episodes := map_assign (i_episodes s1) (e_id ep) ep\<rparr>)
         else (result, s1))"

definition compare ::
  "workload_descriptor \<Rightarrow> workload_descriptor \<Rightarrow> interference_domain \<Rightarrow> observation list \<Rightarrow> policy \<Rightarrow>
   impl \<Rightarrow> pairwise \<times> impl" where
  "compare affected associated domain obs p s =
     (let result = empty_result affected associated domain s in
      if \<not> policy_isValid p then
        (result\<lparr>p_outcome := Outcome_Unknown, p_attribution := Attribution_Unknown\<rparr>, s)
      else case select_baseline affected (i_baselines s) of (usable, any_match) \<Rightarrow>
        if any_match = None then
          (result\<lparr>p_outcome := Outcome_InsufficientEvidence, p_freshness := Freshness_Unknown\<rparr>, s)
        else case usable of
          None \<Rightarrow> (result\<lparr>p_outcome := Outcome_BaselineInvalid, p_freshness := Freshness_Unknown\<rparr>, s)
        | Some b \<Rightarrow>
            let (baseline_fresh, fresh_ok) = freshness_window b (last_timestamp obs) p in
            if \<not> fresh_ok then
              (result\<lparr>p_outcome := Outcome_RevalidationRequired, p_freshness := baseline_fresh\<rparr>, s)
            else
              let agg = aggregate_obs affected associated b obs;
                  result = result\<lparr>p_baseline_id := b_id b, p_sample_count := a_n agg,
                                  p_freshness := baseline_fresh\<rparr>
              in if a_n agg = 0 then (result\<lparr>p_outcome := Outcome_InsufficientEvidence\<rparr>, s)
                 else if a_n agg < min_samples p then
                   (result\<lparr>p_outcome := Outcome_InsufficientEvidence, p_confidence := f64_zero\<rparr>, s)
                 else commit affected associated domain obs b
                        (score affected associated domain obs p s b fresh_ok agg result) s)"

subsection \<open>Explanations and views\<close>

definition explain ::
  "WorkloadId \<Rightarrow> WorkloadId \<Rightarrow> interference_domain \<Rightarrow> policy \<Rightarrow> impl \<Rightarrow> explanation" where
  "explain affected associated domain p s =
     (let ex = default_explanation\<lparr>x_affected := affected, x_associated := [associated],
        x_domain := domain, x_authority_only := True, x_attribution := Attribution_Unknown,
        x_outcome := Outcome_Unknown\<rparr>
      in case matrix_get (i_matrix s) (CellKey affected associated domain) of
        None \<Rightarrow> ex
      | Some c \<Rightarrow>
          let has_baseline = (\<not> id_is_nil (p_baseline_id c));
              few = (p_sample_count c < min_samples p)
          in ex\<lparr>x_degradation := p_degradation c, x_sample_count := p_sample_count c,
                x_confidence := p_confidence c, x_attribution := p_attribution c,
                x_outcome := (if few then Outcome_InsufficientEvidence else p_outcome c),
                x_provenance := (if p_evidence_sources c = [] then Provenance_Unknown
                                 else hd (p_evidence_sources c)),
                x_freshness := p_freshness c, x_baseline_id := p_baseline_id c,
                x_has_baseline := has_baseline,
                x_confounders_unresolved := p_unresolved_confounders c,
                x_variance := (if g_deltas (p_degradation c) \<noteq> []
                               then d_variance (hd (g_deltas (p_degradation c))) else f64_zero),
                x_what_would_strengthen_evidence :=
                  (if \<not> has_baseline then [''run isolated baseline''] else []) @
                  (if few then [''increase repetitions''] else []) @
                  (if p_freshness c \<noteq> Freshness_Current then [''wait for source freshness''] else []) @
                  map (\<lambda>k. ''control '' @ confounder_name k) (p_unresolved_confounders c) @
                  (if p_attribution c = Attribution_ControlledComparison
                   then [''remove neighbor workload and confirm recovery''] else [])\<rparr>)"

definition pairwise_matrix :: "impl \<Rightarrow> matrix" where
  "pairwise_matrix s = i_matrix s"

definition list_episodes :: "impl \<Rightarrow> episode list" where
  "list_episodes s = map snd (i_episodes s)"

definition observation_count :: "impl \<Rightarrow> nat" where
  "observation_count s = length (i_observations s)"

definition baseline_count :: "impl \<Rightarrow> nat" where
  "baseline_count s = length (i_baselines s)"

definition source_count :: "impl \<Rightarrow> nat" where
  "source_count s = length (i_sources s)"

definition workload_count :: "impl \<Rightarrow> nat" where
  "workload_count s = length (i_workloads s)"

definition worker_count :: "impl \<Rightarrow> nat" where
  "worker_count s = length (i_workers s)"

definition episode_count :: "impl \<Rightarrow> nat" where
  "episode_count s = length (i_episodes s)"

definition observations_for :: "WorkloadId \<Rightarrow> impl \<Rightarrow> observation list" where
  "observations_for w s = filter (\<lambda>ob. o_workload_id ob = w) (map snd (i_observations s))"

subsection \<open>The mutex\<close>

text \<open>\<open>mutex_\<close> is a \<open>std::mutex\<close>: locking it while this thread already holds it never returns.
  A member function is therefore a partial function on the object; \<open>None\<close> is a call that blocks
  for ever. \<open>lock_guard\<close> holds the mutex for the whole body and releases it at the end.\<close>

record observatory =
  ob_impl :: impl
  ob_locked :: bool

definition lock_guard :: "(observatory \<Rightarrow> ('a \<times> observatory) option) \<Rightarrow> observatory \<Rightarrow> ('a \<times> observatory) option" where
  "lock_guard body ob =
     (if ob_locked ob then None
      else case body (ob\<lparr>ob_locked := True\<rparr>) of
        None \<Rightarrow> None
      | Some (r, ob') \<Rightarrow> Some (r, ob'\<lparr>ob_locked := False\<rparr>))"

definition on_impl :: "(impl \<Rightarrow> 'a \<times> impl) \<Rightarrow> observatory \<Rightarrow> ('a \<times> observatory) option" where
  "on_impl f ob = (case f (ob_impl ob) of (r, s) \<Rightarrow> Some (r, ob\<lparr>ob_impl := s\<rparr>))"

definition compare_method ::
  "workload_descriptor \<Rightarrow> workload_descriptor \<Rightarrow> interference_domain \<Rightarrow> observation list \<Rightarrow> policy \<Rightarrow>
   observatory \<Rightarrow> (pairwise \<times> observatory) option" where
  "compare_method affected associated domain obs p =
     lock_guard (on_impl (compare affected associated domain obs p))"

definition experiment_obs :: "WorkloadId \<Rightarrow> WorkloadId \<Rightarrow> impl \<Rightarrow> observation list \<times> observation list" where
  "experiment_obs primary neighbor s = foldl (\<lambda>(ps, ns) (oid, ob).
     if o_workload_id ob = primary then
       (if neighbor \<in> set (o_co_run_peers ob) then (ps @ [ob], ns) else (ps, ns))
     else if o_workload_id ob = neighbor then
       (if primary \<in> set (o_co_run_peers ob) then (ps, ns @ [ob]) else (ps, ns))
     else (ps, ns)) ([], []) (i_observations s)"

definition empty_experiment :: "experiment_plan \<Rightarrow> experiment_result" where
  "empty_experiment plan = \<lparr>res_experiment_id = plan_id plan, res_generation = plan_generation plan,
     res_primary_as_victim = None, res_neighbor_as_victim = None, res_repetitions_executed = 0,
     res_complete = False\<rparr>"

text \<open>\<open>if (!obs.empty()) res.x = compare(...)\<close>\<close>

definition compare_if_any ::
  "workload_descriptor \<Rightarrow> workload_descriptor \<Rightarrow> interference_domain \<Rightarrow> observation list \<Rightarrow> policy \<Rightarrow>
   observatory \<Rightarrow> (pairwise option \<times> observatory) option" where
  "compare_if_any affected associated domain obs p ob =
     (if obs = [] then Some (None, ob)
      else case compare_method affected associated domain obs p ob of
        None \<Rightarrow> None
      | Some (r, ob') \<Rightarrow> Some (Some r, ob'))"

definition run_experiment ::
  "experiment_plan \<Rightarrow> policy \<Rightarrow> observatory \<Rightarrow> (experiment_result \<times> observatory) option" where
  "run_experiment plan p = lock_guard (\<lambda>ob.
     let res = empty_experiment plan; s = ob_impl ob in
     if id_is_nil (plan_id plan) then Some (res, ob)
     else case (map_find (i_workloads s) (plan_primary plan), map_find (i_workloads s) (plan_neighbor plan)) of
       (Some wp, Some wn) \<Rightarrow>
         (case experiment_obs (plan_primary plan) (plan_neighbor plan) s of (primary_obs, neighbor_obs) \<Rightarrow>
            case compare_if_any wp wn (plan_domain plan) primary_obs p ob of
              None \<Rightarrow> None
            | Some (rp, ob1) \<Rightarrow>
                (case compare_if_any wn wp (plan_domain plan) neighbor_obs p ob1 of
                   None \<Rightarrow> None
                 | Some (rn, ob2) \<Rightarrow>
                     Some (res\<lparr>res_primary_as_victim := rp, res_neighbor_as_victim := rn,
                               res_repetitions_executed := plan_repetitions plan,
                               res_complete := (rp \<noteq> None \<and> rn \<noteq> None)\<rparr>, ob2)))
     | _ \<Rightarrow> Some (res, ob))"

subsection \<open>The decision path of compare\<close>

text \<open>\<open>evidence_ok\<close> collects the guards on the path to a scored result.\<close>

definition evidence_ok ::
  "workload_descriptor \<Rightarrow> observation list \<Rightarrow> policy \<Rightarrow> impl \<Rightarrow> baseline \<Rightarrow> bool" where
  "evidence_ok affected obs p s b \<longleftrightarrow> policy_isValid p \<and>
     fst (select_baseline affected (i_baselines s)) = Some b \<and>
     snd (freshness_window b (last_timestamp obs) p) \<and>
     min_samples p \<le> of_nat (length (filter (counted affected b) obs))"

definition sized_result ::
  "workload_descriptor \<Rightarrow> workload_descriptor \<Rightarrow> interference_domain \<Rightarrow> observation list \<Rightarrow> baseline \<Rightarrow>
   impl \<Rightarrow> pairwise" where
  "sized_result affected associated domain obs b s = (empty_result affected associated domain s)
     \<lparr>p_baseline_id := b_id b, p_sample_count := a_n (aggregate_obs affected associated b obs),
      p_freshness := Freshness_Current\<rparr>"

definition scored_result ::
  "workload_descriptor \<Rightarrow> workload_descriptor \<Rightarrow> interference_domain \<Rightarrow> observation list \<Rightarrow> policy \<Rightarrow>
   impl \<Rightarrow> baseline \<Rightarrow> pairwise" where
  "scored_result affected associated domain obs p s b =
     score affected associated domain obs p s b True (aggregate_obs affected associated b obs)
       (sized_result affected associated domain obs b s)"

lemma evidence_n:
  assumes "evidence_ok affected obs p s b"
  shows "a_n (aggregate_obs affected associated b obs) \<noteq> 0"
    "\<not> a_n (aggregate_obs affected associated b obs) < min_samples p"
proof -
  have "1 \<le> min_samples p" "min_samples p \<le> a_n (aggregate_obs affected associated b obs)"
    using assms by (auto simp: evidence_ok_def policy_isValid_def aggregate_obs_simps)
  then show "a_n (aggregate_obs affected associated b obs) \<noteq> 0"
    "\<not> a_n (aggregate_obs affected associated b obs) < min_samples p"
    by auto
qed

lemma evidence_any:
  assumes "fst (select_baseline w bs) = Some b"
  shows "snd (select_baseline w bs) \<noteq> None"
  using select_baseline_SomeD [OF assms] by (auto simp: select_baseline_any)

lemma compare_scored:
  assumes "evidence_ok affected obs p s b"
  shows "compare affected associated domain obs p s =
    commit affected associated domain obs b (scored_result affected associated domain obs p s b) s"
proof -
  have p: "policy_isValid p" and u: "fst (select_baseline affected (i_baselines s)) = Some b"
    and f: "freshness_window b (last_timestamp obs) p = (Freshness_Current, True)"
    using assms freshness_window_ok_current [of b "last_timestamp obs" p]
    by (auto simp: evidence_ok_def prod_eq_iff)
  have sel: "select_baseline affected (i_baselines s) = (Some b, snd (select_baseline affected (i_baselines s)))"
    using u by (simp add: prod_eq_iff)
  show ?thesis
    using p evidence_any [OF u] evidence_n [OF assms]
    unfolding compare_def Let_def by (subst sel) (auto simp: f scored_result_def sized_result_def)
qed

definition verdicts :: "outcome set" where
  "verdicts = {Outcome_NoInterferenceDetected, Outcome_PotentialInterference,
     Outcome_InterferenceDetected, Outcome_SevereInterference}"

lemma compare_unscored:
  assumes "\<nexists>b. evidence_ok affected obs p s b"
  shows "snd (compare affected associated domain obs p s) = s"
    "p_outcome (fst (compare affected associated domain obs p s)) \<in>
       {Outcome_Unknown, Outcome_InsufficientEvidence, Outcome_BaselineInvalid, Outcome_RevalidationRequired}"
    "p_confidence (fst (compare affected associated domain obs p s)) = f64_zero"
    "p_attribution (fst (compare affected associated domain obs p s)) = Attribution_Unknown"
    "p_comparison_id (fst (compare affected associated domain obs p s)) = nil_id"
    "p_episode_id (fst (compare affected associated domain obs p s)) = nil_id"
  using assms
  by (auto simp: compare_def Let_def evidence_ok_def empty_result_def default_pairwise_def
      aggregate_obs_simps not_le split: prod.splits option.splits)

lemma classify_verdict: "classify_outcome x p \<in> verdicts"
  by (auto simp: classify_outcome_def verdicts_def)

lemmas scored_simps = scored_result_def score_def sized_result_def empty_result_def Let_def

lemma scored_outcome_verdict: "p_outcome (scored_result affected associated domain obs p s b) \<in> verdicts"
  using classify_verdict by (auto simp: scored_simps verdicts_def split: prod.splits)

lemma scored_keys:
  "p_victim (scored_result affected associated domain obs p s b) = wl_id affected"
  "p_neighbor (scored_result affected associated domain obs p s b) = wl_id associated"
  "p_domain (scored_result affected associated domain obs p s b) = domain"
  "p_episode_id (scored_result affected associated domain obs p s b) = nil_id"
  "p_freshness (scored_result affected associated domain obs p s b) = Freshness_Current"
  "p_baseline_id (scored_result affected associated domain obs p s b) = b_id b"
  "p_epoch (scored_result affected associated domain obs p s b) = i_epoch s"
  "p_sample_count (scored_result affected associated domain obs p s b) =
     of_nat (length (filter (counted affected b) obs))"
  by (auto simp: scored_simps default_pairwise_def aggregate_obs_simps split: prod.splits)

lemma commit_fst:
  "fst (commit affected associated domain obs b r s) =
     (if indicates_interference (p_outcome r)
      then r\<lparr>p_episode_id := episode_digest (wl_id affected) domain (b_id b)\<rparr> else r)"
  by (simp add: commit_def Let_def make_episode_def)

lemma commit_frame:
  "i_id (snd (commit affected associated domain obs b r s)) = i_id s"
  "i_generation (snd (commit affected associated domain obs b r s)) = i_generation s"
  "i_epoch (snd (commit affected associated domain obs b r s)) = i_epoch s"
  "i_sources (snd (commit affected associated domain obs b r s)) = i_sources s"
  "i_workers (snd (commit affected associated domain obs b r s)) = i_workers s"
  "i_workloads (snd (commit affected associated domain obs b r s)) = i_workloads s"
  "i_baselines (snd (commit affected associated domain obs b r s)) = i_baselines s"
  "i_observations (snd (commit affected associated domain obs b r s)) = i_observations s"
  "i_recoveries (snd (commit affected associated domain obs b r s)) = i_recoveries s"
  "i_comparisons (snd (commit affected associated domain obs b r s)) =
     map_assign (i_comparisons s) (p_comparison_id r) r"
  "i_matrix (snd (commit affected associated domain obs b r s)) =
     map_assign (i_matrix s) (CellKey (wl_id affected) (wl_id associated) domain) r"
  by (simp_all add: commit_def Let_def matrix_set_def)

lemma compare_frame:
  "i_id (snd (compare affected associated domain obs p s)) = i_id s"
  "i_generation (snd (compare affected associated domain obs p s)) = i_generation s"
  "i_epoch (snd (compare affected associated domain obs p s)) = i_epoch s"
  "i_sources (snd (compare affected associated domain obs p s)) = i_sources s"
  "i_workers (snd (compare affected associated domain obs p s)) = i_workers s"
  "i_workloads (snd (compare affected associated domain obs p s)) = i_workloads s"
  "i_baselines (snd (compare affected associated domain obs p s)) = i_baselines s"
  "i_observations (snd (compare affected associated domain obs p s)) = i_observations s"
  "i_recoveries (snd (compare affected associated domain obs p s)) = i_recoveries s"
  by (cases "\<exists>b. evidence_ok affected obs p s b";
      auto simp: compare_scored commit_frame compare_unscored)+

lemma compare_verdict_iff_evidence:
  "p_outcome (fst (compare affected associated domain obs p s)) \<in> verdicts \<longleftrightarrow>
     (\<exists>b. evidence_ok affected obs p s b)"
proof (cases "\<exists>b. evidence_ok affected obs p s b")
  case True
  then show ?thesis
    using scored_outcome_verdict by (auto simp: compare_scored commit_fst)
next
  case False
  then show ?thesis using compare_unscored(2) [of affected obs p s associated domain]
    by (auto simp: verdicts_def)
qed

lemma map_assign_idem: "map_assign (map_assign m k v) k v = map_assign m k v"
  by (induction m k v rule: map_assign.induct) auto

lemma scored_result_cong:
  assumes "i_epoch s' = i_epoch s" "i_recoveries s' = i_recoveries s"
  shows "scored_result affected associated domain obs p s' b = scored_result affected associated domain obs p s b"
  using assms by (simp add: scored_simps)

lemma evidence_ok_cong: "i_baselines s' = i_baselines s \<Longrightarrow> evidence_ok w obs p s' b = evidence_ok w obs p s b"
  by (simp add: evidence_ok_def)

lemma make_episode_cong: "i_epoch s' = i_epoch s \<Longrightarrow>
   make_episode affected associated domain obs s' b r = make_episode affected associated domain obs s b r"
  by (simp add: make_episode_def)

lemma commit_episodes:
  "i_episodes (snd (commit affected associated domain obs b r s)) =
     (if indicates_interference (p_outcome r)
      then map_assign (i_episodes s) (episode_digest (wl_id affected) domain (b_id b))
             (make_episode affected associated domain obs s b r)
      else i_episodes s)"
  by (simp add: commit_def Let_def) (simp add: make_episode_def)

lemma commit_twice:
  "commit affected associated domain obs b r (snd (commit affected associated domain obs b r s)) =
   commit affected associated domain obs b r s"
proof (rule prod_eqI)
  show "fst (commit affected associated domain obs b r (snd (commit affected associated domain obs b r s))) =
    fst (commit affected associated domain obs b r s)" by (simp add: commit_fst)
  show "snd (commit affected associated domain obs b r (snd (commit affected associated domain obs b r s))) =
    snd (commit affected associated domain obs b r s)"
    by (rule impl.equality)
      (simp_all add: commit_frame commit_episodes map_assign_idem
        make_episode_cong [of "snd (commit affected associated domain obs b r s)" s])
qed

text \<open>C19. Duplicate comparisons never double-count: running the same comparison again on the state
  it produced returns the same result and leaves the state unchanged.\<close>

theorem compare_idempotent:
  "compare affected associated domain obs p (snd (compare affected associated domain obs p s)) =
   compare affected associated domain obs p s"
proof (cases "\<exists>b. evidence_ok affected obs p s b")
  case True
  then obtain b where b: "evidence_ok affected obs p s b" ..
  let ?s' = "snd (compare affected associated domain obs p s)"
  have b': "evidence_ok affected obs p ?s' b"
    using b by (simp add: evidence_ok_cong [of ?s' s] compare_frame)
  show ?thesis
    unfolding compare_scored [OF b'] scored_result_cong [of ?s' s, OF compare_frame(3) compare_frame(9)]
    unfolding compare_scored [OF b] by (rule commit_twice)
qed (simp add: compare_unscored(1))

text \<open>C7. Whatever the state, the observations and the policy, the confidence of a comparison is a
  number in the closed interval from 0 to 1; it is never NaN and never infinite.\<close>

theorem compare_confidence_bounds:
  "f64_le f64_zero (p_confidence (fst (compare affected associated domain obs p s))) \<and>
   f64_le (p_confidence (fst (compare affected associated domain obs p s))) f64_one"
proof -
  have z: "f64_le f64_zero f64_zero" "f64_le f64_zero f64_one" by code_simp+
  let ?c = "p_confidence (fst (compare affected associated domain obs p s))"
  show ?thesis
  proof (cases "\<exists>b. evidence_ok affected obs p s b")
    case True
    then obtain b where b: "evidence_ok affected obs p s b" ..
    have u: "is_usable b" using b select_baseline_SomeD(3) by (auto simp: evidence_ok_def)
    obtain hard soft where hs: "analyse_confounders affected obs = (hard, soft)" by fastforce
    have "?c = p_confidence (scored_result affected associated domain obs p s b)"
      by (simp add: compare_scored [OF b] commit_fst)
    then show ?thesis
      using confidence_bounds [OF u evidence_n(1) [OF b]] by (simp add: scored_simps hs)
  qed (use z in \<open>simp add: compare_unscored\<close>)
qed

subsection \<open>A concrete observatory\<close>

text \<open>A victim (workload 7), a neighbour (workload 8), an isolated latency baseline of 100 for the
  victim, and three co-run latencies of 160, 150 and 170, used by the witnesses.\<close>

definition ex_workload :: "u64 \<Rightarrow> workload_descriptor" where
  "ex_workload k = \<lparr>wl_id = Id k, wl_generation = Id 1, wl_name = ''w'', wl_config_fingerprint = ''c'',
     wl_problem_size_fingerprint = ''p'', wl_device_id = Id 3, wl_device_generation = Id 1,
     wl_worker_id = Id 4, wl_worker_boot = Id 5, wl_policy_generation = ''g'',
     wl_runtime_generation = ''r'', wl_kernel_generation = ''k'', wl_topology_generation = Id 1,
     wl_start_ms = 0, wl_end_ms = 0, wl_attempt_id = 0, wl_priority_class = []\<rparr>"

definition ex_baseline :: baseline where
  "ex_baseline = default_baseline\<lparr>b_id := Id 9, b_generation := Id 1, b_workload_id := Id 7,
     b_workload_generation := Id 1, b_device_id := Id 3, b_device_generation := Id 1,
     b_worker_id := Id 4, b_worker_boot := Id 5, b_config_fingerprint := ''c'',
     b_problem_size_fingerprint := ''p'', b_runtime_generation := ''r'', b_kernel_generation := ''k'',
     b_policy_generation := ''g'', b_topology_generation := Id 1, b_timestamp_ms := 1000,
     b_sample_count := 10, b_mean_value := f64_lit 100 1\<rparr>"

definition ex_observation :: "u64 \<Rightarrow> double \<Rightarrow> observation" where
  "ex_observation k v = default_observation\<lparr>o_id := Id k, o_generation := Id 1, o_workload_id := Id 7,
     o_device_id := Id 3, o_timestamp_ms := 2000, o_provenance := Provenance_Measured,
     o_measurement := default_measurement\<lparr>m_value := v\<rparr>, o_co_run_peers := [Id 8]\<rparr>"

definition ex_observations :: "observation list" where
  "ex_observations = [ex_observation 21 (f64_lit 160 1), ex_observation 22 (f64_lit 150 1),
     ex_observation 23 (f64_lit 170 1)]"

definition ex_state :: impl where
  "ex_state = snd (publish_baseline ex_baseline (new_observatory (Id 1) (Id 1)))"

definition scored_magnitude :: "workload_descriptor \<Rightarrow> observation list \<Rightarrow> baseline \<Rightarrow> double" where
  "scored_magnitude affected obs b = degradation_magnitude (b_metric_kind b) (relative_degradation b
     (default_measurement\<lparr>m_kind := b_metric_kind b,
        m_value := mean_of (map (\<lambda>ob. m_value (o_measurement ob)) (filter (counted affected b) obs))
          (of_nat (length (filter (counted affected b) obs)))\<rparr>))"

definition overlapping :: "workload_descriptor \<Rightarrow> workload_descriptor \<Rightarrow> baseline \<Rightarrow> observation list \<Rightarrow> bool" where
  "overlapping affected associated b obs \<longleftrightarrow>
     (\<exists>ob\<in>set obs. counted affected b ob \<and> wl_id associated \<in> set (o_co_run_peers ob))"

lemma scored_outcome:
  "p_outcome (scored_result affected associated domain obs p s b) =
     (if overlapping affected associated b obs then classify_outcome (scored_magnitude affected obs b) p
      else Outcome_NoInterferenceDetected)"
  by (auto simp: scored_simps scored_magnitude_def overlapping_def aggregate_obs_simps split: prod.splits)

lemma scored_worst:
  "g_worst_relative (p_degradation (scored_result affected associated domain obs p s b)) =
     scored_magnitude affected obs b"
  by (simp add: scored_simps scored_magnitude_def make_degradation_def aggregate_obs_simps split: prod.splits)

lemma scored_attribution:
  "p_attribution (scored_result affected associated domain obs p s b) =
     attribution_of (overlapping affected associated b obs) (fst (analyse_confounders affected obs))
       ((wl_id affected, wl_id associated, domain) \<in> set (i_recoveries s))"
  by (simp add: scored_simps overlapping_def aggregate_obs_simps split: prod.splits)

lemma ex_evidence: "evidence_ok (ex_workload 7) ex_observations default_policy ex_state ex_baseline"
  unfolding evidence_ok_def by (intro conjI; code_simp)

lemma ex_magnitude: "scored_magnitude (ex_workload 7) ex_observations ex_baseline = f64_lit 6 10"
  by code_simp

lemma ex_overlap: "overlapping (ex_workload 7) (ex_workload 8) ex_baseline ex_observations"
  by code_simp

lemma ex_outcome:
  "p_outcome (fst (compare (ex_workload 7) (ex_workload 8) d ex_observations default_policy ex_state)) =
     Outcome_SevereInterference"
proof -
  have "classify_outcome (f64_lit 6 10) default_policy = Outcome_SevereInterference" by code_simp
  then show ?thesis
    by (simp add: compare_scored [OF ex_evidence] commit_fst scored_outcome ex_overlap ex_magnitude)
qed

subsection \<open>Soundness of an interference verdict\<close>

lemma scored_mean_not_nan:
  assumes "evidence_ok affected obs p s b"
  defines "vs \<equiv> map (\<lambda>ob. m_value (o_measurement ob)) (filter (counted affected b) obs)"
  shows "f64_le f64_zero (mean_of vs (of_nat (length vs)))"
proof (rule mean_nonneg)
  show "of_nat (length vs) \<noteq> (0 :: u64)"
    using evidence_n(1) [OF assms(1)] by (simp add: aggregate_obs_simps vs_def)
  show "\<forall>v\<in>set vs. f64_le f64_zero v" by (auto simp: vs_def counted_value)
qed

lemma classify_threshold:
  assumes "indicates_interference (classify_outcome x p)" "\<not> f64_is_nan x" "\<not> f64_is_nan (potential_threshold p)"
  shows "f64_le (potential_threshold p) x"
proof -
  have "\<not> f64_lt x (potential_threshold p)"
    using assms(1) by (auto simp: classify_outcome_def indicates_interference_def split: if_splits)
  then show ?thesis using f64_not_lt [OF assms(2,3)] by simp
qed

lemma policy_thresholds_not_nan: "policy_isValid p \<Longrightarrow> \<not> f64_is_nan (potential_threshold p)"
  by (auto simp: policy_isValid_def f64_le_def)

lemma scored_magnitude_nonneg:
  assumes "evidence_ok affected obs p s b"
  shows "f64_le f64_zero (scored_magnitude affected obs b)"
proof -
  have "is_finite_nonneg (b_mean_value b)"
    using assms select_baseline_SomeD(3) by (auto simp: evidence_ok_def is_usable_def)
  then show ?thesis
    using scored_mean_not_nan [OF assms] unfolding scored_magnitude_def
    by (intro magnitude_nonneg relative_not_nan) (auto dest: f64_le_not_nan)
qed

text \<open>C2. An interference verdict is sound. If \<open>compare\<close> reports potential, detected or severe
  interference under a policy with a positive potential threshold, then there is a stored, usable,
  binding-compatible and current baseline of the victim, a co-run measurement of the victim that
  names the neighbour as a peer, and the mean of the counted measurements is strictly worse than the
  baseline's mean in the direction of the metric; the reported worst degradation is at least the
  threshold.\<close>

theorem compare_interference_sound:
  assumes "indicates_interference (p_outcome (fst (compare affected associated domain obs p s)))"
    and "f64_lt f64_zero (potential_threshold p)"
  shows "\<exists>b\<in>snd ` set (i_baselines s).
    concerns affected b \<and> is_usable b \<and> baseline_binding b = workload_binding affected \<and>
    b_freshness b = Freshness_Current \<and>
    (\<exists>ob\<in>set obs. counted affected b ob \<and> wl_id associated \<in> set (o_co_run_peers ob)) \<and>
    f64_le (potential_threshold p)
      (g_worst_relative (p_degradation (fst (compare affected associated domain obs p s)))) \<and>
    (let vs = map (\<lambda>ob. m_value (o_measurement ob)) (filter (counted affected b) obs);
         mean = mean_of vs (of_nat (length vs))
     in lower_is_better (b_metric_kind b) \<and> f64_lt (b_mean_value b) mean \<or>
        higher_is_better (b_metric_kind b) \<and> f64_lt mean (b_mean_value b))"
proof -
  have "p_outcome (fst (compare affected associated domain obs p s)) \<in> verdicts"
    using assms(1) by (auto simp: indicates_interference_def verdicts_def)
  then obtain b where ev: "evidence_ok affected obs p s b"
    by (auto simp: compare_verdict_iff_evidence)
  let ?r = "scored_result affected associated domain obs p s b" and ?m = "scored_magnitude affected obs b"
  have sel: "fst (select_baseline affected (i_baselines s)) = Some b" and pv: "policy_isValid p"
    and cur: "b_freshness b = Freshness_Current"
    using ev by (auto simp: evidence_ok_def freshness_window_ok)
  note b = select_baseline_SomeD [OF sel]
  have res: "p_outcome (fst (compare affected associated domain obs p s)) = p_outcome ?r"
    "p_degradation (fst (compare affected associated domain obs p s)) = p_degradation ?r"
    by (simp_all add: compare_scored [OF ev] commit_fst)
  have ov: "overlapping affected associated b obs" and cl: "indicates_interference (classify_outcome ?m p)"
    using assms(1) unfolding res scored_outcome by (auto simp: indicates_interference_def split: if_splits)
  have thr: "f64_le (potential_threshold p) ?m"
    using cl f64_le_not_nan(2) [OF scored_magnitude_nonneg [OF ev]] policy_thresholds_not_nan [OF pv]
    by (rule classify_threshold)
  have pos: "f64_lt f64_zero ?m" using assms(2) thr by (rule f64_lt_le_trans)
  have "is_finite_nonneg (b_mean_value b)" using b(3) by (simp add: is_usable_def)
  from magnitude_direction [OF this _ pos [unfolded scored_magnitude_def]]
  have dir: "let vs = map (\<lambda>ob. m_value (o_measurement ob)) (filter (counted affected b) obs);
        mean = mean_of vs (of_nat (length vs))
      in lower_is_better (b_metric_kind b) \<and> f64_lt (b_mean_value b) mean \<or>
         higher_is_better (b_metric_kind b) \<and> f64_lt mean (b_mean_value b)"
    using f64_le_not_nan(2) [OF scored_mean_not_nan [OF ev]] by (simp add: Let_def)
  have "b \<in> snd ` set (i_baselines s) \<and> concerns affected b \<and> is_usable b \<and>
      baseline_binding b = workload_binding affected"
    using b by (simp add: binding_matches_iff)
  with cur ov thr dir show ?thesis
    unfolding res scored_worst overlapping_def by blast
qed

theorem compare_interference_sound_witness:
  "\<exists>b\<in>snd ` set (i_baselines ex_state).
    concerns (ex_workload 7) b \<and> is_usable b \<and> baseline_binding b = workload_binding (ex_workload 7) \<and>
    b_freshness b = Freshness_Current \<and>
    (\<exists>ob\<in>set ex_observations. counted (ex_workload 7) b ob \<and> wl_id (ex_workload 8) \<in> set (o_co_run_peers ob)) \<and>
    f64_le (potential_threshold default_policy) (g_worst_relative (p_degradation
      (fst (compare (ex_workload 7) (ex_workload 8) Domain_Cache ex_observations default_policy ex_state)))) \<and>
    (let vs = map (\<lambda>ob. m_value (o_measurement ob)) (filter (counted (ex_workload 7) b) ex_observations);
         mean = mean_of vs (of_nat (length vs))
     in lower_is_better (b_metric_kind b) \<and> f64_lt (b_mean_value b) mean \<or>
        higher_is_better (b_metric_kind b) \<and> f64_lt mean (b_mean_value b))"
proof (rule compare_interference_sound)
  show "indicates_interference (p_outcome
      (fst (compare (ex_workload 7) (ex_workload 8) Domain_Cache ex_observations default_policy ex_state)))"
    by (simp add: ex_outcome indicates_interference_def)
  show "f64_lt f64_zero (potential_threshold default_policy)" by code_simp
qed

subsection \<open>Attribution\<close>

text \<open>C8. Attribution is earned: direct resource evidence is never claimed; counterfactual evidence
  needs a recorded recovery of exactly this victim, neighbour and domain; both counterfactual and
  controlled attribution need an overlapping measurement and no hard confounder in any of the
  victim's observations.\<close>

theorem compare_attribution_earned:
  "let r = fst (compare affected associated domain obs p s) in
    p_attribution r \<noteq> Attribution_DirectResourceEvidence \<and>
    (p_attribution r = Attribution_StrongCounterfactualEvidence \<longrightarrow>
       (wl_id affected, wl_id associated, domain) \<in> set (i_recoveries s)) \<and>
    (p_attribution r \<in> {Attribution_StrongCounterfactualEvidence, Attribution_ControlledComparison} \<longrightarrow>
       (\<exists>ob\<in>set obs. o_workload_id ob = wl_id affected \<and> wl_id associated \<in> set (o_co_run_peers ob)) \<and>
       (\<forall>ob\<in>set obs. o_workload_id ob = wl_id affected \<longrightarrow> (\<forall>c\<in>set (o_confounders ob). \<not> is_hard_confounder c)))"
  (is "let r = ?r in _")
proof (cases "\<exists>b. evidence_ok affected obs p s b")
  case True
  then obtain b where b: "evidence_ok affected obs p s b" ..
  obtain hard soft where hs: "analyse_confounders affected obs = (hard, soft)" by fastforce
  have "p_attribution ?r = attribution_of (overlapping affected associated b obs) hard
      ((wl_id affected, wl_id associated, domain) \<in> set (i_recoveries s))"
    by (simp add: compare_scored [OF b] commit_fst scored_attribution hs)
  moreover have "overlapping affected associated b obs \<Longrightarrow>
      \<exists>ob\<in>set obs. o_workload_id ob = wl_id affected \<and> wl_id associated \<in> set (o_co_run_peers ob)"
    by (auto simp: overlapping_def counted_def)
  moreover have "hard = [] \<Longrightarrow> \<forall>ob\<in>set obs. o_workload_id ob = wl_id affected \<longrightarrow>
      (\<forall>c\<in>set (o_confounders ob). \<not> is_hard_confounder c)"
    using analyse_confounders_spec(3) [OF hs] by auto
  ultimately show ?thesis by (auto simp: Let_def attribution_of_def split: if_splits)
qed (simp add: Let_def compare_unscored)

lemma ex_attribution:
  "p_attribution (fst (compare (ex_workload 7) (ex_workload 8) d ex_observations default_policy ex_state)) =
     Attribution_ControlledComparison"
proof -
  have "fst (analyse_confounders (ex_workload 7) ex_observations) = []" by code_simp
  moreover have "i_recoveries ex_state = []" by code_simp
  ultimately show ?thesis
    by (simp add: compare_scored [OF ex_evidence] commit_fst scored_attribution ex_overlap attribution_of_def)
qed

theorem compare_attribution_earned_witness:
  "\<exists>ob\<in>set ex_observations. o_workload_id ob = wl_id (ex_workload 7) \<and>
     wl_id (ex_workload 8) \<in> set (o_co_run_peers ob)"
  using compare_attribution_earned [of "ex_workload 7" "ex_workload 8" Domain_Cache ex_observations
      default_policy ex_state]
  by (simp add: Let_def ex_attribution)

subsection \<open>What a comparison records\<close>

text \<open>C20. Comparisons are directional and local: comparing a victim with a neighbour in a domain
  leaves every other cell of the interference matrix as it was, in particular the cell of the
  reverse direction, and changes nothing but the matrix, the comparison log and the episodes.\<close>

theorem compare_local:
  assumes "key \<noteq> CellKey (wl_id affected) (wl_id associated) domain"
  shows "matrix_get (i_matrix (snd (compare affected associated domain obs p s))) key = matrix_get (i_matrix s) key \<and>
    (snd (compare affected associated domain obs p s))
      \<lparr>i_matrix := i_matrix s, i_comparisons := i_comparisons s, i_episodes := i_episodes s\<rparr> = s"
proof
  show "matrix_get (i_matrix (snd (compare affected associated domain obs p s))) key = matrix_get (i_matrix s) key"
    using assms by (cases "\<exists>b. evidence_ok affected obs p s b")
      (auto simp: compare_scored commit_frame compare_unscored matrix_get_def)
  show "(snd (compare affected associated domain obs p s))
      \<lparr>i_matrix := i_matrix s, i_comparisons := i_comparisons s, i_episodes := i_episodes s\<rparr> = s"
    by (rule impl.equality) (simp_all add: compare_frame)
qed

theorem compare_local_witness:
  "matrix_get (i_matrix (snd (compare (ex_workload 7) (ex_workload 8) Domain_Cache ex_observations
     default_policy ex_state))) (CellKey (Id 8) (Id 7) Domain_Cache) =
   matrix_get (i_matrix ex_state) (CellKey (Id 8) (Id 7) Domain_Cache)"
  using compare_local [of "CellKey (Id 8) (Id 7) Domain_Cache" "ex_workload 7" "ex_workload 8" Domain_Cache
      ex_observations default_policy ex_state]
  by (simp add: ex_workload_def)

lemma nonzero_digest_nonzero: "nonzero_digest v \<noteq> 0"
  by (simp add: nonzero_digest_def)

lemma digest_not_nil:
  "comparison_digest v n d b k \<noteq> nil_id" "episode_digest v d b \<noteq> nil_id"
  by (simp_all add: comparison_digest_def episode_digest_def nil_id_def nonzero_digest_nonzero)

text \<open>C36. The recorded copy of a comparison lacks its episode: when interference is indicated the
  returned result carries the id of the episode that was stored, but the matrix cell and the
  comparison log were written before that id was set, so both hold a nil episode id.\<close>

theorem compare_recorded_without_episode:
  assumes "indicates_interference (p_outcome (fst (compare affected associated domain obs p s)))"
  shows "\<exists>r s'. compare affected associated domain obs p s = (r, s') \<and> p_episode_id r \<noteq> nil_id \<and>
    map_find (i_episodes s') (p_episode_id r) \<noteq> None \<and>
    matrix_get (i_matrix s') (CellKey (wl_id affected) (wl_id associated) domain) = Some (r\<lparr>p_episode_id := nil_id\<rparr>) \<and>
    map_find (i_comparisons s') (p_comparison_id r) = Some (r\<lparr>p_episode_id := nil_id\<rparr>)"
proof -
  have "p_outcome (fst (compare affected associated domain obs p s)) \<in> verdicts"
    using assms by (auto simp: indicates_interference_def verdicts_def)
  then obtain b where ev: "evidence_ok affected obs p s b"
    by (auto simp: compare_verdict_iff_evidence)
  let ?r = "scored_result affected associated domain obs p s b"
  have oc: "indicates_interference (p_outcome ?r)"
    using assms by (simp add: compare_scored [OF ev] commit_fst split: if_splits)
  have "?r\<lparr>p_episode_id := nil_id\<rparr> = ?r"
    by (rule pairwise.equality) (simp_all add: scored_keys)
  then show ?thesis
    using oc
    by (intro exI [of _ "fst (compare affected associated domain obs p s)"]
          exI [of _ "snd (compare affected associated domain obs p s)"])
      (simp add: compare_scored [OF ev] commit_fst commit_frame commit_episodes matrix_get_def digest_not_nil prod_eq_iff)
qed

theorem compare_recorded_without_episode_witness:
  "\<exists>r s'. compare (ex_workload 7) (ex_workload 8) Domain_Cache ex_observations default_policy ex_state = (r, s') \<and>
    p_episode_id r \<noteq> nil_id \<and> map_find (i_episodes s') (p_episode_id r) \<noteq> None \<and>
    matrix_get (i_matrix s') (CellKey (wl_id (ex_workload 7)) (wl_id (ex_workload 8)) Domain_Cache) =
      Some (r\<lparr>p_episode_id := nil_id\<rparr>) \<and>
    map_find (i_comparisons s') (p_comparison_id r) = Some (r\<lparr>p_episode_id := nil_id\<rparr>)"
  by (rule compare_recorded_without_episode) (simp add: ex_outcome indicates_interference_def)

subsection \<open>Explanations\<close>

text \<open>What \<open>explain\<close> says after a comparison that reached a verdict is what \<open>compare\<close> returned:
  outcome, confidence, attribution, degradation, freshness and sample count agree, and the
  explanation carries no authority.\<close>

theorem explain_after_compare:
  assumes "p_outcome (fst (compare affected associated domain obs p s)) \<in> verdicts"
  shows "let (r, s') = compare affected associated domain obs p s;
           ex = explain (wl_id affected) (wl_id associated) domain p s'
       in x_outcome ex = p_outcome r \<and> x_confidence ex = p_confidence r \<and>
          x_attribution ex = p_attribution r \<and> x_degradation ex = p_degradation r \<and>
          x_freshness ex = p_freshness r \<and> x_sample_count ex = p_sample_count r \<and>
          x_confounders_unresolved ex = p_unresolved_confounders r \<and> x_authority_only ex"
proof -
  obtain b where ev: "evidence_ok affected obs p s b"
    using assms by (auto simp: compare_verdict_iff_evidence)
  let ?r = "scored_result affected associated domain obs p s b"
  have n: "\<not> p_sample_count ?r < min_samples p"
    using ev by (simp add: scored_keys evidence_ok_def not_less)
  have m: "matrix_get (i_matrix (snd (compare affected associated domain obs p s)))
      (CellKey (wl_id affected) (wl_id associated) domain) = Some ?r"
    by (simp add: compare_scored [OF ev] commit_frame matrix_get_def)
  have r: "fst (compare affected associated domain obs p s) = ?r \<or>
      (\<exists>e. fst (compare affected associated domain obs p s) = ?r\<lparr>p_episode_id := e\<rparr>)"
    by (auto simp: compare_scored [OF ev] commit_fst)
  show ?thesis
    unfolding Let_def case_prod_beta explain_def m using r n by (auto simp: Let_def)
qed

theorem explain_after_compare_witness:
  "x_outcome (explain (wl_id (ex_workload 7)) (wl_id (ex_workload 8)) Domain_Cache default_policy
     (snd (compare (ex_workload 7) (ex_workload 8) Domain_Cache ex_observations default_policy ex_state))) =
   Outcome_SevereInterference"
  using explain_after_compare [of "ex_workload 7" "ex_workload 8" Domain_Cache ex_observations default_policy ex_state]
  by (simp add: Let_def case_prod_beta ex_outcome verdicts_def)

subsection \<open>Experiments\<close>

lemma compare_method_locked: "ob_locked ob \<Longrightarrow> compare_method affected associated domain obs p ob = None"
  by (simp add: compare_method_def lock_guard_def)

lemma compare_if_any_locked:
  "ob_locked ob \<Longrightarrow> compare_if_any affected associated domain obs p ob = (if obs = [] then Some (None, ob) else None)"
  by (simp add: compare_if_any_def compare_method_locked)

definition co_run_of :: "WorkloadId \<Rightarrow> WorkloadId \<Rightarrow> observation \<Rightarrow> bool" where
  "co_run_of w peer ob \<longleftrightarrow> o_workload_id ob = w \<and> peer \<in> set (o_co_run_peers ob)"

lemma experiment_obs_eq:
  "experiment_obs a b s = (filter (co_run_of a b) (map snd (i_observations s)),
     filter (\<lambda>ob. a \<noteq> b \<and> co_run_of b a ob) (map snd (i_observations s)))"
proof -
  have "foldl (\<lambda>(ps, ns) (oid :: ObservationId, ob).
     if o_workload_id ob = a then (if b \<in> set (o_co_run_peers ob) then (ps @ [ob], ns) else (ps, ns))
     else if o_workload_id ob = b then (if a \<in> set (o_co_run_peers ob) then (ps, ns @ [ob]) else (ps, ns))
     else (ps, ns)) (ps, ns) m =
    (ps @ filter (co_run_of a b) (map snd m), ns @ filter (\<lambda>ob. a \<noteq> b \<and> co_run_of b a ob) (map snd m))" for ps ns m
    by (induction m arbitrary: ps ns) (auto simp: co_run_of_def)
  then show ?thesis by (simp add: experiment_obs_def)
qed

lemma experiment_obs_nonempty:
  "experiment_obs a b s \<noteq> ([], []) \<longleftrightarrow>
     (\<exists>ob\<in>snd ` set (i_observations s). co_run_of a b ob \<or> co_run_of b a ob)"
  by (auto simp: experiment_obs_eq filter_empty_conv)

text \<open>C21. \<open>run_experiment\<close> locks the mutex and then calls \<open>compare\<close>, which locks it again. On an
  unlocked observatory it blocks for ever exactly when the plan has an id, both workloads are
  registered, and at least one co-run observation between the two is recorded; otherwise it returns
  and has compared nothing.\<close>

theorem run_experiment_deadlock:
  "run_experiment plan p \<lparr>ob_impl = s, ob_locked = False\<rparr> =
     (if \<not> id_is_nil (plan_id plan) \<and> map_find (i_workloads s) (plan_primary plan) \<noteq> None \<and>
         map_find (i_workloads s) (plan_neighbor plan) \<noteq> None \<and>
         (\<exists>ob\<in>snd ` set (i_observations s). co_run_of (plan_primary plan) (plan_neighbor plan) ob \<or>
            co_run_of (plan_neighbor plan) (plan_primary plan) ob)
      then None
      else Some (if id_is_nil (plan_id plan) \<or> map_find (i_workloads s) (plan_primary plan) = None \<or>
                    map_find (i_workloads s) (plan_neighbor plan) = None
                 then empty_experiment plan
                 else (empty_experiment plan)\<lparr>res_repetitions_executed := plan_repetitions plan\<rparr>,
                 \<lparr>ob_impl = s, ob_locked = False\<rparr>))"
  unfolding experiment_obs_nonempty [symmetric]
  by (auto simp: run_experiment_def lock_guard_def Let_def compare_if_any_locked empty_experiment_def
      split: option.splits prod.splits)

subsection \<open>Epochs\<close>

lemma revalidate_baseline_keeps:
  "b_id (revalidate_baseline b) = b_id b" "b_type (revalidate_baseline b) = b_type b"
  "b_generation (revalidate_baseline b) = b_generation b"
  "b_freshness (revalidate_baseline b) = Freshness_Current \<Longrightarrow> b_type b = BaselineType_HistoricalIsolated"
  by (auto simp: revalidate_baseline_def split: if_splits)

lemma set_epoch_baselines:
  "e \<noteq> i_epoch s \<Longrightarrow> i_baselines (set_coordinator_epoch e s) = map_update_all revalidate_baseline (i_baselines s)"
  by (simp add: set_coordinator_epoch_def)

definition ex_historical :: impl where
  "ex_historical = snd (publish_baseline (ex_baseline\<lparr>b_type := BaselineType_HistoricalIsolated\<rparr>)
     (new_observatory (Id 1) (Id 1)))"

lemma ex_historical_verdict:
  "p_outcome (fst (compare (ex_workload 7) (ex_workload 8) d ex_observations default_policy
     (set_coordinator_epoch (Id 2) ex_historical))) \<in> verdicts"
proof -
  have "evidence_ok (ex_workload 7) ex_observations default_policy (set_coordinator_epoch (Id 2) ex_historical)
      (ex_baseline\<lparr>b_type := BaselineType_HistoricalIsolated\<rparr>)"
    unfolding evidence_ok_def by (intro conjI; code_simp)
  then show ?thesis by (auto simp: compare_verdict_iff_evidence)
qed

subsection \<open>Publication\<close>

definition publishable :: "baseline \<Rightarrow> bool" where
  "publishable b \<longleftrightarrow> \<not> id_is_nil (b_id b) \<and> \<not> id_is_nil (b_generation b) \<and> is_usable b \<and>
     f64_isfinite (b_confidence b) \<and> f64_le (b_confidence b) f64_one \<and>
     f64_isfinite (b_variance b) \<and> f64_le f64_zero (b_variance b) \<and> known_metric (b_metric_kind b)"

definition stored_form :: "baseline \<Rightarrow> baseline" where
  "stored_form b = (if b_freshness b = Freshness_Unknown then b\<lparr>b_freshness := Freshness_Current\<rparr> else b)"

definition publish_reject :: "baseline \<Rightarrow> status" where
  "publish_reject b = (if \<not> id_is_nil (b_id b) \<and> \<not> id_is_nil (b_generation b) \<and> \<not> is_usable b
     then Status_InsufficientEvidence else Status_InvalidInput)"

lemma publish_unfold:
  "publish_baseline b s =
     (if publishable b then
        (case map_find (i_baselines s) (b_id b) of
           Some b' \<Rightarrow> (if same_baseline b' b then Status_Ok else Status_InvalidInput, s)
         | None \<Rightarrow> (Status_Ok, s\<lparr>i_baselines := map_assign (i_baselines s) (b_id b) (stored_form b)\<rparr>))
      else (publish_reject b, s))"
proof -
  have one: "\<not> f64_is_nan f64_one" by code_simp
  have conf: "is_usable b \<Longrightarrow> \<not> f64_lt (b_confidence b) f64_zero \<and> \<not> f64_is_nan (b_confidence b) \<and> b_sample_count b \<noteq> 0"
    by (auto simp: is_usable_def f64_lt_def)
  have var: "f64_isfinite (b_variance b) \<Longrightarrow> f64_lt (b_variance b) f64_zero \<longleftrightarrow> \<not> f64_le f64_zero (b_variance b)"
    using f64_not_lt [of "b_variance b" f64_zero] by auto
  have up: "\<not> f64_is_nan (b_confidence b) \<Longrightarrow> f64_lt f64_one (b_confidence b) \<longleftrightarrow> \<not> f64_le (b_confidence b) f64_one"
    using f64_not_lt [of f64_one "b_confidence b"] one by auto
  let ?tail = "case map_find (i_baselines s) (b_id b) of
      Some b' \<Rightarrow> if same_baseline b' b then (Status_Ok, s) else (Status_InvalidInput, s)
    | None \<Rightarrow> (Status_Ok, s\<lparr>i_baselines := map_emplace (i_baselines s) (b_id b) (stored_form b)\<rparr>)"
  define tail where "tail = ?tail"
  have tail: "tail = (case map_find (i_baselines s) (b_id b) of
           Some b' \<Rightarrow> (if same_baseline b' b then Status_Ok else Status_InvalidInput, s)
         | None \<Rightarrow> (Status_Ok, s\<lparr>i_baselines := map_assign (i_baselines s) (b_id b) (stored_form b)\<rparr>))"
    by (simp add: tail_def map_emplace_def split: option.split)
  have "publish_baseline b s = (if publishable b then tail else (publish_reject b, s))"
    using conf var up unfolding publish_baseline_def Let_def stored_form_def [symmetric] tail_def [symmetric]
    unfolding publishable_def publish_reject_def is_finite_def
    by (simp cong: if_cong)
  then show ?thesis by (simp only: tail)
qed

lemma publish_Ok_iff:
  "fst (publish_baseline b s) = Status_Ok \<longleftrightarrow> publishable b \<and>
     (case map_find (i_baselines s) (b_id b) of None \<Rightarrow> True | Some b' \<Rightarrow> same_baseline b' b)"
  by (simp add: publish_unfold publish_reject_def split: option.split)

lemma publish_state:
  "snd (publish_baseline b s) =
     (if publishable b \<and> map_find (i_baselines s) (b_id b) = None
      then s\<lparr>i_baselines := map_assign (i_baselines s) (b_id b) (stored_form b)\<rparr> else s)"
  by (simp add: publish_unfold split: option.split)

text \<open>C35. Publishing never overwrites: every baseline stored before stays as it was, and a baseline is
  stored after a successful publication, the new one if its id was free, otherwise the earlier one
  with the same generation, workload, device, mean and sample count. Only baselines with non-nil
  ids, a usable measurement, a confidence in (0, 1], a finite non-negative variance and a known
  metric are accepted.\<close>

theorem publish_baseline_correct:
  "(fst (publish_baseline b s) = Status_Ok \<longleftrightarrow> publishable b \<and>
     (case lookup_baseline (b_id b) s of None \<Rightarrow> True | Some b' \<Rightarrow> same_baseline b' b)) \<and>
   lookup_baseline k (snd (publish_baseline b s)) =
     (case lookup_baseline k s of Some b' \<Rightarrow> Some b'
      | None \<Rightarrow> if k = b_id b \<and> publishable b then Some (stored_form b) else None)"
  by (simp add: publish_Ok_iff lookup_baseline_def publish_state split: option.split)

lemma same_baseline_stored: "publishable b \<Longrightarrow> same_baseline (stored_form b) b"
  by (auto simp: same_baseline_def stored_form_def publishable_def is_usable_def is_finite_nonneg_def f64_eq_def f64_le_def)

lemma same_baseline_revalidate: "same_baseline (revalidate_baseline b) c \<longleftrightarrow> same_baseline b c"
  by (simp add: same_baseline_def revalidate_baseline_def)

text \<open>Publishing the same baseline again after an epoch advance has no effect. The call
  succeeds as an idempotent duplicate, but the stored baseline keeps the freshness
  RevalidationRequired, so it does not become current evidence again under that id.\<close>

theorem republish_does_not_revalidate:
  assumes "publishable b" "lookup_baseline (b_id b) s = None" "e \<noteq> i_epoch s"
    and "b_type b \<noteq> BaselineType_HistoricalIsolated" "b_freshness b \<noteq> Freshness_Historical"
  defines "s' \<equiv> set_coordinator_epoch e (snd (publish_baseline b s))"
  shows "publish_baseline b s' = (Status_Ok, s') \<and>
    map_option b_freshness (lookup_baseline (b_id b) s') = Some Freshness_RevalidationRequired"
proof -
  have "i_epoch (snd (publish_baseline b s)) = i_epoch s" by (simp add: publish_state)
  then have f: "map_find (i_baselines s') (b_id b) = Some (revalidate_baseline (stored_form b))"
    using assms(1-3) by (simp add: s'_def set_epoch_baselines publish_state lookup_baseline_def)
  moreover have "b_freshness (revalidate_baseline (stored_form b)) = Freshness_RevalidationRequired"
    using assms(4,5) by (auto simp: revalidate_baseline_def stored_form_def)
  ultimately show ?thesis
    using assms(1) same_baseline_stored [OF assms(1)]
    by (simp add: publish_unfold same_baseline_revalidate lookup_baseline_def)
qed

theorem republish_does_not_revalidate_witness:
  "let s' = set_coordinator_epoch (Id 2) (snd (publish_baseline ex_baseline (new_observatory (Id 1) (Id 1))))
   in publish_baseline ex_baseline s' = (Status_Ok, s') \<and>
      map_option b_freshness (lookup_baseline (b_id ex_baseline) s') = Some Freshness_RevalidationRequired"
proof -
  have "publishable ex_baseline" "lookup_baseline (b_id ex_baseline) (new_observatory (Id 1) (Id 1)) = None"
    "Id 2 \<noteq> i_epoch (new_observatory (Id 1) (Id 1))" "b_type ex_baseline \<noteq> BaselineType_HistoricalIsolated"
    "b_freshness ex_baseline \<noteq> Freshness_Historical"
    by code_simp+
  from republish_does_not_revalidate [OF this] show ?thesis by (simp add: Let_def)
qed

subsection \<open>Observations\<close>

definition recordable :: "observation \<Rightarrow> bool" where
  "recordable ob \<longleftrightarrow> \<not> id_is_nil (o_id ob) \<and> \<not> id_is_nil (o_generation ob) \<and>
     \<not> id_is_nil (o_workload_id ob) \<and> measurement_is_valid (o_measurement ob)"

lemma f64_of_i64_finite: "f64_isfinite (f64_of_i64 t)"
proof -
  have lim: "round_mag 0x8000000000000000 1 = 0x43E0000000000000" by code_simp
  have "\<bar>sint t\<bar> \<le> 0x8000000000000000"
    using sint_range_size [of t] by (simp add: size_word_def word_size abs_le_iff)
  then have "round_mag \<bar>sint t\<bar> 1 \<le> round_mag 0x8000000000000000 1" by (intro round_mag_mono) simp_all
  then show ?thesis by (simp add: lim f64_of_i64_def f64_isfinite_def f64_round_mag inf_mag_def)
qed

lemma record_unfold:
  "record_observation ob s =
     (if recordable ob then
        (case map_find (i_observations s) (o_id ob) of
           Some o' \<Rightarrow> (if same_observation o' ob then Status_Ok else Status_InvalidInput, s)
         | None \<Rightarrow> (Status_Ok, s\<lparr>i_observations := map_assign (i_observations s) (o_id ob) ob\<rparr>))
      else (Status_InvalidInput, s))"
  by (simp add: record_observation_def recordable_def is_finite_def f64_of_i64_finite map_emplace_def
      split: option.split)

lemma same_observation_refl: "recordable ob \<Longrightarrow> same_observation ob ob"
  by (auto simp: recordable_def same_observation_def measurement_is_valid_def is_finite_nonneg_def
      f64_eq_def f64_le_def split: if_splits)

text \<open>Observations are counted once: recording an observation a second time succeeds or fails as
  the first time did and changes nothing, and a recorded observation is never replaced by another
  one with the same id.\<close>

theorem record_observation_once:
  "record_observation ob (snd (record_observation ob s)) =
     (fst (record_observation ob s), snd (record_observation ob s)) \<and>
   map_find (i_observations (snd (record_observation ob s))) k =
     (case map_find (i_observations s) k of Some o' \<Rightarrow> Some o'
      | None \<Rightarrow> if k = o_id ob \<and> recordable ob then Some ob else None)"
  by (simp add: record_unfold same_observation_refl split: option.split)

subsection \<open>Binding mismatch\<close>



text \<open>Baseline selection picks the latest: the loop over the stored baselines returns an eligible
  baseline of this workload and device that no other eligible one supersedes (later timestamp, or
  the same timestamp and a larger id), returns none only if there is none, and separately reports
  whether any baseline of this workload and device exists.\<close>

theorem select_baseline_latest:
  "(case fst (select_baseline w bs) of
      None \<Rightarrow> \<forall>b\<in>snd ` set bs. \<not> (concerns w b \<and> eligible w b)
    | Some u \<Rightarrow> u \<in> snd ` set bs \<and> concerns w u \<and> eligible w u \<and>
        (\<forall>b\<in>snd ` set bs. concerns w b \<and> eligible w b \<longrightarrow> \<not> supersedes b u)) \<and>
   (snd (select_baseline w bs) = None \<longleftrightarrow> (\<forall>b\<in>snd ` set bs. \<not> concerns w b))"
  using select_baseline_selected [of w bs] by (simp add: selected_def select_baseline_any)

theorem select_baseline_latest_witness:
  "fst (select_baseline (ex_workload 7) [(Id 9, ex_baseline), (Id 10, ex_baseline\<lparr>b_id := Id 10\<rparr>)]) =
     Some (ex_baseline\<lparr>b_id := Id 10\<rparr>) \<and>
   snd (select_baseline (ex_workload 7) [(Id 9, ex_baseline), (Id 10, ex_baseline\<lparr>b_id := Id 10\<rparr>)]) \<noteq> None \<and>
   \<not> supersedes ex_baseline (ex_baseline\<lparr>b_id := Id 10\<rparr>)"
proof -
  have sel: "fst (select_baseline (ex_workload 7) [(Id 9, ex_baseline), (Id 10, ex_baseline\<lparr>b_id := Id 10\<rparr>)]) =
     Some (ex_baseline\<lparr>b_id := Id 10\<rparr>)" by code_simp
  have c: "concerns (ex_workload 7) ex_baseline" "eligible (ex_workload 7) ex_baseline" by code_simp+
  show ?thesis
    using select_baseline_latest [of "[(Id 9, ex_baseline), (Id 10, ex_baseline\<lparr>b_id := Id 10\<rparr>)]" "ex_workload 7"]
    by (simp add: sel c)
qed

end
