(* ===== verification/Lifecycle.thy ===== *)
theory Lifecycle
  imports Observatory
begin

text \<open>
  The observatory as a state machine. A step \<open>obs_step\<close> is one call of a member function that changes the
  state, with arbitrary arguments, except \<open>load\<close>; the mutex serialises calls, so between two loads
  every execution of the object is a sequence of such steps. (\<open>run_experiment\<close> is no step: it blocks
  or changes nothing, see \<open>Observatory\<close>.) \<open>load\<close> joins in \<open>Executions\<close>, where the executions of observatories
  that save and load are built from these steps. The invariant \<open>wf\<close> collects what holds of every
  reachable state: the containers are ordered maps keyed by the ids of their values, and every stored
  value passed the checks of the operation that stored it. The locale \<open>transition_system\<close> is the
  contract between a step relation and an invariant.
\<close>

locale transition_system =
  fixes init :: "'s \<Rightarrow> bool" and step :: "'s \<Rightarrow> 's \<Rightarrow> bool" and inv :: "'s \<Rightarrow> bool"
  assumes inv_init: "init s \<Longrightarrow> inv s"
    and inv_step: "inv s \<Longrightarrow> step s s' \<Longrightarrow> inv s'"
begin

lemma inv_steps: "step\<^sup>*\<^sup>* s s' \<Longrightarrow> inv s \<Longrightarrow> inv s'"
  by (induction rule: rtranclp_induct) (auto intro: inv_step)

lemma reachable_inv: "init s \<Longrightarrow> step\<^sup>*\<^sup>* s s' \<Longrightarrow> inv s'"
  using inv_init inv_steps by blast

text \<open>A relation between the endpoints that every step extends is kept along every execution.\<close>

lemma steps_relation:
  assumes "step\<^sup>*\<^sup>* s s'" "inv s" "\<And>x. R x x" "\<And>x y z. R x y \<Longrightarrow> inv y \<Longrightarrow> step y z \<Longrightarrow> R x z"
  shows "R s s'"
  using assms(1)
proof (induction rule: rtranclp_induct)
  case (step y z)
  then show ?case using assms(2,4) inv_steps by blast
qed (rule assms(3))

end

subsection \<open>Steps\<close>

inductive obs_step :: "impl \<Rightarrow> impl \<Rightarrow> bool" where
  step_epoch: "obs_step s (set_coordinator_epoch e s)"
| step_source: "obs_step s (snd (register_source sid gen name caps s))"
| step_worker: "obs_step s (snd (register_worker wid boot name conn s))"
| step_workload: "obs_step s (snd (register_workload w s))"
| step_publish: "obs_step s (snd (publish_baseline b s))"
| step_observe: "obs_step s (snd (record_observation ob s))"
| step_recover: "obs_step s (snd (record_recovery v n d s))"
| step_compare: "obs_step s (snd (compare affected associated domain obs p s))"

inductive_cases obs_stepE: "obs_step s s'"

definition obs_init :: "impl \<Rightarrow> bool" where
  "obs_init s \<longleftrightarrow> (\<exists>oid gen. s = new_observatory oid gen)"

subsection \<open>The invariant\<close>

definition source_wf :: "SourceId \<Rightarrow> source_rec \<Rightarrow> bool" where
  "source_wf k r \<longleftrightarrow> \<not> id_is_nil k \<and> \<not> id_is_nil (s_generation r)"

definition worker_wf :: "WorkerId \<Rightarrow> worker_rec \<Rightarrow> bool" where
  "worker_wf k r \<longleftrightarrow> \<not> id_is_nil k \<and> \<not> id_is_nil (wk_boot r)"

definition workload_wf :: "WorkloadId \<Rightarrow> workload_descriptor \<Rightarrow> bool" where
  "workload_wf k w \<longleftrightarrow> k = wl_id w \<and> \<not> id_is_nil (wl_id w) \<and> \<not> id_is_nil (wl_generation w)"

definition baseline_wf :: "BaselineId \<Rightarrow> baseline \<Rightarrow> bool" where
  "baseline_wf k b \<longleftrightarrow> k = b_id b \<and> publishable b \<and> b_freshness b \<noteq> Freshness_Unknown"

definition observation_wf :: "ObservationId \<Rightarrow> observation \<Rightarrow> bool" where
  "observation_wf k ob \<longleftrightarrow> k = o_id ob \<and> recordable ob"

definition result_wf :: "pairwise \<Rightarrow> bool" where
  "result_wf r \<longleftrightarrow> p_outcome r \<in> verdicts \<and> f64_le f64_zero (p_confidence r) \<and>
     f64_le (p_confidence r) f64_one \<and> f64_le f64_zero (g_worst_relative (p_degradation r)) \<and>
     p_attribution r \<noteq> Attribution_DirectResourceEvidence \<and> p_freshness r = Freshness_Current \<and>
     p_comparison_id r \<noteq> nil_id \<and> p_sample_count r \<noteq> 0 \<and>
     (p_confounded r \<longleftrightarrow> (\<exists>c\<in>set (p_unresolved_confounders r). is_hard_confounder c)) \<and>
     distinct (p_unresolved_confounders r)"

definition comparison_wf :: "ComparisonId \<Rightarrow> pairwise \<Rightarrow> bool" where
  "comparison_wf k r \<longleftrightarrow> k = p_comparison_id r \<and> result_wf r"

definition cell_wf :: "cell_key \<Rightarrow> pairwise \<Rightarrow> bool" where
  "cell_wf k r \<longleftrightarrow> k = CellKey (p_victim r) (p_neighbor r) (p_domain r) \<and> result_wf r"

definition episode_wf :: "EpisodeId \<Rightarrow> episode \<Rightarrow> bool" where
  "episode_wf k e \<longleftrightarrow> k = e_id e \<and> e_id e \<noteq> nil_id \<and> indicates_interference (e_classification e) \<and>
     f64_le f64_zero (e_confidence e) \<and> f64_le (e_confidence e) f64_one \<and> \<not> e_open e \<and>
     (\<exists>v. e_evidence e = [v] \<and> v_outcome v = e_classification e)"

definition recovery_wf :: "recovery_key \<Rightarrow> bool" where
  "recovery_wf r \<longleftrightarrow> (case r of (v, n, d) \<Rightarrow> \<not> id_is_nil v \<and> \<not> id_is_nil n)"

definition map_wf :: "('k::linorder \<Rightarrow> 'v \<Rightarrow> bool) \<Rightarrow> ('k, 'v) std_map \<Rightarrow> bool" where
  "map_wf P m \<longleftrightarrow> map_inv m \<and> (\<forall>(k, v)\<in>set m. P k v)"

definition wf :: "impl \<Rightarrow> bool" where
  "wf s \<longleftrightarrow> map_wf source_wf (i_sources s) \<and> map_wf worker_wf (i_workers s) \<and>
     map_wf workload_wf (i_workloads s) \<and> map_wf baseline_wf (i_baselines s) \<and>
     map_wf observation_wf (i_observations s) \<and> map_wf episode_wf (i_episodes s) \<and>
     map_wf comparison_wf (i_comparisons s) \<and> map_wf cell_wf (i_matrix s) \<and>
     set_inv (i_recoveries s) \<and> (\<forall>r\<in>set (i_recoveries s). recovery_wf r)"

subsection \<open>Preservation\<close>

lemma map_wf_Nil [simp]: "map_wf P []"
  by (simp add: map_wf_def)

lemma map_wf_assign: "map_wf P m \<Longrightarrow> P k v \<Longrightarrow> map_wf P (map_assign m k v)"
  unfolding map_wf_def using smap.all_assign [of m P k v] by simp

lemma map_wf_emplace: "map_wf P m \<Longrightarrow> P k v \<Longrightarrow> map_wf P (map_emplace m k v)"
  by (simp add: map_emplace_def map_wf_assign)

lemma map_wf_find: "map_wf P m \<Longrightarrow> map_find m k = Some v \<Longrightarrow> P k v"
  by (auto simp: map_wf_def map_find_in)

lemma map_wf_update_all: "map_wf P m \<Longrightarrow> (\<And>k v. P k v \<Longrightarrow> P k (f v)) \<Longrightarrow> map_wf P (map_update_all f m)"
  by (auto simp: map_wf_def) (auto simp: map_update_all_def)

lemma wf_new: "wf (new_observatory oid gen)"
  by (simp add: wf_def new_observatory_def set_inv_def)

lemma publishable_freshness [simp]: "publishable (b\<lparr>b_freshness := f\<rparr>) = publishable b"
  by (simp add: publishable_def is_usable_def)

lemma wf_epoch:
  assumes "wf s"
  shows "wf (set_coordinator_epoch e s)"
proof -
  have "baseline_wf k b \<Longrightarrow> baseline_wf k (revalidate_baseline b)" for k b
    by (simp add: baseline_wf_def revalidate_baseline_def)
  moreover have "source_wf k r \<Longrightarrow> source_wf k (revalidate_source r)" for k r
    by (simp add: source_wf_def revalidate_source_def)
  moreover have "worker_wf k w \<Longrightarrow> worker_wf k (disconnect_worker w)" for k w
    by (simp add: worker_wf_def disconnect_worker_def)
  ultimately show ?thesis
    using assms by (simp add: wf_def set_coordinator_epoch_def map_wf_update_all)
qed

lemma wf_source: "wf s \<Longrightarrow> wf (snd (register_source sid gen name caps s))"
  by (auto simp: wf_def register_source_def source_wf_def intro!: map_wf_assign map_wf_emplace
      split: option.splits)

lemma wf_worker: "wf s \<Longrightarrow> wf (snd (register_worker wid boot name conn s))"
  by (auto simp: wf_def register_worker_def worker_wf_def intro!: map_wf_assign map_wf_emplace
      split: option.splits)

lemma wf_workload: "wf s \<Longrightarrow> wf (snd (register_workload w s))"
  by (auto simp: wf_def register_workload_def workload_wf_def intro!: map_wf_assign)

lemma wf_publish: "wf s \<Longrightarrow> wf (snd (publish_baseline b s))"
  by (auto simp: wf_def publish_state baseline_wf_def stored_form_def intro!: map_wf_assign)

lemma wf_observe: "wf s \<Longrightarrow> wf (snd (record_observation ob s))"
  by (auto simp: wf_def record_unfold observation_wf_def intro!: map_wf_assign split: option.splits)

lemma wf_recover: "wf s \<Longrightarrow> wf (snd (record_recovery v n d s))"
  by (auto simp: wf_def record_recovery_def recovery_wf_def)

lemma result_wf_scored:
  assumes "evidence_ok affected obs p s b"
  shows "result_wf (scored_result affected associated domain obs p s b)"
proof -
  let ?r = "scored_result affected associated domain obs p s b"
  obtain hard soft where hs: "analyse_confounders affected obs = (hard, soft)" by fastforce
  note cs = analyse_confounders_spec [OF hs]
  have "p_confounded ?r = (hard \<noteq> [])" "p_unresolved_confounders ?r = hard @ soft"
    by (simp_all add: scored_simps hs)
  moreover have "(hard \<noteq> []) \<longleftrightarrow> (\<exists>c\<in>set (hard @ soft). is_hard_confounder c)"
    using cs(3,4) by (cases hard) auto
  moreover have "distinct (hard @ soft)" using cs by auto
  moreover have u: "is_usable b" using assms select_baseline_SomeD(3) by (auto simp: evidence_ok_def)
  then have "f64_le f64_zero (p_confidence ?r)" "f64_le (p_confidence ?r) f64_one"
    using confidence_bounds [OF u evidence_n(1) [OF assms]] by (simp_all add: scored_simps hs)
  moreover have "p_comparison_id ?r \<noteq> nil_id" by (simp add: scored_simps hs digest_not_nil)
  moreover have "p_sample_count ?r \<noteq> 0"
    using evidence_n(1) [OF assms] by (simp add: scored_keys aggregate_obs_simps)
  ultimately show ?thesis
    using scored_outcome_verdict scored_magnitude_nonneg [OF assms]
    by (simp add: result_wf_def scored_keys scored_worst scored_attribution attribution_of_def)
qed

lemma wf_compare:
  assumes "wf s"
  shows "wf (snd (compare affected associated domain obs p s))"
proof (cases "\<exists>b. evidence_ok affected obs p s b")
  case True
  then obtain b where b: "evidence_ok affected obs p s b" ..
  let ?r = "scored_result affected associated domain obs p s b"
  note r = result_wf_scored [OF b, of associated domain]
  have ep: "indicates_interference (p_outcome ?r) \<Longrightarrow>
      episode_wf (episode_digest (wl_id affected) domain (b_id b)) (make_episode affected associated domain obs s b ?r)"
    using r by (simp add: episode_wf_def make_episode_def Let_def digest_not_nil result_wf_def)
  show ?thesis
    using assms r ep unfolding compare_scored [OF b] wf_def
    by (auto simp: commit_frame commit_episodes comparison_wf_def cell_wf_def scored_keys intro!: map_wf_assign)
qed (use assms in \<open>simp add: compare_unscored\<close>)

lemmas wf_ops = wf_epoch wf_source wf_worker wf_workload wf_publish wf_observe wf_recover wf_compare

lemma wf_step: "wf s \<Longrightarrow> obs_step s s' \<Longrightarrow> wf s'"
  by (erule obs_stepE) (simp_all add: wf_ops)

interpretation obs_ts: transition_system obs_init obs_step wf
  by unfold_locales (auto simp: obs_init_def wf_new intro: wf_step)

subsection \<open>The decision in a well-formed state\<close>

lemma baseline_entry:
  assumes "wf s"
  shows "b \<in> snd ` set (i_baselines s) \<longleftrightarrow> map_find (i_baselines s) (b_id b) = Some b"
proof -
  have inv: "map_inv (i_baselines s)" and ids: "\<forall>(k, c)\<in>set (i_baselines s). baseline_wf k c"
    using assms by (auto simp: wf_def map_wf_def)
  have key: "k = b_id b" if "(k, b) \<in> set (i_baselines s)" for k
    using ids that by (auto simp: baseline_wf_def)
  have "b \<in> snd ` set (i_baselines s) \<longleftrightarrow> (\<exists>k. (k, b) \<in> set (i_baselines s))" by force
  also have "\<dots> \<longleftrightarrow> (b_id b, b) \<in> set (i_baselines s)" using key by blast
  finally show ?thesis by (simp only: map_find_in [OF inv])
qed

lemma baseline_key:
  assumes "wf s" "map_find (i_baselines s) k = Some c"
  shows "b_id c = k"
  using map_wf_find [of baseline_wf "i_baselines s" k c] assms by (simp add: wf_def baseline_wf_def)

text \<open>The order in which baselines are preferred: by time, then by id.\<close>

definition not_newer :: "baseline \<Rightarrow> baseline \<Rightarrow> bool" where
  "not_newer c b \<longleftrightarrow> sint (b_timestamp_ms c) < sint (b_timestamp_ms b) \<or>
     (sint (b_timestamp_ms c) = sint (b_timestamp_ms b) \<and> id_value (b_id c) \<le> id_value (b_id b))"

lemma not_supersedes: "\<not> supersedes c b \<longleftrightarrow> not_newer c b"
  by (auto simp: supersedes_key not_newer_def)

lemma not_newer_antisym: "not_newer b c \<Longrightarrow> not_newer c b \<Longrightarrow> b_id b = b_id c"
  by (auto simp: not_newer_def id.expand)

lemma selected_newest:
  assumes "wf s"
  shows "fst (select_baseline w (i_baselines s)) = Some b \<longleftrightarrow>
    b \<in> snd ` set (i_baselines s) \<and> concerns w b \<and> eligible w b \<and>
    (\<forall>c\<in>snd ` set (i_baselines s). concerns w c \<and> eligible w c \<longrightarrow> not_newer c b)"
proof
  note sel = select_baseline_selected [of w "i_baselines s"]
  show "fst (select_baseline w (i_baselines s)) = Some b \<Longrightarrow> b \<in> snd ` set (i_baselines s) \<and> concerns w b \<and> eligible w b \<and>
    (\<forall>c\<in>snd ` set (i_baselines s). concerns w c \<and> eligible w c \<longrightarrow> not_newer c b)"
    using sel by (simp add: selected_def not_supersedes)
  assume b: "b \<in> snd ` set (i_baselines s) \<and> concerns w b \<and> eligible w b \<and>
    (\<forall>c\<in>snd ` set (i_baselines s). concerns w c \<and> eligible w c \<longrightarrow> not_newer c b)"
  then obtain u where u: "fst (select_baseline w (i_baselines s)) = Some u"
    using sel by (cases "fst (select_baseline w (i_baselines s))") (auto simp: selected_def)
  then have "u \<in> snd ` set (i_baselines s)" "concerns w u" "eligible w u" "not_newer b u"
    using sel b by (auto simp: selected_def not_supersedes)
  with b have "b_id b = b_id u" "u \<in> snd ` set (i_baselines s)" using not_newer_antisym by blast+
  with b have "u = b" using baseline_entry [OF assms] by simp
  with u show "fst (select_baseline w (i_baselines s)) = Some b" by simp
qed

text \<open>C1. In a well-formed state a verdict (one of the four interference classes) is returned exactly when
  the policy is valid and there is enough evidence: a stored baseline of this workload and device
  that is usable and matches every field of the workload's current binding, that is the most recent
  such baseline (of those with the latest timestamp the one with the largest id), whose freshness is
  Current, whose age is within the policy's window, and for which at least \<open>min_samples\<close> valid
  co-run measurements of the baseline's metric exist.\<close>

theorem compare_verdict_iff:
  assumes "wf s"
  shows "p_outcome (fst (compare affected associated domain obs p s)) \<in> verdicts \<longleftrightarrow>
     policy_isValid p \<and>
     (\<exists>b\<in>snd ` set (i_baselines s).
        concerns affected b \<and> is_usable b \<and> baseline_binding b = workload_binding affected \<and>
        (\<forall>c\<in>snd ` set (i_baselines s).
           concerns affected c \<and> is_usable c \<and> baseline_binding c = workload_binding affected \<longrightarrow>
           sint (b_timestamp_ms c) < sint (b_timestamp_ms b) \<or>
           sint (b_timestamp_ms c) = sint (b_timestamp_ms b) \<and> id_value (b_id c) \<le> id_value (b_id b)) \<and>
        b_freshness b = Freshness_Current \<and>
        sint (last_timestamp obs - b_timestamp_ms b) \<le> sint (stale_after_ms p) \<and>
        min_samples p \<le> of_nat (length (filter (counted affected b) obs)))"
  unfolding compare_verdict_iff_evidence evidence_ok_def freshness_window_ok selected_newest [OF assms]
  by (auto simp: eligible_def binding_matches_iff not_newer_def)

lemma ex_state_reachable: "obs_step\<^sup>*\<^sup>* (new_observatory (Id 1) (Id 1)) ex_state"
  unfolding ex_state_def by (intro r_into_rtranclp step_publish)

lemma ex_state_wf: "wf ex_state"
  using obs_ts.inv_steps [OF ex_state_reachable] by (simp add: wf_new)

text \<open>Two eligible baselines; the older one alone would do, the newer one is withdrawn.\<close>

definition ex_two :: impl where
  "ex_two = snd (publish_baseline (ex_baseline\<lparr>b_id := Id 10, b_timestamp_ms := 1500,
     b_freshness := Freshness_RevalidationRequired\<rparr>) ex_state)"

theorem compare_verdict_iff_witness:
  "p_outcome (fst (compare (ex_workload 7) (ex_workload 8) Domain_Cache ex_observations default_policy ex_state)) \<in> verdicts \<and>
   p_outcome (fst (compare (ex_workload 7) (ex_workload 8) Domain_Cache ex_observations default_policy ex_two)) \<notin> verdicts"
proof -
  have w: "wf ex_two" unfolding ex_two_def by (rule wf_publish [OF ex_state_wf])
  have b: "i_baselines ex_state = [(Id 9, ex_baseline)]" "i_baselines ex_two = [(Id 9, ex_baseline),
      (Id 10, ex_baseline\<lparr>b_id := Id 10, b_timestamp_ms := 1500, b_freshness := Freshness_RevalidationRequired\<rparr>)]"
    by code_simp+
  have c: "policy_isValid default_policy" "concerns (ex_workload 7) ex_baseline" "is_usable ex_baseline"
    "baseline_binding ex_baseline = workload_binding (ex_workload 7)" "b_freshness ex_baseline = Freshness_Current"
    "sint (last_timestamp ex_observations - b_timestamp_ms ex_baseline) \<le> sint (stale_after_ms default_policy)"
    "min_samples default_policy \<le> of_nat (length (filter (counted (ex_workload 7) ex_baseline) ex_observations))"
    by code_simp+
  let ?n = "ex_baseline\<lparr>b_id := Id 10, b_timestamp_ms := 1500, b_freshness := Freshness_RevalidationRequired\<rparr>"
  have n: "concerns (ex_workload 7) ?n" "is_usable ?n" "baseline_binding ?n = workload_binding (ex_workload 7)"
    "\<not> sint (b_timestamp_ms ?n) < sint (b_timestamp_ms ex_baseline)"
    "sint (b_timestamp_ms ?n) \<noteq> sint (b_timestamp_ms ex_baseline)" by code_simp+
  show ?thesis
    using c n by (simp add: compare_verdict_iff [OF ex_state_wf] compare_verdict_iff [OF w] b)
qed

subsection \<open>Evidence along executions\<close>

definition same_but_freshness :: "baseline \<Rightarrow> baseline \<Rightarrow> bool" where
  "same_but_freshness b b' \<longleftrightarrow> b' = b\<lparr>b_freshness := b_freshness b'\<rparr>"

definition keeps_evidence :: "impl \<Rightarrow> impl \<Rightarrow> bool" where
  "keeps_evidence s s' \<longleftrightarrow>
     (\<forall>k ob. map_find (i_observations s) k = Some ob \<longrightarrow> map_find (i_observations s') k = Some ob) \<and>
     (\<forall>k b. map_find (i_baselines s) k = Some b \<longrightarrow>
        (\<exists>b'. map_find (i_baselines s') k = Some b' \<and> same_but_freshness b b')) \<and>
     set (i_recoveries s) \<subseteq> set (i_recoveries s') \<and>
     fst ` set (i_matrix s) \<subseteq> fst ` set (i_matrix s') \<and>
     fst ` set (i_episodes s) \<subseteq> fst ` set (i_episodes s')"

lemma same_but_freshness_refl [simp]: "same_but_freshness b b"
  by (simp add: same_but_freshness_def)

lemma same_but_freshness_revalidate [simp]: "same_but_freshness b (revalidate_baseline b)"
  by (simp add: same_but_freshness_def revalidate_baseline_def)

lemma same_but_freshness_trans: "same_but_freshness a b \<Longrightarrow> same_but_freshness b c \<Longrightarrow> same_but_freshness a c"
proof -
  assume ab: "same_but_freshness a b" and bc: "same_but_freshness b c"
  have "b\<lparr>b_freshness := f\<rparr> = a\<lparr>b_freshness := f\<rparr>" for f
    by (subst ab [unfolded same_but_freshness_def]) simp
  from trans [OF bc [unfolded same_but_freshness_def] this]
  show "same_but_freshness a c" by (simp only: same_but_freshness_def)
qed

lemma keeps_evidence_refl: "keeps_evidence s s"
  by (simp add: keeps_evidence_def)

lemma keeps_evidence_trans: "keeps_evidence s t \<Longrightarrow> keeps_evidence t u \<Longrightarrow> keeps_evidence s u"
  unfolding keeps_evidence_def by (meson same_but_freshness_trans subset_trans)

lemma keeps_evidence_same:
  assumes "i_observations s' = i_observations s" "i_baselines s' = i_baselines s"
    "i_recoveries s' = i_recoveries s" "fst ` set (i_matrix s) \<subseteq> fst ` set (i_matrix s')"
    "fst ` set (i_episodes s) \<subseteq> fst ` set (i_episodes s')"
  shows "keeps_evidence s s'"
  by (simp add: keeps_evidence_def assms)

lemma keeps_epoch: "keeps_evidence s (set_coordinator_epoch e s)"
  by (auto simp: keeps_evidence_def set_coordinator_epoch_def)

lemma keeps_publish: "keeps_evidence s (snd (publish_baseline b s))"
  by (auto simp: keeps_evidence_def publish_state)

lemma keeps_observe: "keeps_evidence s (snd (record_observation ob s))"
  by (auto simp: keeps_evidence_def record_unfold split: option.splits)

lemma keeps_compare: "keeps_evidence s (snd (compare affected associated domain obs p s))"
proof (cases "\<exists>b. evidence_ok affected obs p s b")
  case True
  then obtain b where b: "evidence_ok affected obs p s b" ..
  show ?thesis unfolding compare_scored [OF b]
    by (rule keeps_evidence_same) (simp_all add: commit_frame commit_episodes fst_map_assign subset_insertI)
qed (simp add: compare_unscored keeps_evidence_refl)

lemma keeps_registers:
  "keeps_evidence s (snd (register_source sid gen name caps s))"
  "keeps_evidence s (snd (register_worker wid boot name conn s))"
  "keeps_evidence s (snd (register_workload w s))"
proof -
  have src: "keeps_evidence s (s\<lparr>i_sources := m\<rparr>)" for m by (rule keeps_evidence_same) simp_all
  have wrk: "keeps_evidence s (s\<lparr>i_workers := m\<rparr>)" for m by (rule keeps_evidence_same) simp_all
  have wl: "keeps_evidence s (s\<lparr>i_workloads := m\<rparr>)" for m by (rule keeps_evidence_same) simp_all
  show "keeps_evidence s (snd (register_source sid gen name caps s))"
    by (cases "map_find (i_sources s) sid") (simp_all add: register_source_def keeps_evidence_refl src)
  show "keeps_evidence s (snd (register_worker wid boot name conn s))"
    by (cases "map_find (i_workers s) wid") (simp_all add: register_worker_def keeps_evidence_refl wrk)
  show "keeps_evidence s (snd (register_workload w s))"
    by (simp add: register_workload_def keeps_evidence_refl wl)
qed

lemma keeps_recover: "keeps_evidence s (snd (record_recovery v n d s))"
  by (auto simp: record_recovery_def keeps_evidence_def)

lemma step_keeps_evidence: "obs_step s s' \<Longrightarrow> keeps_evidence s s'"
  by (erule obs_stepE)
    (simp_all add: keeps_registers keeps_recover keeps_epoch keeps_publish keeps_observe keeps_compare)

text \<open>C11. No operation but \<open>load\<close> loses or rewrites evidence: along every sequence of calls of the other
  operations, with any arguments and from any state, a recorded observation stays exactly as it was, a
  baseline stays except for its freshness, and recoveries, matrix cells and episodes are never removed.\<close>

theorem evidence_never_lost:
  assumes "obs_step\<^sup>*\<^sup>* s s'"
  shows "keeps_evidence s s'"
  using assms
  by (induction rule: rtranclp_induct)
    (auto intro: keeps_evidence_refl keeps_evidence_trans step_keeps_evidence)

theorem evidence_never_lost_witness:
  "keeps_evidence ex_state (snd (record_recovery (Id 7) (Id 8) Domain_Cache ex_state))"
  by (rule evidence_never_lost) (intro r_into_rtranclp step_recover)

text \<open>What a step can do to the stored baselines.\<close>

lemma step_baselines:
  assumes "obs_step s s'"
  obtains "i_baselines s' = i_baselines s"
    | "i_baselines s' = map_update_all revalidate_baseline (i_baselines s)"
    | b where "map_find (i_baselines s) (b_id b) = None" "i_baselines s' = map_assign (i_baselines s) (b_id b) (stored_form b)"
  using assms
  by (cases rule: obs_stepE)
    (auto simp: set_coordinator_epoch_def publish_state register_source_def register_worker_def
      register_workload_def record_unfold record_recovery_def compare_frame split: option.splits if_splits)

end
