(* ===== verification/Persist.thy ===== *)
theory Persist
  imports Codec
begin

text \<open>
  \<open>persist.hpp\<close> and \<open>persist.cpp\<close>: CRC-32C with its lookup table and the versioned envelope
  (magic, version, payload length, payload, checksum). The lemmas show that the table-driven
  checksum is the bitwise reference CRC, that it distinguishes any two buffers that differ in one
  byte, and that \<open>decode\<close> accepts exactly the images of \<open>encode\<close>.
\<close>

subsection \<open>CRC-32C\<close>

definition crc_poly :: u32 where
  "crc_poly = 0x82F63B78"

text \<open>\<open>c = (c & 1u) ? (0x82F63B78u ^ (c >> 1)) : (c >> 1)\<close>\<close>

definition crc_bit :: "u32 \<Rightarrow> u32" where
  "crc_bit c = (if c AND 1 \<noteq> 0 then crc_poly XOR drop_bit 1 c else drop_bit 1 c)"

definition crc_entry :: "u32 \<Rightarrow> u32" where
  "crc_entry i = (crc_bit ^^ 8) i"

definition crc_table :: "u32 list" where
  "crc_table = map (\<lambda>i. crc_entry (of_nat i)) [0..<256]"

definition crc_step :: "u32 \<Rightarrow> byte \<Rightarrow> u32" where
  "crc_step crc b = crc_table ! unat ((crc XOR ucast b) AND 0xFF) XOR drop_bit 8 crc"

definition crc32c :: "bytes \<Rightarrow> u32" where
  "crc32c data = foldl crc_step 0xFFFFFFFF data XOR 0xFFFFFFFF"

subsection \<open>The envelope\<close>

datatype iobs_error = Error (error_status: status) (error_message: string)

definition kMagic :: u32 where
  "kMagic = 0x495f4f42"

definition kVersion :: u16 where
  "kVersion = 1"

definition kMaxPayload :: nat where
  "kMaxPayload = 256 * 1024 * 1024"

definition kHeaderSize :: nat where
  "kHeaderSize = 4 + 2 + 4"

definition kCrcSize :: nat where
  "kCrcSize = 4"

text \<open>Four bytes of a word pushed one by one, and two of a 16-bit word.\<close>

definition put32 :: "u32 \<Rightarrow> bytes" where
  "put32 v = [ucast (v AND 0xFF), ucast (drop_bit 8 v AND 0xFF), ucast (drop_bit 16 v AND 0xFF),
     ucast (drop_bit 24 v AND 0xFF)]"

definition put16 :: "u16 \<Rightarrow> bytes" where
  "put16 v = [ucast (v AND 0xFF), ucast (drop_bit 8 v AND 0xFF)]"

definition get32 :: "bytes \<Rightarrow> nat \<Rightarrow> u32" where
  "get32 p i = ucast (p ! i) OR push_bit 8 (ucast (p ! (i + 1))) OR
     push_bit 16 (ucast (p ! (i + 2))) OR push_bit 24 (ucast (p ! (i + 3)))"

definition get16 :: "bytes \<Rightarrow> nat \<Rightarrow> u16" where
  "get16 p i = ucast (p ! i) OR push_bit 8 (ucast (p ! (i + 1)))"

definition encode :: "bytes \<Rightarrow> iobs_error + bytes" where
  "encode payload =
     (if length payload > kMaxPayload
      then Inl (Error Status_ResourceExhausted ''payload exceeds persistence bound'')
      else let plen = of_nat (length payload) :: u32;
               out = put32 kMagic @ put16 kVersion @ put32 plen @ payload
           in Inr (out @ put32 (crc32c out)))"

text \<open>\<open>decode\<close> with its out-parameters as a sum: the reason on failure (the payload is cleared),
  the payload on success.\<close>

definition decode :: "bytes \<Rightarrow> string + bytes" where
  "decode encoded =
     (if length encoded < kHeaderSize + kCrcSize then Inl ''truncated: envelope too short''
      else if get32 encoded 0 \<noteq> kMagic then Inl ''bad magic''
      else let version = get16 encoded 4 in
        if version \<noteq> kVersion then Inl (''unknown version '' @ decimal (unat version))
        else let plen = get32 encoded 6 in
          if unat plen > kMaxPayload then Inl ''payload exceeds bound''
          else let expected = kHeaderSize + unat plen + kCrcSize in
            if length encoded < expected then Inl ''truncated: payload incomplete''
            else if length encoded \<noteq> expected then Inl ''trailing garbage''
            else let stored_crc = get32 encoded (expected - 4);
                     computed = crc32c (take (expected - kCrcSize) encoded)
                 in if computed \<noteq> stored_crc then Inl ''checksum mismatch''
                    else Inr (drop kHeaderSize (take (expected - kCrcSize) encoded)))"

subsection \<open>The table is the bitwise CRC\<close>

definition crc_step_ref :: "u32 \<Rightarrow> byte \<Rightarrow> u32" where
  "crc_step_ref crc b = (crc_bit ^^ 8) (crc XOR ucast b)"

lemma and_one_odd: "c AND 1 \<noteq> 0 \<longleftrightarrow> bit (c :: u32) 0"
  by (simp add: and_one_eq odd_iff_mod_2_eq_one bit_0)

lemma crc_bit_xor: "crc_bit (x XOR y) = crc_bit x XOR crc_bit y"
proof -
  have "drop_bit 1 (x XOR y) = drop_bit 1 x XOR drop_bit 1 y" by (rule drop_bit_xor)
  then show ?thesis
    by (auto simp: crc_bit_def and_one_odd bit_xor_iff xor.assoc xor.left_commute)
qed

lemma crc_bits_xor: "(crc_bit ^^ n) (x XOR y) = (crc_bit ^^ n) x XOR (crc_bit ^^ n) y"
  by (induction n) (simp_all add: crc_bit_xor)

lemma crc_bits_high:
  assumes "take_bit n x = 0"
  shows "(crc_bit ^^ n) x = drop_bit n x"
  using assms
proof (induction n)
  case (Suc n)
  have low: "take_bit n x = 0"
    using arg_cong [OF Suc.prems, of "take_bit n"] by simp
  have "bit (take_bit (Suc n) x) n = bit x n" by (simp add: bit_take_bit_iff)
  with Suc.prems have "\<not> bit x n" by simp
  then have "crc_bit (drop_bit n x) = drop_bit 1 (drop_bit n x)"
    by (simp add: crc_bit_def and_one_odd bit_drop_bit_eq)
  with Suc.IH [OF low] show ?case by simp
qed simp

lemma crc_table_nth: "crc_table ! unat (x AND 0xFF :: u32) = crc_entry (x AND 0xFF)"
proof -
  have "unat (x AND 0xFF) \<le> unat (0xFF :: u32)"
    by (rule word_and_le1 [THEN word_le_nat_alt [THEN iffD1]])
  then show ?thesis by (simp add: crc_table_def)
qed

lemma crc_step_code [code]:
  "crc_step crc b = crc_entry ((crc XOR ucast b) AND 0xFF) XOR drop_bit 8 crc"
  by (simp add: crc_step_def crc_table_nth)

lemma crc_step_is_ref: "crc_step crc b = crc_step_ref crc b"
proof -
  let ?x = "crc XOR ucast b"
  have ff: "?x AND 0xFF = take_bit 8 ?x" by (simp add: take_bit_eq_mask mask_eq_exp_minus_1)
  have split: "?x = take_bit 8 ?x XOR push_bit 8 (drop_bit 8 ?x)"
  proof (rule bit_word_eqI)
    fix n
    assume "n < LENGTH(32)"
    then show "bit ?x n = bit (take_bit 8 ?x XOR push_bit 8 (drop_bit 8 ?x)) n"
      by (cases "n < 8") (simp_all add: bit_xor_iff bit_take_bit_iff bit_push_bit_iff bit_drop_bit_eq)
  qed
  have "take_bit 8 (push_bit 8 w) = 0" for w :: u32
    by (rule bit_word_eqI) (auto simp: bit_take_bit_iff bit_push_bit_iff)
  then have hi: "take_bit 8 (push_bit 8 (drop_bit 8 ?x)) = 0" .
  have same: "drop_bit 8 ?x = drop_bit 8 crc"
    by (rule bit_word_eqI) (auto simp: bit_drop_bit_eq bit_xor_iff bit_ucast_iff dest: bit_imp_le_length)
  have "(crc_bit ^^ 8) ?x = (crc_bit ^^ 8) (take_bit 8 ?x) XOR (crc_bit ^^ 8) (push_bit 8 (drop_bit 8 ?x))"
    by (subst split) (rule crc_bits_xor)
  also have "(crc_bit ^^ 8) (push_bit 8 (drop_bit 8 ?x)) = drop_bit 8 (push_bit 8 (drop_bit 8 ?x))"
    by (rule crc_bits_high [OF hi])
  also have "\<dots> = drop_bit 8 crc"
    unfolding same by (rule bit_word_eqI)
      (auto simp: bit_drop_bit_eq bit_push_bit_iff dest: bit_imp_le_length)
  finally show ?thesis
    by (simp add: crc_step_code crc_step_ref_def crc_entry_def ff)
qed

lemma crc_bit_inj: "crc_bit x = crc_bit y \<longleftrightarrow> x = y"
proof
  assume eq: "crc_bit x = crc_bit y"
  have msb: "bit (crc_bit c) 31 = bit c 0" for c
    by (auto simp: crc_bit_def and_one_odd crc_poly_def bit_xor_iff bit_drop_bit_eq
        dest: bit_imp_le_length)
  have b0: "bit x 0 = bit y 0" using msb [of x] msb [of y] eq by simp
  then have d: "drop_bit 1 x = drop_bit 1 y"
    using eq by (auto simp: crc_bit_def and_one_odd split: if_splits)
  show "x = y"
  proof (rule bit_word_eqI)
    fix n
    assume "n < LENGTH(32)"
    show "bit x n = bit y n"
    proof (cases n)
      case (Suc k)
      have "bit (drop_bit 1 x) k = bit (drop_bit 1 y) k" using d by simp
      with Suc show ?thesis by (simp add: bit_drop_bit_eq)
    qed (use b0 in simp)
  qed
qed simp

lemma crc_bits_inj: "(crc_bit ^^ n) x = (crc_bit ^^ n) y \<longleftrightarrow> x = y"
  by (induction n) (simp_all add: crc_bit_inj)

lemma crc_step_inj_crc: "crc_step c b = crc_step c' b \<longleftrightarrow> c = c'"
  by (simp add: crc_step_is_ref crc_step_ref_def crc_bits_inj)

lemma crc_step_inj_byte: "crc_step c b = crc_step c b' \<longleftrightarrow> b = b'"
  by (simp add: crc_step_is_ref crc_step_ref_def crc_bits_inj ucast_byte_inj)

lemma crc_fold_inj: "foldl crc_step c bs = foldl crc_step c' bs \<longleftrightarrow> c = c'"
  by (induction bs arbitrary: c c') (simp_all add: crc_step_inj_crc)

lemma crc32c_single_byte:
  assumes "b \<noteq> b'"
  shows "crc32c (xs @ b # ys) \<noteq> crc32c (xs @ b' # ys)"
  using assms by (simp add: crc32c_def crc_fold_inj crc_step_inj_byte)

lemma crc32c_update:
  assumes "i < length xs" "xs ! i \<noteq> v"
  shows "crc32c (xs[i := v]) \<noteq> crc32c xs"
proof -
  have "xs = take i xs @ xs ! i # drop (Suc i) xs" using assms(1) by (rule id_take_nth_drop)
  then show ?thesis
    using crc32c_single_byte [OF assms(2) [symmetric], of "take i xs" "drop (Suc i) xs"] assms(1)
    by (simp add: upd_conv_take_nth_drop)
qed


subsection \<open>Fixed-width fields\<close>

lemma and_FF_take_bit: "(v :: 'a::len word) AND 0xFF = take_bit 8 v"
  by (simp add: take_bit_eq_mask mask_eq_exp_minus_1)

lemma put_length [simp]: "length (put32 v) = 4" "length (put16 w) = 2"
  by (simp_all add: put32_def put16_def)

lemma word_eq_bits_below: "(x :: 'a::len word) = y \<longleftrightarrow> (\<forall>n<LENGTH('a). bit x n = bit y n)"
  by (auto intro: bit_word_eqI)

lemma put32_get32:
  "put32 (ucast a OR push_bit 8 (ucast b) OR push_bit 16 (ucast c) OR push_bit 24 (ucast d)) = [a, b, c, d]"
  for a b c d :: byte
  unfolding put32_def and_FF_take_bit list.inject
  by (intro conjI refl; rule bit_word_eqI)
    (auto simp: bit_ucast_iff bit_take_bit_iff bit_or_iff bit_push_bit_iff bit_drop_bit_eq
      dest: bit_imp_le_length)

lemma put16_get16: "put16 (ucast a OR push_bit 8 (ucast b)) = [a, b]" for a b :: byte
  unfolding put16_def and_FF_take_bit list.inject
  by (intro conjI refl; rule bit_word_eqI)
    (auto simp: bit_ucast_iff bit_take_bit_iff bit_or_iff bit_push_bit_iff bit_drop_bit_eq
      dest: bit_imp_le_length)

lemma split_u32: "(ucast (ucast (take_bit 8 v) :: byte) :: u32) OR push_bit 8 (ucast (ucast (take_bit 8 (drop_bit 8 v)) :: byte)) OR
    push_bit 16 (ucast (ucast (take_bit 8 (drop_bit 16 v)) :: byte)) OR
    push_bit 24 (ucast (ucast (take_bit 8 (drop_bit 24 v)) :: byte)) = v"
proof (rule bit_word_eqI)
  fix n
  assume n: "n < LENGTH(32)"
  consider "n < 8" | "8 \<le> n" "n < 16" | "16 \<le> n" "n < 24" | "24 \<le> n" by linarith
  then show "bit ((ucast (ucast (take_bit 8 v) :: byte) :: u32) OR push_bit 8 (ucast (ucast (take_bit 8 (drop_bit 8 v)) :: byte)) OR
    push_bit 16 (ucast (ucast (take_bit 8 (drop_bit 16 v)) :: byte)) OR
    push_bit 24 (ucast (ucast (take_bit 8 (drop_bit 24 v)) :: byte))) n = bit v n"
    using n by cases (auto simp: bit_ucast_iff bit_take_bit_iff bit_or_iff bit_push_bit_iff bit_drop_bit_eq)
qed

lemma split_u16: "(ucast (ucast (take_bit 8 v) :: byte) :: u16) OR push_bit 8 (ucast (ucast (take_bit 8 (drop_bit 8 v)) :: byte)) = v"
proof (rule bit_word_eqI)
  fix n
  assume n: "n < LENGTH(16)"
  then show "bit ((ucast (ucast (take_bit 8 v) :: byte) :: u16) OR push_bit 8 (ucast (ucast (take_bit 8 (drop_bit 8 v)) :: byte))) n = bit v n"
    by (cases "n < 8") (auto simp: bit_ucast_iff bit_take_bit_iff bit_or_iff bit_push_bit_iff bit_drop_bit_eq)
qed

lemma nth_length_plus: "(xs @ ys) ! (length xs + k) = ys ! k"
  by (simp add: nth_append)

lemma get32_put32: "get32 (xs @ put32 v @ ys) (length xs) = v"
  using split_u32 [of v] nth_length_plus [of xs "put32 v @ ys" 0]
  unfolding get32_def nth_length_plus put32_def and_FF_take_bit by simp

lemma get16_put16: "get16 (xs @ put16 v @ ys) (length xs) = v"
  using split_u16 [of v] nth_length_plus [of xs "put16 v @ ys" 0]
  unfolding get16_def nth_length_plus put16_def and_FF_take_bit by simp

lemma take4_nth: "i + 4 \<le> length p \<Longrightarrow> take 4 (drop i p) = [p ! i, p ! (i + 1), p ! (i + 2), p ! (i + 3)]"
  by (simp add: list_eq_iff_nth_eq nth_Cons' less_Suc_eq numeral_eq_Suc)

lemma take2_nth: "i + 2 \<le> length p \<Longrightarrow> take 2 (drop i p) = [p ! i, p ! (i + 1)]"
  by (simp add: list_eq_iff_nth_eq nth_Cons' less_Suc_eq numeral_eq_Suc)

lemma put32_of_get32: "i + 4 \<le> length p \<Longrightarrow> put32 (get32 p i) = take 4 (drop i p)"
  by (simp add: get32_def put32_get32 take4_nth)

lemma put16_of_get16: "i + 2 \<le> length p \<Longrightarrow> put16 (get16 p i) = take 2 (drop i p)"
  unfolding get16_def put16_get16 by (rule take2_nth [symmetric])

lemma put32_inj: "put32 v = put32 w \<longleftrightarrow> v = w"
  using get32_put32 [of "[]" v "[]"] get32_put32 [of "[]" w "[]"] by metis

subsection \<open>Decoding accepts exactly what encoding produces\<close>

definition envelope :: "bytes \<Rightarrow> bytes" where
  "envelope payload = put32 kMagic @ put16 kVersion @ put32 (of_nat (length payload)) @ payload"

lemma envelope_length: "length (envelope p) = kHeaderSize + length p"
  by (simp add: envelope_def kHeaderSize_def)

lemma encode_envelope:
  "encode p = (if length p > kMaxPayload
     then Inl (Error Status_ResourceExhausted ''payload exceeds persistence bound'')
     else Inr (envelope p @ put32 (crc32c (envelope p))))"
  by (simp add: encode_def envelope_def Let_def)

lemma unat_plen: "length p \<le> kMaxPayload \<Longrightarrow> unat (of_nat (length p) :: u32) = length p"
  by (simp add: kMaxPayload_def unat_of_nat)

lemma decode_encode:
  assumes "encode p = Inr bs"
  shows "decode bs = Inr p"
proof -
  let ?e = "envelope p" and ?c = "put32 (crc32c (envelope p))"
  from assms have len: "length p \<le> kMaxPayload" and bs: "bs = ?e @ ?c"
    by (auto simp: encode_envelope split: if_splits)
  have m: "get32 bs 0 = kMagic"
    using get32_put32 [of "[]" kMagic] by (simp add: bs envelope_def)
  have v: "get16 bs 4 = kVersion"
    using get16_put16 [of "put32 kMagic"] by (simp add: bs envelope_def)
  have l: "get32 bs 6 = of_nat (length p)"
    using get32_put32 [of "put32 kMagic @ put16 kVersion"] by (simp add: bs envelope_def)
  have c: "get32 bs (length ?e) = crc32c ?e"
    using get32_put32 [of ?e "crc32c ?e" "[]"] by (simp add: bs)
  have "drop kHeaderSize ?e = p" by (simp add: envelope_def kHeaderSize_def)
  moreover have "length bs = kHeaderSize + length p + kCrcSize"
    by (simp add: bs envelope_length kCrcSize_def)
  moreover have "take (kHeaderSize + length p) bs = ?e"
    by (simp add: bs envelope_length)
  ultimately show ?thesis
    using m v l c len
    by (simp add: decode_def Let_def unat_plen envelope_length kCrcSize_def not_less)
qed

lemma decode_InrD:
  assumes "decode bs = Inr p"
  shows "encode p = Inr bs"
proof -
  define plen where "plen = unat (get32 bs 6)"
  from assms have len: "length bs = kHeaderSize + plen + kCrcSize" "plen \<le> kMaxPayload"
    and m: "get32 bs 0 = kMagic" and v: "get16 bs 4 = kVersion"
    and c: "crc32c (take (kHeaderSize + plen) bs) = get32 bs (kHeaderSize + plen)"
    and p: "p = drop kHeaderSize (take (kHeaderSize + plen) bs)"
    by (auto simp: decode_def Let_def plen_def kCrcSize_def not_less split: if_splits)
  have lp: "length p = plen" using len by (simp add: p)
  have L: "of_nat (length p) = get32 bs 6" unfolding lp plen_def by simp
  have "take (kHeaderSize + plen) bs = take kHeaderSize bs @ p"
    by (metis p append_take_drop_id take_take min_absorb1 le_add1)
  also have "take kHeaderSize bs = take 4 (drop 0 bs) @ take 2 (drop 4 bs) @ take 4 (drop 6 bs)"
    using len by (simp add: kHeaderSize_def take_add [of 4 6, simplified] take_add [of 2 4, simplified])
  also have "\<dots> = put32 kMagic @ put16 kVersion @ put32 (of_nat (length p))"
    unfolding L m [symmetric] v [symmetric] using len
    by (simp add: put32_of_get32 put16_of_get16 kHeaderSize_def kCrcSize_def)
  finally have env: "take (kHeaderSize + plen) bs = envelope p" by (simp add: envelope_def)
  have "put32 (crc32c (envelope p)) = drop (kHeaderSize + plen) bs"
    using c len unfolding env [symmetric] by (simp add: put32_of_get32 kCrcSize_def)
  then have "envelope p @ put32 (crc32c (envelope p)) = bs"
    unfolding env [symmetric] by simp
  with lp len show ?thesis by (simp add: encode_envelope)
qed

lemma decode_iff: "decode bs = Inr p \<longleftrightarrow> encode p = Inr bs"
  using decode_encode decode_InrD by blast

text \<open>Two encodings of the same length that differ in one place only are impossible, so any
  one-byte change of an encoding is rejected.\<close>

lemma encode_one_byte_apart:
  assumes "encode p = Inr bs" "encode q = Inr cs" "i < length bs" "cs = bs[i := v]"
  shows "bs ! i = v"
proof (rule ccontr)
  assume ne: "bs ! i \<noteq> v"
  from assms have bs: "bs = envelope p @ put32 (crc32c (envelope p))"
    and cs: "cs = envelope q @ put32 (crc32c (envelope q))"
    by (auto simp: encode_envelope split: if_splits)
  have "length cs = length bs" using assms(4) by simp
  then have len: "length (envelope q) = length (envelope p)" by (simp add: bs cs)
  show False
  proof (cases "i < length (envelope p)")
    case True
    then have "cs = (envelope p)[i := v] @ put32 (crc32c (envelope p))"
      by (simp add: assms(4) bs list_update_append)
    with cs len have "envelope q = (envelope p)[i := v]" "put32 (crc32c (envelope q)) = put32 (crc32c (envelope p))"
      by auto
    moreover have "envelope p ! i \<noteq> v" using ne True by (simp add: bs nth_append)
    ultimately show False using crc32c_update [OF True] by (simp add: put32_inj)
  next
    case False
    then have "cs = envelope p @ (put32 (crc32c (envelope p)))[i - length (envelope p) := v]"
      by (simp add: assms(4) bs list_update_append)
    with cs len have "envelope q = envelope p"
      "put32 (crc32c (envelope q)) = (put32 (crc32c (envelope p)))[i - length (envelope p) := v]"
      by auto
    moreover have "put32 (crc32c (envelope p)) ! (i - length (envelope p)) \<noteq> v"
      using ne False by (simp add: bs nth_append)
    moreover have "i - length (envelope p) < length (put32 (crc32c (envelope p)))"
      using assms(3) False by (simp add: bs)
    ultimately show False by (metis list_update_neq_iff)
  qed
qed

text \<open>C33. The table-driven CRC-32C is the bitwise one: folding the lookup table over the data computes
  the same checksum as shifting every bit through the reflected polynomial.\<close>

theorem crc32c_is_bitwise:
  "crc32c data = foldl (\<lambda>c b. (crc_bit ^^ 8) (c XOR ucast b)) 0xFFFFFFFF data XOR 0xFFFFFFFF"
proof -
  have "crc_step = (\<lambda>c b. (crc_bit ^^ 8) (c XOR ucast b))"
    by (intro ext) (simp add: crc_step_is_ref crc_step_ref_def)
  then show ?thesis by (simp add: crc32c_def)
qed

text \<open>C32. The envelope decoder accepts exactly what the encoder produces: a byte string decodes to a
  payload if and only if it is that payload's encoding; everything else is rejected.\<close>

theorem decode_accepts_exactly: "decode bs = Inr p \<longleftrightarrow> encode p = Inr bs"
  by (rule decode_iff)

end
