(* ===== verification/Serialize.thy ===== *)
theory Serialize
  imports Lifecycle Persist
begin

text \<open>
  Persistence of the observatory's state (\<open>observatory.cpp\<close>: \<open>pack_caps\<close> to \<open>deserialize_state\<close>):
  the byte layout of every record, \<open>serialize_state\<close>, \<open>deserialize_state\<close> with its bound checks
  and early returns, the canonical digest, and \<open>save\<close>/\<open>load\<close> over a file system that is a
  parameter. Each record has a writer and a reader in the field order of the source.
\<close>

subsection \<open>Capabilities as a bit mask\<close>

definition cap_bit :: "bool \<Rightarrow> nat \<Rightarrow> u32" where
  "cap_bit b n = (if b then push_bit n 1 else 0)"

definition pack_caps :: "capabilities \<Rightarrow> u32" where
  "pack_caps c = cap_bit (cuda_device_discovery c) 0 OR cap_bit (cuda_memory_alloc c) 1 OR
     cap_bit (cuda_h2d c) 2 OR cap_bit (cuda_d2h c) 3 OR cap_bit (cuda_kernels c) 4 OR
     cap_bit (cuda_events c) 5 OR cap_bit (cuda_memory_accounting c) 6 OR
     cap_bit (nvml_utilization c) 7 OR cap_bit (pcie_counters c) 8 OR cap_bit (cache_counters c) 9 OR
     cap_bit (memory_bandwidth_counters c) 10 OR cap_bit (nvlink_counters c) 11 OR
     cap_bit (collective_metrics c) 12 OR cap_bit (numa_topology c) 13 OR
     cap_bit (storage_metrics c) 14 OR cap_bit (power_clock_telemetry c) 15 OR
     cap_bit (host_cpu_metrics c) 16"

definition unpack_caps :: "u32 \<Rightarrow> capabilities" where
  "unpack_caps m = \<lparr>cuda_device_discovery = (m AND push_bit 0 1 \<noteq> 0),
     cuda_memory_alloc = (m AND push_bit 1 1 \<noteq> 0), cuda_h2d = (m AND push_bit 2 1 \<noteq> 0),
     cuda_d2h = (m AND push_bit 3 1 \<noteq> 0), cuda_kernels = (m AND push_bit 4 1 \<noteq> 0),
     cuda_events = (m AND push_bit 5 1 \<noteq> 0), cuda_memory_accounting = (m AND push_bit 6 1 \<noteq> 0),
     nvml_utilization = (m AND push_bit 7 1 \<noteq> 0), pcie_counters = (m AND push_bit 8 1 \<noteq> 0),
     cache_counters = (m AND push_bit 9 1 \<noteq> 0), memory_bandwidth_counters = (m AND push_bit 10 1 \<noteq> 0),
     nvlink_counters = (m AND push_bit 11 1 \<noteq> 0), collective_metrics = (m AND push_bit 12 1 \<noteq> 0),
     numa_topology = (m AND push_bit 13 1 \<noteq> 0), storage_metrics = (m AND push_bit 14 1 \<noteq> 0),
     power_clock_telemetry = (m AND push_bit 15 1 \<noteq> 0), host_cpu_metrics = (m AND push_bit 16 1 \<noteq> 0)\<rparr>"

definition kCountBound :: u32 where
  "kCountBound = 50000000"

subsection \<open>Record writers\<close>

text \<open>\<open>w.u32(xs.size()); for (x : xs) write(x);\<close>\<close>

definition w_counted :: "('a \<Rightarrow> bytes) \<Rightarrow> 'a list \<Rightarrow> bytes" where
  "w_counted enc xs = w_u32 (of_nat (length xs)) @ concat (map enc xs)"

definition w_source :: "SourceId \<times> source_rec \<Rightarrow> bytes" where
  "w_source e = (case e of (k, s) \<Rightarrow>
     w_id k @ w_id (s_generation s) @ w_str (s_name s) @ w_u32 (pack_caps (s_caps s)) @
     w_en freshness_u8 (s_freshness s))"

definition w_worker :: "WorkerId \<times> worker_rec \<Rightarrow> bytes" where
  "w_worker e = (case e of (k, w) \<Rightarrow>
     w_id k @ w_id (wk_boot w) @ w_str (wk_name w) @ w_flag (wk_connected w))"

definition w_workload :: "WorkloadId \<times> workload_descriptor \<Rightarrow> bytes" where
  "w_workload e = (case e of (k, wd) \<Rightarrow>
     w_id k @ w_id (wl_generation wd) @ w_str (wl_name wd) @ w_str (wl_config_fingerprint wd) @
     w_str (wl_problem_size_fingerprint wd) @ w_id (wl_device_id wd) @ w_id (wl_device_generation wd) @
     w_id (wl_worker_id wd) @ w_id (wl_worker_boot wd) @ w_str (wl_policy_generation wd) @
     w_str (wl_runtime_generation wd) @ w_str (wl_kernel_generation wd) @ w_id (wl_topology_generation wd) @
     w_i64 (wl_start_ms wd) @ w_i64 (wl_end_ms wd) @ w_u64 (wl_attempt_id wd) @ w_str (wl_priority_class wd))"

definition w_baseline :: "BaselineId \<times> baseline \<Rightarrow> bytes" where
  "w_baseline e = (case e of (k, b) \<Rightarrow>
     w_id k @ w_id (b_generation b) @ w_en baseline_type_u8 (b_type b) @ w_id (b_workload_id b) @
     w_id (b_workload_generation b) @ w_id (b_device_id b) @ w_id (b_device_generation b) @
     w_id (b_worker_id b) @ w_id (b_worker_boot b) @ w_str (b_config_fingerprint b) @
     w_str (b_problem_size_fingerprint b) @ w_str (b_runtime_generation b) @
     w_str (b_kernel_generation b) @ w_str (b_policy_generation b) @ w_id (b_topology_generation b) @
     w_id (b_source_generation b) @ w_id (b_evidence_generation b) @ w_i64 (b_timestamp_ms b) @
     w_i64 (b_interval_ms b) @ w_en provenance_u8 (b_provenance b) @ w_en freshness_u8 (b_freshness b) @
     w_u64 (b_sample_count b) @ w_f64 (b_variance b) @ w_f64 (b_confidence b) @ w_f64 (b_mean_value b) @
     w_en metric_kind_u8 (b_metric_kind b) @ w_flag (b_valid b))"

definition w_observation :: "ObservationId \<times> observation \<Rightarrow> bytes" where
  "w_observation e = (case e of (k, ob) \<Rightarrow>
     w_id k @ w_id (o_generation ob) @ w_id (o_source_id ob) @ w_id (o_source_generation ob) @
     w_id (o_worker_id ob) @ w_id (o_worker_boot ob) @ w_id (o_workload_id ob) @
     w_id (o_workload_generation ob) @ w_id (o_device_id ob) @ w_id (o_device_generation ob) @
     w_i64 (o_timestamp_ms ob) @ w_en metric_kind_u8 (m_kind (o_measurement ob)) @
     w_f64 (m_value (o_measurement ob)) @ w_str (m_unit (o_measurement ob)) @
     w_u64 (m_sample_count (o_measurement ob)) @ w_f64 (m_variance (o_measurement ob)) @
     w_f64 (m_p95 (o_measurement ob)) @ w_flag (m_has_p95 (o_measurement ob)) @
     w_en provenance_u8 (o_provenance ob) @ w_en freshness_u8 (o_freshness ob) @
     w_en source_health_u8 (o_source_health ob) @ w_u32 (pack_caps (o_capabilities ob)) @
     w_counted w_id (o_co_run_peers ob) @ w_counted (w_en confounder_u8) (o_confounders ob))"

definition w_delta :: "metric_delta \<Rightarrow> bytes" where
  "w_delta d = w_en metric_kind_u8 (d_kind d) @ w_f64 (d_absolute d) @ w_f64 (d_relative d) @
     w_u64 (d_sample_count d) @ w_f64 (d_variance d)"

definition w_degradation :: "degradation \<Rightarrow> bytes" where
  "w_degradation g = w_u64 (g_sample_count g) @ w_counted w_delta (g_deltas g) @ w_f64 (g_worst_relative g)"

definition w_evidence :: "evidence \<Rightarrow> bytes" where
  "w_evidence v = w_id (v_id v) @ w_id (v_generation v) @ w_en provenance_u8 (v_provenance v) @
     w_en attribution_strength_u8 (v_strength v) @ w_en outcome_u8 (v_outcome v) @ w_str (v_summary v)"

definition w_episode :: "EpisodeId \<times> episode \<Rightarrow> bytes" where
  "w_episode x = (case x of (k, e) \<Rightarrow>
     w_id k @ w_id (e_generation e) @ w_i64 (e_start_ms e) @ w_i64 (e_end_ms e) @ w_flag (e_open e) @
     w_id (e_affected e) @ w_counted w_id (e_co_running e) @
     w_counted (w_en interference_domain_u8) (e_domains e) @ w_id (e_baseline_id e) @
     w_degradation (e_degradation e) @ w_f64 (e_confidence e) @ w_en outcome_u8 (e_classification e) @
     w_en provenance_u8 (e_provenance e) @ w_en freshness_u8 (e_freshness e) @ w_id (e_epoch e) @
     w_counted w_evidence (e_evidence e))"

definition w_comparison :: "ComparisonId \<times> pairwise \<Rightarrow> bytes" where
  "w_comparison x = (case x of (k, p) \<Rightarrow>
     w_id k @ w_id (p_victim p) @ w_id (p_neighbor p) @ w_en interference_domain_u8 (p_domain p) @
     w_id (p_baseline_id p) @ w_degradation (p_degradation p) @ w_f64 (p_confidence p) @
     w_u64 (p_sample_count p) @ w_en freshness_u8 (p_freshness p) @ w_en outcome_u8 (p_outcome p) @
     w_en attribution_strength_u8 (p_attribution p) @ w_id (p_episode_id p) @ w_id (p_comparison_id p) @
     w_id (p_comparison_generation p) @ w_id (p_epoch p) @
     w_counted (w_en provenance_u8) (p_evidence_sources p) @ w_flag (p_confounded p) @
     w_counted (w_en confounder_u8) (p_unresolved_confounders p))"

definition w_recovery :: "recovery_key \<Rightarrow> bytes" where
  "w_recovery t = (case t of (v, n, d) \<Rightarrow> w_id v @ w_id n @ w_en interference_domain_u8 d)"

definition serialize_state :: "impl \<Rightarrow> bytes" where
  "serialize_state s =
     w_u8 1 @ w_id (i_id s) @ w_id (i_generation s) @ w_id (i_epoch s) @
     w_counted w_source (i_sources s) @ w_counted w_worker (i_workers s) @
     w_counted w_workload (i_workloads s) @ w_counted w_baseline (i_baselines s) @
     w_counted w_observation (i_observations s) @ w_counted w_episode (i_episodes s) @
     w_counted w_comparison (i_comparisons s) @ w_counted w_recovery (i_recoveries s)"

subsection \<open>Digest\<close>

definition hash_state :: "u64 \<Rightarrow> impl \<Rightarrow> u64" where
  "hash_state h s = dg_bytes h (serialize_state s)"

definition canonical_digest :: "impl \<Rightarrow> string" where
  "canonical_digest s = dg_finish (hash_state digest_init s)"

subsection \<open>Record readers\<close>

text \<open>A reader that may leave \<open>deserialize_state\<close> with a reason returns a sum; \<open>e_bind\<close> stops at the
  first reason.\<close>

definition e_bind :: "(string + 'a) rd \<Rightarrow> ('a \<Rightarrow> (string + 'b) rd) \<Rightarrow> (string + 'b) rd" where
  "e_bind m f = do { x \<leftarrow> m; case x of Inl e \<Rightarrow> State_Monad.return (Inl e) | Inr v \<Rightarrow> f v }"

definition r_counted :: "string \<Rightarrow> 'a rd \<Rightarrow> (string + 'a list) rd" where
  "r_counted reason m = do { n \<leftarrow> r_u32;
     if n > kCountBound then State_Monad.return (Inl reason)
     else do { xs \<leftarrow> r_list (unat n) m; State_Monad.return (Inr xs) } }"

definition r_caps :: "capabilities rd" where
  "r_caps = do { m \<leftarrow> r_u32; State_Monad.return (unpack_caps m) }"

definition r_source :: "(string + SourceId \<times> source_rec) rd" where
  "r_source = do { k \<leftarrow> r_id; generation \<leftarrow> r_id; name \<leftarrow> r_str; caps \<leftarrow> r_caps;
     fresh \<leftarrow> r_en freshness_of_u8;
     State_Monad.return (Inr (k, \<lparr>s_generation = generation, s_name = name, s_caps = caps, s_freshness = fresh\<rparr>)) }"

definition r_worker :: "(string + WorkerId \<times> worker_rec) rd" where
  "r_worker = do { k \<leftarrow> r_id; boot \<leftarrow> r_id; name \<leftarrow> r_str; conn \<leftarrow> r_flag;
     State_Monad.return (Inr (k, \<lparr>wk_boot = boot, wk_name = name, wk_connected = conn\<rparr>)) }"

definition r_workload :: "(string + WorkloadId \<times> workload_descriptor) rd" where
  "r_workload = do { k \<leftarrow> r_id; generation \<leftarrow> r_id; name \<leftarrow> r_str; config \<leftarrow> r_str; problem \<leftarrow> r_str;
     device \<leftarrow> r_id; device_gen \<leftarrow> r_id; worker \<leftarrow> r_id; boot \<leftarrow> r_id; pol \<leftarrow> r_str; runtime \<leftarrow> r_str;
     kernel \<leftarrow> r_str; topology \<leftarrow> r_id; start \<leftarrow> r_i64; stop \<leftarrow> r_i64; attempt \<leftarrow> r_u64; priority \<leftarrow> r_str;
     State_Monad.return (Inr (k, \<lparr>wl_id = k, wl_generation = generation, wl_name = name,
       wl_config_fingerprint = config, wl_problem_size_fingerprint = problem, wl_device_id = device,
       wl_device_generation = device_gen, wl_worker_id = worker, wl_worker_boot = boot,
       wl_policy_generation = pol, wl_runtime_generation = runtime, wl_kernel_generation = kernel,
       wl_topology_generation = topology, wl_start_ms = start, wl_end_ms = stop,
       wl_attempt_id = attempt, wl_priority_class = priority\<rparr>)) }"

definition r_baseline :: "(string + BaselineId \<times> baseline) rd" where
  "r_baseline = do { k \<leftarrow> r_id; generation \<leftarrow> r_id; type \<leftarrow> r_en baseline_type_of_u8; workload \<leftarrow> r_id;
     workload_gen \<leftarrow> r_id; device \<leftarrow> r_id; device_gen \<leftarrow> r_id; worker \<leftarrow> r_id; boot \<leftarrow> r_id;
     config \<leftarrow> r_str; problem \<leftarrow> r_str; runtime \<leftarrow> r_str; kernel \<leftarrow> r_str; pol \<leftarrow> r_str; topology \<leftarrow> r_id;
     source_gen \<leftarrow> r_id; evidence_gen \<leftarrow> r_id; timestamp \<leftarrow> r_i64; interval \<leftarrow> r_i64;
     prov \<leftarrow> r_en provenance_of_u8; fresh \<leftarrow> r_en freshness_of_u8; samples \<leftarrow> r_u64; var \<leftarrow> r_f64;
     conf \<leftarrow> r_f64; mean \<leftarrow> r_f64; kind \<leftarrow> r_en metric_kind_of_u8; valid \<leftarrow> r_flag;
     State_Monad.return (Inr (k, \<lparr>b_id = k, b_generation = generation, b_type = type, b_workload_id = workload,
       b_workload_generation = workload_gen, b_device_id = device, b_device_generation = device_gen,
       b_worker_id = worker, b_worker_boot = boot, b_config_fingerprint = config,
       b_problem_size_fingerprint = problem, b_runtime_generation = runtime,
       b_kernel_generation = kernel, b_policy_generation = pol, b_topology_generation = topology,
       b_source_generation = source_gen, b_evidence_generation = evidence_gen,
       b_timestamp_ms = timestamp, b_interval_ms = interval, b_provenance = prov,
       b_freshness = fresh, b_sample_count = samples, b_variance = var, b_confidence = conf,
       b_mean_value = mean, b_metric_kind = kind, b_valid = valid\<rparr>)) }"

definition r_measurement :: "measurement rd" where
  "r_measurement = do { kind \<leftarrow> r_en metric_kind_of_u8; val \<leftarrow> r_f64; unit \<leftarrow> r_str; samples \<leftarrow> r_u64;
     var \<leftarrow> r_f64; p95 \<leftarrow> r_f64; has \<leftarrow> r_flag;
     State_Monad.return \<lparr>m_kind = kind, m_value = val, m_unit = unit, m_sample_count = samples,
       m_variance = var, m_p95 = p95, m_has_p95 = has\<rparr> }"

definition r_observation :: "(string + ObservationId \<times> observation) rd" where
  "r_observation = do { k \<leftarrow> r_id; generation \<leftarrow> r_id; source \<leftarrow> r_id; source_gen \<leftarrow> r_id; worker \<leftarrow> r_id;
     boot \<leftarrow> r_id; workload \<leftarrow> r_id; workload_gen \<leftarrow> r_id; device \<leftarrow> r_id; device_gen \<leftarrow> r_id;
     timestamp \<leftarrow> r_i64; measured \<leftarrow> r_measurement; prov \<leftarrow> r_en provenance_of_u8;
     fresh \<leftarrow> r_en freshness_of_u8; health \<leftarrow> r_en source_health_of_u8; caps \<leftarrow> r_caps;
     e_bind (r_counted ''peer count bound'' r_id) (\<lambda>peers.
     e_bind (r_counted ''confounder count bound'' (r_en confounder_of_u8)) (\<lambda>confs.
     State_Monad.return (Inr (k, \<lparr>o_id = k, o_generation = generation, o_source_id = source,
       o_source_generation = source_gen, o_worker_id = worker, o_worker_boot = boot,
       o_workload_id = workload, o_workload_generation = workload_gen, o_device_id = device,
       o_device_generation = device_gen, o_timestamp_ms = timestamp, o_measurement = measured,
       o_provenance = prov, o_freshness = fresh, o_source_health = health, o_capabilities = caps,
       o_co_run_peers = peers, o_confounders = confs\<rparr>)))) }"

definition r_delta :: "metric_delta rd" where
  "r_delta = do { kind \<leftarrow> r_en metric_kind_of_u8; absolute \<leftarrow> r_f64; rel \<leftarrow> r_f64; samples \<leftarrow> r_u64;
     var \<leftarrow> r_f64;
     State_Monad.return \<lparr>d_kind = kind, d_absolute = absolute, d_relative = rel, d_sample_count = samples,
       d_variance = var\<rparr> }"

definition r_degradation :: "(string + degradation) rd" where
  "r_degradation = do { samples \<leftarrow> r_u64;
     e_bind (r_counted ''delta bound'' r_delta) (\<lambda>deltas.
     do { worst \<leftarrow> r_f64;
          State_Monad.return (Inr \<lparr>g_deltas = deltas, g_sample_count = samples, g_worst_relative = worst\<rparr>) }) }"

definition r_evidence :: "evidence rd" where
  "r_evidence = do { k \<leftarrow> r_id; generation \<leftarrow> r_id; prov \<leftarrow> r_en provenance_of_u8;
     strength \<leftarrow> r_en attribution_strength_of_u8; oc \<leftarrow> r_en outcome_of_u8; summary \<leftarrow> r_str;
     State_Monad.return \<lparr>v_id = k, v_generation = generation, v_provenance = prov, v_strength = strength,
       v_outcome = oc, v_summary = summary\<rparr> }"

definition r_episode :: "(string + EpisodeId \<times> episode) rd" where
  "r_episode = do { k \<leftarrow> r_id; generation \<leftarrow> r_id; start \<leftarrow> r_i64; stop \<leftarrow> r_i64; opn \<leftarrow> r_flag; affected \<leftarrow> r_id;
     e_bind (r_counted ''co-running bound'' r_id) (\<lambda>co_running.
     e_bind (r_counted ''domain bound'' (r_en interference_domain_of_u8)) (\<lambda>domains.
     do { bid \<leftarrow> r_id;
     e_bind r_degradation (\<lambda>deg.
     do { conf \<leftarrow> r_f64; cls \<leftarrow> r_en outcome_of_u8; prov \<leftarrow> r_en provenance_of_u8;
          fresh \<leftarrow> r_en freshness_of_u8; epoch \<leftarrow> r_id;
     e_bind (r_counted ''evidence bound'' r_evidence) (\<lambda>evs.
     State_Monad.return (Inr (k, \<lparr>e_id = k, e_generation = generation, e_start_ms = start, e_end_ms = stop,
       e_open = opn, e_affected = affected, e_co_running = co_running, e_domains = domains,
       e_baseline_id = bid, e_degradation = deg, e_evidence = evs, e_confidence = conf,
       e_classification = cls, e_provenance = prov, e_freshness = fresh, e_epoch = epoch\<rparr>))) }) })) }"

definition r_comparison :: "(string + ComparisonId \<times> pairwise) rd" where
  "r_comparison = do { k \<leftarrow> r_id; victim \<leftarrow> r_id; neighbor \<leftarrow> r_id; domain \<leftarrow> r_en interference_domain_of_u8;
     bid \<leftarrow> r_id;
     e_bind r_degradation (\<lambda>deg.
     do { conf \<leftarrow> r_f64; samples \<leftarrow> r_u64; fresh \<leftarrow> r_en freshness_of_u8; oc \<leftarrow> r_en outcome_of_u8;
          strength \<leftarrow> r_en attribution_strength_of_u8; episode \<leftarrow> r_id; cid \<leftarrow> r_id; cgen \<leftarrow> r_id; epoch \<leftarrow> r_id;
     e_bind (r_counted ''evidence source bound'' (r_en provenance_of_u8)) (\<lambda>srcs.
     do { confounded \<leftarrow> r_flag;
     e_bind (r_counted ''unresolved bound'' (r_en confounder_of_u8)) (\<lambda>unresolved.
     State_Monad.return (Inr (k, \<lparr>p_victim = victim, p_neighbor = neighbor, p_domain = domain,
       p_baseline_id = bid, p_degradation = deg, p_confidence = conf, p_sample_count = samples,
       p_freshness = fresh, p_outcome = oc, p_attribution = strength, p_episode_id = episode,
       p_comparison_id = cid, p_comparison_generation = cgen, p_epoch = epoch,
       p_evidence_sources = srcs, p_confounded = confounded,
       p_unresolved_confounders = unresolved\<rparr>))) }) }) }"

definition r_recovery :: "(string + recovery_key) rd" where
  "r_recovery = do { v \<leftarrow> r_id; n \<leftarrow> r_id; d \<leftarrow> r_en interference_domain_of_u8;
     State_Monad.return (Inr (v, n, d)) }"

subsection \<open>Loading the state\<close>

text \<open>One counted section of the payload: \<open>for (i < count && r.ok) { item; if (!r.ok) break; store; }\<close>.
  The result is the reason of an early return, if any, and the state stored so far.\<close>

primrec r_items :: "nat \<Rightarrow> (string + 'i) rd \<Rightarrow> ('i \<Rightarrow> impl \<Rightarrow> impl) \<Rightarrow> impl \<Rightarrow> (string option \<times> impl) rd" where
  "r_items 0 m put s = State_Monad.return (None, s)"
| "r_items (Suc n) m put s = State (\<lambda>r.
     if \<not> rd_ok r then ((None, s), r)
     else case run_state m r of
       (Inl reason, r') \<Rightarrow> ((Some reason, s), r')
     | (Inr x, r') \<Rightarrow> if \<not> rd_ok r' then ((None, s), r') else run_state (r_items n m put (put x s)) r')"

definition r_section :: "string \<Rightarrow> (string + 'i) rd \<Rightarrow> ('i \<Rightarrow> impl \<Rightarrow> impl) \<Rightarrow> impl \<Rightarrow> (string option \<times> impl) rd" where
  "r_section reason m put s = do { count \<leftarrow> r_u32;
     if count > kCountBound then State_Monad.return (Some reason, s) else r_items (unat count) m put s }"

definition then_section ::
  "(impl \<Rightarrow> (string option \<times> impl) rd) \<Rightarrow> (impl \<Rightarrow> (string option \<times> impl) rd) \<Rightarrow> impl \<Rightarrow> (string option \<times> impl) rd" where
  "then_section a b s = do { (e, s') \<leftarrow> a s;
     case e of Some reason \<Rightarrow> State_Monad.return (Some reason, s') | None \<Rightarrow> b s' }"

definition put_source :: "SourceId \<times> source_rec \<Rightarrow> impl \<Rightarrow> impl" where
  "put_source x s = s\<lparr>i_sources := map_emplace (i_sources s) (fst x) (snd x)\<rparr>"

definition put_worker :: "WorkerId \<times> worker_rec \<Rightarrow> impl \<Rightarrow> impl" where
  "put_worker x s = s\<lparr>i_workers := map_emplace (i_workers s) (fst x) (snd x)\<rparr>"

definition put_workload :: "WorkloadId \<times> workload_descriptor \<Rightarrow> impl \<Rightarrow> impl" where
  "put_workload x s = s\<lparr>i_workloads := map_emplace (i_workloads s) (fst x) (snd x)\<rparr>"

definition put_baseline :: "BaselineId \<times> baseline \<Rightarrow> impl \<Rightarrow> impl" where
  "put_baseline x s = s\<lparr>i_baselines := map_emplace (i_baselines s) (fst x) (snd x)\<rparr>"

definition put_observation :: "ObservationId \<times> observation \<Rightarrow> impl \<Rightarrow> impl" where
  "put_observation x s = s\<lparr>i_observations := map_emplace (i_observations s) (fst x) (snd x)\<rparr>"

definition put_episode :: "EpisodeId \<times> episode \<Rightarrow> impl \<Rightarrow> impl" where
  "put_episode x s = s\<lparr>i_episodes := map_emplace (i_episodes s) (fst x) (snd x)\<rparr>"

definition cell_of :: "pairwise \<Rightarrow> cell_key" where
  "cell_of p = CellKey (p_victim p) (p_neighbor p) (p_domain p)"

definition put_comparison :: "ComparisonId \<times> pairwise \<Rightarrow> impl \<Rightarrow> impl" where
  "put_comparison x s = s\<lparr>i_comparisons := map_emplace (i_comparisons s) (fst x) (snd x),
     i_matrix := matrix_set (i_matrix s) (cell_of (snd x)) (snd x)\<rparr>"

definition put_recovery :: "recovery_key \<Rightarrow> impl \<Rightarrow> impl" where
  "put_recovery x s = s\<lparr>i_recoveries := set_insert (i_recoveries s) x\<rparr>"

text \<open>The containers that \<open>deserialize_state\<close> clears; the matrix is not among them.\<close>

definition clear_state :: "impl \<Rightarrow> impl" where
  "clear_state s = s\<lparr>i_sources := [], i_workers := [], i_workloads := [], i_baselines := [],
     i_observations := [], i_episodes := [], i_comparisons := [], i_recoveries := []\<rparr>"

definition r_header :: "impl \<Rightarrow> impl rd" where
  "r_header s = do { oid \<leftarrow> r_id; gen \<leftarrow> r_id; epoch \<leftarrow> r_id;
     State_Monad.return (s\<lparr>i_id := oid, i_generation := gen, i_epoch := epoch\<rparr>) }"

definition r_sections :: "impl \<Rightarrow> (string option \<times> impl) rd" where
  "r_sections =
     then_section (r_section ''source count bound'' r_source put_source)
    (then_section (r_section ''worker count bound'' r_worker put_worker)
    (then_section (r_section ''workload count bound'' r_workload put_workload)
    (then_section (r_section ''baseline count bound'' r_baseline put_baseline)
    (then_section (r_section ''observation count bound'' r_observation put_observation)
    (then_section (r_section ''episode count bound'' r_episode put_episode)
    (then_section (r_section ''comparison count bound'' r_comparison put_comparison)
                  (r_section ''recovery count bound'' r_recovery put_recovery)))))))"

text \<open>The returned \<open>bool\<close> with its reason is a sum; the state is returned on every path, because a
  failed load has already cleared and partly refilled it.\<close>

definition deserialize_state :: "bytes \<Rightarrow> impl \<Rightarrow> (string + unit) \<times> impl" where
  "deserialize_state payload s =
     (if payload = [] then (Inl ''empty payload'', s)
      else case run_state r_u8 (reader_of payload) of (version, r0) \<Rightarrow>
        if version \<noteq> 1 then (Inl ''unknown payload version'', s)
        else case run_state (r_header (clear_state s)) r0 of (s1, r1) \<Rightarrow>
          case run_state (r_sections s1) r1 of ((early, s2), r2) \<Rightarrow>
            (case early of
               Some reason \<Rightarrow> (Inl reason, s2)
             | None \<Rightarrow> if \<not> rd_ok r2 then (Inl ''truncated payload'', s2) else (Inr (), s2)))"

subsection \<open>Save and load\<close>

text \<open>The file system as the contents of the regular files by path, and the faults an environment
  can inject into one \<open>save\<close>: the temporary file cannot be opened, the stream fails after some
  bytes, the rename fails, the removal of the temporary file fails (and throws).\<close>

type_synonym file_system = "string \<Rightarrow> bytes option"

record io_faults =
  fault_open :: bool
  fault_write :: "nat option"
  fault_rename :: bool
  fault_remove :: bool

definition no_faults :: io_faults where
  "no_faults = \<lparr>fault_open = False, fault_write = None, fault_rename = False, fault_remove = False\<rparr>"

definition remove_tmp :: "io_faults \<Rightarrow> string \<Rightarrow> file_system \<Rightarrow> status \<times> file_system" where
  "remove_tmp io tmp fs = (if fault_remove io then (Status_ResourceExhausted, fs)
     else (Status_PersistenceCorrupt, fs(tmp := None)))"

definition save :: "io_faults \<Rightarrow> string \<Rightarrow> impl \<Rightarrow> file_system \<Rightarrow> status \<times> file_system" where
  "save io path s fs =
     (case encode (serialize_state s) of
        Inl e \<Rightarrow> (error_status e, fs)
      | Inr encoded \<Rightarrow>
          let tmp = path @ ''.tmp'' in
          if fault_open io then (Status_PersistenceCorrupt, fs)
          else case fault_write io of
            Some k \<Rightarrow> remove_tmp io tmp (fs(tmp := Some (take k encoded)))
          | None \<Rightarrow>
              if fault_rename io then remove_tmp io tmp (fs(tmp := Some encoded))
              else (Status_Ok, fs(tmp := None, path := Some encoded)))"

definition load :: "string \<Rightarrow> file_system \<Rightarrow> impl \<Rightarrow> status \<times> impl" where
  "load path fs s =
     (case fs path of
        None \<Rightarrow> (Status_PersistenceCorrupt, s)
      | Some bs \<Rightarrow>
          if bs = [] then (Status_PersistenceCorrupt, s)
          else case decode bs of
            Inl _ \<Rightarrow> (Status_PersistenceCorrupt, s)
          | Inr payload \<Rightarrow>
              (case deserialize_state payload s of
                 (Inl _, s') \<Rightarrow> (Status_PersistenceCorrupt, s')
               | (Inr _, s') \<Rightarrow> (Status_Ok, s')))"

subsection \<open>Round trip of the records\<close>

lemma cap_bit_at: "bit (cap_bit b n) k \<longleftrightarrow> b \<and> k = n \<and> n < 32"
  by (auto simp: cap_bit_def push_bit_of_1 bit_exp_iff)

lemma and_push_bit_1: "m AND push_bit n 1 \<noteq> 0 \<longleftrightarrow> bit (m :: u32) n"
proof -
  have "bit (m AND push_bit n 1) k \<longleftrightarrow> bit m n \<and> k = n" for k
    by (auto simp: bit_and_iff push_bit_of_1 bit_exp_iff dest: bit_imp_le_length)
  then show ?thesis by (metis bit_eq_iff bit_0_eq bot_apply bot_bool_def)
qed

lemma unpack_pack_caps: "unpack_caps (pack_caps c) = c"
  unfolding unpack_caps_def and_push_bit_1 pack_caps_def bit_or_iff cap_bit_at by simp

lemma parses_caps [codec_intros]: "parses r_caps (w_u32 (pack_caps c)) c"
  unfolding r_caps_def by (rule parses_map [OF parses_u32]) (rule unpack_pack_caps)

lemma parses_e_bind:
  assumes "parses m bs (Inr v)" "parses (f v) cs w"
  shows "parses (e_bind m f) (bs @ cs) w"
  unfolding e_bind_def by (rule parses_bind [OF assms(1)]) (simp add: assms(2))

lemma parses_e_map:
  assumes "parses m bs (Inr v)" "h v = w"
  shows "parses (e_bind m (\<lambda>x. State_Monad.return (h x))) bs w"
  using parses_e_bind [OF assms(1), of "\<lambda>x. State_Monad.return (h x)" "[]"] assms(2)
  by (simp add: parses_return)

definition count_ok :: "'a list \<Rightarrow> bool" where
  "count_ok xs \<longleftrightarrow> length xs \<le> 50000000"

lemma count_word:
  assumes "count_ok xs"
  shows "unat (of_nat (length xs) :: u32) = length xs" "\<not> (of_nat (length xs) :: u32) > kCountBound"
  using assms by (simp_all add: count_ok_def unat_of_nat kCountBound_def word_less_nat_alt)

text \<open>The contract of a counted list follows from the codec contract of its elements.\<close>

context codec
begin

lemma parses_counted:
  assumes "count_ok xs" "\<forall>x\<in>set xs. dom x"
  shows "parses (r_counted reason dec) (w_counted enc xs) (Inr xs)"
  unfolding r_counted_def w_counted_def
  by (rule parses_bind [OF parses_u32])
    (simp add: count_word [OF assms(1)] parses_map [OF parses_list [OF assms(2)]])

end

lemmas counted_intros [codec_intros] = id_codec.parses_counted domain_codec.parses_counted
  provenance_enc.parses_counted confounder_enc.parses_counted

lemmas read_intros = parses_bind parses_map parses_e_bind parses_e_map codec_intros

definition source_ok :: "SourceId \<times> source_rec \<Rightarrow> bool" where
  "source_ok e \<longleftrightarrow> str_ok (s_name (snd e)) \<and> canonical freshness_u8 freshness_of_u8 (s_freshness (snd e))"

definition worker_ok :: "WorkerId \<times> worker_rec \<Rightarrow> bool" where
  "worker_ok e \<longleftrightarrow> str_ok (wk_name (snd e))"

definition workload_ok :: "WorkloadId \<times> workload_descriptor \<Rightarrow> bool" where
  "workload_ok e \<longleftrightarrow> (case e of (k, w) \<Rightarrow> k = wl_id w \<and> str_ok (wl_name w) \<and>
     str_ok (wl_config_fingerprint w) \<and> str_ok (wl_problem_size_fingerprint w) \<and>
     str_ok (wl_policy_generation w) \<and> str_ok (wl_runtime_generation w) \<and>
     str_ok (wl_kernel_generation w) \<and> str_ok (wl_priority_class w))"

definition baseline_ok :: "BaselineId \<times> baseline \<Rightarrow> bool" where
  "baseline_ok e \<longleftrightarrow> (case e of (k, b) \<Rightarrow> k = b_id b \<and>
     canonical baseline_type_u8 baseline_type_of_u8 (b_type b) \<and> str_ok (b_config_fingerprint b) \<and>
     str_ok (b_problem_size_fingerprint b) \<and> str_ok (b_runtime_generation b) \<and>
     str_ok (b_kernel_generation b) \<and> str_ok (b_policy_generation b) \<and>
     canonical provenance_u8 provenance_of_u8 (b_provenance b) \<and>
     canonical freshness_u8 freshness_of_u8 (b_freshness b) \<and>
     canonical metric_kind_u8 metric_kind_of_u8 (b_metric_kind b))"

definition confounders_ok :: "confounder list \<Rightarrow> bool" where
  "confounders_ok cs \<longleftrightarrow> count_ok cs \<and> (\<forall>c\<in>set cs. canonical confounder_u8 confounder_of_u8 c)"

definition observation_ok :: "ObservationId \<times> observation \<Rightarrow> bool" where
  "observation_ok e \<longleftrightarrow> (case e of (k, ob) \<Rightarrow> k = o_id ob \<and>
     canonical metric_kind_u8 metric_kind_of_u8 (m_kind (o_measurement ob)) \<and>
     str_ok (m_unit (o_measurement ob)) \<and> canonical provenance_u8 provenance_of_u8 (o_provenance ob) \<and>
     canonical freshness_u8 freshness_of_u8 (o_freshness ob) \<and>
     canonical source_health_u8 source_health_of_u8 (o_source_health ob) \<and>
     count_ok (o_co_run_peers ob) \<and> confounders_ok (o_confounders ob))"

definition delta_ok :: "metric_delta \<Rightarrow> bool" where
  "delta_ok d \<longleftrightarrow> canonical metric_kind_u8 metric_kind_of_u8 (d_kind d)"

definition degradation_ok :: "degradation \<Rightarrow> bool" where
  "degradation_ok g \<longleftrightarrow> count_ok (g_deltas g) \<and> (\<forall>d\<in>set (g_deltas g). delta_ok d)"

definition evidence_wf :: "evidence \<Rightarrow> bool" where
  "evidence_wf v \<longleftrightarrow> canonical provenance_u8 provenance_of_u8 (v_provenance v) \<and>
     canonical attribution_strength_u8 attribution_strength_of_u8 (v_strength v) \<and>
     canonical outcome_u8 outcome_of_u8 (v_outcome v) \<and> str_ok (v_summary v)"

definition episode_ok :: "EpisodeId \<times> episode \<Rightarrow> bool" where
  "episode_ok x \<longleftrightarrow> (case x of (k, e) \<Rightarrow> k = e_id e \<and> count_ok (e_co_running e) \<and> count_ok (e_domains e) \<and>
     (\<forall>d\<in>set (e_domains e). canonical interference_domain_u8 interference_domain_of_u8 d) \<and>
     degradation_ok (e_degradation e) \<and> canonical outcome_u8 outcome_of_u8 (e_classification e) \<and>
     canonical provenance_u8 provenance_of_u8 (e_provenance e) \<and>
     canonical freshness_u8 freshness_of_u8 (e_freshness e) \<and> count_ok (e_evidence e) \<and>
     (\<forall>v\<in>set (e_evidence e). evidence_wf v))"

definition comparison_ok :: "ComparisonId \<times> pairwise \<Rightarrow> bool" where
  "comparison_ok x \<longleftrightarrow> (case x of (k, p) \<Rightarrow>
     canonical interference_domain_u8 interference_domain_of_u8 (p_domain p) \<and>
     degradation_ok (p_degradation p) \<and> canonical freshness_u8 freshness_of_u8 (p_freshness p) \<and>
     canonical outcome_u8 outcome_of_u8 (p_outcome p) \<and>
     canonical attribution_strength_u8 attribution_strength_of_u8 (p_attribution p) \<and>
     count_ok (p_evidence_sources p) \<and>
     (\<forall>v\<in>set (p_evidence_sources p). canonical provenance_u8 provenance_of_u8 v) \<and>
     confounders_ok (p_unresolved_confounders p))"

definition recovery_ok :: "recovery_key \<Rightarrow> bool" where
  "recovery_ok t \<longleftrightarrow> canonical interference_domain_u8 interference_domain_of_u8 (snd (snd t))"

lemma parses_source: "source_ok e \<Longrightarrow> parses r_source (w_source e) (Inr e)"
  unfolding r_source_def w_source_def case_prod_beta source_ok_def
  by (rule read_intros | simp add: prod_eq_iff)+

lemma parses_worker: "worker_ok e \<Longrightarrow> parses r_worker (w_worker e) (Inr e)"
  unfolding r_worker_def w_worker_def case_prod_beta worker_ok_def
  by (rule read_intros | simp add: prod_eq_iff)+

lemma parses_workload: "workload_ok e \<Longrightarrow> parses r_workload (w_workload e) (Inr e)"
  unfolding r_workload_def w_workload_def case_prod_beta workload_ok_def
  by (rule read_intros | simp add: prod_eq_iff)+

lemma parses_baseline: "baseline_ok e \<Longrightarrow> parses r_baseline (w_baseline e) (Inr e)"
  unfolding r_baseline_def w_baseline_def case_prod_beta baseline_ok_def
  by (rule read_intros | simp add: prod_eq_iff)+

lemma parses_recovery: "recovery_ok e \<Longrightarrow> parses r_recovery (w_recovery e) (Inr e)"
  unfolding r_recovery_def w_recovery_def case_prod_beta recovery_ok_def
  by (rule read_intros | simp add: prod_eq_iff)+

lemma parses_measurement:
  assumes "canonical metric_kind_u8 metric_kind_of_u8 (m_kind m)" "str_ok (m_unit m)"
  shows "parses r_measurement (w_en metric_kind_u8 (m_kind m) @ w_f64 (m_value m) @ w_str (m_unit m) @
     w_u64 (m_sample_count m) @ w_f64 (m_variance m) @ w_f64 (m_p95 m) @ w_flag (m_has_p95 m)) m"
  unfolding r_measurement_def by (rule read_intros | simp add: assms)+

lemma parses_bind_assoc:
  assumes "parses m (b1 @ b2 @ b3 @ b4 @ b5 @ b6 @ b7) v" "parses (f v) cs w"
  shows "parses (State_Monad.bind m f) (b1 @ b2 @ b3 @ b4 @ b5 @ b6 @ b7 @ cs) w"
  using parses_bind [of m "b1 @ b2 @ b3 @ b4 @ b5 @ b6 @ b7" v f cs w] assms by simp

lemma parses_observation: "observation_ok e \<Longrightarrow> parses r_observation (w_observation e) (Inr e)"
  unfolding r_observation_def w_observation_def case_prod_beta observation_ok_def confounders_ok_def
  by (rule parses_bind_assoc [OF parses_measurement] read_intros | simp add: prod_eq_iff)+

lemma parses_delta [codec_intros]: "delta_ok d \<Longrightarrow> parses r_delta (w_delta d) d"
  unfolding r_delta_def w_delta_def delta_ok_def by (rule read_intros | simp)+

lemma parses_evidence [codec_intros]: "evidence_wf v \<Longrightarrow> parses r_evidence (w_evidence v) v"
  unfolding r_evidence_def w_evidence_def evidence_wf_def by (rule read_intros | simp)+

interpretation delta_codec: codec w_delta r_delta delta_ok
  by unfold_locales (rule parses_delta)

interpretation evidence_codec: codec w_evidence r_evidence evidence_wf
  by unfold_locales (rule parses_evidence)

lemma parses_degradation [codec_intros]: "degradation_ok g \<Longrightarrow> parses r_degradation (w_degradation g) (Inr g)"
  unfolding r_degradation_def w_degradation_def degradation_ok_def
  by (rule read_intros delta_codec.parses_counted | simp)+

lemma parses_episode: "episode_ok e \<Longrightarrow> parses r_episode (w_episode e) (Inr e)"
  unfolding r_episode_def w_episode_def case_prod_beta episode_ok_def
  by (rule read_intros parses_degradation evidence_codec.parses_counted | simp add: prod_eq_iff)+

lemma parses_comparison: "comparison_ok e \<Longrightarrow> parses r_comparison (w_comparison e) (Inr e)"
  unfolding r_comparison_def w_comparison_def case_prod_beta comparison_ok_def confounders_ok_def
  by (rule read_intros parses_degradation | simp add: prod_eq_iff)+

subsection \<open>Round trip of the state\<close>

lemma parses_items:
  assumes "\<forall>x\<in>set xs. parses m (enc x) (Inr x)"
  shows "parses (r_items (length xs) m put s) (concat (map enc xs)) (None, fold put xs s)"
  using assms
proof (induction xs arbitrary: s)
  case Nil
  then show ?case by (simp add: parses_return)
next
  case (Cons x xs)
  show ?case
  proof (rule parsesI)
    fix r :: reader and rest :: bytes
    assume "rd_at r (concat (map enc (x # xs)) @ rest)"
    then have at: "rd_at r (enc x @ concat (map enc xs) @ rest)" by simp
    let ?r' = "r\<lparr>rd_pos := rd_pos r + length (enc x)\<rparr>"
    have ok: "rd_ok r" "rd_ok ?r'" using at by (simp_all add: rd_at_def)
    have "parses m (enc x) (Inr x)" using Cons.prems by simp
    from parsesD [OF this at] have "run_state m r = (Inr x, ?r')" .
    moreover have "run_state (r_items (length xs) m put (put x s)) ?r' =
        ((None, fold put xs (put x s)), ?r'\<lparr>rd_pos := rd_pos ?r' + length (concat (map enc xs))\<rparr>)"
      using Cons.prems by (intro parsesD [OF Cons.IH rd_at_advance [OF at]]) simp
    ultimately show "run_state (r_items (length (x # xs)) m put s) r =
        ((None, fold put (x # xs) s), r\<lparr>rd_pos := rd_pos r + length (concat (map enc (x # xs)))\<rparr>)"
      using ok by (simp add: add.assoc)
  qed
qed

definition section_ok :: "('i \<Rightarrow> bool) \<Rightarrow> 'i list \<Rightarrow> bool" where
  "section_ok P xs \<longleftrightarrow> count_ok xs \<and> (\<forall>x\<in>set xs. P x)"

lemma parses_section:
  assumes "section_ok P xs" "\<And>x. P x \<Longrightarrow> parses m (enc x) (Inr x)"
  shows "parses (r_section reason m put s) (w_counted enc xs) (None, fold put xs s)"
proof -
  have c: "count_ok xs" and p: "\<forall>x\<in>set xs. parses m (enc x) (Inr x)"
    using assms by (auto simp: section_ok_def)
  show ?thesis unfolding r_section_def w_counted_def
    by (rule parses_bind [OF parses_u32]) (simp add: count_word [OF c] parses_items [OF p])
qed

lemma parses_then:
  assumes "parses (a s) bs (None, s')" "parses (b s') cs w"
  shows "parses (then_section a b s) (bs @ cs) w"
  unfolding then_section_def by (rule parses_bind [OF assms(1)]) (simp add: assms(2))

lemma fold_emplace:
  "map_inv (m @ xs) \<Longrightarrow> fold (\<lambda>x m. map_emplace m (fst x) (snd x)) xs m = m @ xs"
proof (induction xs arbitrary: m)
  case (Cons x xs)
  have "map_inv (m @ (fst x, snd x) # xs)" using Cons.prems by simp
  then have "map_emplace m (fst x) (snd x) = m @ [x]"
    using map_emplace_above [OF map_inv_append, of m "fst x" "snd x" xs] by simp
  with Cons show ?case by simp
qed simp

lemma fold_set_insert: "set_inv (m @ xs) \<Longrightarrow> fold (\<lambda>x m. set_insert m x) xs m = m @ xs"
proof (induction xs arbitrary: m)
  case (Cons x xs)
  have "set_insert m x = m @ [x]"
    using Cons.prems by (intro set_insert_above) (auto simp: set_inv_def sorted_wrt_append)
  with Cons show ?case by simp
qed simp

text \<open>The states the format can represent: ordered containers keyed by id, strings within the
  string bound, enum values in their canonical form and containers within the count bound.\<close>

definition serial_ok :: "impl \<Rightarrow> bool" where
  "serial_ok s \<longleftrightarrow>
     section_ok source_ok (i_sources s) \<and> map_inv (i_sources s) \<and>
     section_ok worker_ok (i_workers s) \<and> map_inv (i_workers s) \<and>
     section_ok workload_ok (i_workloads s) \<and> map_inv (i_workloads s) \<and>
     section_ok baseline_ok (i_baselines s) \<and> map_inv (i_baselines s) \<and>
     section_ok observation_ok (i_observations s) \<and> map_inv (i_observations s) \<and>
     section_ok episode_ok (i_episodes s) \<and> map_inv (i_episodes s) \<and>
     section_ok comparison_ok (i_comparisons s) \<and> map_inv (i_comparisons s) \<and>
     section_ok recovery_ok (i_recoveries s) \<and> set_inv (i_recoveries s)"

definition replay_matrix :: "matrix \<Rightarrow> (ComparisonId, pairwise) std_map \<Rightarrow> matrix" where
  "replay_matrix m cs = fold (\<lambda>x m. matrix_set m (cell_of (snd x)) (snd x)) cs m"

lemma fold_puts:
  "fold put_source xs s = s\<lparr>i_sources := fold (\<lambda>x m. map_emplace m (fst x) (snd x)) xs (i_sources s)\<rparr>"
  "fold put_worker ws s = s\<lparr>i_workers := fold (\<lambda>x m. map_emplace m (fst x) (snd x)) ws (i_workers s)\<rparr>"
  "fold put_workload ls s = s\<lparr>i_workloads := fold (\<lambda>x m. map_emplace m (fst x) (snd x)) ls (i_workloads s)\<rparr>"
  "fold put_baseline bs s = s\<lparr>i_baselines := fold (\<lambda>x m. map_emplace m (fst x) (snd x)) bs (i_baselines s)\<rparr>"
  "fold put_observation obs s = s\<lparr>i_observations := fold (\<lambda>x m. map_emplace m (fst x) (snd x)) obs (i_observations s)\<rparr>"
  "fold put_episode es s = s\<lparr>i_episodes := fold (\<lambda>x m. map_emplace m (fst x) (snd x)) es (i_episodes s)\<rparr>"
  "fold put_comparison cs s = s\<lparr>i_comparisons := fold (\<lambda>x m. map_emplace m (fst x) (snd x)) cs (i_comparisons s),
     i_matrix := replay_matrix (i_matrix s) cs\<rparr>"
  "fold put_recovery rs s = s\<lparr>i_recoveries := fold (\<lambda>x m. set_insert m x) rs (i_recoveries s)\<rparr>"
proof -
  show "fold put_source xs s = s\<lparr>i_sources := fold (\<lambda>x m. map_emplace m (fst x) (snd x)) xs (i_sources s)\<rparr>"
    by (induction xs arbitrary: s) (simp_all add: put_source_def)
  show "fold put_worker ws s = s\<lparr>i_workers := fold (\<lambda>x m. map_emplace m (fst x) (snd x)) ws (i_workers s)\<rparr>"
    by (induction ws arbitrary: s) (simp_all add: put_worker_def)
  show "fold put_workload ls s = s\<lparr>i_workloads := fold (\<lambda>x m. map_emplace m (fst x) (snd x)) ls (i_workloads s)\<rparr>"
    by (induction ls arbitrary: s) (simp_all add: put_workload_def)
  show "fold put_baseline bs s = s\<lparr>i_baselines := fold (\<lambda>x m. map_emplace m (fst x) (snd x)) bs (i_baselines s)\<rparr>"
    by (induction bs arbitrary: s) (simp_all add: put_baseline_def)
  show "fold put_observation obs s = s\<lparr>i_observations := fold (\<lambda>x m. map_emplace m (fst x) (snd x)) obs (i_observations s)\<rparr>"
    by (induction obs arbitrary: s) (simp_all add: put_observation_def)
  show "fold put_episode es s = s\<lparr>i_episodes := fold (\<lambda>x m. map_emplace m (fst x) (snd x)) es (i_episodes s)\<rparr>"
    by (induction es arbitrary: s) (simp_all add: put_episode_def)
  show "fold put_comparison cs s = s\<lparr>i_comparisons := fold (\<lambda>x m. map_emplace m (fst x) (snd x)) cs (i_comparisons s),
     i_matrix := replay_matrix (i_matrix s) cs\<rparr>"
    by (induction cs arbitrary: s) (simp_all add: put_comparison_def replay_matrix_def)
  show "fold put_recovery rs s = s\<lparr>i_recoveries := fold (\<lambda>x m. set_insert m x) rs (i_recoveries s)\<rparr>"
    by (induction rs arbitrary: s) (simp_all add: put_recovery_def)
qed

lemma put_all:
  "i_sources s = [] \<Longrightarrow> map_inv xs \<Longrightarrow> fold put_source xs s = s\<lparr>i_sources := xs\<rparr>"
  "i_workers s = [] \<Longrightarrow> map_inv ws \<Longrightarrow> fold put_worker ws s = s\<lparr>i_workers := ws\<rparr>"
  "i_workloads s = [] \<Longrightarrow> map_inv ls \<Longrightarrow> fold put_workload ls s = s\<lparr>i_workloads := ls\<rparr>"
  "i_baselines s = [] \<Longrightarrow> map_inv bs \<Longrightarrow> fold put_baseline bs s = s\<lparr>i_baselines := bs\<rparr>"
  "i_observations s = [] \<Longrightarrow> map_inv obs \<Longrightarrow> fold put_observation obs s = s\<lparr>i_observations := obs\<rparr>"
  "i_episodes s = [] \<Longrightarrow> map_inv es \<Longrightarrow> fold put_episode es s = s\<lparr>i_episodes := es\<rparr>"
  "i_comparisons s = [] \<Longrightarrow> map_inv cs \<Longrightarrow>
     fold put_comparison cs s = s\<lparr>i_comparisons := cs, i_matrix := replay_matrix (i_matrix s) cs\<rparr>"
  "i_recoveries s = [] \<Longrightarrow> set_inv rs \<Longrightarrow> fold put_recovery rs s = s\<lparr>i_recoveries := rs\<rparr>"
  by (simp_all add: fold_puts fold_emplace [of "[]", simplified] fold_set_insert [of "[]", simplified])

definition restored :: "impl \<Rightarrow> impl \<Rightarrow> impl" where
  "restored s t = s\<lparr>i_matrix := replay_matrix (i_matrix t) (i_comparisons s)\<rparr>"

lemma parses_sections:
  assumes "serial_ok s"
  shows "parses (r_sections ((clear_state t)\<lparr>i_id := i_id s, i_generation := i_generation s, i_epoch := i_epoch s\<rparr>))
    (w_counted w_source (i_sources s) @ w_counted w_worker (i_workers s) @
     w_counted w_workload (i_workloads s) @ w_counted w_baseline (i_baselines s) @
     w_counted w_observation (i_observations s) @ w_counted w_episode (i_episodes s) @
     w_counted w_comparison (i_comparisons s) @ w_counted w_recovery (i_recoveries s)) (None, restored s t)"
proof -
  have ok: "section_ok source_ok (i_sources s)" "section_ok worker_ok (i_workers s)"
    "section_ok workload_ok (i_workloads s)" "section_ok baseline_ok (i_baselines s)"
    "section_ok observation_ok (i_observations s)" "section_ok episode_ok (i_episodes s)"
    "section_ok comparison_ok (i_comparisons s)" "section_ok recovery_ok (i_recoveries s)"
    using assms by (simp_all add: serial_ok_def)
  note secs = parses_section [OF ok(1) parses_source] parses_section [OF ok(2) parses_worker]
    parses_section [OF ok(3) parses_workload] parses_section [OF ok(4) parses_baseline]
    parses_section [OF ok(5) parses_observation] parses_section [OF ok(6) parses_episode]
    parses_section [OF ok(7) parses_comparison] parses_section [OF ok(8) parses_recovery]
  let ?s1 = "(clear_state t)\<lparr>i_id := i_id s, i_generation := i_generation s, i_epoch := i_epoch s\<rparr>"
  let ?final = "fold put_recovery (i_recoveries s) (fold put_comparison (i_comparisons s)
    (fold put_episode (i_episodes s) (fold put_observation (i_observations s)
    (fold put_baseline (i_baselines s) (fold put_workload (i_workloads s)
    (fold put_worker (i_workers s) (fold put_source (i_sources s) ?s1)))))))"
  have "?final = restored s t"
    using assms by (simp add: put_all clear_state_def restored_def serial_ok_def)
  moreover have "parses (r_sections ?s1) (w_counted w_source (i_sources s) @ w_counted w_worker (i_workers s) @
     w_counted w_workload (i_workloads s) @ w_counted w_baseline (i_baselines s) @
     w_counted w_observation (i_observations s) @ w_counted w_episode (i_episodes s) @
     w_counted w_comparison (i_comparisons s) @ w_counted w_recovery (i_recoveries s)) (None, ?final)"
    unfolding r_sections_def by (rule parses_then secs | assumption)+
  ultimately show ?thesis by simp
qed

lemma deserialize_serialize:
  assumes "serial_ok s"
  shows "deserialize_state (serialize_state s) t = (Inr (), restored s t)"
proof -
  let ?body = "w_counted w_source (i_sources s) @ w_counted w_worker (i_workers s) @
     w_counted w_workload (i_workloads s) @ w_counted w_baseline (i_baselines s) @
     w_counted w_observation (i_observations s) @ w_counted w_episode (i_episodes s) @
     w_counted w_comparison (i_comparisons s) @ w_counted w_recovery (i_recoveries s)"
  let ?hd = "w_id (i_id s) @ w_id (i_generation s) @ w_id (i_epoch s)"
  let ?s1 = "(clear_state t)\<lparr>i_id := i_id s, i_generation := i_generation s, i_epoch := i_epoch s\<rparr>"
  let ?r = "reader_of (serialize_state s)"
  have ser: "serialize_state s = w_u8 1 @ ?hd @ ?body" by (simp add: serialize_state_def)
  have at: "rd_at ?r (w_u8 1 @ ?hd @ ?body)" by (simp add: ser reader_of_def rd_at_def)
  note a1 = rd_at_advance [OF at]
  note a2 = rd_at_advance [OF a1]
  have hd: "parses (r_header (clear_state t)) ?hd ?s1"
    unfolding r_header_def by (rule read_intros | simp)+
  have a2': "rd_at (?r\<lparr>rd_pos := rd_pos ?r + length (w_u8 1)\<rparr>\<lparr>rd_pos := rd_pos (?r\<lparr>rd_pos := rd_pos ?r + length (w_u8 1)\<rparr>) + length ?hd\<rparr>) (?body @ [])"
    using a2 by simp
  have "serialize_state s \<noteq> []" by (simp add: ser w_u8_def)
  then show ?thesis
    using a2' unfolding deserialize_state_def
    by (simp only: parsesD [OF parses_u8 at] parsesD [OF hd a1] parsesD [OF parses_sections [OF assms] a2']
        prod.case if_False if_True not_True_eq_False simp_thms option.case)
      (simp add: reader_of_def)
qed

lemma ex_serial_ok: "serial_ok ex_state"
proof -
  have st: "ex_state = (new_observatory (Id 1) (Id 1))\<lparr>i_baselines := [(Id 9, ex_baseline)]\<rparr>"
    by code_simp
  have "baseline_ok (Id 9, ex_baseline)"
    by (simp add: baseline_ok_def ex_baseline_def default_baseline_def str_ok_def canonical_def
        baseline_type_of_u8_def provenance_of_u8_def freshness_of_u8_def metric_kind_of_u8_def)
  then show ?thesis
    by (simp add: st new_observatory_def serial_ok_def section_ok_def count_ok_def map_inv_def set_inv_def)
qed

text \<open>C6. Persistence round trip. For every state whose strings, counts and enum values the format
  can represent, \<open>deserialize_state\<close> of \<open>serialize_state\<close> succeeds in any observatory and restores
  identity, epoch, sources, workers, workloads, baselines, observations, episodes, comparisons and
  recoveries exactly; the matrix becomes the old matrix of the loading observatory overwritten with
  the recorded comparisons.\<close>

theorem state_roundtrip:
  assumes "serial_ok s"
  shows "deserialize_state (serialize_state s) t =
    (Inr (), s\<lparr>i_matrix := fold (\<lambda>x m. matrix_set m (cell_of (snd x)) (snd x)) (i_comparisons s) (i_matrix t)\<rparr>)"
  using deserialize_serialize [OF assms] by (simp add: restored_def replay_matrix_def)

theorem state_roundtrip_witness:
  "fst (deserialize_state (serialize_state ex_state) (new_observatory (Id 2) (Id 2))) = Inr () \<and>
   i_baselines (snd (deserialize_state (serialize_state ex_state) (new_observatory (Id 2) (Id 2)))) =
     i_baselines ex_state"
  by (simp add: state_roundtrip [OF ex_serial_ok])

lemma save_ok_state:
  assumes "fst (save io path s fs) = Status_Ok"
  shows "\<exists>bs. encode (serialize_state s) = Inr bs \<and> snd (save io path s fs) path = Some bs"
  using assms
  by (auto simp: save_def remove_tmp_def encode_def Let_def split: sum.splits option.splits if_splits)

lemma encode_nonempty: "encode p = Inr bs \<Longrightarrow> bs \<noteq> []"
  by (auto simp: encode_envelope put32_def split: if_splits)

lemma load_saved:
  assumes "serial_ok s" "encode (serialize_state s) = Inr bs" "fs path = Some bs"
  shows "load path fs t = (Status_Ok, restored s t)"
  using assms encode_nonempty [OF assms(2)]
  by (simp add: load_def decode_encode deserialize_serialize)

lemma serialize_restored: "serialize_state (restored s t) = serialize_state s"
  by (simp add: serialize_state_def restored_def)

text \<open>C9. Reload keeps the digest. For every state within the reader's bounds (strings of at most 16 MiB,
  counts within the count bound, enum values the format represents), whenever \<open>save\<close> reports
  success, \<open>load\<close> of the same path, in any observatory, succeeds, and the loaded observatory has the
  canonical digest of the saved one. \<open>save\<close> does not check these bounds: as theory \<open>Reload\<close> shows, a state outside them can be
  saved with success and not loaded.\<close>

theorem save_load_digest:
  assumes "serial_ok s" "fst (save io path s fs) = Status_Ok"
  shows "case load path (snd (save io path s fs)) t of (st, s') \<Rightarrow>
    st = Status_Ok \<and> canonical_digest s' = canonical_digest s"
proof -
  obtain bs where "encode (serialize_state s) = Inr bs" "snd (save io path s fs) path = Some bs"
    using save_ok_state [OF assms(2)] by blast
  from load_saved [where fs = "snd (save io path s fs)" and path = path, OF assms(1) this] show ?thesis
    by (simp add: canonical_digest_def hash_state_def serialize_restored)
qed

lemma ex_serialized_length: "length (serialize_state ex_state) \<le> kMaxPayload"
proof -
  have "length (serialize_state ex_state) \<le> 1000" by code_simp
  then show ?thesis by (auto simp: kMaxPayload_def)
qed

theorem save_load_digest_witness:
  "fst (load ''a'' (snd (save no_faults ''a'' ex_state (\<lambda>_. None))) (new_observatory (Id 2) (Id 2))) = Status_Ok"
proof -
  have "fst (save no_faults ''a'' ex_state (\<lambda>_. None)) = Status_Ok"
    using ex_serialized_length by (simp add: save_def no_faults_def encode_def Let_def)
  from save_load_digest [OF ex_serial_ok this] show ?thesis by (simp add: case_prod_beta)
qed

text \<open>C29. A failed save does no damage: if \<open>save\<close> reports anything but success, whatever fault occurred,
  the file at the target path is what it was before, and no file other than the target and its
  temporary sibling ever changes.\<close>

theorem save_failure_keeps_file:
  "(fst (save io path s fs) = Status_Ok \<or> snd (save io path s fs) path = fs path) \<and>
   (\<forall>q. q = path \<or> q = path @ ''.tmp'' \<or> snd (save io path s fs) q = fs q)"
  by (auto simp: save_def remove_tmp_def Let_def split: sum.splits option.splits)

text \<open>C28. A damaged file is refused without side effects: if the file differs from a saved image in
  exactly one byte, \<open>load\<close> reports corruption and leaves the observatory as it was.\<close>

theorem load_rejects_damaged_byte:
  assumes "encode (serialize_state s) = Inr bs" "i < length bs" "v \<noteq> bs ! i"
  shows "load path (fs(path := Some (bs[i := v]))) t = (Status_PersistenceCorrupt, t)"
proof -
  have "decode (bs[i := v]) \<noteq> Inr q" for q
    using encode_one_byte_apart [OF assms(1), of q "bs[i := v]" i v] assms(2,3) by (auto dest: decode_InrD)
  then obtain e where "decode (bs[i := v]) = Inl e" by (cases "decode (bs[i := v])") auto
  then show ?thesis by (auto simp: load_def)
qed

theorem load_rejects_damaged_byte_witness:
  "\<exists>bs. load ''a'' ((\<lambda>_. None)(''a'' := Some (bs[0 := bs ! 0 + 1]))) ex_state = (Status_PersistenceCorrupt, ex_state)"
proof -
  obtain bs where bs: "encode (serialize_state ex_state) = Inr bs"
    using ex_serialized_length by (simp add: encode_def Let_def)
  have "0 < length bs" using encode_nonempty [OF bs] by simp
  moreover have "bs ! 0 + 1 \<noteq> bs ! 0" by simp
  ultimately show ?thesis using load_rejects_damaged_byte [OF bs] by blast
qed

subsection \<open>Stale matrix cells\<close>

lemma replay_matrix_other:
  "\<forall>x\<in>set cs. cell_of (snd x) \<noteq> k \<Longrightarrow> matrix_get (replay_matrix m cs) k = matrix_get m k"
  unfolding replay_matrix_def
  by (induction cs arbitrary: m) (auto simp: matrix_set_def matrix_get_def)

text \<open>C37. Loading does not clear the interference matrix: a cell of the loading observatory for which
  the saved state has no comparison is still there after a successful load, and \<open>explain\<close> goes on
  reporting it.\<close>

theorem load_keeps_stale_cells:
  assumes "serial_ok s" "encode (serialize_state s) = Inr bs" "fs path = Some bs"
    and "\<forall>x\<in>set (i_comparisons s). cell_of (snd x) \<noteq> CellKey v n d"
  shows "fst (load path fs t) = Status_Ok \<and>
    matrix_get (i_matrix (snd (load path fs t))) (CellKey v n d) = matrix_get (i_matrix t) (CellKey v n d) \<and>
    explain v n d p (snd (load path fs t)) = explain v n d p t"
proof -
  note l = load_saved [where fs = fs and path = path, OF assms(1-3), of t]
  have m: "matrix_get (i_matrix (restored s t)) (CellKey v n d) = matrix_get (i_matrix t) (CellKey v n d)"
    using replay_matrix_other [OF assms(4)] by (simp add: restored_def)
  then show ?thesis by (simp add: l explain_def)
qed

theorem load_keeps_stale_cells_witness:
  "\<exists>t fs. matrix_get (i_matrix t) (CellKey (Id 7) (Id 8) Domain_Cache) \<noteq> None \<and>
     matrix_get (i_matrix (snd (load ''a'' fs t))) (CellKey (Id 7) (Id 8) Domain_Cache) \<noteq> None \<and>
     i_comparisons (snd (load ''a'' fs t)) = []"
proof -
  let ?t = "snd (compare (ex_workload 7) (ex_workload 8) Domain_Cache ex_observations default_policy ex_state)"
  obtain bs where bs: "encode (serialize_state ex_state) = Inr bs"
    using ex_serialized_length by (simp add: encode_def Let_def)
  let ?fs = "(\<lambda>_. None)(''a'' := Some bs)"
  have cmp: "i_comparisons ex_state = []" by code_simp
  have ids: "wl_id (ex_workload 7) = Id 7" "wl_id (ex_workload 8) = Id 8" by (simp_all add: ex_workload_def)
  have cell: "matrix_get (i_matrix ?t) (CellKey (Id 7) (Id 8) Domain_Cache) \<noteq> None"
    by (simp add: compare_scored [OF ex_evidence] commit_frame matrix_get_def ids)
  have f: "?fs ''a'' = Some bs" by simp
  have "\<forall>x\<in>set (i_comparisons ex_state). cell_of (snd x) \<noteq> CellKey (Id 7) (Id 8) Domain_Cache" by (simp add: cmp)
  note st = load_keeps_stale_cells [where fs = ?fs and path = "''a''", OF ex_serial_ok bs f this]
  have "i_comparisons (snd (load ''a'' ?fs ?t)) = []"
    by (simp add: load_saved [where fs = ?fs and path = "''a''", OF ex_serial_ok bs f] restored_def cmp)
  with st [of ?t default_policy] cell show ?thesis by (intro exI [of _ ?t] exI [of _ ?fs]) simp
qed

end
