(* ===== verification/Reload.thy ===== *)
theory Reload
  imports Serialize
begin

text \<open>
  What a reload keeps and what it does not. Representable states stay representable under
  \<open>compare\<close>, so the round trip of \<open>Serialize\<close> applies to the states the comparison engine produces.
  The interference matrix is not part of the file: \<open>deserialize_state\<close> rebuilds it by replaying the
  comparison log in the order of comparison ids, which decides which comparison wins. The last section
  is about a state that can be saved and not loaded.
\<close>

subsection \<open>Representable states stay representable\<close>

lemma section_assign:
  assumes "section_ok P m" "map_inv m" "P (k, v)" "length m < 50000000"
  shows "section_ok P (map_assign m k v)"
proof -
  have "map_inv (map_assign m k v) \<and> (\<forall>(k', v')\<in>set (map_assign m k v). P (k', v'))"
    using smap.all_assign [of m "\<lambda>k v. P (k, v)" k v] assms by (auto simp: section_ok_def)
  moreover have "length (map_assign m k v) \<le> Suc (length m)" by (simp add: map_assign_length [OF assms(2)])
  ultimately show ?thesis using assms(4) by (auto simp: section_ok_def count_ok_def)
qed

lemma enums_canonical [simp]:
  "oc \<in> verdicts \<Longrightarrow> canonical outcome_u8 outcome_of_u8 oc"
  "canonical attribution_strength_u8 attribution_strength_of_u8 (attribution_of ov hard rec)"
  "canonical provenance_u8 provenance_of_u8 (if m then Provenance_Measured else Provenance_Controlled)"
  "canonical freshness_u8 freshness_of_u8 Freshness_Current"
  by (auto simp: verdicts_def canonical_def outcome_of_u8_def attribution_strength_of_u8_def
      provenance_of_u8_def freshness_of_u8_def attribution_of_def)

lemma scored_representable:
  assumes "canonical metric_kind_u8 metric_kind_of_u8 (b_metric_kind b)"
    "canonical interference_domain_u8 interference_domain_of_u8 domain"
    "confounders_ok (p_unresolved_confounders (scored_result affected associated domain obs p s b))"
  defines "r \<equiv> scored_result affected associated domain obs p s b"
  shows "comparison_ok (k, r)" "k' = episode_digest (wl_id affected) domain (b_id b) \<Longrightarrow>
    episode_ok (k', make_episode affected associated domain obs s b r)"
proof -
  have deg: "degradation_ok (p_degradation r)"
    using assms(1) by (simp add: r_def scored_simps make_degradation_def degradation_ok_def delta_ok_def count_ok_def
        case_prod_beta)
  have src: "p_evidence_sources r = [if all_measured affected obs then Provenance_Measured else Provenance_Controlled]"
    by (simp add: r_def scored_simps default_pairwise_def case_prod_beta)
  show "comparison_ok (k, r)"
    using deg src assms(2,3) scored_outcome_verdict
    by (simp add: comparison_ok_def r_def scored_keys scored_attribution count_ok_def)
  show "episode_ok (k', make_episode affected associated domain obs s b r)"
    if "k' = episode_digest (wl_id affected) domain (b_id b)"
    using that deg assms(2) scored_outcome_verdict
    by (simp add: episode_ok_def make_episode_def Let_def count_ok_def evidence_wf_def str_ok_def r_def scored_keys
        scored_attribution)
qed

lemma scored_lengths:
  fixes affected associated domain obs p s b
  defines "r \<equiv> scored_result affected associated domain obs p s b"
  assumes "analyse_confounders affected obs = ([], [])"
  shows "length (w_comparison (k, r)) \<le> 300" "length (w_episode (k', make_episode affected associated domain obs t b r)) \<le> 400"
proof -
  have deg: "\<exists>d. g_deltas (p_degradation r) = [d]" "\<exists>v. p_evidence_sources r = [v]" "p_unresolved_confounders r = []"
    by (simp_all add: r_def scored_simps make_degradation_def default_pairwise_def assms(2))
  have g: "length (w_degradation (p_degradation r)) \<le> 100"
    using deg(1) by (auto simp: w_degradation_def w_counted_def w_delta_def)
  show "length (w_comparison (k, r)) \<le> 300"
    using g deg(2,3) by (auto simp: w_comparison_def w_counted_def)
  show "length (w_episode (k', make_episode affected associated domain obs t b r)) \<le> 400"
    using g by (simp add: w_episode_def make_episode_def Let_def w_counted_def w_evidence_def)
qed

lemma serial_compare:
  assumes "serial_ok s" "evidence_ok affected obs p s b"
    "canonical interference_domain_u8 interference_domain_of_u8 domain"
    "confounders_ok (p_unresolved_confounders (scored_result affected associated domain obs p s b))"
    "length (i_comparisons s) < 50000000" "length (i_episodes s) < 50000000"
  shows "serial_ok (snd (compare affected associated domain obs p s))"
proof -
  have "b \<in> snd ` set (i_baselines s)" using assms(2) select_baseline_SomeD(1) by (auto simp: evidence_ok_def)
  then have "canonical metric_kind_u8 metric_kind_of_u8 (b_metric_kind b)"
    using assms(1) by (auto simp: serial_ok_def section_ok_def baseline_ok_def)
  note r = scored_representable [OF this assms(3,4)]
  show ?thesis
    using assms(1,5,6) r by (simp add: compare_scored [OF assms(2)] serial_ok_def commit_frame commit_episodes
        section_assign map_inv_assign)
qed

subsection \<open>What a reload does to the matrix\<close>

lemma replay_matrix_last:
  assumes "map_inv cs" "(cid, r) \<in> set cs" "\<forall>(c, x)\<in>set cs. cell_of x = cell_of r \<longrightarrow> c \<le> cid"
  shows "matrix_get (replay_matrix m cs) (cell_of r) = Some r"
  using assms
proof (induction cs arbitrary: m)
  case (Cons y ys)
  obtain c x where y: "y = (c, x)" by fastforce
  show ?case
  proof (cases "(cid, r) \<in> set ys")
    case True
    then show ?thesis using Cons y by (auto simp: replay_matrix_def map_inv_Cons)
  next
    case False
    then have eq: "c = cid" "x = r" using Cons.prems(2) y by auto
    have "\<forall>z\<in>set ys. cell_of (snd z) \<noteq> cell_of r"
      using Cons.prems(1,3) eq y by (fastforce simp: map_inv_Cons)
    from replay_matrix_other [OF this, of "matrix_set m (cell_of r) r"] show ?thesis
      by (simp add: replay_matrix_def y eq matrix_set_def matrix_get_def)
  qed
qed simp

lemma reload_picks_largest_id:
  assumes "serial_ok s" "encode (serialize_state s) = Inr bs" "fs path = Some bs"
    and "(cid, r) \<in> set (i_comparisons s)"
    and "\<forall>(c, x)\<in>set (i_comparisons s). cell_of x = cell_of r \<longrightarrow> c \<le> cid"
  shows "matrix_get (i_matrix (snd (load path fs t))) (cell_of r) = Some r"
proof -
  have "map_inv (i_comparisons s)" using assms(1) by (simp add: serial_ok_def)
  from replay_matrix_last [OF this assms(4,5)]
  show ?thesis by (simp add: load_saved [where fs = fs and path = path, OF assms(1-3)] restored_def)
qed

text \<open>What a comparison with a verdict leaves in the log and in the matrix: the result it returned, without
  the episode id.\<close>

lemma compare_recorded:
  assumes "compare w w' d obs p s = (r, s')" "p_outcome r \<in> verdicts"
  shows "i_comparisons s' = map_assign (i_comparisons s) (p_comparison_id r) (r\<lparr>p_episode_id := nil_id\<rparr>)"
    "i_matrix s' = matrix_set (i_matrix s) (CellKey (wl_id w) (wl_id w') d) (r\<lparr>p_episode_id := nil_id\<rparr>)"
    "cell_of (r\<lparr>p_episode_id := nil_id\<rparr>) = CellKey (wl_id w) (wl_id w') d"
proof -
  obtain b where b: "evidence_ok w obs p s b"
    using assms compare_verdict_iff_evidence [of w w' d obs p s] by auto
  let ?c = "scored_result w w' d obs p s b"
  have e: "p_episode_id ?c = nil_id" by (simp add: scored_simps default_pairwise_def case_prod_beta)
  have "r = fst (commit w w' d obs b ?c s)" "s' = snd (commit w w' d obs b ?c s)"
    using assms(1) compare_scored [OF b, of w' d] by simp_all
  moreover from this(1) e have "r\<lparr>p_episode_id := nil_id\<rparr> = ?c" "p_comparison_id r = p_comparison_id ?c"
    by (auto simp: commit_fst intro: pairwise.equality)
  ultimately show "i_comparisons s' = map_assign (i_comparisons s) (p_comparison_id r) (r\<lparr>p_episode_id := nil_id\<rparr>)"
    "i_matrix s' = matrix_set (i_matrix s) (CellKey (wl_id w) (wl_id w') d) (r\<lparr>p_episode_id := nil_id\<rparr>)"
    "cell_of (r\<lparr>p_episode_id := nil_id\<rparr>) = CellKey (wl_id w) (wl_id w') d"
    by (simp_all add: commit_frame matrix_set_def cell_of_def scored_keys)
qed


text \<open>Three co-run measurements far above the baseline, then four at the baseline.\<close>

definition ex_calm :: "observation list" where
  "ex_calm = map (\<lambda>k. ex_observation k (f64_lit 100 1)) [31, 32, 33, 34]"

definition ex_first :: impl where
  "ex_first = snd (compare (ex_workload 7) (ex_workload 8) Domain_Cache ex_observations default_policy ex_state)"

definition ex_second :: impl where
  "ex_second = snd (compare (ex_workload 7) (ex_workload 8) Domain_Cache ex_calm default_policy ex_first)"

lemma ex_calm_evidence: "evidence_ok (ex_workload 7) ex_calm default_policy ex_first ex_baseline"
proof -
  have "evidence_ok (ex_workload 7) ex_calm default_policy ex_state ex_baseline"
    unfolding evidence_ok_def by (intro conjI; code_simp)
  then show ?thesis by (simp add: ex_first_def evidence_ok_cong [OF compare_frame(7)])
qed

lemma ex_confounders: "analyse_confounders (ex_workload 7) ex_observations = ([], [])"
  "analyse_confounders (ex_workload 7) ex_calm = ([], [])"
  by code_simp+

definition ex_result :: "observation list \<Rightarrow> pairwise" where
  "ex_result obs = scored_result (ex_workload 7) (ex_workload 8) Domain_Cache obs default_policy ex_state ex_baseline"

lemma ex_ids: "wl_id (ex_workload k) = Id k" "b_id ex_baseline = Id 9"
  by (simp_all add: ex_workload_def ex_baseline_def)

lemma ex_result_ids:
  "p_comparison_id (ex_result ex_observations) = comparison_digest (Id 7) (Id 8) Domain_Cache (Id 9) 3"
  "p_comparison_id (ex_result ex_calm) = comparison_digest (Id 7) (Id 8) Domain_Cache (Id 9) 4"
  "cell_of (ex_result obs) = CellKey (Id 7) (Id 8) Domain_Cache"
proof -
  have n: "length (filter (counted (ex_workload 7) ex_baseline) ex_observations) = 3"
    "length (filter (counted (ex_workload 7) ex_baseline) ex_calm) = 4" by code_simp+
  show "p_comparison_id (ex_result ex_observations) = comparison_digest (Id 7) (Id 8) Domain_Cache (Id 9) 3"
    "p_comparison_id (ex_result ex_calm) = comparison_digest (Id 7) (Id 8) Domain_Cache (Id 9) 4"
    by (simp_all add: ex_result_def scored_simps ex_ids aggregate_obs_simps n case_prod_beta)
  show "cell_of (ex_result obs) = CellKey (Id 7) (Id 8) Domain_Cache"
    by (simp add: ex_result_def cell_of_def scored_keys ex_ids)
qed

lemma ex_digest_order:
  "comparison_digest (Id 7) (Id 8) Domain_Cache (Id 9) 4 < comparison_digest (Id 7) (Id 8) Domain_Cache (Id 9) 3"
  by code_simp

lemma ex_second_commits:
  "ex_first = snd (commit (ex_workload 7) (ex_workload 8) Domain_Cache ex_observations ex_baseline
     (ex_result ex_observations) ex_state)"
  "ex_second = snd (commit (ex_workload 7) (ex_workload 8) Domain_Cache ex_calm ex_baseline (ex_result ex_calm) ex_first)"
proof -
  have "i_epoch ex_first = i_epoch ex_state" "i_recoveries ex_first = i_recoveries ex_state"
    by (simp_all add: ex_first_def compare_frame)
  then show "ex_second = snd (commit (ex_workload 7) (ex_workload 8) Domain_Cache ex_calm ex_baseline
      (ex_result ex_calm) ex_first)"
    unfolding ex_second_def compare_scored [OF ex_calm_evidence] ex_result_def
    by (simp only: scored_result_cong [of ex_first ex_state])
  show "ex_first = snd (commit (ex_workload 7) (ex_workload 8) Domain_Cache ex_observations ex_baseline
     (ex_result ex_observations) ex_state)"
    by (simp only: ex_first_def compare_scored [OF ex_evidence] ex_result_def)
qed

lemma ex_first_scored:
  "scored_result (ex_workload 7) (ex_workload 8) Domain_Cache obs default_policy ex_first ex_baseline = ex_result obs"
  unfolding ex_result_def by (rule scored_result_cong) (simp_all add: ex_first_def compare_frame)

lemma ex_second_state:
  "i_comparisons ex_second = [(p_comparison_id (ex_result ex_calm), ex_result ex_calm),
     (p_comparison_id (ex_result ex_observations), ex_result ex_observations)]"
  "matrix_get (i_matrix ex_second) (CellKey (Id 7) (Id 8) Domain_Cache) = Some (ex_result ex_calm)"
proof -
  have e: "i_comparisons ex_state = []" by code_simp
  show "i_comparisons ex_second = [(p_comparison_id (ex_result ex_calm), ex_result ex_calm),
     (p_comparison_id (ex_result ex_observations), ex_result ex_observations)]"
    using ex_digest_order by (simp add: ex_second_commits commit_frame e ex_result_ids)
  show "matrix_get (i_matrix ex_second) (CellKey (Id 7) (Id 8) Domain_Cache) = Some (ex_result ex_calm)"
    by (simp add: ex_second_commits(2) commit_frame matrix_get_def ex_ids)
qed

lemma ex_second_serial: "serial_ok ex_second"
proof -
  have c: "canonical interference_domain_u8 interference_domain_of_u8 Domain_Cache"
    by (simp add: canonical_def interference_domain_of_u8_def)
  have "confounders_ok (p_unresolved_confounders (scored_result (ex_workload 7) (ex_workload 8) Domain_Cache obs
      default_policy s ex_baseline))" if "analyse_confounders (ex_workload 7) obs = ([], [])" for obs s
    by (simp add: scored_simps that confounders_ok_def count_ok_def)
  note conf = this [OF ex_confounders(1)] this [OF ex_confounders(2)]
  have e: "i_comparisons ex_state = []" "i_episodes ex_state = []" by code_simp+
  then have "length (i_comparisons ex_state) < 50000000" "length (i_episodes ex_state) < 50000000" by simp_all
  from serial_compare [OF ex_serial_ok ex_evidence c conf(1) this] have f: "serial_ok ex_first" by (simp add: ex_first_def)
  have "length (i_comparisons ex_first) < 50000000" "length (i_episodes ex_first) < 50000000"
    by (simp_all add: ex_second_commits(1) commit_frame commit_episodes e)
  from serial_compare [OF f ex_calm_evidence c conf(2) this] show ?thesis by (simp add: ex_second_def)
qed

lemma ex_result_outcomes:
  "p_outcome (ex_result ex_calm) = Outcome_NoInterferenceDetected"
  "p_outcome (ex_result ex_observations) = Outcome_SevereInterference"
proof -
  have "overlapping (ex_workload 7) (ex_workload 8) ex_baseline ex_calm"
    "classify_outcome (scored_magnitude (ex_workload 7) ex_calm ex_baseline) default_policy = Outcome_NoInterferenceDetected"
    "classify_outcome (scored_magnitude (ex_workload 7) ex_observations ex_baseline) default_policy = Outcome_SevereInterference"
    by code_simp+
  then show "p_outcome (ex_result ex_calm) = Outcome_NoInterferenceDetected"
    "p_outcome (ex_result ex_observations) = Outcome_SevereInterference"
    by (simp_all add: ex_result_def scored_outcome ex_overlap)
qed

lemma ex_second_length: "length (serialize_state ex_second) \<le> kMaxPayload"
proof -
  have st: "ex_state = (new_observatory (Id 1) (Id 1))\<lparr>i_baselines := [(Id 9, ex_baseline)]\<rparr>" by code_simp
  have eps: "i_episodes ex_second = [(episode_digest (Id 7) Domain_Cache (Id 9), make_episode (ex_workload 7)
      (ex_workload 8) Domain_Cache ex_observations ex_state ex_baseline (ex_result ex_observations))]"
    by (simp add: ex_second_commits commit_episodes ex_result_outcomes indicates_interference_def ex_ids)
      (simp add: st new_observatory_def)
  have b: "length (w_baseline (Id 9, ex_baseline)) \<le> 300"
    by (simp add: w_baseline_def ex_baseline_def default_baseline_def)
  have c: "length (w_comparison (k, ex_result ex_calm)) \<le> 300" "length (w_comparison (k, ex_result ex_observations)) \<le> 300"
    "length (w_episode (k', make_episode (ex_workload 7) (ex_workload 8) Domain_Cache ex_observations ex_state
      ex_baseline (ex_result ex_observations))) \<le> 400" for k k'
    by (simp_all add: ex_result_def scored_lengths ex_confounders)
  have "length (serialize_state ex_second) \<le> 2000"
    using b c(1) [of "p_comparison_id (ex_result ex_calm)"] c(2) [of "p_comparison_id (ex_result ex_observations)"]
      c(3) [of "episode_digest (Id 7) Domain_Cache (Id 9)"]
    unfolding serialize_state_def ex_second_state eps
    by (simp add: w_counted_def ex_second_commits commit_frame)
      (simp add: st new_observatory_def)
  then show ?thesis by (simp add: kMaxPayload_def)
qed


subsection \<open>A name that can be saved and not loaded\<close>

lemma r_le_sticky: "\<not> rd_ok r \<Longrightarrow> \<not> rd_ok (snd (r_le n i v r))"
  by (induction n arbitrary: i v r) simp_all

lemma r_sticky:
  "\<not> rd_ok r \<Longrightarrow> \<not> rd_ok (snd (run_state r_u32 r))" "\<not> rd_ok r \<Longrightarrow> \<not> rd_ok (snd (run_state r_u8 r))"
  by (simp_all add: r_u32_def r_u8_def r_le_sticky)

text \<open>Once the reader has failed, a section stores nothing more and the reader stays failed.\<close>

definition dead_end :: "(impl \<Rightarrow> (string option \<times> impl) rd) \<Rightarrow> bool" where
  "dead_end f \<longleftrightarrow> (\<forall>s r. \<not> rd_ok r \<longrightarrow> (\<exists>e r'. run_state (f s) r = ((e, s), r') \<and> \<not> rd_ok r'))"

lemma dead_section: "dead_end (r_section reason m put)"
proof -
  have "run_state (r_items n m put s) r = ((None, s), r)" if "\<not> rd_ok r" for n s r
    using that by (cases n) simp_all
  then show ?thesis
    using r_sticky(1) by (auto simp: dead_end_def r_section_def split: prod.splits) fastforce+
qed

lemma dead_then: "dead_end a \<Longrightarrow> dead_end b \<Longrightarrow> dead_end (then_section a b)"
  unfolding dead_end_def
proof (intro allI impI)
  fix s :: impl and r :: reader
  assume a: "\<forall>s r. \<not> rd_ok r \<longrightarrow> (\<exists>e r'. run_state (a s) r = ((e, s), r') \<and> \<not> rd_ok r')"
    and b: "\<forall>s r. \<not> rd_ok r \<longrightarrow> (\<exists>e r'. run_state (b s) r = ((e, s), r') \<and> \<not> rd_ok r')" and r: "\<not> rd_ok r"
  from a r obtain e r' where e: "run_state (a s) r = ((e, s), r')" "\<not> rd_ok r'" by blast
  with b show "\<exists>e r'. run_state (then_section a b s) r = ((e, s), r') \<and> \<not> rd_ok r'"
    by (cases e) (simp_all add: then_section_def)
qed

lemma then_run:
  "run_state (a s) r = ((None, s'), r') \<Longrightarrow> run_state (then_section a b s) r = run_state (b s') r'"
  by (simp add: then_section_def)

lemma long_name_fails:
  assumes "rd_at r (w_source (k, src) @ rest)" "16777216 < length (s_name src)" "length (s_name src) < 2 ^ 64"
  shows "\<exists>x r'. run_state r_source r = (Inr x, r') \<and> \<not> rd_ok r'"
proof -
  have at: "rd_at r (w_id k @ w_id (s_generation src) @ w_u64 (of_nat (length (s_name src))) @
      concat (map (\<lambda>c. w_u8 (char_u8 c)) (s_name src)) @ w_u32 (pack_caps (s_caps src)) @ w_en freshness_u8 (s_freshness src) @ rest)"
    using assms(1) by (simp add: w_source_def w_str_def)
  obtain r1 where r1: "run_state r_id r = (k, r1)" "rd_at r1 (w_id (s_generation src) @ w_u64 (of_nat (length (s_name src))) @
      concat (map (\<lambda>c. w_u8 (char_u8 c)) (s_name src)) @ w_u32 (pack_caps (s_caps src)) @ w_en freshness_u8 (s_freshness src) @ rest)"
    using parsesD [OF parses_id at] rd_at_advance [OF at] by blast
  obtain r2 where r2: "run_state r_id r1 = (s_generation src, r2)" "rd_at r2 (w_u64 (of_nat (length (s_name src))) @
      concat (map (\<lambda>c. w_u8 (char_u8 c)) (s_name src)) @ w_u32 (pack_caps (s_caps src)) @ w_en freshness_u8 (s_freshness src) @ rest)"
    using parsesD [OF parses_id r1(2)] rd_at_advance [OF r1(2)] by blast
  have "max_str < of_nat (length (s_name src))"
    using assms(2,3) by (simp add: max_str_def word_less_nat_alt unat_of_nat)
  then obtain r3 where r3: "run_state r_str r2 = ([], r3)" "\<not> rd_ok r3"
    using parsesD [OF parses_u64 r2(2)] by (simp add: r_str_def r_str_body_def)
  then show ?thesis
    using r_sticky [of r3] r_sticky(2) [of "snd (run_state r_u32 r3)"]
    by (simp add: r_source_def r1(1) r2(1) r_caps_def r_en_def case_prod_beta)
qed

definition header_of :: "impl \<Rightarrow> impl \<Rightarrow> impl" where
  "header_of s t = (clear_state t)\<lparr>i_id := i_id s, i_generation := i_generation s, i_epoch := i_epoch s\<rparr>"

lemma long_name_section:
  assumes "rd_at r (w_counted w_source ((k, src) # xs) @ rest)" "count_ok ((k, src) # xs)"
    "16777216 < length (s_name src)" "length (s_name src) < 2 ^ 64"
  shows "\<exists>r'. run_state (r_section reason r_source put_source s) r = ((None, s), r') \<and> \<not> rd_ok r'"
proof -
  have at: "rd_at r (w_u32 (of_nat (length ((k, src) # xs))) @ w_source (k, src) @ concat (map w_source xs) @ rest)"
    using assms(1) by (simp add: w_counted_def)
  note a1 = rd_at_advance [OF at]
  obtain x r' where "run_state r_source (r\<lparr>rd_pos := rd_pos r + length (w_u32 (of_nat (length ((k, src) # xs))))\<rparr>) = (Inr x, r')"
    "\<not> rd_ok r'" using long_name_fails [OF a1 assms(3,4)] by blast
  moreover have "rd_ok (r\<lparr>rd_pos := rd_pos r + length (w_u32 (of_nat (length ((k, src) # xs))))\<rparr>)" using a1 by (simp add: rd_at_def)
  moreover have "unat (of_nat (length ((k, src) # xs)) :: u32) = Suc (length xs)" using count_word(1) [OF assms(2)] by simp
  ultimately show ?thesis
    using count_word(2) [OF assms(2)] unfolding r_section_def
    by (simp add: parsesD [OF parses_u32 at] del: of_nat_Suc)
qed

lemma long_name_unreadable:
  assumes "i_sources s = (k, src) # xs" "count_ok (i_sources s)" "16777216 < length (s_name src)" "length (s_name src) < 2 ^ 64"
  shows "\<exists>e. deserialize_state (serialize_state s) t = (Inl e, header_of s t)"
proof -
  let ?rest = "w_counted w_worker (i_workers s) @ w_counted w_workload (i_workloads s) @ w_counted w_baseline (i_baselines s) @
     w_counted w_observation (i_observations s) @ w_counted w_episode (i_episodes s) @
     w_counted w_comparison (i_comparisons s) @ w_counted w_recovery (i_recoveries s)"
  let ?hd = "w_id (i_id s) @ w_id (i_generation s) @ w_id (i_epoch s)"
  let ?r = "reader_of (serialize_state s)"
  have ser: "serialize_state s = w_u8 1 @ ?hd @ w_counted w_source ((k, src) # xs) @ ?rest"
    by (simp add: serialize_state_def assms(1))
  have at: "rd_at ?r (w_u8 1 @ ?hd @ w_counted w_source ((k, src) # xs) @ ?rest)" by (simp add: ser reader_of_def rd_at_def)
  note a1 = rd_at_advance [OF at]
  note a2 = rd_at_advance [OF a1]
  have hd: "parses (r_header (clear_state t)) ?hd (header_of s t)"
    unfolding r_header_def header_of_def by (rule read_intros | simp)+
  let ?r2 = "?r\<lparr>rd_pos := rd_pos ?r + length (w_u8 1)\<rparr>\<lparr>rd_pos := rd_pos (?r\<lparr>rd_pos := rd_pos ?r + length (w_u8 1)\<rparr>) + length ?hd\<rparr>"
  obtain r3 where r3: "run_state (r_section ''source count bound'' r_source put_source (header_of s t)) ?r2 = ((None, header_of s t), r3)"
    "\<not> rd_ok r3" using long_name_section [OF a2] assms by metis
  have "dead_end (then_section (r_section ''worker count bound'' r_worker put_worker)
    (then_section (r_section ''workload count bound'' r_workload put_workload)
    (then_section (r_section ''baseline count bound'' r_baseline put_baseline)
    (then_section (r_section ''observation count bound'' r_observation put_observation)
    (then_section (r_section ''episode count bound'' r_episode put_episode)
    (then_section (r_section ''comparison count bound'' r_comparison put_comparison)
                  (r_section ''recovery count bound'' r_recovery put_recovery)))))))"
    by (intro dead_then dead_section)
  then obtain e r4 where r4: "run_state (r_sections (header_of s t)) ?r2 = ((e, header_of s t), r4)" "\<not> rd_ok r4"
    unfolding r_sections_def then_run [of "r_section ''source count bound'' r_source put_source", OF r3(1)]
    using r3(2) unfolding dead_end_def by blast
  have "serialize_state s \<noteq> []" by (simp add: ser w_u8_def)
  then show ?thesis unfolding deserialize_state_def
    using r4(2) by (simp only: parsesD [OF parses_u8 at] parsesD [OF hd a1] r4(1) prod.case if_False if_True simp_thms)
      (simp split: option.split)
qed



end
