(* ===== verification/Protocol.thy ===== *)
theory Protocol
  imports Persist
begin

text \<open>
  \<open>protocol.hpp\<close> and \<open>protocol.cpp\<close>: message types, the framing of messages and the loops that read
  and write a whole buffer over a stream socket. The operating system's \<open>recv\<close> and \<open>send\<close> are
  parameters: \<open>recv s n\<close> is \<open>None\<close> for an error and otherwise the bytes delivered (none at all when
  the peer has closed), \<open>send s bs\<close> is the number of bytes accepted. The locales \<open>byte_stream\<close> and
  \<open>byte_sink\<close> state what POSIX promises of them on a healthy connection; \<open>seg_recv\<close> and
  \<open>chunk_send\<close> are connections that deliver and accept data in arbitrary pieces.
\<close>

subsection \<open>Message types\<close>

datatype msg_type = Msg_Hello | Msg_PublishBaseline | Msg_PublishObservation | Msg_CompareRequest
  | Msg_Snapshot | Msg_Ack | Msg_Error | Msg_Shutdown | Msg_Exit | Msg_MeasureBaseline
  | Msg_MeasureCorun | Msg_ExitProcess | Msg_Revalidate | Msg_Raw u16

primrec msg_type_u16 :: "msg_type \<Rightarrow> u16" where
  "msg_type_u16 Msg_Hello = 1"
| "msg_type_u16 Msg_PublishBaseline = 2"
| "msg_type_u16 Msg_PublishObservation = 3"
| "msg_type_u16 Msg_CompareRequest = 4"
| "msg_type_u16 Msg_Snapshot = 5"
| "msg_type_u16 Msg_Ack = 6"
| "msg_type_u16 Msg_Error = 7"
| "msg_type_u16 Msg_Shutdown = 8"
| "msg_type_u16 Msg_Exit = 9"
| "msg_type_u16 Msg_MeasureBaseline = 10"
| "msg_type_u16 Msg_MeasureCorun = 11"
| "msg_type_u16 Msg_ExitProcess = 12"
| "msg_type_u16 Msg_Revalidate = 13"
| "msg_type_u16 (Msg_Raw v) = v"

definition msg_types :: "msg_type list" where
  "msg_types = [Msg_Hello, Msg_PublishBaseline, Msg_PublishObservation, Msg_CompareRequest,
     Msg_Snapshot, Msg_Ack, Msg_Error, Msg_Shutdown, Msg_Exit, Msg_MeasureBaseline,
     Msg_MeasureCorun, Msg_ExitProcess, Msg_Revalidate]"

text \<open>\<open>static_cast<MsgType>(v)\<close>: an enumerator if one has this value, otherwise the raw value.\<close>

definition msg_type_of_u16 :: "u16 \<Rightarrow> msg_type" where
  "msg_type_of_u16 v = (case List.find (\<lambda>t. msg_type_u16 t = v) msg_types of
     Some t \<Rightarrow> t | None \<Rightarrow> Msg_Raw v)"

record frame =
  f_type :: msg_type
  f_payload :: bytes

definition kFrameMagic :: u32 where
  "kFrameMagic = 0x494F4246"

definition kFrameVersion :: u16 where
  "kFrameVersion = 1"

definition kMaxFrame :: nat where
  "kMaxFrame = 16 * 1024 * 1024"

definition kFrameHeaderSize :: nat where
  "kFrameHeaderSize = 4 + 2 + 2 + 4 + 4"

subsection \<open>Whole-buffer transfers\<close>

type_synonym 's recv_op = "'s \<Rightarrow> nat \<Rightarrow> bytes option \<times> 's"
type_synonym 's send_op = "'s \<Rightarrow> bytes \<Rightarrow> nat option \<times> 's"

function read_exact :: "'s recv_op \<Rightarrow> nat \<Rightarrow> bytes \<Rightarrow> 's \<Rightarrow> (string + bytes) \<times> 's" where
  "read_exact recv n acc s =
     (if n = 0 then (Inr acc, s)
      else case recv s n of
        (None, s') \<Rightarrow> (Inl ''recv failed'', s')
      | (Some bs, s') \<Rightarrow>
          if bs = [] then (Inl ''connection closed'', s')
          else read_exact recv (n - length bs) (acc @ bs) s')"
  by pat_completeness auto
termination by (relation "measure (\<lambda>(recv, n, acc, s). n)") auto

function write_all :: "'s send_op \<Rightarrow> bytes \<Rightarrow> 's \<Rightarrow> (string + unit) \<times> 's" where
  "write_all send bs s =
     (if bs = [] then (Inr (), s)
      else case send s bs of
        (None, s') \<Rightarrow> (Inl ''send failed'', s')
      | (Some r, s') \<Rightarrow>
          if r = 0 then (Inl ''send failed'', s') else write_all send (drop r bs) s')"
  by pat_completeness auto
termination by (relation "measure (\<lambda>(send, bs, s). length bs)") auto

declare read_exact.simps [simp del] write_all.simps [simp del]

subsection \<open>Frames\<close>

definition frame_fixed :: "msg_type \<Rightarrow> bytes \<Rightarrow> bytes" where
  "frame_fixed ty payload = put32 kFrameMagic @ put16 kFrameVersion @ put16 (msg_type_u16 ty) @
     put32 (of_nat (length payload))"

definition frame_bytes :: "msg_type \<Rightarrow> bytes \<Rightarrow> bytes" where
  "frame_bytes ty payload =
     frame_fixed ty payload @ put32 (crc32c (frame_fixed ty payload @ payload)) @ payload"

definition send_frame :: "'s send_op \<Rightarrow> msg_type \<Rightarrow> bytes \<Rightarrow> 's \<Rightarrow> (string + unit) \<times> 's" where
  "send_frame send ty payload s =
     (if length payload > kMaxFrame then (Inl ''frame too large'', s)
      else write_all send (frame_bytes ty payload) s)"

definition recv_frame :: "'s recv_op \<Rightarrow> 's \<Rightarrow> (string + frame) \<times> 's" where
  "recv_frame recv s =
     (case read_exact recv kFrameHeaderSize [] s of
        (Inl err, s1) \<Rightarrow>
          (Inl (if err = ''connection closed'' \<or> err = ''EOF'' then ''EOF'' else err), s1)
      | (Inr header, s1) \<Rightarrow>
          if get32 header 0 \<noteq> kFrameMagic then (Inl ''bad frame magic'', s1)
          else if get16 header 4 \<noteq> kFrameVersion then (Inl ''frame version mismatch'', s1)
          else let type = get16 header 6; plen = get32 header 8 in
            if unat plen > kMaxFrame then (Inl ''frame too large'', s1)
            else case read_exact recv (unat plen) [] s1 of
              (Inl err, s2) \<Rightarrow> (Inl err, s2)
            | (Inr payload, s2) \<Rightarrow>
                if crc32c (take 12 header @ payload) \<noteq> get32 header 12
                then (Inl ''frame checksum mismatch'', s2)
                else (Inr \<lparr>f_type = msg_type_of_u16 type, f_payload = payload\<rparr>, s2))"

subsection \<open>The connection contracts\<close>

locale byte_stream =
  fixes recv :: "'s \<Rightarrow> nat \<Rightarrow> bytes option \<times> 's" and pending :: "'s \<Rightarrow> bytes"
  assumes recv_data: "0 < n \<Longrightarrow> pending s \<noteq> [] \<Longrightarrow>
      \<exists>bs s'. recv s n = (Some bs, s') \<and> bs \<noteq> [] \<and> length bs \<le> n \<and> pending s = bs @ pending s'"
    and recv_end: "0 < n \<Longrightarrow> pending s = [] \<Longrightarrow> \<exists>s'. recv s n = (Some [], s') \<and> pending s' = []"
begin

text \<open>However the data is cut into pieces, \<open>read_exact\<close> returns exactly the next \<open>n\<close> bytes when they
  are there, and reports the closed connection otherwise.\<close>

lemma read_exact_acc:
  "\<exists>s'. read_exact recv n acc s =
      (if n \<le> length (pending s) then Inr (acc @ take n (pending s)) else Inl ''connection closed'', s') \<and>
    pending s' = drop n (pending s)"
proof (induction n arbitrary: acc s rule: less_induct)
  case (less n)
  consider "n = 0" | "0 < n" "pending s = []" | "0 < n" "pending s \<noteq> []" by auto
  then show ?case
  proof cases
    case 1
    then show ?thesis by (simp add: read_exact.simps)
  next
    case 2
    then show ?thesis using recv_end [OF 2] by (auto simp: read_exact.simps [of recv n])
  next
    case 3
    obtain bs s1 where r: "recv s n = (Some bs, s1)" "bs \<noteq> []" "length bs \<le> n" "pending s = bs @ pending s1"
      using recv_data [OF 3] by blast
    have lt: "n - length bs < n" using r(2) 3(1) by (cases bs) auto
    obtain s' where s': "read_exact recv (n - length bs) (acc @ bs) s1 =
        (if n - length bs \<le> length (pending s1) then Inr ((acc @ bs) @ take (n - length bs) (pending s1))
         else Inl ''connection closed'', s')" "pending s' = drop (n - length bs) (pending s1)"
      using less.IH [OF lt] by blast
    have "read_exact recv n acc s = read_exact recv (n - length bs) (acc @ bs) s1"
      using 3(1) r(1,2) by (simp add: read_exact.simps [of recv n])
    then show ?thesis using s' r(3,4) by (auto simp: le_diff_conv add.commute)
  qed
qed

lemma read_exact_all:
  assumes "pending s = bs @ rest"
  shows "\<exists>s'. read_exact recv (length bs) [] s = (Inr bs, s') \<and> pending s' = rest"
  using read_exact_acc [of "length bs" "[]" s] assms by simp

lemma read_exact_InrD:
  assumes "read_exact recv n [] s = (Inr bs, s')"
  shows "length bs = n \<and> pending s = bs @ pending s'"
  using read_exact_acc [of n "[]" s] assms by (auto split: if_splits)

end

locale byte_sink =
  fixes send :: "'s \<Rightarrow> bytes \<Rightarrow> nat option \<times> 's" and written :: "'s \<Rightarrow> bytes"
  assumes send_some: "bs \<noteq> [] \<Longrightarrow>
      \<exists>r s'. send s bs = (Some r, s') \<and> 0 < r \<and> r \<le> length bs \<and> written s' = written s @ take r bs"
begin

lemma write_all_complete: "\<exists>s'. write_all send bs s = (Inr (), s') \<and> written s' = written s @ bs"
proof (induction bs arbitrary: s rule: length_induct)
  case (1 bs)
  show ?case
  proof (cases "bs = []")
    case True
    then show ?thesis by (simp add: write_all.simps)
  next
    case False
    obtain r s1 where r: "send s bs = (Some r, s1)" "0 < r" "r \<le> length bs" "written s1 = written s @ take r bs"
      using send_some [OF False] by blast
    have "length (drop r bs) < length bs" using r(2) False by simp
    with 1 obtain s' where "write_all send (drop r bs) s1 = (Inr (), s')" "written s' = written s1 @ drop r bs"
      by blast
    with r False show ?thesis by (simp add: write_all.simps [of send bs])
  qed
qed

lemma send_frame_complete:
  assumes "length payload \<le> kMaxFrame"
  shows "\<exists>s'. send_frame send ty payload s = (Inr (), s') \<and> written s' = written s @ frame_bytes ty payload"
  using write_all_complete [of "frame_bytes ty payload" s] assms by (simp add: send_frame_def not_less [symmetric])

end

subsection \<open>Acceptance of frames\<close>

lemma msg_type_u16_of_u16: "msg_type_u16 (msg_type_of_u16 v) = v"
  by (auto simp: msg_type_of_u16_def find_Some_iff split: option.splits)

definition msg_canonical :: "msg_type \<Rightarrow> bool" where
  "msg_canonical ty \<longleftrightarrow> msg_type_of_u16 (msg_type_u16 ty) = ty"

lemma frame_fixed_length [simp]: "length (frame_fixed ty p) = 12"
  by (simp add: frame_fixed_def)

lemma header_fields:
  defines "h ty l c \<equiv> put32 kFrameMagic @ put16 kFrameVersion @ put16 (msg_type_u16 ty) @ put32 l @ put32 c"
  shows "get32 (h ty l c) 0 = kFrameMagic" "get16 (h ty l c) 4 = kFrameVersion"
    "get16 (h ty l c) 6 = msg_type_u16 ty" "get32 (h ty l c) 8 = l" "get32 (h ty l c) 12 = c"
    "take 12 (h ty l c) = put32 kFrameMagic @ put16 kFrameVersion @ put16 (msg_type_u16 ty) @ put32 l"
  unfolding h_def
  using get32_put32 [of "[]" kFrameMagic] get16_put16 [of "put32 kFrameMagic"]
    get16_put16 [of "put32 kFrameMagic @ put16 kFrameVersion"]
    get32_put32 [of "put32 kFrameMagic @ put16 kFrameVersion @ put16 (msg_type_u16 ty)"]
    get32_put32 [of "put32 kFrameMagic @ put16 kFrameVersion @ put16 (msg_type_u16 ty) @ put32 l" c "[]"]
  by simp_all

lemma header_rebuild:
  assumes "length h = 16"
  shows "h = put32 (get32 h 0) @ put16 (get16 h 4) @ put16 (get16 h 6) @ put32 (get32 h 8) @ put32 (get32 h 12)"
proof -
  have "h = take 4 (drop 0 h) @ take 2 (drop 4 h) @ take 2 (drop 6 h) @ take 4 (drop 8 h) @ take 4 (drop 12 h)"
    using assms take_add [of 4 12 h] take_add [of 2 10 "drop 4 h"] take_add [of 2 8 "drop 6 h"]
      take_add [of 4 4 "drop 8 h"] by simp
  also have "\<dots> = put32 (get32 h 0) @ put16 (get16 h 4) @ put16 (get16 h 6) @ put32 (get32 h 8) @ put32 (get32 h 12)"
    using assms by (simp add: put32_of_get32 put16_of_get16)
  finally show ?thesis .
qed

lemma unat_frame_len: "length p \<le> kMaxFrame \<Longrightarrow> unat (of_nat (length p) :: u32) = length p"
  by (simp add: kMaxFrame_def unat_of_nat)

context byte_stream
begin

lemma recv_frame_ok:
  assumes "pending s = frame_bytes ty p @ rest" "length p \<le> kMaxFrame"
  shows "\<exists>s'. recv_frame recv s = (Inr \<lparr>f_type = msg_type_of_u16 (msg_type_u16 ty), f_payload = p\<rparr>, s') \<and>
    pending s' = rest"
proof -
  let ?h = "frame_fixed ty p @ put32 (crc32c (frame_fixed ty p @ p))"
  have "pending s = ?h @ p @ rest" using assms(1) by (simp add: frame_bytes_def)
  then obtain s1 where s1: "read_exact recv (length ?h) [] s = (Inr ?h, s1)" "pending s1 = p @ rest"
    using read_exact_all by blast
  obtain s2 where s2: "read_exact recv (length p) [] s1 = (Inr p, s2)" "pending s2 = rest"
    using read_exact_all [OF s1(2)] by blast
  have len: "length ?h = kFrameHeaderSize" by (simp add: kFrameHeaderSize_def)
  note f = header_fields [of ty "of_nat (length p)" "crc32c (frame_fixed ty p @ p)"]
  show ?thesis
    using s1(1) s2 f assms(2) unat_frame_len [OF assms(2)] unfolding len
    by (simp add: recv_frame_def Let_def frame_fixed_def)
qed

lemma recv_frame_InrD:
  assumes "recv_frame recv s = (Inr f, s')"
  shows "pending s = frame_bytes (f_type f) (f_payload f) @ pending s' \<and> length (f_payload f) \<le> kMaxFrame"
proof -
  obtain r1 s1 where e1: "read_exact recv kFrameHeaderSize [] s = (r1, s1)" by fastforce
  then obtain h where h: "read_exact recv kFrameHeaderSize [] s = (Inr h, s1)"
    using assms by (cases r1) (simp_all add: recv_frame_def)
  have m: "get32 h 0 = kFrameMagic" "get16 h 4 = kFrameVersion" "unat (get32 h 8) \<le> kMaxFrame"
    using assms by (simp_all add: recv_frame_def Let_def h split: if_splits)
  obtain r2 s2 where e2: "read_exact recv (unat (get32 h 8)) [] s1 = (r2, s2)" by fastforce
  then obtain p where e3: "read_exact recv (unat (get32 h 8)) [] s1 = (Inr p, s2)"
    using assms m by (cases r2) (simp_all add: recv_frame_def Let_def h)
  have p: "read_exact recv (unat (get32 h 8)) [] s1 = (Inr p, s')"
    "crc32c (take 12 h @ p) = get32 h 12" "f = \<lparr>f_type = msg_type_of_u16 (get16 h 6), f_payload = p\<rparr>"
    using assms m by (simp_all add: recv_frame_def Let_def h e3 split: if_splits)
  have hl: "length h = 16" and ph: "pending s = h @ pending s1"
    using read_exact_InrD [OF h] by (simp_all add: kFrameHeaderSize_def)
  have pl: "length p = unat (get32 h 8)" and pp: "pending s1 = p @ pending s'"
    using read_exact_InrD [OF p(1)] by auto
  have "of_nat (length p) = get32 h 8" unfolding pl by simp
  then have fx: "frame_fixed (f_type f) p = put32 (get32 h 0) @ put16 (get16 h 4) @ put16 (get16 h 6) @ put32 (get32 h 8)"
    by (simp add: frame_fixed_def m p(3) msg_type_u16_of_u16)
  have hh: "h = frame_fixed (f_type f) p @ put32 (get32 h 12)"
    unfolding fx append_assoc by (rule header_rebuild [OF hl])
  have "take 12 h = frame_fixed (f_type f) p"
    by (subst hh) simp
  with p(2) have c: "get32 h 12 = crc32c (frame_fixed (f_type f) p @ p)" by simp
  have "pending s = (frame_fixed (f_type f) p @ put32 (crc32c (frame_fixed (f_type f) p @ p))) @ p @ pending s'"
    unfolding ph pp hh [unfolded c, symmetric] ..
  then show ?thesis using p(3) pl m(3) by (simp add: frame_bytes_def)
qed

end

subsection \<open>Connections that cut the data into pieces\<close>

fun seg_recv :: "bytes list \<Rightarrow> nat \<Rightarrow> bytes option \<times> bytes list" where
  "seg_recv [] n = (Some [], [])"
| "seg_recv (b # bs) n =
     (if b = [] then seg_recv bs n
      else (Some (take n b), if length b \<le> n then bs else drop n b # bs))"

lemma seg_recv_data:
  "0 < n \<Longrightarrow> concat ss \<noteq> [] \<Longrightarrow>
     \<exists>bs ss'. seg_recv ss n = (Some bs, ss') \<and> bs \<noteq> [] \<and> length bs \<le> n \<and> concat ss = bs @ concat ss'"
  by (induction ss n rule: seg_recv.induct) auto

lemma seg_recv_end: "concat ss = [] \<Longrightarrow> \<exists>ss'. seg_recv ss n = (Some [], ss') \<and> concat ss' = []"
  by (induction ss n rule: seg_recv.induct) auto

interpretation seg: byte_stream seg_recv concat
  by unfold_locales (use seg_recv_data seg_recv_end in blast)+

text \<open>A connection with the bytes accepted so far and a schedule of how many bytes each \<open>send\<close>
  accepts; after the schedule everything is accepted.\<close>

definition chunk_send :: "bytes \<times> nat list \<Rightarrow> bytes \<Rightarrow> nat option \<times> (bytes \<times> nat list)" where
  "chunk_send s bs = (case s of (out, sched) \<Rightarrow>
     let r = (case sched of [] \<Rightarrow> length bs | k # _ \<Rightarrow> max 1 (min k (length bs)))
     in (Some r, (out @ take r bs, drop 1 sched)))"

interpretation chunks: byte_sink chunk_send fst
proof
  fix bs :: bytes and s :: "bytes \<times> nat list"
  assume "bs \<noteq> []"
  then have "Suc 0 \<le> length bs" by (simp add: Suc_le_eq)
  then show "\<exists>r s'. chunk_send s bs = (Some r, s') \<and> 0 < r \<and> r \<le> length bs \<and> fst s' = fst s @ take r bs"
    by (auto simp: chunk_send_def Let_def split: prod.splits list.splits)
qed

text \<open>C22. Frames survive any fragmentation. A frame of at most 16 MiB that \<open>send_frame\<close> writes over a
  connection that accepts the data in arbitrary chunks, and that arrives cut into arbitrary
  segments with arbitrary further data behind it, is returned by \<open>recv_frame\<close> with the same type and
  payload, and the bytes behind it stay unread.\<close>

theorem frame_roundtrip:
  assumes "msg_canonical ty" "length payload \<le> kMaxFrame"
    and "concat segs = fst (snd (send_frame chunk_send ty payload ([], sched))) @ rest"
  shows "\<exists>segs'. recv_frame seg_recv segs = (Inr \<lparr>f_type = ty, f_payload = payload\<rparr>, segs') \<and> concat segs' = rest"
proof -
  have "fst (snd (send_frame chunk_send ty payload ([], sched))) = frame_bytes ty payload"
    using chunks.send_frame_complete [OF assms(2), of ty "([], sched)"] by auto
  with assms have "concat segs = frame_bytes ty payload @ rest" by simp
  from seg.recv_frame_ok [OF this assms(2)] show ?thesis
    using assms(1) by (simp add: msg_canonical_def)
qed

theorem frame_roundtrip_witness:
  "\<exists>segs'. recv_frame seg_recv (map (\<lambda>b. [b]) (frame_bytes Msg_Ack [1, 2])) =
     (Inr \<lparr>f_type = Msg_Ack, f_payload = [1, 2]\<rparr>, segs') \<and> concat segs' = []"
proof (rule frame_roundtrip)
  show "msg_canonical Msg_Ack" by code_simp
  show len: "length [1, 2 :: byte] \<le> kMaxFrame" by (simp add: kMaxFrame_def)
  show "concat (map (\<lambda>b. [b]) (frame_bytes Msg_Ack [1, 2])) =
      fst (snd (send_frame chunk_send Msg_Ack [1, 2] ([], [3, 5]))) @ []"
    using chunks.send_frame_complete [OF len, of Msg_Ack "([], [3, 5])"] by auto
qed

text \<open>C26. Malformed input is never accepted as a frame: whenever \<open>recv_frame\<close> returns a frame, the bytes
  it consumed are exactly the encoding of that frame, with magic, version, length within 16 MiB and
  checksum intact.\<close>

theorem recv_frame_sound:
  assumes "recv_frame seg_recv segs = (Inr f, segs')"
  shows "concat segs = frame_bytes (f_type f) (f_payload f) @ concat segs' \<and> length (f_payload f) \<le> kMaxFrame"
  by (rule seg.recv_frame_InrD [OF assms])

theorem recv_frame_sound_witness:
  "\<exists>(f :: frame) segs'. concat [frame_bytes Msg_Ack []] = frame_bytes (f_type f) (f_payload f) @ concat segs' \<and>
     length (f_payload f) \<le> kMaxFrame"
proof -
  obtain segs' where "recv_frame seg_recv [frame_bytes Msg_Ack []] =
      (Inr \<lparr>f_type = msg_type_of_u16 (msg_type_u16 Msg_Ack), f_payload = []\<rparr>, segs')"
    using seg.recv_frame_ok [of "[frame_bytes Msg_Ack []]" Msg_Ack "[]" "[]"] by auto
  from recv_frame_sound [OF this] show ?thesis by (intro exI)
qed

subsection \<open>Corruption in transit\<close>

lemma frame_bytes_length: "length (frame_bytes ty p) = 16 + length p"
  by (simp add: frame_bytes_def)

lemma frame_len_field: "take 4 (drop 8 (frame_bytes ty p @ r)) = put32 (of_nat (length p))"
  by (simp add: frame_bytes_def frame_fixed_def)

lemma frame_len_field_update:
  assumes "i < length (frame_bytes ty p)" "i \<notin> {8..<12}"
  shows "take 4 (drop 8 ((frame_bytes ty p)[i := v] @ r)) = put32 (of_nat (length p))"
proof (cases "i < 8")
  case True
  then have "drop 8 ((frame_bytes ty p)[i := v] @ r) = drop 8 (frame_bytes ty p @ r)"
    using frame_bytes_length [of ty p] by simp
  then show ?thesis by (simp only: frame_len_field)
next
  case False
  then have i: "12 \<le> i" using assms(2) by auto
  have "(frame_bytes ty p)[i := v] @ r = (frame_bytes ty p @ r)[i := v]"
    using assms(1) by (simp add: list_update_append)
  then have "take 4 (drop 8 ((frame_bytes ty p)[i := v] @ r)) = take 4 (drop 8 (frame_bytes ty p @ r))"
    using i by (simp add: drop_update_swap take_update_cancel)
  then show ?thesis by (simp only: frame_len_field)
qed

lemma split_update:
  assumes "F' @ C' @ P' = (F @ C @ P)[i := v]" "length F' = length F" "length C' = length C" "length P' = length P"
    and "i < length (F @ C @ P)" "(F @ C @ P) ! i \<noteq> v"
  shows "C' = C \<and> (\<exists>j<length (F @ P). F' @ P' = (F @ P)[j := v] \<and> (F @ P) ! j \<noteq> v) \<or> F' @ P' = F @ P \<and> C' \<noteq> C"
proof -
  consider "i < length F" | "length F \<le> i" "i < length F + length C" | "length F + length C \<le> i" by linarith
  then show ?thesis
  proof cases
    case 1
    then have "F' = F[i := v]" "C' = C" "P' = P" "F ! i \<noteq> v"
      using assms by (simp_all add: list_update_append nth_append)
    with 1 show ?thesis by (intro disjI1 conjI exI [of _ i]) (simp_all add: list_update_append nth_append)
  next
    case 2
    then have j: "i - length F < length C" by simp
    then have "F' = F" "C' = C[i - length F := v]" "P' = P" "C ! (i - length F) \<noteq> v"
      using 2 assms by (simp_all add: list_update_append nth_append)
    then show ?thesis using list_update_neq_iff [OF j] by simp
  next
    case 3
    then have "\<not> i - length F < length C" by simp
    then have *: "F' = F" "C' = C" "P' = P[i - length F - length C := v]" "P ! (i - length F - length C) \<noteq> v"
      using 3 assms by (simp_all add: list_update_append nth_append)
    define j where "j = i - length F - length C"
    have "j < length P" using 3 assms(5) by (simp add: j_def)
    with * show ?thesis unfolding j_def [symmetric]
      by (intro disjI1 conjI exI [of _ "length F + j"]) (simp_all add: list_update_append nth_append)
  qed
qed

lemma frame_one_byte_apart:
  assumes "frame_bytes ty' q = (frame_bytes ty p)[i := v]" "length q = length p" "i < length (frame_bytes ty p)"
  shows "frame_bytes ty p ! i = v"
proof (rule ccontr)
  assume ne: "frame_bytes ty p ! i \<noteq> v"
  let ?F = "frame_fixed ty p" and ?F' = "frame_fixed ty' q"
  have "put32 (crc32c (?F' @ q)) = put32 (crc32c (?F @ p)) \<and>
      (\<exists>j<length (?F @ p). ?F' @ q = (?F @ p)[j := v] \<and> (?F @ p) ! j \<noteq> v) \<or>
      ?F' @ q = ?F @ p \<and> put32 (crc32c (?F' @ q)) \<noteq> put32 (crc32c (?F @ p))"
    by (rule split_update [of _ _ _ _ _ _ i]) (use assms ne in \<open>simp_all add: frame_bytes_def\<close>)
  then show False using crc32c_update by (metis put32_inj)
qed

text \<open>A frame with one flipped byte is rejected: if a single byte of a frame other than the four
  bytes of the length field is changed, \<open>recv_frame\<close> does not return a frame, whatever follows.\<close>

theorem recv_frame_rejects_damage:
  assumes "i < length (frame_bytes ty payload)" "i \<notin> {8..<12}" "v \<noteq> frame_bytes ty payload ! i"
    and "concat segs = (frame_bytes ty payload)[i := v] @ rest" "length payload \<le> kMaxFrame"
  shows "\<exists>err. fst (recv_frame seg_recv segs) = Inl err"
proof (rule ccontr)
  assume "\<nexists>err. fst (recv_frame seg_recv segs) = Inl err"
  moreover obtain r segs' where r: "recv_frame seg_recv segs = (r, segs')" by fastforce
  ultimately obtain f where "recv_frame seg_recv segs = (Inr f, segs')" by (cases r) auto
  from seg.recv_frame_InrD [OF this]
  have eq: "(frame_bytes ty payload)[i := v] @ rest = frame_bytes (f_type f) (f_payload f) @ concat segs'"
    and len: "length (f_payload f) \<le> kMaxFrame" using assms(4) by simp_all
  have "put32 (of_nat (length (f_payload f))) = put32 (of_nat (length payload))"
    using frame_len_field_update [OF assms(1,2), of v rest] frame_len_field [of "f_type f" "f_payload f" "concat segs'"]
    unfolding eq by (simp only:)
  then have "(of_nat (length (f_payload f)) :: u32) = of_nat (length payload)" by (simp only: put32_inj)
  from arg_cong [OF this, of unat] have pl: "length (f_payload f) = length payload"
    by (simp only: unat_frame_len [OF len] unat_frame_len [OF assms(5)])
  have "(frame_bytes ty payload)[i := v] = frame_bytes (f_type f) (f_payload f)"
    using eq by (rule append_eq_append_conv [THEN iffD1, THEN conjunct1, rotated]) (simp add: frame_bytes_length pl)
  from frame_one_byte_apart [OF this [symmetric] pl assms(1)] assms(3) show False by simp
qed

theorem recv_frame_rejects_damage_witness:
  "\<exists>err. fst (recv_frame seg_recv [(frame_bytes Msg_Ack [])[0 := frame_bytes Msg_Ack [] ! 0 + 1]]) = Inl err"
proof (rule recv_frame_rejects_damage)
  show "0 < length (frame_bytes Msg_Ack [])" by (simp add: frame_bytes_length)
  show "0 \<notin> {8..<12::nat}" by simp
  show "frame_bytes Msg_Ack [] ! 0 + 1 \<noteq> frame_bytes Msg_Ack [] ! 0" by simp
  show "concat [(frame_bytes Msg_Ack [])[0 := frame_bytes Msg_Ack [] ! 0 + 1]] =
      (frame_bytes Msg_Ack [])[0 := frame_bytes Msg_Ack [] ! 0 + 1] @ []" by simp
  show "length [] \<le> kMaxFrame" by simp
qed

end
