(* ===== verification/Messages.thy ===== *)
theory Messages
  imports Reload Protocol
begin

text \<open>
  The distributed part: the message payloads of \<open>tools/messages.hpp\<close>, the worker process of
  \<open>tools/io-worker.cpp\<close> as a state machine over received frames, and the requests of
  \<open>tools/io-coordinator.cpp\<close>. The payload codec is the \<open>Writer\<close>/\<open>Reader\<close> pair of \<open>protocol.hpp\<close>,
  which has the same member functions as the one of the state format; a reader of a message must
  also have consumed every byte (\<open>finish\<close>).
\<close>

subsection \<open>Message payloads\<close>

definition encode_baseline :: "baseline \<Rightarrow> bytes" where
  "encode_baseline b =
     w_id (b_id b) @ w_id (b_generation b) @ w_en baseline_type_u8 (b_type b) @ w_id (b_workload_id b) @
     w_id (b_workload_generation b) @ w_id (b_device_id b) @ w_id (b_device_generation b) @
     w_id (b_worker_id b) @ w_id (b_worker_boot b) @ w_str (b_config_fingerprint b) @
     w_str (b_problem_size_fingerprint b) @ w_str (b_runtime_generation b) @
     w_str (b_kernel_generation b) @ w_str (b_policy_generation b) @ w_id (b_topology_generation b) @
     w_id (b_source_generation b) @ w_id (b_evidence_generation b) @ w_i64 (b_timestamp_ms b) @
     w_i64 (b_interval_ms b) @ w_en provenance_u8 (b_provenance b) @ w_en freshness_u8 (b_freshness b) @
     w_u64 (b_sample_count b) @ w_f64 (b_variance b) @ w_f64 (b_confidence b) @ w_f64 (b_mean_value b) @
     w_en metric_kind_u8 (b_metric_kind b) @ w_flag (b_valid b)"

definition r_baseline_msg :: "baseline rd" where
  "r_baseline_msg = do { k \<leftarrow> r_id; generation \<leftarrow> r_id; type \<leftarrow> r_en baseline_type_of_u8; workload \<leftarrow> r_id;
     workload_gen \<leftarrow> r_id; device \<leftarrow> r_id; device_gen \<leftarrow> r_id; worker \<leftarrow> r_id; boot \<leftarrow> r_id;
     config \<leftarrow> r_str; problem \<leftarrow> r_str; runtime \<leftarrow> r_str; kernel \<leftarrow> r_str; pol \<leftarrow> r_str; topology \<leftarrow> r_id;
     source_gen \<leftarrow> r_id; evidence_gen \<leftarrow> r_id; timestamp \<leftarrow> r_i64; interval \<leftarrow> r_i64;
     prov \<leftarrow> r_en provenance_of_u8; fresh \<leftarrow> r_en freshness_of_u8; samples \<leftarrow> r_u64; var \<leftarrow> r_f64;
     conf \<leftarrow> r_f64; mean \<leftarrow> r_f64; kind \<leftarrow> r_en metric_kind_of_u8; valid \<leftarrow> r_flag;
     State_Monad.return \<lparr>b_id = k, b_generation = generation, b_type = type, b_workload_id = workload,
       b_workload_generation = workload_gen, b_device_id = device, b_device_generation = device_gen,
       b_worker_id = worker, b_worker_boot = boot, b_config_fingerprint = config,
       b_problem_size_fingerprint = problem, b_runtime_generation = runtime,
       b_kernel_generation = kernel, b_policy_generation = pol, b_topology_generation = topology,
       b_source_generation = source_gen, b_evidence_generation = evidence_gen,
       b_timestamp_ms = timestamp, b_interval_ms = interval, b_provenance = prov,
       b_freshness = fresh, b_sample_count = samples, b_variance = var, b_confidence = conf,
       b_mean_value = mean, b_metric_kind = kind, b_valid = valid\<rparr> }"

text \<open>\<open>r.finish(); return r.ok();\<close>\<close>

definition decode_with :: "'a rd \<Rightarrow> bytes \<Rightarrow> bool \<times> 'a" where
  "decode_with m p = (case run_state (do { x \<leftarrow> m; _ \<leftarrow> r_finish; State_Monad.return x }) (reader_of p) of
     (x, r) \<Rightarrow> (rd_ok r, x))"

definition decode_baseline :: "bytes \<Rightarrow> bool \<times> baseline" where
  "decode_baseline p = decode_with r_baseline_msg p"

definition encode_observation :: "observation \<Rightarrow> bytes" where
  "encode_observation ob =
     w_id (o_id ob) @ w_id (o_generation ob) @ w_id (o_source_id ob) @ w_id (o_source_generation ob) @
     w_id (o_worker_id ob) @ w_id (o_worker_boot ob) @ w_id (o_workload_id ob) @
     w_id (o_workload_generation ob) @ w_id (o_device_id ob) @ w_id (o_device_generation ob) @
     w_i64 (o_timestamp_ms ob) @ w_en metric_kind_u8 (m_kind (o_measurement ob)) @
     w_f64 (m_value (o_measurement ob)) @ w_str (m_unit (o_measurement ob)) @
     w_u64 (m_sample_count (o_measurement ob)) @ w_f64 (m_variance (o_measurement ob)) @
     w_en provenance_u8 (o_provenance ob) @ w_en freshness_u8 (o_freshness ob) @
     w_en source_health_u8 (o_source_health ob) @ w_counted w_id (o_co_run_peers ob)"

text \<open>\<open>decode_observation\<close> fills the object it is given: the fields that are not on the wire keep
  their value and the peers are appended.\<close>

definition r_observation_msg :: "observation \<Rightarrow> observation rd" where
  "r_observation_msg ob = do { k \<leftarrow> r_id; generation \<leftarrow> r_id; source \<leftarrow> r_id; source_gen \<leftarrow> r_id; worker \<leftarrow> r_id;
     boot \<leftarrow> r_id; workload \<leftarrow> r_id; workload_gen \<leftarrow> r_id; device \<leftarrow> r_id; device_gen \<leftarrow> r_id;
     timestamp \<leftarrow> r_i64; kind \<leftarrow> r_en metric_kind_of_u8; val \<leftarrow> r_f64; unit \<leftarrow> r_str; samples \<leftarrow> r_u64;
     var \<leftarrow> r_f64; prov \<leftarrow> r_en provenance_of_u8; fresh \<leftarrow> r_en freshness_of_u8;
     health \<leftarrow> r_en source_health_of_u8; peers \<leftarrow> r_u32; ps \<leftarrow> r_list (unat peers) r_id;
     State_Monad.return (ob\<lparr>o_id := k, o_generation := generation, o_source_id := source,
       o_source_generation := source_gen, o_worker_id := worker, o_worker_boot := boot,
       o_workload_id := workload, o_workload_generation := workload_gen, o_device_id := device,
       o_device_generation := device_gen, o_timestamp_ms := timestamp,
       o_measurement := (o_measurement ob)\<lparr>m_kind := kind, m_value := val, m_unit := unit,
         m_sample_count := samples, m_variance := var\<rparr>,
       o_provenance := prov, o_freshness := fresh, o_source_health := health,
       o_co_run_peers := o_co_run_peers ob @ ps\<rparr>) }"

definition decode_observation :: "bytes \<Rightarrow> observation \<Rightarrow> bool \<times> observation" where
  "decode_observation p ob = decode_with (r_observation_msg ob) p"

subsection \<open>The worker\<close>

record worker_state =
  ws_id :: u64
  ws_boot :: u64
  ws_running :: bool

definition hello_payload :: "u64 \<Rightarrow> u64 \<Rightarrow> bytes" where
  "hello_payload wid boot = w_u64 wid @ w_u64 boot @ w_str (''worker-'' @ decimal (unat wid))"

definition r_measure_baseline :: "worker_state \<Rightarrow> baseline rd" where
  "r_measure_baseline ws = do { k \<leftarrow> r_id; generation \<leftarrow> r_id; workload \<leftarrow> r_id; workload_gen \<leftarrow> r_id;
     config \<leftarrow> r_str; problem \<leftarrow> r_str; timestamp \<leftarrow> r_i64; samples \<leftarrow> r_u64; mean \<leftarrow> r_f64;
     kind \<leftarrow> r_en metric_kind_of_u8;
     State_Monad.return (default_baseline\<lparr>b_id := k, b_generation := generation, b_workload_id := workload,
       b_workload_generation := workload_gen, b_device_id := Id 11, b_device_generation := Id 33,
       b_worker_id := Id (ws_id ws), b_worker_boot := Id (ws_boot ws), b_config_fingerprint := config,
       b_problem_size_fingerprint := problem, b_runtime_generation := ''rt-cuda-12.9'',
       b_kernel_generation := ''kernel-v1'', b_policy_generation := ''pol-v1'',
       b_topology_generation := Id 44, b_source_generation := Id 55, b_evidence_generation := Id 66,
       b_timestamp_ms := timestamp, b_interval_ms := 2000, b_provenance := Provenance_Controlled,
       b_freshness := Freshness_Current, b_sample_count := samples, b_variance := f64_lit 2 1,
       b_confidence := f64_lit 90 100, b_mean_value := mean, b_metric_kind := kind, b_valid := True\<rparr>) }"

definition r_measure_corun :: "worker_state \<Rightarrow> observation rd" where
  "r_measure_corun ws = do { k \<leftarrow> r_id; generation \<leftarrow> r_id; workload \<leftarrow> r_id; workload_gen \<leftarrow> r_id;
     timestamp \<leftarrow> r_i64; kind \<leftarrow> r_en metric_kind_of_u8; val \<leftarrow> r_f64; peers \<leftarrow> r_u32;
     ps \<leftarrow> r_list (unat peers) r_id;
     State_Monad.return (default_observation\<lparr>o_id := k, o_generation := generation, o_source_id := Id 77,
       o_source_generation := Id 55, o_worker_id := Id (ws_id ws), o_worker_boot := Id (ws_boot ws),
       o_workload_id := workload, o_workload_generation := workload_gen, o_device_id := Id 11,
       o_device_generation := Id 33, o_timestamp_ms := timestamp,
       o_measurement := default_measurement\<lparr>m_kind := kind, m_value := val,
         m_unit := (if kind = Metric_Latency then ''ms'' else ''ops/s''), m_sample_count := 1,
         m_variance := f64_zero\<rparr>,
       o_provenance := Provenance_Controlled, o_freshness := Freshness_Current,
       o_source_health := Health_Healthy, o_co_run_peers := ps\<rparr>) }"

text \<open>One iteration of the worker's loop: the reply it sends, if any, and its next state. A request
  that does not parse is dropped without a reply.\<close>

definition handle_frame :: "frame \<Rightarrow> worker_state \<Rightarrow> frame option \<times> worker_state" where
  "handle_frame f ws = (case f_type f of
     Msg_MeasureBaseline \<Rightarrow>
       (case run_state (r_measure_baseline ws) (reader_of (f_payload f)) of (b, r) \<Rightarrow>
          if \<not> rd_ok r then (None, ws)
          else (Some \<lparr>f_type = Msg_PublishBaseline, f_payload = encode_baseline b\<rparr>, ws))
   | Msg_MeasureCorun \<Rightarrow>
       (case run_state (r_measure_corun ws) (reader_of (f_payload f)) of (ob, r) \<Rightarrow>
          if \<not> rd_ok r then (None, ws)
          else (Some \<lparr>f_type = Msg_PublishObservation, f_payload = encode_observation ob\<rparr>, ws))
   | Msg_Revalidate \<Rightarrow>
       (case run_state r_u64 (reader_of (f_payload f)) of (boot, r) \<Rightarrow>
          (Some \<lparr>f_type = Msg_Ack, f_payload = []\<rparr>, ws\<lparr>ws_boot := boot\<rparr>))
   | Msg_ExitProcess \<Rightarrow> (None, ws\<lparr>ws_running := False\<rparr>)
   | _ \<Rightarrow> (Some \<lparr>f_type = Msg_Error, f_payload = []\<rparr>, ws))"

text \<open>\<open>while (running) { if (!recv_frame(f)) break; ... }\<close> over the frames that arrive before the
  connection ends: the replies sent, in order, and the last state.\<close>

fun worker_loop :: "frame list \<Rightarrow> worker_state \<Rightarrow> frame list \<times> worker_state" where
  "worker_loop [] ws = ([], ws)"
| "worker_loop (f # fs) ws =
     (if \<not> ws_running ws then ([], ws)
      else case handle_frame f ws of (reply, ws') \<Rightarrow>
        case worker_loop fs ws' of (replies, ws'') \<Rightarrow>
          ((case reply of None \<Rightarrow> [] | Some g \<Rightarrow> [g]) @ replies, ws''))"

subsection \<open>Requests of the coordinator\<close>

definition baseline_request :: "baseline \<Rightarrow> frame" where
  "baseline_request b = \<lparr>f_type = Msg_MeasureBaseline, f_payload =
     w_id (b_id b) @ w_id (b_generation b) @ w_id (b_workload_id b) @ w_id (b_workload_generation b) @
     w_str (b_config_fingerprint b) @ w_str (b_problem_size_fingerprint b) @ w_i64 (b_timestamp_ms b) @
     w_u64 (b_sample_count b) @ w_f64 (b_mean_value b) @ w_en metric_kind_u8 (b_metric_kind b)\<rparr>"

definition corun_request :: "observation \<Rightarrow> frame" where
  "corun_request ob = \<lparr>f_type = Msg_MeasureCorun, f_payload =
     w_id (o_id ob) @ w_id (o_generation ob) @ w_id (o_workload_id ob) @ w_id (o_workload_generation ob) @
     w_i64 (o_timestamp_ms ob) @ w_en metric_kind_u8 (m_kind (o_measurement ob)) @
     w_f64 (m_value (o_measurement ob)) @ w_counted w_id (o_co_run_peers ob)\<rparr>"

text \<open>What \<open>cmd_baseline\<close> and \<open>cmd_corun\<close> do with the frame that answers the request (\<open>None\<close> when
  nothing could be received): the returned \<open>bool\<close> and the out-parameter.\<close>

definition cmd_baseline_reply :: "frame option \<Rightarrow> baseline \<Rightarrow> bool \<times> baseline" where
  "cmd_baseline_reply f out = (case f of
     None \<Rightarrow> (False, out)
   | Some g \<Rightarrow> if f_type g \<noteq> Msg_PublishBaseline then (False, out) else decode_baseline (f_payload g))"

definition cmd_corun_reply :: "frame option \<Rightarrow> observation \<Rightarrow> bool \<times> observation" where
  "cmd_corun_reply f out = (case f of
     None \<Rightarrow> (False, out)
   | Some g \<Rightarrow> if f_type g \<noteq> Msg_PublishObservation then (False, out) else decode_observation (f_payload g) out)"

text \<open>The coordinator's view of a worker's HELLO.\<close>

definition accept_hello :: "frame option \<Rightarrow> (u64 \<times> u64) option" where
  "accept_hello f = (case f of
     None \<Rightarrow> None
   | Some g \<Rightarrow> if f_type g = Msg_Hello
       then Some (fst (run_state (do { k \<leftarrow> r_u64; boot \<leftarrow> r_u64; State_Monad.return (k, boot) })
              (reader_of (f_payload g))))
       else None)"

subsection \<open>Payload round trips\<close>

lemma decode_with_parses:
  assumes "parses m bs x"
  shows "decode_with m (bs @ rest) = (rest = [], x)"
proof -
  have at: "rd_at (reader_of (bs @ rest)) (bs @ rest)" by (simp add: rd_at_def reader_of_def)
  show ?thesis
    by (simp add: decode_with_def r_finish_def parsesD [OF assms at]) (simp add: reader_of_def)
qed

lemma parses_baseline_msg: "baseline_ok (b_id b, b) \<Longrightarrow> parses r_baseline_msg (encode_baseline b) b"
  unfolding r_baseline_msg_def encode_baseline_def baseline_ok_def case_prod_beta
  by (rule read_intros | simp)+

text \<open>A baseline survives the wire: every baseline whose strings and enum values the format can
  represent is decoded from its encoding exactly, and the same payload with bytes left over is
  refused.\<close>

theorem baseline_message_roundtrip:
  assumes "baseline_ok (b_id b, b)"
  shows "decode_baseline (encode_baseline b) = (True, b) \<and>
    (rest = [] \<or> fst (decode_baseline (encode_baseline b @ rest)) = False)"
  using decode_with_parses [OF parses_baseline_msg [OF assms], of "[]"]
    decode_with_parses [OF parses_baseline_msg [OF assms], of rest]
  by (auto simp: decode_baseline_def)

lemma ex_baseline_ok: "baseline_ok (b_id ex_baseline, ex_baseline)"
  by (simp add: baseline_ok_def ex_baseline_def default_baseline_def str_ok_def canonical_def
      baseline_type_of_u8_def provenance_of_u8_def freshness_of_u8_def metric_kind_of_u8_def)

theorem baseline_message_roundtrip_witness:
  "decode_baseline (encode_baseline ex_baseline) = (True, ex_baseline) \<and>
   fst (decode_baseline (encode_baseline ex_baseline @ [0])) = False"
  using baseline_message_roundtrip [OF ex_baseline_ok, of "[0]"] by simp

definition wire_ok :: "observation \<Rightarrow> bool" where
  "wire_ok ob \<longleftrightarrow> canonical metric_kind_u8 metric_kind_of_u8 (m_kind (o_measurement ob)) \<and>
     str_ok (m_unit (o_measurement ob)) \<and> canonical provenance_u8 provenance_of_u8 (o_provenance ob) \<and>
     canonical freshness_u8 freshness_of_u8 (o_freshness ob) \<and>
     canonical source_health_u8 source_health_of_u8 (o_source_health ob) \<and>
     length (o_co_run_peers ob) < 2 ^ 32"

lemma parses_observation_msg:
  assumes "wire_ok ob"
  shows "parses (r_observation_msg default_observation) (encode_observation ob)
    (ob\<lparr>o_measurement := (o_measurement ob)\<lparr>m_p95 := f64_zero, m_has_p95 := False\<rparr>,
        o_capabilities := default_capabilities, o_confounders := []\<rparr>)"
proof -
  have len: "unat (of_nat (length (o_co_run_peers ob)) :: u32) = length (o_co_run_peers ob)"
    using assms by (simp add: wire_ok_def unat_of_nat)
  have peers: "parses (r_list (unat (of_nat (length (o_co_run_peers ob)) :: u32)) r_id)
      (concat (map w_id (o_co_run_peers ob))) (o_co_run_peers ob)"
    unfolding len by (rule id_codec.parses_list) simp
  show ?thesis
    unfolding r_observation_msg_def encode_observation_def w_counted_def
    by (rule read_intros peers | simp add: assms [unfolded wire_ok_def] default_observation_def default_measurement_def)+
qed

text \<open>C40. What the wire keeps of an observation: decoding an encoded observation into a fresh object
  succeeds and restores every field except the capabilities, the 95th percentile and the list of
  confounders, which come back empty. A hard confounder reported by a worker never reaches the
  coordinator's comparison.\<close>

theorem observation_message_loses_confounders:
  assumes "wire_ok ob"
  shows "decode_observation (encode_observation ob) default_observation =
    (True, ob\<lparr>o_measurement := (o_measurement ob)\<lparr>m_p95 := f64_zero, m_has_p95 := False\<rparr>,
               o_capabilities := default_capabilities, o_confounders := []\<rparr>)"
  using decode_with_parses [OF parses_observation_msg [OF assms], of "[]"]
  by (simp add: decode_observation_def)

theorem observation_message_loses_confounders_witness:
  "o_confounders (snd (decode_observation (encode_observation
      ((ex_observation 21 f64_one)\<lparr>o_confounders := [Confounder_ThermalThrottling]\<rparr>)) default_observation)) = []"
proof -
  have "wire_ok ((ex_observation 21 f64_one)\<lparr>o_confounders := [Confounder_ThermalThrottling]\<rparr>)"
    by (simp add: wire_ok_def ex_observation_def default_observation_def default_measurement_def
        str_ok_def canonical_def metric_kind_of_u8_def provenance_of_u8_def freshness_of_u8_def
        source_health_of_u8_def)
  from observation_message_loses_confounders [OF this] show ?thesis by simp
qed

subsection \<open>The request and reply exchange\<close>

definition measured_baseline :: "baseline \<Rightarrow> worker_state \<Rightarrow> baseline" where
  "measured_baseline b ws = default_baseline\<lparr>b_id := b_id b, b_generation := b_generation b,
     b_workload_id := b_workload_id b, b_workload_generation := b_workload_generation b,
     b_device_id := Id 11, b_device_generation := Id 33, b_worker_id := Id (ws_id ws),
     b_worker_boot := Id (ws_boot ws), b_config_fingerprint := b_config_fingerprint b,
     b_problem_size_fingerprint := b_problem_size_fingerprint b,
     b_runtime_generation := ''rt-cuda-12.9'', b_kernel_generation := ''kernel-v1'',
     b_policy_generation := ''pol-v1'', b_topology_generation := Id 44, b_source_generation := Id 55,
     b_evidence_generation := Id 66, b_timestamp_ms := b_timestamp_ms b, b_interval_ms := 2000,
     b_provenance := Provenance_Controlled, b_freshness := Freshness_Current,
     b_sample_count := b_sample_count b, b_variance := f64_lit 2 1, b_confidence := f64_lit 90 100,
     b_mean_value := b_mean_value b, b_metric_kind := b_metric_kind b, b_valid := True\<rparr>"

definition request_ok :: "baseline \<Rightarrow> bool" where
  "request_ok b \<longleftrightarrow> str_ok (b_config_fingerprint b) \<and> str_ok (b_problem_size_fingerprint b) \<and>
     canonical metric_kind_u8 metric_kind_of_u8 (b_metric_kind b)"

lemma parses_measure_baseline:
  assumes "request_ok b"
  shows "parses (r_measure_baseline ws) (f_payload (baseline_request b)) (measured_baseline b ws)"
  unfolding r_measure_baseline_def baseline_request_def frame.simps
  by (rule read_intros | simp add: assms [unfolded request_ok_def] measured_baseline_def)+

lemma run_parses:
  assumes "parses m bs x"
  shows "run_state m (reader_of bs) = (x, (reader_of bs)\<lparr>rd_pos := length bs\<rparr>)"
  using parsesD [OF assms, of "reader_of bs" "[]"] by (simp add: rd_at_def reader_of_def)

lemma measured_baseline_ok: "request_ok b \<Longrightarrow> baseline_ok (b_id (measured_baseline b ws), measured_baseline b ws)"
  by (simp add: baseline_ok_def measured_baseline_def request_ok_def default_baseline_def str_ok_def
      canonical_def baseline_type_of_u8_def provenance_of_u8_def freshness_of_u8_def)

lemma handle_baseline_request:
  assumes "request_ok b"
  shows "handle_frame (baseline_request b) ws =
    (Some \<lparr>f_type = Msg_PublishBaseline, f_payload = encode_baseline (measured_baseline b ws)\<rparr>, ws)"
proof -
  have ty: "f_type (baseline_request b) = Msg_MeasureBaseline" by (simp add: baseline_request_def)
  show ?thesis unfolding handle_frame_def ty
    by (simp add: run_parses [OF parses_measure_baseline [OF assms]]) (simp add: reader_of_def)
qed

lemma baseline_exchange:
  assumes "request_ok b"
  shows "cmd_baseline_reply (fst (handle_frame (baseline_request b) ws)) out = (True, measured_baseline b ws)"
  using decode_with_parses [OF parses_baseline_msg [OF measured_baseline_ok [OF assms]], where rest = "[]"]
  by (simp add: handle_baseline_request [OF assms] cmd_baseline_reply_def decode_baseline_def)

text \<open>The measure-baseline exchange: for a request whose strings and metric fit the format, the
  worker answers, the coordinator decodes the answer, and the baseline it gets has the requested
  identity, workload, fingerprints, timestamp, sample count, mean and metric, and is bound to the
  worker's id and current boot. The worker's state does not change.\<close>

theorem measure_baseline_exchange:
  assumes "request_ok b"
  shows "case handle_frame (baseline_request b) ws of (reply, ws') \<Rightarrow>
    ws' = ws \<and> cmd_baseline_reply reply out = (True, measured_baseline b ws)"
  using baseline_exchange [OF assms] by (simp add: handle_baseline_request [OF assms])

theorem measure_baseline_exchange_witness:
  "fst (cmd_baseline_reply (fst (handle_frame (baseline_request ex_baseline)
     \<lparr>ws_id = 4, ws_boot = 5, ws_running = True\<rparr>)) default_baseline)"
proof -
  have "request_ok ex_baseline" using ex_baseline_ok by (simp add: request_ok_def baseline_ok_def)
  from measure_baseline_exchange [OF this, of "\<lparr>ws_id = 4, ws_boot = 5, ws_running = True\<rparr>" default_baseline]
  show ?thesis by (simp add: case_prod_beta)
qed

definition measured_observation :: "observation \<Rightarrow> worker_state \<Rightarrow> observation" where
  "measured_observation ob ws = default_observation\<lparr>o_id := o_id ob, o_generation := o_generation ob,
     o_source_id := Id 77, o_source_generation := Id 55, o_worker_id := Id (ws_id ws),
     o_worker_boot := Id (ws_boot ws), o_workload_id := o_workload_id ob,
     o_workload_generation := o_workload_generation ob, o_device_id := Id 11,
     o_device_generation := Id 33, o_timestamp_ms := o_timestamp_ms ob,
     o_measurement := default_measurement\<lparr>m_kind := m_kind (o_measurement ob),
       m_value := m_value (o_measurement ob),
       m_unit := (if m_kind (o_measurement ob) = Metric_Latency then ''ms'' else ''ops/s''),
       m_sample_count := 1, m_variance := f64_zero\<rparr>,
     o_provenance := Provenance_Controlled, o_freshness := Freshness_Current,
     o_source_health := Health_Healthy, o_co_run_peers := o_co_run_peers ob\<rparr>"

definition corun_ok :: "observation \<Rightarrow> bool" where
  "corun_ok ob \<longleftrightarrow> canonical metric_kind_u8 metric_kind_of_u8 (m_kind (o_measurement ob)) \<and>
     length (o_co_run_peers ob) < 2 ^ 32"

lemma parses_measure_corun:
  assumes "corun_ok ob"
  shows "parses (r_measure_corun ws) (f_payload (corun_request ob)) (measured_observation ob ws)"
proof -
  have len: "unat (of_nat (length (o_co_run_peers ob)) :: u32) = length (o_co_run_peers ob)"
    using assms by (simp add: corun_ok_def unat_of_nat)
  have peers: "parses (r_list (unat (of_nat (length (o_co_run_peers ob)) :: u32)) r_id)
      (concat (map w_id (o_co_run_peers ob))) (o_co_run_peers ob)"
    unfolding len by (rule id_codec.parses_list) simp
  show ?thesis
    unfolding r_measure_corun_def corun_request_def w_counted_def frame.simps
    by (rule read_intros peers | simp add: assms [unfolded corun_ok_def] measured_observation_def)+
qed

lemma measured_observation_wire: "corun_ok ob \<Longrightarrow> wire_ok (measured_observation ob ws)"
  by (simp add: wire_ok_def corun_ok_def measured_observation_def default_observation_def
      default_measurement_def str_ok_def canonical_def provenance_of_u8_def freshness_of_u8_def
      source_health_of_u8_def)

lemma handle_corun_request:
  assumes "corun_ok ob"
  shows "handle_frame (corun_request ob) ws =
    (Some \<lparr>f_type = Msg_PublishObservation, f_payload = encode_observation (measured_observation ob ws)\<rparr>, ws)"
proof -
  have ty: "f_type (corun_request ob) = Msg_MeasureCorun" by (simp add: corun_request_def)
  show ?thesis unfolding handle_frame_def ty
    by (simp add: run_parses [OF parses_measure_corun [OF assms]]) (simp add: reader_of_def)
qed

lemma corun_exchange:
  assumes "corun_ok ob"
  shows "cmd_corun_reply (fst (handle_frame (corun_request ob) ws)) default_observation =
    (True, measured_observation ob ws)"
proof -
  have "parses (r_observation_msg default_observation) (encode_observation (measured_observation ob ws))
      (measured_observation ob ws)"
    using parses_observation_msg [OF measured_observation_wire [OF assms], of ws]
    by (simp add: measured_observation_def default_observation_def default_measurement_def)
  from decode_with_parses [OF this, of "[]"] show ?thesis
    by (simp add: handle_corun_request [OF assms] cmd_corun_reply_def decode_observation_def)
qed

subsection \<open>Revalidation\<close>

text \<open>A Revalidate command moves the worker to the boot id it carries, and from then on the
  baselines the worker reports are bound to the new boot. The command is acknowledged even when its
  payload is too short to carry a boot id; an empty payload sets the boot id to nil.\<close>

theorem revalidate_moves_boot:
  "handle_frame \<lparr>f_type = Msg_Revalidate, f_payload = w_u64 boot\<rparr> ws =
     (Some \<lparr>f_type = Msg_Ack, f_payload = []\<rparr>, ws\<lparr>ws_boot := boot\<rparr>) \<and>
   handle_frame \<lparr>f_type = Msg_Revalidate, f_payload = []\<rparr> ws =
     (Some \<lparr>f_type = Msg_Ack, f_payload = []\<rparr>, ws\<lparr>ws_boot := 0\<rparr>)"
proof
  show "handle_frame \<lparr>f_type = Msg_Revalidate, f_payload = w_u64 boot\<rparr> ws =
     (Some \<lparr>f_type = Msg_Ack, f_payload = []\<rparr>, ws\<lparr>ws_boot := boot\<rparr>)"
    by (simp add: handle_frame_def run_parses [OF parses_u64])
  have "fst (run_state r_u64 (reader_of [])) = 0" by code_simp
  then show "handle_frame \<lparr>f_type = Msg_Revalidate, f_payload = []\<rparr> ws =
     (Some \<lparr>f_type = Msg_Ack, f_payload = []\<rparr>, ws\<lparr>ws_boot := 0\<rparr>)"
    by (simp add: handle_frame_def case_prod_beta)
qed

subsection \<open>The worker's loop\<close>

lemma worker_loop_stopped: "\<not> ws_running ws \<Longrightarrow> worker_loop fs ws = ([], ws)"
  by (cases fs) simp_all

lemma worker_loop_append:
  "worker_loop (fs @ gs) ws =
     (case worker_loop fs ws of (rs, ws') \<Rightarrow> case worker_loop gs ws' of (rs', ws'') \<Rightarrow> (rs @ rs', ws''))"
  by (induction fs arbitrary: ws) (auto simp: worker_loop_stopped split: prod.splits)

lemma handle_keeps:
  "ws_id (snd (handle_frame f ws)) = ws_id ws"
  "ws_running (snd (handle_frame f ws)) \<longleftrightarrow> ws_running ws \<and> f_type f \<noteq> Msg_ExitProcess"
  "f_type f \<noteq> Msg_Revalidate \<Longrightarrow> ws_boot (snd (handle_frame f ws)) = ws_boot ws"
  by (auto simp: handle_frame_def split: msg_type.splits prod.splits)

text \<open>The worker obeys its protocol: nothing that arrives after an ExitProcess frame has any effect
  or reply, the worker never changes its identity, and it sends at most one reply per frame
  received.\<close>

theorem worker_protocol:
  assumes "f_type f = Msg_ExitProcess"
  shows "worker_loop (fs @ f # gs) ws = worker_loop (fs @ [f]) ws \<and>
    ws_id (snd (worker_loop fs ws)) = ws_id ws \<and> length (fst (worker_loop fs ws)) \<le> length fs"
proof (intro conjI)
  have "worker_loop (f # gs) ws' = worker_loop [f] ws'" for ws'
    using handle_keeps(2) [of f ws'] assms
    by (cases "handle_frame f ws'") (auto simp: worker_loop_stopped split: prod.splits)
  then show "worker_loop (fs @ f # gs) ws = worker_loop (fs @ [f]) ws"
    by (simp add: worker_loop_append)
  show "ws_id (snd (worker_loop fs ws)) = ws_id ws"
    by (induction fs arbitrary: ws) (auto simp: case_prod_beta handle_keeps)
  show "length (fst (worker_loop fs ws)) \<le> length fs"
    by (induction fs arbitrary: ws) (auto simp: case_prod_beta split: option.splits intro: le_SucI)
qed

theorem worker_protocol_witness:
  "worker_loop ([] @ \<lparr>f_type = Msg_ExitProcess, f_payload = []\<rparr> # [baseline_request ex_baseline])
     \<lparr>ws_id = 4, ws_boot = 5, ws_running = True\<rparr> =
   worker_loop ([] @ [\<lparr>f_type = Msg_ExitProcess, f_payload = []\<rparr>]) \<lparr>ws_id = 4, ws_boot = 5, ws_running = True\<rparr>"
  by (rule worker_protocol [THEN conjunct1]) simp

end
