(* ===== verification/Args.thy ===== *)
theory Args
  imports Ids
begin

text \<open>
  Command line arguments of the three programs: the option lookup each of them has
  (\<open>arg_value\<close>), the conversions of the standard library they call (\<open>strtoull\<close>, \<open>atoi\<close>), the
  endpoint parser of \<open>tools/io-worker.cpp\<close> and the command line with which
  \<open>tools/io-coordinator.cpp\<close> starts a worker. The lemmas show that the worker reads back what the
  coordinator wrote.
\<close>

fun arg_value :: "string list \<Rightarrow> string \<Rightarrow> string \<Rightarrow> string" where
  "arg_value (a # b # rest) key dflt = (if a = key then b else arg_value (b # rest) key dflt)"
| "arg_value _ key dflt = dflt"

text \<open>\<open>std::strtoull(s, nullptr, 10)\<close>: leading white space, an optional sign, the longest run of
  digits; no digits give 0, a value beyond 64 bits the largest one, a minus sign the negated word.\<close>

definition is_space :: "char \<Rightarrow> bool" where
  "is_space c \<longleftrightarrow> c = CHR '' '' \<or> (9 \<le> (of_char c :: nat) \<and> (of_char c :: nat) \<le> 13)"

definition strip_sign :: "string \<Rightarrow> bool \<times> string" where
  "strip_sign s = (case s of
     [] \<Rightarrow> (False, [])
   | c # cs \<Rightarrow> if c = CHR ''-'' then (True, cs) else if c = CHR ''+'' then (False, cs) else (False, s))"

definition parse_u64 :: "string \<Rightarrow> u64" where
  "parse_u64 s =
     (case strip_sign (dropWhile is_space s) of (neg, t) \<Rightarrow>
        let v = dec_value 0 (takeWhile is_digit t) in
        if v \<ge> 2 ^ 64 then -1 else if neg then - of_nat v else of_nat v)"

text \<open>\<open>std::atoi\<close>: the same text read as an \<open>int\<close>; beyond its range the behaviour is undefined.\<close>

definition atoi :: "string \<Rightarrow> int option" where
  "atoi s =
     (case strip_sign (dropWhile is_space s) of (neg, t) \<Rightarrow>
        let v = int (dec_value 0 (takeWhile is_digit t)); v = (if neg then - v else v) in
        if - (2 ^ 31) \<le> v \<and> v < 2 ^ 31 then Some v else None)"

text \<open>\<open>parse_endpoint\<close>: host and port of \<open>host:port\<close>. The outer \<open>None\<close> is the undefined behaviour of
  \<open>atoi\<close>, the inner one the answer \<open>false\<close>.\<close>

definition parse_endpoint :: "string \<Rightarrow> (string \<times> u16) option option" where
  "parse_endpoint ep =
     (let host = takeWhile (\<lambda>c. c \<noteq> CHR '':'') ep; rest = dropWhile (\<lambda>c. c \<noteq> CHR '':'') ep in
      if rest = [] then Some None
      else case atoi (tl rest) of
        None \<Rightarrow> None
      | Some v \<Rightarrow> let port = of_int v in Some (if host \<noteq> [] \<and> 0 < port then Some (host, port) else None))"

text \<open>The start of the worker's \<open>main\<close>: the left alternative is its exit code.\<close>

definition worker_config :: "string list \<Rightarrow> (int + string \<times> u16 \<times> u64 \<times> u64) option" where
  "worker_config argv =
     (case parse_endpoint (arg_value argv ''--connect'' ''127.0.0.1:39000'') of
        None \<Rightarrow> None
      | Some None \<Rightarrow> Some (Inl 2)
      | Some (Some (host, port)) \<Rightarrow>
          Some (Inr (host, port, parse_u64 (arg_value argv ''--id'' ''1''), parse_u64 (arg_value argv ''--boot'' ''1''))))"

text \<open>The argument vector \<open>spawn_worker\<close> passes to \<open>execl\<close>.\<close>

definition spawn_args :: "string \<Rightarrow> string \<Rightarrow> u16 \<Rightarrow> u64 \<Rightarrow> u64 \<Rightarrow> string list" where
  "spawn_args worker_exe host port k boot =
     [worker_exe, ''--connect'', host @ '':'' @ decimal (unat port), ''--id'', decimal (unat k),
      ''--boot'', decimal (unat boot)]"

text \<open>The options the coordinator's \<open>main\<close> reads.\<close>

record coord_options =
  co_state :: string
  co_worker_exe :: string
  co_port :: u16
  co_epoch :: u64
  co_restart_from :: string

definition arg_port :: "string list \<Rightarrow> string \<Rightarrow> u16 \<Rightarrow> u16 option" where
  "arg_port argv key dflt = map_option of_int (atoi (arg_value argv key (decimal (unat dflt))))"

definition coord_config :: "string list \<Rightarrow> coord_options option" where
  "coord_config argv =
     (case arg_port argv ''--port'' 39000 of
        None \<Rightarrow> None
      | Some port \<Rightarrow> Some \<lparr>co_state = arg_value argv ''--state'' ''iobs-dist.bin'',
          co_worker_exe = arg_value argv ''--worker-exe'' ''io-worker'', co_port = port,
          co_epoch = parse_u64 (arg_value argv ''--epoch'' ''1''),
          co_restart_from = arg_value argv ''--restart-from'' []\<rparr>)"

subsection \<open>Numbers survive the command line\<close>

lemma digit_plain: "is_digit c \<Longrightarrow> \<not> is_space c \<and> c \<noteq> CHR ''-'' \<and> c \<noteq> CHR ''+'' \<and> c \<noteq> CHR '':''"
  by (auto simp: is_digit_def is_space_def)

lemma decimal_scan:
  "strip_sign (dropWhile is_space (decimal n)) = (False, decimal n)" "takeWhile is_digit (decimal n) = decimal n"
proof -
  obtain c cs where c: "decimal n = c # cs" using decimal_nonempty by (cases "decimal n") auto
  then have "is_digit c" using decimal_digits [of n] by simp
  then show "strip_sign (dropWhile is_space (decimal n)) = (False, decimal n)"
    using digit_plain [of c] by (simp add: c strip_sign_def)
  show "takeWhile is_digit (decimal n) = decimal n" using decimal_digits [of n] by (simp add: takeWhile_eq_all_conv)
qed

lemma parse_u64_decimal [simp]: "parse_u64 (decimal (unat k)) = k"
  using unat_u64_less [of k] by (simp add: parse_u64_def decimal_scan dec_value_decimal Let_def not_le [symmetric])

lemma atoi_decimal: "n < 2 ^ 31 \<Longrightarrow> atoi (decimal n) = Some (int n)"
  by (simp add: atoi_def decimal_scan dec_value_decimal)

lemma atoi_port [simp]: "atoi (decimal (unat (port :: u16))) = Some (uint port)"
proof -
  have "unat port < 2 ^ 16" using unsigned_less [of port, where 'a = nat] by simp
  then show ?thesis by (simp add: atoi_decimal)
qed

lemma decimal_not_key: "decimal n \<noteq> ''--connect''" "decimal n \<noteq> ''--id''" "decimal n \<noteq> ''--boot''"
  using decimal_digits [of n] by (auto simp: is_digit_def)

text \<open>The worker reads back the endpoint, the id and the boot id the coordinator put on its command
  line, unless the program's own name is one of the options.\<close>

lemma worker_config_spawned:
  assumes "worker_exe \<notin> {''--connect'', ''--id'', ''--boot''}" "host \<noteq> []" "CHR '':'' \<notin> set host" "0 < port"
  shows "worker_config (spawn_args worker_exe host port k boot) = Some (Inr (host, port, k, boot))"
proof -
  let ?ep = "host @ '':'' @ decimal (unat port)"
  have "takeWhile (\<lambda>c. c \<noteq> CHR '':'') ?ep = host" "dropWhile (\<lambda>c. c \<noteq> CHR '':'') ?ep = '':'' @ decimal (unat port)"
    using assms(3) by (auto simp: takeWhile_append dropWhile_append)
  then have "parse_endpoint ?ep = Some (Some (host, port))" using assms(2,4) by (simp add: parse_endpoint_def)
  moreover have "CHR '':'' \<in> set ?ep" "CHR '':'' \<notin> set ''--id''" "CHR '':'' \<notin> set ''--boot''" by simp_all
  then have "?ep \<noteq> ''--id''" "?ep \<noteq> ''--boot''" by metis+
  ultimately show ?thesis using assms(1) by (simp add: worker_config_def spawn_args_def decimal_not_key)
qed

lemma decimal_length_less: "n < 10 ^ Suc k \<Longrightarrow> length (decimal n) \<le> Suc k"
proof (induction k arbitrary: n)
  case (Suc k)
  then have "length (decimal (n div 10)) \<le> Suc k" by simp
  then show ?case by (subst decimal.simps) simp
qed (subst decimal.simps, simp)

end
