(* ===== verification/Worker_Link.thy ===== *)
theory Worker_Link
  imports Messages Args
begin

text \<open>
  The worker process over its socket (\<open>tools/io-worker.cpp\<close>) and the two commands a coordinator
  issues over one connection (\<open>cmd_baseline\<close>, \<open>cmd_corun\<close>, \<open>accept_one\<close> of
  \<open>tools/io-coordinator.cpp\<close>). The locale \<open>duplex\<close> is a connection that can be read and written; on
  it the worker process, from its command line on, refines the frame-level loop of \<open>Messages\<close>. The locale
  \<open>worker_link\<close> is what a coordinator relies on: a request that the worker answers comes back as
  that answer. \<open>link\<close> is a connection to a running worker that satisfies the contract.
\<close>

subsection \<open>The worker's main loop\<close>

text \<open>One iteration: \<open>None\<close> when \<open>recv_frame\<close> failed and the loop is left. The result of
  \<open>send_frame\<close> is not looked at.\<close>

definition worker_iter ::
  "'s recv_op \<Rightarrow> 's send_op \<Rightarrow> worker_state \<Rightarrow> 's \<Rightarrow> worker_state option \<times> 's" where
  "worker_iter recv send ws s =
     (case recv_frame recv s of
        (Inl err, s1) \<Rightarrow> (None, s1)
      | (Inr f, s1) \<Rightarrow>
          (case handle_frame f ws of
             (None, ws') \<Rightarrow> (Some ws', s1)
           | (Some g, ws') \<Rightarrow> (Some ws', snd (send_frame send (f_type g) (f_payload g) s1))))"

text \<open>\<open>while (running) { ... }\<close> with a bound on the number of iterations; \<open>None\<close> when it is used up.\<close>

fun worker_serve ::
  "nat \<Rightarrow> 's recv_op \<Rightarrow> 's send_op \<Rightarrow> worker_state \<Rightarrow> 's \<Rightarrow> (worker_state \<times> 's) option" where
  "worker_serve 0 recv send ws s = None"
| "worker_serve (Suc n) recv send ws s =
     (if \<not> ws_running ws then Some (ws, s)
      else case worker_iter recv send ws s of
        (None, s1) \<Rightarrow> Some (ws, s1)
      | (Some ws', s1) \<Rightarrow> worker_serve n recv send ws' s1)"

text \<open>\<open>main\<close>: the arguments, the connection, the \<open>Hello\<close> frame and the loop. The parameter \<open>connect\<close> is
  \<open>socket_connect\<close>; the result is the exit code and the connection at the end.\<close>

definition worker_main ::
  "nat \<Rightarrow> (string \<Rightarrow> u16 \<Rightarrow> 's option) \<Rightarrow> 's recv_op \<Rightarrow> 's send_op \<Rightarrow> string list \<Rightarrow> (int \<times> 's option) option" where
  "worker_main fuel connect recv send argv =
     (case worker_config argv of
        None \<Rightarrow> None
      | Some (Inl code) \<Rightarrow> Some (code, None)
      | Some (Inr (host, port, k, boot)) \<Rightarrow>
          (case connect host port of
             None \<Rightarrow> Some (2, None)
           | Some s \<Rightarrow>
               let s1 = snd (send_frame send Msg_Hello (hello_payload k boot) s) in
               (case worker_serve fuel recv send \<lparr>ws_id = k, ws_boot = boot, ws_running = True\<rparr> s1 of
                  None \<Rightarrow> None
                | Some (_, s2) \<Rightarrow> Some (0, Some s2))))"

subsection \<open>The coordinator's side of a connection\<close>

definition cmd_baseline ::
  "'s send_op \<Rightarrow> 's recv_op \<Rightarrow> baseline \<Rightarrow> baseline \<Rightarrow> 's \<Rightarrow> (bool \<times> baseline) \<times> 's" where
  "cmd_baseline send recv b out s =
     (case send_frame send Msg_MeasureBaseline (f_payload (baseline_request b)) s of
        (Inl err, s1) \<Rightarrow> ((False, out), s1)
      | (Inr _, s1) \<Rightarrow>
          (case recv_frame recv s1 of
             (Inl err, s2) \<Rightarrow> ((False, out), s2)
           | (Inr f, s2) \<Rightarrow> (cmd_baseline_reply (Some f) out, s2)))"

definition cmd_corun ::
  "'s send_op \<Rightarrow> 's recv_op \<Rightarrow> observation \<Rightarrow> observation \<Rightarrow> 's \<Rightarrow> (bool \<times> observation) \<times> 's" where
  "cmd_corun send recv ob out s =
     (case send_frame send Msg_MeasureCorun (f_payload (corun_request ob)) s of
        (Inl err, s1) \<Rightarrow> ((False, out), s1)
      | (Inr _, s1) \<Rightarrow>
          (case recv_frame recv s1 of
             (Inl err, s2) \<Rightarrow> ((False, out), s2)
           | (Inr f, s2) \<Rightarrow> (cmd_corun_reply (Some f) out, s2)))"

subsection \<open>Connections read and written\<close>

text \<open>Reading leaves alone what a single \<open>recv\<close> leaves alone.\<close>

lemma read_exact_preserves:
  assumes "\<And>s n. P (snd (recv s n)) = P s"
  shows "P (snd (read_exact recv n acc s)) = P s"
proof (induction n arbitrary: acc s rule: less_induct)
  case (less n)
  have step: "recv s n = (r, s') \<Longrightarrow> P s' = P s" for r s' using assms [of s n] by simp
  have "P (snd (read_exact recv (n - length bs) (acc @ bs) s1)) = P s1" if "0 < n" "bs \<noteq> []" for bs s1
    using less.IH [of "n - length bs"] that by simp
  then show ?case
    by (subst read_exact.simps) (auto split: prod.splits option.splits dest: step)
qed

lemma recv_frame_preserves:
  assumes "\<And>s n. P (snd (recv s n)) = P s"
  shows "P (snd (recv_frame recv s)) = P s"
proof -
  have "read_exact recv n acc s = (r, s') \<Longrightarrow> P s' = P s" for n acc s r s'
    using read_exact_preserves [of P recv n acc s] assms by simp
  then show ?thesis by (auto simp: recv_frame_def Let_def split: prod.splits sum.splits)
qed

locale duplex = byte_stream recv pending + byte_sink send written
  for recv :: "'s \<Rightarrow> nat \<Rightarrow> bytes option \<times> 's" and pending and send written +
  assumes recv_written: "written (snd (recv s n)) = written s"
    and send_pending: "pending (snd (send s bs)) = pending s"
begin

lemma send_pending': "send s bs = (r, s') \<Longrightarrow> pending s' = pending s"
  using send_pending [of s bs] by simp

lemma recv_frame_written: "recv_frame recv s = (r, s') \<Longrightarrow> written s' = written s"
  using recv_frame_preserves [of written recv s] recv_written by simp

lemma write_all_pending: "pending (snd (write_all send bs s)) = pending s"
proof (induction bs arbitrary: s rule: length_induct)
  case (1 bs)
  have "pending (snd (write_all send (drop r bs) s1)) = pending s1" if "0 < r" "bs \<noteq> []" for r s1
    using 1 that by simp
  then show ?case
    by (subst write_all.simps) (auto split: prod.splits option.splits dest: send_pending')
qed

lemma send_frame_pending: "pending (snd (send_frame send ty p s)) = pending s"
  by (simp add: send_frame_def write_all_pending)

end

text \<open>Frames as bytes on the wire.\<close>

definition wire_bytes :: "frame list \<Rightarrow> bytes" where
  "wire_bytes fs = concat (map (\<lambda>f. frame_bytes (f_type f) (f_payload f)) fs)"

definition sendable :: "frame \<Rightarrow> bool" where
  "sendable f \<longleftrightarrow> length (f_payload f) \<le> kMaxFrame"

definition frame_ok :: "frame \<Rightarrow> bool" where
  "frame_ok f \<longleftrightarrow> msg_canonical (f_type f) \<and> length (f_payload f) \<le> kMaxFrame"

context duplex
begin

text \<open>A reply above the frame bound is not written: \<open>send_frame\<close> refuses it and nobody looks at its result.\<close>

lemma worker_iter_frame:
  assumes "pending s = wire_bytes (f # fs)" "frame_ok f" "handle_frame f ws = (reply, ws')"
  shows "\<exists>s'. worker_iter recv send ws s = (Some ws', s') \<and> pending s' = wire_bytes fs \<and>
    written s' = written s @ wire_bytes (filter sendable (case reply of None \<Rightarrow> [] | Some g \<Rightarrow> [g]))"
proof -
  have "pending s = frame_bytes (f_type f) (f_payload f) @ wire_bytes fs"
    using assms(1) by (simp add: wire_bytes_def)
  then obtain s1 where r: "recv_frame recv s = (Inr f, s1)" "pending s1 = wire_bytes fs"
    using recv_frame_ok [of s "f_type f" "f_payload f" "wire_bytes fs"] assms(2)
    by (auto simp: frame_ok_def msg_canonical_def)
  have w: "written s1 = written s" using recv_frame_written [OF r(1)] .
  show ?thesis
  proof (cases reply)
    case None
    then show ?thesis using r w assms(3) by (simp add: worker_iter_def wire_bytes_def)
  next
    case (Some g)
    have "\<exists>x s2. send_frame send (f_type g) (f_payload g) s1 = (x, s2) \<and> written s2 = written s1 @ wire_bytes (filter sendable [g])"
    proof (cases "sendable g")
      case True
      then show ?thesis using send_frame_complete [of "f_payload g" "f_type g" s1] by (auto simp: sendable_def wire_bytes_def)
    next
      case False
      then show ?thesis by (simp add: send_frame_def sendable_def wire_bytes_def)
    qed
    then obtain x s2 where s2: "send_frame send (f_type g) (f_payload g) s1 = (x, s2)"
      "written s2 = written s1 @ wire_bytes (filter sendable [g])" by blast
    moreover have "pending s2 = pending s1" using send_frame_pending [of "f_type g" "f_payload g" s1] s2(1) by simp
    ultimately show ?thesis using Some r w assms(3) by (simp add: worker_iter_def)
  qed
qed

text \<open>On a connection that delivers these frames and then ends, the process stops after at most one
  iteration per frame and one more, having sent the sendable replies of the frame-level loop.\<close>

lemma worker_serve_refines:
  assumes "pending s = wire_bytes fs" "\<forall>f\<in>set fs. frame_ok f"
  shows "\<exists>s'. worker_serve (Suc (length fs)) recv send ws s = Some (snd (worker_loop fs ws), s') \<and>
    written s' = written s @ wire_bytes (filter sendable (fst (worker_loop fs ws)))"
  using assms
proof (induction fs arbitrary: ws s)
  case Nil
  then have "\<exists>s1. recv_frame recv s = (Inl ''EOF'', s1)"
    using read_exact_acc [of kFrameHeaderSize "[]" s]
    by (auto simp: recv_frame_def wire_bytes_def kFrameHeaderSize_def)
  then obtain s1 where r: "recv_frame recv s = (Inl ''EOF'', s1)" ..
  with recv_frame_written [OF r] show ?case by (simp add: worker_iter_def wire_bytes_def)
next
  case (Cons f fs)
  show ?case
  proof (cases "ws_running ws")
    case False
    then show ?thesis by (simp add: wire_bytes_def)
  next
    case True
    obtain reply ws' where h: "handle_frame f ws = (reply, ws')" by fastforce
    obtain rs ws'' where l: "worker_loop fs ws' = (rs, ws'')" by fastforce
    have loop: "worker_loop (f # fs) ws = ((case reply of None \<Rightarrow> [] | Some g \<Rightarrow> [g]) @ rs, ws'')"
      using True h l by simp
    obtain s1 where s1: "worker_iter recv send ws s = (Some ws', s1)" "pending s1 = wire_bytes fs"
      "written s1 = written s @ wire_bytes (filter sendable (case reply of None \<Rightarrow> [] | Some g \<Rightarrow> [g]))"
      using worker_iter_frame [OF Cons.prems(1) _ h] Cons.prems(2) by auto
    obtain s' where "worker_serve (Suc (length fs)) recv send ws' s1 = Some (ws'', s')"
      "written s' = written s1 @ wire_bytes (filter sendable rs)"
      using Cons.IH [OF s1(2), of ws'] Cons.prems(2) l by auto
    moreover have "wire_bytes (xs @ ys) = wire_bytes xs @ wire_bytes ys" for xs ys by (simp add: wire_bytes_def)
    ultimately show ?thesis unfolding loop length_Cons using True s1
      by (subst worker_serve.simps) simp
  qed
qed

end

subsection \<open>A connection cut into arbitrary pieces\<close>

type_synonym conn = "bytes list \<times> bytes \<times> nat list"

definition conn_recv :: "conn recv_op" where
  "conn_recv c n = (case c of (segs, out) \<Rightarrow> case seg_recv segs n of (r, segs') \<Rightarrow> (r, (segs', out)))"

definition conn_send :: "conn send_op" where
  "conn_send c bs = (case c of (segs, out) \<Rightarrow> case chunk_send out bs of (r, out') \<Rightarrow> (r, (segs, out')))"

interpretation conn: duplex conn_recv "\<lambda>c. concat (fst c)" conn_send "\<lambda>c. fst (snd c)"
proof
  fix n :: nat and c :: conn
  assume n: "0 < n" and c: "concat (fst c) \<noteq> []"
  show "\<exists>bs c'. conn_recv c n = (Some bs, c') \<and> bs \<noteq> [] \<and> length bs \<le> n \<and> concat (fst c) = bs @ concat (fst c')"
    using seg.recv_data [OF n c] by (cases c) (auto simp: conn_recv_def)
next
  fix n :: nat and c :: conn
  assume n: "0 < n" and c: "concat (fst c) = []"
  show "\<exists>c'. conn_recv c n = (Some [], c') \<and> concat (fst c') = []"
    using seg.recv_end [OF n c] by (cases c) (auto simp: conn_recv_def)
next
  fix bs :: bytes and c :: conn
  assume bs: "bs \<noteq> []"
  show "\<exists>r c'. conn_send c bs = (Some r, c') \<and> 0 < r \<and> r \<le> length bs \<and> fst (snd c') = fst (snd c) @ take r bs"
    using chunks.send_some [OF bs, of "snd c"] by (cases c) (auto simp: conn_send_def)
qed (auto simp: conn_recv_def conn_send_def split: prod.splits)

lemma hello_small: "length (hello_payload k boot) \<le> kMaxFrame"
proof -
  have "unat k < 10 ^ Suc 19" using unat_u64_less [of k] by (simp del: unat_u64_less)
  from decimal_length_less [OF this] show ?thesis by (simp add: hello_payload_def kMaxFrame_def)
qed

text \<open>C15. The worker process, started with the command line the coordinator builds, refines its
  frame-level loop and terminates: when the connection it opens delivers the frames \<open>fs\<close>, cut into
  arbitrary segments, and then ends, the process exits with code 0 after at most one iteration per
  frame and one more, and what it has written, in chunks of any size, is its greeting with the
  requested id and boot id followed by the encoded replies of the frame-level loop, in order, less
  those whose payload exceeds 16 MiB: these are dropped in silence.\<close>

theorem worker_process_refines:
  assumes "worker_exe \<notin> {''--connect'', ''--id'', ''--boot''}" "0 < port"
    and "connect ''127.0.0.1'' port = Some (segs, [], sched)"
    and "concat segs = wire_bytes fs" "\<forall>f\<in>set fs. frame_ok f"
  shows "\<exists>c'. worker_main (Suc (length fs)) connect conn_recv conn_send
      (spawn_args worker_exe ''127.0.0.1'' port k boot) = Some (0, Some c') \<and>
    fst (snd c') = frame_bytes Msg_Hello (hello_payload k boot) @
      wire_bytes (filter (\<lambda>g. length (f_payload g) \<le> kMaxFrame)
        (fst (worker_loop fs \<lparr>ws_id = k, ws_boot = boot, ws_running = True\<rparr>)))"
proof -
  have cfg: "worker_config (spawn_args worker_exe ''127.0.0.1'' port k boot) = Some (Inr (''127.0.0.1'', port, k, boot))"
    using assms(1,2) by (intro worker_config_spawned) simp_all
  obtain c1 where c1: "send_frame conn_send Msg_Hello (hello_payload k boot) (segs, [], sched) = (Inr (), c1)"
    "fst (snd c1) = frame_bytes Msg_Hello (hello_payload k boot)"
    using conn.send_frame_complete [OF hello_small, of Msg_Hello k boot "(segs, [], sched)"] by auto
  have "concat (fst c1) = wire_bytes fs"
    using conn.send_frame_pending [of Msg_Hello "hello_payload k boot" "(segs, [], sched)"] c1(1) assms(4) by simp
  from conn.worker_serve_refines [OF this assms(5), of "\<lparr>ws_id = k, ws_boot = boot, ws_running = True\<rparr>"] show ?thesis
    using assms(3) c1 unfolding sendable_def [abs_def] by (auto simp: worker_main_def cfg simp del: worker_serve.simps)
qed

theorem worker_process_refines_witness:
  "\<exists>c'. worker_main 2 (\<lambda>host port. Some (map (\<lambda>b. [b]) (wire_bytes [\<lparr>f_type = Msg_Ack, f_payload = []\<rparr>]), [], [3]))
      conn_recv conn_send (spawn_args ''io-worker'' ''127.0.0.1'' 39000 4 5) = Some (0, Some c') \<and>
    fst (snd c') = frame_bytes Msg_Hello (hello_payload 4 5) @ wire_bytes [\<lparr>f_type = Msg_Error, f_payload = []\<rparr>]"
proof -
  have h: "worker_loop [\<lparr>f_type = Msg_Ack, f_payload = []\<rparr>] \<lparr>ws_id = 4, ws_boot = 5, ws_running = True\<rparr> =
      ([\<lparr>f_type = Msg_Error, f_payload = []\<rparr>], \<lparr>ws_id = 4, ws_boot = 5, ws_running = True\<rparr>)"
    by (simp add: handle_frame_def)
  have "msg_canonical Msg_Ack" "msg_canonical Msg_Error" by code_simp+
  moreover have "0 < (39000 :: u16)" by code_simp
  ultimately show ?thesis
    using worker_process_refines [of "''io-worker''" 39000 "\<lambda>host port. Some (map (\<lambda>b. [b]) (wire_bytes
        [\<lparr>f_type = Msg_Ack, f_payload = []\<rparr>]), [], [3])" "map (\<lambda>b. [b]) (wire_bytes [\<lparr>f_type = Msg_Ack, f_payload = []\<rparr>])"
        "[3]" "[\<lparr>f_type = Msg_Ack, f_payload = []\<rparr>]" 4 5]
    unfolding h by (simp add: frame_ok_def numeral_2_eq_2 del: zero_less_iff_neq_zero)
qed

subsection \<open>The contract of a connected worker\<close>

locale worker_link =
  fixes send :: "'s send_op" and recv :: "'s recv_op" and idle :: "'s \<Rightarrow> bool" and worker :: "'s \<Rightarrow> worker_state"
  assumes exchange: "idle s \<Longrightarrow> ws_running (worker s) \<Longrightarrow> frame_ok f \<Longrightarrow>
      handle_frame f (worker s) = (Some g, ws') \<Longrightarrow> frame_ok g \<Longrightarrow>
      \<exists>s1 s2. send_frame send (f_type f) (f_payload f) s = (Inr (), s1) \<and> recv_frame recv s1 = (Inr g, s2) \<and>
        idle s2 \<and> worker s2 = ws'"

text \<open>Requests whose strings and peer lists stay within a frame.\<close>

definition small_baseline :: "baseline \<Rightarrow> bool" where
  "small_baseline b \<longleftrightarrow> request_ok b \<and> length (b_config_fingerprint b) + length (b_problem_size_fingerprint b) \<le> 1000000"

definition small_corun :: "observation \<Rightarrow> bool" where
  "small_corun ob \<longleftrightarrow> corun_ok ob \<and> length (o_co_run_peers ob) \<le> 1000000"

lemma w_counted_ids_length: "length (w_counted w_id xs) = 4 + 8 * length xs"
proof -
  have "length (concat (map w_id xs)) = 8 * length xs" by (induction xs) simp_all
  then show ?thesis by (simp add: w_counted_def)
qed

lemma msg_request_canonical:
  "msg_canonical Msg_MeasureBaseline" "msg_canonical Msg_MeasureCorun" "msg_canonical Msg_PublishBaseline"
  "msg_canonical Msg_PublishObservation" "msg_canonical Msg_Hello" "msg_canonical Msg_ExitProcess"
  by code_simp+

lemma baseline_frames_ok:
  assumes "small_baseline b"
  shows "frame_ok (baseline_request b)"
    "frame_ok \<lparr>f_type = Msg_PublishBaseline, f_payload = encode_baseline (measured_baseline b ws)\<rparr>"
  using assms
  by (simp_all add: frame_ok_def msg_request_canonical baseline_request_def small_baseline_def kMaxFrame_def
      encode_baseline_def measured_baseline_def)

lemma corun_frames_ok:
  assumes "small_corun ob"
  shows "frame_ok (corun_request ob)"
    "frame_ok \<lparr>f_type = Msg_PublishObservation, f_payload = encode_observation (measured_observation ob ws)\<rparr>"
  using assms
  by (simp_all add: frame_ok_def msg_request_canonical corun_request_def small_corun_def kMaxFrame_def
      encode_observation_def measured_observation_def w_counted_ids_length)

context worker_link
begin

lemma cmd_baseline_answered:
  assumes "idle s" "ws_running (worker s)" "small_baseline b"
  shows "\<exists>s'. cmd_baseline send recv b out s = ((True, measured_baseline b (worker s)), s') \<and>
    idle s' \<and> worker s' = worker s"
proof -
  have ok: "request_ok b" using assms(3) by (simp add: small_baseline_def)
  have ty: "f_type (baseline_request b) = Msg_MeasureBaseline" by (simp add: baseline_request_def)
  note h = handle_baseline_request [OF ok, of "worker s"]
  from exchange [OF assms(1,2) baseline_frames_ok(1) [OF assms(3)] h baseline_frames_ok(2) [OF assms(3)]]
  show ?thesis
    using baseline_exchange [OF ok, of "worker s" out] unfolding h ty
    by (auto simp: cmd_baseline_def)
qed

lemma cmd_corun_answered:
  assumes "idle s" "ws_running (worker s)" "small_corun ob"
  shows "\<exists>s'. cmd_corun send recv ob default_observation s = ((True, measured_observation ob (worker s)), s') \<and>
    idle s' \<and> worker s' = worker s"
proof -
  have ok: "corun_ok ob" using assms(3) by (simp add: small_corun_def)
  have ty: "f_type (corun_request ob) = Msg_MeasureCorun" by (simp add: corun_request_def)
  note h = handle_corun_request [OF ok, of "worker s"]
  from exchange [OF assms(1,2) corun_frames_ok(1) [OF assms(3)] h corun_frames_ok(2) [OF assms(3)]]
  show ?thesis
    using corun_exchange [OF ok, of "worker s"] unfolding h ty
    by (auto simp: cmd_corun_def)
qed

end

subsection \<open>A connection to a running worker\<close>

text \<open>The bytes on their way to the coordinator, in segments, the bytes the worker has not consumed
  yet with the schedule of partial sends, the sizes of the segments replies are cut into, and the
  worker. The worker runs as soon as a complete frame has arrived; until then it waits.\<close>

record link =
  lk_in :: "bytes list"
  lk_out :: "bytes \<times> nat list"
  lk_cuts :: "nat list"
  lk_worker :: worker_state

fun chop :: "nat list \<Rightarrow> bytes \<Rightarrow> bytes list" where
  "chop [] bs = [bs]"
| "chop (k # ks) bs = take k bs # chop ks (drop k bs)"

lemma concat_chop [simp]: "concat (chop ks bs) = bs"
  by (induction ks bs rule: chop.induct) simp_all

definition link_run :: "link \<Rightarrow> link" where
  "link_run s =
     (if \<not> ws_running (lk_worker s) then s
      else case worker_iter conn_recv conn_send (lk_worker s) ([fst (lk_out s)], [], lk_cuts s) of
        (None, _) \<Rightarrow> s
      | (Some ws', (segs, sent, _)) \<Rightarrow>
          s\<lparr>lk_in := lk_in s @ chop (lk_cuts s) sent, lk_out := (concat segs, snd (lk_out s)), lk_worker := ws'\<rparr>)"

definition link_send :: "link send_op" where
  "link_send s bs = (case chunk_send (lk_out s) bs of (r, out) \<Rightarrow> (r, link_run (s\<lparr>lk_out := out\<rparr>)))"

definition link_recv :: "link recv_op" where
  "link_recv s n = (case seg_recv (lk_in s) n of (r, segs) \<Rightarrow> (r, s\<lparr>lk_in := segs\<rparr>))"

definition link_idle :: "link \<Rightarrow> bool" where
  "link_idle s \<longleftrightarrow> concat (lk_in s) = [] \<and> fst (lk_out s) = []"

text \<open>The length field makes frames prefix-free.\<close>

lemma frame_prefix_free:
  assumes "frame_bytes ty p = frame_bytes ty' q @ r" "length p \<le> kMaxFrame" "length q \<le> kMaxFrame"
  shows "r = []"
proof -
  have "put32 (of_nat (length q)) = put32 (of_nat (length p))"
    using frame_len_field [of ty p "[]"] frame_len_field [of ty' q r] assms(1) by simp
  then have "(of_nat (length q) :: u32) = of_nat (length p)" by (simp only: put32_inj)
  from arg_cong [OF this, of unat] have "length q = length p"
    by (simp only: unat_frame_len [OF assms(2)] unat_frame_len [OF assms(3)])
  then show ?thesis
    using arg_cong [OF assms(1), of length] by (simp add: frame_bytes_length)
qed

lemma link_run_waits:
  assumes "fst (lk_out s) @ bs = frame_bytes ty p" "bs \<noteq> []" "length p \<le> kMaxFrame"
  shows "link_run s = s"
proof -
  let ?c = "([fst (lk_out s)], [], lk_cuts s)"
  have "\<exists>err. fst (recv_frame conn_recv ?c) = Inl err"
  proof (rule ccontr)
    assume "\<nexists>err. fst (recv_frame conn_recv ?c) = Inl err"
    moreover obtain x c' where x: "recv_frame conn_recv ?c = (x, c')" by (cases "recv_frame conn_recv ?c")
    ultimately obtain f where "recv_frame conn_recv ?c = (Inr f, c')" by (cases x) auto
    from conn.recv_frame_InrD [OF this]
    have "frame_bytes ty p = frame_bytes (f_type f) (f_payload f) @ concat (fst c') @ bs"
      and "length (f_payload f) \<le> kMaxFrame" by (simp_all flip: assms(1))
    from frame_prefix_free [OF this(1) assms(3) this(2)] assms(2) show False by simp
  qed
  then show ?thesis by (auto simp: link_run_def worker_iter_def split: prod.splits)
qed

lemma link_run_answers:
  assumes "fst (lk_out s) = frame_bytes (f_type f) (f_payload f)" "ws_running (lk_worker s)" "frame_ok f"
    "handle_frame f (lk_worker s) = (Some g, ws')" "frame_ok g"
  shows "\<exists>segs. link_run s = s\<lparr>lk_in := lk_in s @ segs, lk_out := ([], snd (lk_out s)), lk_worker := ws'\<rparr> \<and>
    concat segs = frame_bytes (f_type g) (f_payload g)"
proof -
  have w: "concat (fst ([fst (lk_out s)], [], lk_cuts s)) = wire_bytes [f]" using assms(1) by (simp add: wire_bytes_def)
  obtain c where "worker_iter conn_recv conn_send (lk_worker s) ([fst (lk_out s)], [], lk_cuts s) = (Some ws', c)"
    "concat (fst c) = []" "fst (snd c) = frame_bytes (f_type g) (f_payload g)"
    using conn.worker_iter_frame [OF w assms(3,4)] assms(5) by (auto simp: wire_bytes_def sendable_def frame_ok_def)
  moreover obtain a o' d where "c = (a, o', d)" by (cases c)
  ultimately have "link_run s = s\<lparr>lk_in := lk_in s @ chop (lk_cuts s) (frame_bytes (f_type g) (f_payload g)),
      lk_out := ([], snd (lk_out s)), lk_worker := ws'\<rparr>"
    using assms(2) by (simp add: link_run_def del: concat_eq_Nil_conv)
  then show ?thesis using concat_chop by blast
qed

lemma link_write_all:
  assumes "fst (lk_out s) @ bs = frame_bytes (f_type f) (f_payload f)" "bs \<noteq> []" "ws_running (lk_worker s)"
    "frame_ok f" "handle_frame f (lk_worker s) = (Some g, ws')" "frame_ok g"
  shows "\<exists>s'. write_all link_send bs s = (Inr (), s') \<and> fst (lk_out s') = [] \<and> lk_worker s' = ws' \<and>
    concat (lk_in s') = concat (lk_in s) @ frame_bytes (f_type g) (f_payload g)"
  using assms
proof (induction bs arbitrary: s rule: length_induct)
  case (1 bs)
  obtain r out where c: "chunk_send (lk_out s) bs = (Some r, out)" "0 < r" "r \<le> length bs"
    "fst out = fst (lk_out s) @ take r bs" using chunks.send_some [OF 1(3)] by blast
  let ?s1 = "s\<lparr>lk_out := out\<rparr>"
  have w: "write_all link_send bs s = write_all link_send (drop r bs) (link_run ?s1)"
    using c 1(3) by (simp add: write_all.simps [of link_send bs] link_send_def)
  have out: "fst (lk_out ?s1) @ drop r bs = frame_bytes (f_type f) (f_payload f)" using c(4) 1(2) by simp
  show ?case
  proof (cases "drop r bs = []")
    case True
    then have "fst (lk_out ?s1) = frame_bytes (f_type f) (f_payload f)" using out by simp
    from link_run_answers [OF this] 1(4-7) True w show ?thesis
      by (auto simp: write_all.simps [of link_send "[]"])
  next
    case False
    then have "link_run ?s1 = ?s1" using link_run_waits [OF out] 1(5) by (simp add: frame_ok_def)
    moreover have "length (drop r bs) < length bs" using c(2) 1(3) by simp
    moreover have "ws_running (lk_worker ?s1)" "handle_frame f (lk_worker ?s1) = (Some g, ws')" using 1(4,6) by simp_all
    ultimately show ?thesis
      using 1(1) [rule_format, OF _ out False _ 1(5) _ 1(7)] w by simp
  qed
qed

interpretation link_stream: byte_stream link_recv "\<lambda>s. concat (lk_in s)"
proof
  fix n :: nat and s :: link
  assume n: "0 < n" and s: "concat (lk_in s) \<noteq> []"
  show "\<exists>bs s'. link_recv s n = (Some bs, s') \<and> bs \<noteq> [] \<and> length bs \<le> n \<and> concat (lk_in s) = bs @ concat (lk_in s')"
    using seg.recv_data [OF n s] by (auto simp: link_recv_def)
next
  fix n :: nat and s :: link
  assume n: "0 < n" and s: "concat (lk_in s) = []"
  show "\<exists>s'. link_recv s n = (Some [], s') \<and> concat (lk_in s') = []"
    using seg.recv_end [OF n s] by (auto simp: link_recv_def)
qed

lemma link_recv_frame_keeps:
  assumes "recv_frame link_recv s = (r, s')"
  shows "lk_out s' = lk_out s \<and> lk_worker s' = lk_worker s"
  using recv_frame_preserves [of lk_out link_recv s] recv_frame_preserves [of lk_worker link_recv s] assms
  by (simp add: link_recv_def case_prod_beta)

interpretation live: worker_link link_send link_recv link_idle lk_worker
proof
  fix s f g ws'
  assume s: "link_idle s" "ws_running (lk_worker s)" and f: "frame_ok f"
    and h: "handle_frame f (lk_worker s) = (Some g, ws')" and g: "frame_ok g"
  have out: "fst (lk_out s) @ frame_bytes (f_type f) (f_payload f) = frame_bytes (f_type f) (f_payload f)"
    using s by (simp add: link_idle_def)
  have "frame_bytes (f_type f) (f_payload f) \<noteq> []" using frame_bytes_length [of "f_type f" "f_payload f"] by auto
  from link_write_all [OF out this s(2) f h g] obtain s1 where
    w: "write_all link_send (frame_bytes (f_type f) (f_payload f)) s = (Inr (), s1)" and
    s1: "fst (lk_out s1) = []" "lk_worker s1 = ws'" "concat (lk_in s1) = frame_bytes (f_type g) (f_payload g) @ []"
    using s by (auto simp: link_idle_def)
  have sent: "send_frame link_send (f_type f) (f_payload f) s = (Inr (), s1)"
    using w f by (simp add: send_frame_def frame_ok_def not_less)
  obtain s2 where r: "recv_frame link_recv s1 = (Inr g, s2)" "concat (lk_in s2) = []"
    using link_stream.recv_frame_ok [OF s1(3)] g by (auto simp: frame_ok_def msg_canonical_def)
  have "fst (lk_out s2) = fst (lk_out s1) \<and> lk_worker s2 = lk_worker s1"
    using link_recv_frame_keeps [OF r(1)] by simp
  with sent r s1 show "\<exists>s1 s2. send_frame link_send (f_type f) (f_payload f) s = (Inr (), s1) \<and>
      recv_frame link_recv s1 = (Inr g, s2) \<and> link_idle s2 \<and> lk_worker s2 = ws'"
    by (auto simp: link_idle_def)
qed

text \<open>C16. A connected worker answers: whatever pieces the connection cuts the data into, a baseline
  request of moderate size sent over an idle connection to a running worker comes back as the
  worker's measurement, bound to its id and boot, and a co-run request comes back as its
  observation; afterwards the connection is idle again and the worker unchanged.\<close>

theorem connected_worker_answers:
  assumes "link_idle s" "ws_running (lk_worker s)" "small_baseline b" "small_corun ob"
  shows "(\<exists>s'. cmd_baseline link_send link_recv b out s = ((True, measured_baseline b (lk_worker s)), s') \<and>
      link_idle s' \<and> lk_worker s' = lk_worker s) \<and>
    (\<exists>s'. cmd_corun link_send link_recv ob default_observation s =
        ((True, measured_observation ob (lk_worker s)), s') \<and> link_idle s' \<and> lk_worker s' = lk_worker s)"
  using live.cmd_baseline_answered [OF assms(1-3)] live.cmd_corun_answered [OF assms(1,2,4)] by blast

theorem connected_worker_answers_witness:
  "\<exists>s'. cmd_baseline link_send link_recv ex_baseline default_baseline
      \<lparr>lk_in = [], lk_out = ([], [1, 2, 3]), lk_cuts = [5, 7],
       lk_worker = \<lparr>ws_id = 4, ws_boot = 5, ws_running = True\<rparr>\<rparr> =
    ((True, measured_baseline ex_baseline \<lparr>ws_id = 4, ws_boot = 5, ws_running = True\<rparr>), s')"
proof -
  let ?s = "\<lparr>lk_in = [], lk_out = ([], [1, 2, 3]), lk_cuts = [5, 7],
       lk_worker = \<lparr>ws_id = 4, ws_boot = 5, ws_running = True\<rparr>\<rparr>"
  have "link_idle ?s" "ws_running (lk_worker ?s)" by (simp_all add: link_idle_def)
  moreover have "small_baseline ex_baseline"
    using ex_baseline_ok by (simp add: small_baseline_def request_ok_def baseline_ok_def ex_baseline_def default_baseline_def)
  moreover have "small_corun (ex_observation 21 f64_one)"
    by (simp add: small_corun_def corun_ok_def ex_observation_def default_observation_def
        default_measurement_def canonical_def metric_kind_of_u8_def)
  ultimately show ?thesis using connected_worker_answers [of ?s] by fastforce
qed

end
