(* ===== verification/Coordinator.thy ===== *)
theory Coordinator
  imports Worker_Link
begin

text \<open>
  The coordinator process (\<open>tools/io-coordinator.cpp\<close>): it starts or restores an observatory,
  connects two workers, ingests their isolated baselines (scenario A), measures a co-run and compares
  both directions (B), removes the neighbour and records the recovery (C), restarts the victim's
  worker under a new boot id (D) and saves its state (F). The local variables of \<open>main\<close> are a record
  and each scenario is a function on it, in the order of the source. Spawning a process and accepting
  its connection are one parameter; the connections obey the contract \<open>worker_link\<close>.
\<close>

subsection \<open>Connecting workers\<close>

record 's worker_proc =
  wp_pid :: int
  wp_sock :: "'s option"
  wp_id :: u64
  wp_boot :: u64
  wp_connected :: bool

definition no_worker :: "'s worker_proc" where
  "no_worker = \<lparr>wp_pid = -1, wp_sock = None, wp_id = 0, wp_boot = 0, wp_connected = False\<rparr>"

definition accept_one :: "'s recv_op \<Rightarrow> 's option \<Rightarrow> 's worker_proc" where
  "accept_one recv cs =
     (case cs of
        None \<Rightarrow> no_worker
      | Some c \<Rightarrow>
          (case recv_frame recv c of
             (Inl err, c') \<Rightarrow> no_worker\<lparr>wp_sock := Some c'\<rparr>
           | (Inr f, c') \<Rightarrow>
               (case accept_hello (Some f) of
                  None \<Rightarrow> no_worker\<lparr>wp_sock := Some c'\<rparr>
                | Some (k, boot) \<Rightarrow> no_worker\<lparr>wp_sock := Some c', wp_id := k, wp_boot := boot, wp_connected := True\<rparr>)))"

text \<open>\<open>connect_worker\<close> fills a local \<open>WorkerProc\<close> and returns the one of \<open>accept_one\<close>. The parameter
  \<open>spawn\<close> takes the argument vector of the new process, as \<open>spawn_worker\<close> builds it, and is the start
  of the process followed by \<open>socket_accept\<close>.\<close>

type_synonym 's spawn_op = "string list \<Rightarrow> 's option"

definition connect_worker ::
  "'s spawn_op \<Rightarrow> 's recv_op \<Rightarrow> string \<Rightarrow> u16 \<Rightarrow> u64 \<Rightarrow> u64 \<Rightarrow> 's worker_proc" where
  "connect_worker spawn recv worker_exe port k boot =
     accept_one recv (spawn (spawn_args worker_exe ''127.0.0.1'' port k boot))"

text \<open>\<open>terminate_worker\<close>: the processes killed, and the record afterwards. No worker that
  \<open>connect_worker\<close> returns has a process id, so terminating one kills nothing and changes nothing; the
  workers stop because they are told to.\<close>

definition terminate_worker :: "'s worker_proc \<Rightarrow> int list \<times> 's worker_proc" where
  "terminate_worker w = (if 0 < wp_pid w then ([wp_pid w], w\<lparr>wp_pid := -1\<rparr>) else ([], w))"

lemma terminate_connected:
  "terminate_worker (connect_worker spawn recv worker_exe port k boot) =
     ([], connect_worker spawn recv worker_exe port k boot)"
  by (auto simp: terminate_worker_def connect_worker_def accept_one_def no_worker_def split: option.splits prod.splits sum.splits)

subsection \<open>The constants of main\<close>

definition coord_wa :: workload_descriptor where
  "coord_wa = \<lparr>wl_id = Id 10, wl_generation = Id 1010, wl_name = ''A'', wl_config_fingerprint = ''cfg-A'',
     wl_problem_size_fingerprint = ''size-2048'', wl_device_id = Id 11, wl_device_generation = Id 33,
     wl_worker_id = Id 100, wl_worker_boot = Id 1000, wl_policy_generation = ''pol-v1'',
     wl_runtime_generation = ''rt-cuda-12.9'', wl_kernel_generation = ''kernel-v1'',
     wl_topology_generation = Id 44, wl_start_ms = 0, wl_end_ms = 0, wl_attempt_id = 1, wl_priority_class = ''io''\<rparr>"

definition coord_wb :: workload_descriptor where
  "coord_wb = \<lparr>wl_id = Id 20, wl_generation = Id 1020, wl_name = ''B'', wl_config_fingerprint = ''cfg-B'',
     wl_problem_size_fingerprint = ''size-2048'', wl_device_id = Id 11, wl_device_generation = Id 33,
     wl_worker_id = Id 200, wl_worker_boot = Id 2000, wl_policy_generation = ''pol-v1'',
     wl_runtime_generation = ''rt-cuda-12.9'', wl_kernel_generation = ''kernel-v1'',
     wl_topology_generation = Id 44, wl_start_ms = 0, wl_end_ms = 0, wl_attempt_id = 1, wl_priority_class = ''io''\<rparr>"

definition coord_ba :: baseline where
  "coord_ba = \<lparr>b_id = Id 700, b_generation = Id 7100, b_type = BaselineType_Isolated, b_workload_id = Id 10,
     b_workload_generation = Id 1010, b_device_id = Id 11, b_device_generation = Id 33,
     b_worker_id = Id 100, b_worker_boot = Id 1000, b_config_fingerprint = ''cfg-A'',
     b_problem_size_fingerprint = ''size-2048'', b_runtime_generation = ''rt-cuda-12.9'',
     b_kernel_generation = ''kernel-v1'', b_policy_generation = ''pol-v1'', b_topology_generation = Id 44,
     b_source_generation = Id 55, b_evidence_generation = Id 66, b_timestamp_ms = 200000,
     b_interval_ms = 2000, b_provenance = Provenance_Controlled, b_freshness = Freshness_Current,
     b_sample_count = 20, b_variance = f64_lit 3 1, b_confidence = f64_lit 92 100,
     b_mean_value = f64_lit 120 1, b_metric_kind = Metric_Latency, b_valid = True\<rparr>"

definition coord_bb :: baseline where
  "coord_bb = \<lparr>b_id = Id 701, b_generation = Id 7101, b_type = BaselineType_Isolated, b_workload_id = Id 20,
     b_workload_generation = Id 1020, b_device_id = Id 11, b_device_generation = Id 33,
     b_worker_id = Id 200, b_worker_boot = Id 2000, b_config_fingerprint = ''cfg-B'',
     b_problem_size_fingerprint = ''size-2048'', b_runtime_generation = ''rt-cuda-12.9'',
     b_kernel_generation = ''kernel-v1'', b_policy_generation = ''pol-v1'', b_topology_generation = Id 44,
     b_source_generation = Id 55, b_evidence_generation = Id 66, b_timestamp_ms = 200000,
     b_interval_ms = 2000, b_provenance = Provenance_Controlled, b_freshness = Freshness_Current,
     b_sample_count = 20, b_variance = f64_lit 25 10, b_confidence = f64_lit 90 100,
     b_mean_value = f64_lit 1500 1, b_metric_kind = Metric_Throughput, b_valid = True\<rparr>"

text \<open>The observations requested in the loops: \<open>oa\<close> and \<open>ob\<close> of scenario B, \<open>oa\<close> of scenario C.\<close>

definition coord_oa :: "u64 \<Rightarrow> observation" where
  "coord_oa i = default_observation\<lparr>o_id := Id (3000 + i), o_generation := Id (30000 + i), o_source_id := Id 77,
     o_source_generation := Id 55, o_worker_id := Id 100, o_worker_boot := Id 1000, o_workload_id := Id 10,
     o_workload_generation := Id 1010, o_device_id := Id 11, o_device_generation := Id 33,
     o_timestamp_ms := 200001 + i, o_measurement := default_measurement\<lparr>m_kind := Metric_Latency,
       m_value := f64_lit 158 1, m_unit := ''ms''\<rparr>, o_co_run_peers := [Id 20]\<rparr>"

definition coord_ob :: "u64 \<Rightarrow> observation" where
  "coord_ob i = default_observation\<lparr>o_id := Id (4000 + i), o_generation := Id (40000 + i), o_source_id := Id 77,
     o_source_generation := Id 55, o_worker_id := Id 200, o_worker_boot := Id 2000, o_workload_id := Id 20,
     o_workload_generation := Id 1020, o_device_id := Id 11, o_device_generation := Id 33,
     o_timestamp_ms := 200001 + i, o_measurement := default_measurement\<lparr>m_kind := Metric_Throughput,
       m_value := f64_lit 1310 1, m_unit := ''ops/s''\<rparr>, o_co_run_peers := [Id 10]\<rparr>"

definition coord_oa_after :: "u64 \<Rightarrow> observation" where
  "coord_oa_after i = default_observation\<lparr>o_id := Id (5000 + i), o_generation := Id (50000 + i), o_source_id := Id 77,
     o_source_generation := Id 55, o_worker_id := Id 100, o_worker_boot := Id 1000, o_workload_id := Id 10,
     o_workload_generation := Id 1010, o_device_id := Id 11, o_device_generation := Id 33,
     o_timestamp_ms := 200100 + i, o_measurement := default_measurement\<lparr>m_kind := Metric_Latency,
       m_value := f64_lit 122 1, m_unit := ''ms''\<rparr>, o_co_run_peers := []\<rparr>"

definition loop_index :: "u64 list" where
  "loop_index = [0, 1, 2, 3, 4, 5]"

subsection \<open>The scenarios\<close>

record 's scenario =
  sc_A :: 's
  sc_B :: 's
  sc_A2 :: "'s worker_proc"
  sc_obs :: impl
  sc_a_obs :: "observation list"
  sc_b_obs :: "observation list"
  sc_a_after :: "observation list"
  sc_pa :: pairwise
  sc_pb :: pairwise
  sc_pa_recovery :: pairwise
  sc_pa_stale :: pairwise

definition record_all :: "observation list \<Rightarrow> impl \<Rightarrow> impl" where
  "record_all obs s = foldl (\<lambda>s ob. snd (record_observation ob s)) s obs"

definition scenario_A :: "'s send_op \<Rightarrow> 's recv_op \<Rightarrow> 's scenario \<Rightarrow> 's scenario" where
  "scenario_A send recv v =
     (let s = snd (register_worker (Id 100) (Id 1000) ''A'' True (sc_obs v));
          s = snd (register_worker (Id 200) (Id 2000) ''B'' True s);
          s = snd (register_workload coord_wa s);
          s = snd (register_workload coord_wb s);
          ((_, got_a), A) = cmd_baseline send recv coord_ba default_baseline (sc_A v);
          ((_, got_b), B) = cmd_baseline send recv coord_bb default_baseline (sc_B v);
          s = snd (publish_baseline got_a s);
          s = snd (publish_baseline got_b s)
      in v\<lparr>sc_A := A, sc_B := B, sc_obs := s\<rparr>)"

definition corun_round :: "'s send_op \<Rightarrow> 's recv_op \<Rightarrow> 's scenario \<Rightarrow> u64 \<Rightarrow> 's scenario" where
  "corun_round send recv v i =
     (let ((_, got_oa), A) = cmd_corun send recv (coord_oa i) default_observation (sc_A v);
          ((_, got_ob), B) = cmd_corun send recv (coord_ob i) default_observation (sc_B v)
      in v\<lparr>sc_A := A, sc_B := B, sc_a_obs := sc_a_obs v @ [got_oa], sc_b_obs := sc_b_obs v @ [got_ob]\<rparr>)"

definition scenario_B :: "'s send_op \<Rightarrow> 's recv_op \<Rightarrow> 's scenario \<Rightarrow> 's scenario" where
  "scenario_B send recv v0 =
     (let v = foldl (corun_round send recv) v0 loop_index;
          s = record_all (sc_b_obs v) (record_all (sc_a_obs v) (sc_obs v));
          (pa, s) = compare coord_wa coord_wb Domain_MemoryBandwidth (sc_a_obs v) default_policy s;
          (pb, s) = compare coord_wb coord_wa Domain_MemoryBandwidth (sc_b_obs v) default_policy s
      in v\<lparr>sc_obs := s, sc_pa := pa, sc_pb := pb\<rparr>)"

definition after_round :: "'s send_op \<Rightarrow> 's recv_op \<Rightarrow> 's scenario \<Rightarrow> u64 \<Rightarrow> 's scenario" where
  "after_round send recv v i =
     (let ((_, got), A) = cmd_corun send recv (coord_oa_after i) default_observation (sc_A v)
      in v\<lparr>sc_A := A, sc_a_after := sc_a_after v @ [got]\<rparr>)"

definition scenario_C :: "'s send_op \<Rightarrow> 's recv_op \<Rightarrow> 's scenario \<Rightarrow> 's scenario" where
  "scenario_C send recv v0 =
     (let v = v0\<lparr>sc_B := snd (send_frame send Msg_ExitProcess [] (sc_B v0))\<rparr>;
          v = foldl (after_round send recv) v loop_index;
          s = record_all (sc_a_after v) (sc_obs v);
          s = snd (record_recovery (Id 10) (Id 20) Domain_MemoryBandwidth s);
          (r, s) = compare coord_wa coord_wb Domain_MemoryBandwidth (sc_a_obs v) default_policy s
      in v\<lparr>sc_obs := s, sc_pa_recovery := r\<rparr>)"

definition scenario_D ::
  "(u64 \<Rightarrow> u64 \<Rightarrow> 's worker_proc) \<Rightarrow> 's send_op \<Rightarrow> 's scenario \<Rightarrow> 's scenario" where
  "scenario_D connect send v0 =
     (let v = v0\<lparr>sc_A := snd (send_frame send Msg_ExitProcess [] (sc_A v0)), sc_A2 := connect 100 9999\<rparr>;
          s = snd (register_worker (Id 100) (Id 9999) ''A'' True (sc_obs v));
          wa2 = coord_wa\<lparr>wl_worker_boot := Id 9999, wl_worker_id := Id 100\<rparr>;
          (r, s) = compare wa2 coord_wb Domain_MemoryBandwidth (sc_a_after v) default_policy s
      in v\<lparr>sc_obs := s, sc_pa_stale := r\<rparr>)"

text \<open>Start of \<open>main\<close>: a new observatory, or one restored from a file under a new epoch; the left
  alternative is the exit code.\<close>

definition coord_start :: "string \<Rightarrow> u64 \<Rightarrow> file_system \<Rightarrow> int + impl" where
  "coord_start restart_from epoch fs =
     (let s0 = new_observatory (Id 1) (Id 1) in
      if restart_from = [] then Inr s0
      else case load restart_from fs s0 of
        (st, s) \<Rightarrow> if st \<noteq> Status_Ok then Inl 2 else Inr (set_coordinator_epoch (Id epoch) s))"

definition scenario_start :: "'s \<Rightarrow> 's \<Rightarrow> impl \<Rightarrow> 's scenario" where
  "scenario_start A B s = \<lparr>sc_A = A, sc_B = B, sc_A2 = no_worker, sc_obs = s, sc_a_obs = [], sc_b_obs = [], sc_a_after = [],
     sc_pa = default_pairwise, sc_pb = default_pairwise, sc_pa_recovery = default_pairwise,
     sc_pa_stale = default_pairwise\<rparr>"

definition run_scenarios ::
  "(u64 \<Rightarrow> u64 \<Rightarrow> 's worker_proc) \<Rightarrow> 's send_op \<Rightarrow> 's recv_op \<Rightarrow> 's scenario \<Rightarrow> 's scenario" where
  "run_scenarios connect send recv v =
     scenario_D connect send (scenario_C send recv (scenario_B send recv (scenario_A send recv v)))"

text \<open>The last command to the restarted worker.\<close>

definition exit_worker :: "'s send_op \<Rightarrow> 's worker_proc \<Rightarrow> 's worker_proc" where
  "exit_worker send w =
     (case wp_sock w of
        None \<Rightarrow> w
      | Some c \<Rightarrow> w\<lparr>wp_sock := Some (snd (send_frame send Msg_ExitProcess [] c))\<rparr>)"

text \<open>\<open>main\<close>: the exit code, the local variables at the end, and the file system after the final
  \<open>save\<close>; \<open>None\<close> is the undefined behaviour of \<open>atoi\<close> on the port. The parameter \<open>listen\<close> says whether
  \<open>socket_listen\<close> succeeds.\<close>

definition coordinator_main ::
  "(u16 \<Rightarrow> bool) \<Rightarrow> 's spawn_op \<Rightarrow> 's send_op \<Rightarrow> 's recv_op \<Rightarrow> io_faults \<Rightarrow> string list \<Rightarrow>
   file_system \<Rightarrow> (int \<times> 's scenario option \<times> file_system) option" where
  "coordinator_main listen spawn send recv io argv fs =
     (case coord_config argv of
        None \<Rightarrow> None
      | Some opts \<Rightarrow>
          Some (case coord_start (co_restart_from opts) (co_epoch opts) fs of
             Inl code \<Rightarrow> (code, None, fs)
           | Inr s \<Rightarrow>
               if \<not> listen (co_port opts) then (2, None, fs)
               else
                 let connect = connect_worker spawn recv (co_worker_exe opts) (co_port opts);
                     A = connect 100 1000; B = connect 200 2000 in
                 (case (wp_sock A, wp_sock B) of
                    (Some a, Some b) \<Rightarrow>
                      if \<not> wp_connected A \<or> \<not> wp_connected B then (3, None, fs)
                      else
                        let v = run_scenarios connect send recv (scenario_start a b s);
                            fs' = (if co_state opts = [] then fs else snd (save io (co_state opts) (sc_obs v) fs))
                        in (0, Some (v\<lparr>sc_A2 := snd (terminate_worker (exit_worker send (sc_A2 v)))\<rparr>), fs')
                  | _ \<Rightarrow> (3, None, fs))))"

subsection \<open>What the workers report\<close>

definition worker_a :: worker_state where
  "worker_a = \<lparr>ws_id = 100, ws_boot = 1000, ws_running = True\<rparr>"

definition worker_b :: worker_state where
  "worker_b = \<lparr>ws_id = 200, ws_boot = 2000, ws_running = True\<rparr>"

definition got_a :: baseline where
  "got_a = measured_baseline coord_ba worker_a"

definition got_b :: baseline where
  "got_b = measured_baseline coord_bb worker_b"

definition a_reports :: "observation list" where
  "a_reports = map (\<lambda>i. measured_observation (coord_oa i) worker_a) loop_index"

definition b_reports :: "observation list" where
  "b_reports = map (\<lambda>i. measured_observation (coord_ob i) worker_b) loop_index"

definition a_after_reports :: "observation list" where
  "a_after_reports = map (\<lambda>i. measured_observation (coord_oa_after i) worker_a) loop_index"

lemma requests_small:
  "small_baseline coord_ba" "small_baseline coord_bb"
  "small_corun (coord_oa i)" "small_corun (coord_ob i)" "small_corun (coord_oa_after i)"
  by (simp_all add: small_baseline_def small_corun_def request_ok_def corun_ok_def coord_ba_def coord_bb_def
      coord_oa_def coord_ob_def coord_oa_after_def str_ok_def canonical_def metric_kind_of_u8_def
      default_observation_def default_measurement_def)

text \<open>Both connections idle, with the two workers as spawned at the other end.\<close>

definition links_ready :: "('s \<Rightarrow> bool) \<Rightarrow> ('s \<Rightarrow> worker_state) \<Rightarrow> 's scenario \<Rightarrow> bool" where
  "links_ready idle worker v \<longleftrightarrow> idle (sc_A v) \<and> worker (sc_A v) = worker_a \<and> idle (sc_B v) \<and> worker (sc_B v) = worker_b"

text \<open>The observatory after scenario A, as a function of the observatory before.\<close>

definition ingested :: "impl \<Rightarrow> impl" where
  "ingested s = snd (publish_baseline got_b (snd (publish_baseline got_a
     (snd (register_workload coord_wb (snd (register_workload coord_wa
     (snd (register_worker (Id 200) (Id 2000) ''B'' True
     (snd (register_worker (Id 100) (Id 1000) ''A'' True s)))))))))))"

context worker_link
begin

lemma scenario_A_ingests:
  assumes "links_ready idle worker v"
  shows "links_ready idle worker (scenario_A send recv v) \<and>
    (\<exists>A B. scenario_A send recv v = v\<lparr>sc_A := A, sc_B := B, sc_obs := ingested (sc_obs v)\<rparr>)"
proof -
  have r: "ws_running (worker (sc_A v))" "ws_running (worker (sc_B v))"
    using assms by (simp_all add: links_ready_def worker_a_def worker_b_def)
  obtain A where A: "cmd_baseline send recv coord_ba default_baseline (sc_A v) = ((True, got_a), A)"
    "idle A" "worker A = worker_a"
    using cmd_baseline_answered [OF _ r(1) requests_small(1), of default_baseline] assms
    by (auto simp: links_ready_def got_a_def)
  obtain B where B: "cmd_baseline send recv coord_bb default_baseline (sc_B v) = ((True, got_b), B)"
    "idle B" "worker B = worker_b"
    using cmd_baseline_answered [OF _ r(2) requests_small(2), of default_baseline] assms
    by (auto simp: links_ready_def got_b_def)
  show ?thesis using A B by (auto simp: scenario_A_def Let_def links_ready_def ingested_def)
qed

lemma corun_rounds:
  assumes "links_ready idle worker v"
  shows "links_ready idle worker (foldl (corun_round send recv) v is) \<and>
    (\<exists>A B. foldl (corun_round send recv) v is = v\<lparr>sc_A := A, sc_B := B,
       sc_a_obs := sc_a_obs v @ map (\<lambda>i. measured_observation (coord_oa i) worker_a) is,
       sc_b_obs := sc_b_obs v @ map (\<lambda>i. measured_observation (coord_ob i) worker_b) is\<rparr>)"
  using assms
proof (induction "is" arbitrary: v)
  case Nil
  then show ?case by (simp, intro exI [of _ "sc_A v"] exI [of _ "sc_B v"]) simp
next
  case (Cons i "is")
  have r: "ws_running (worker (sc_A v))" "ws_running (worker (sc_B v))"
    using Cons.prems by (simp_all add: links_ready_def worker_a_def worker_b_def)
  obtain A where A: "cmd_corun send recv (coord_oa i) default_observation (sc_A v) =
      ((True, measured_observation (coord_oa i) worker_a), A)" "idle A" "worker A = worker_a"
    using cmd_corun_answered [OF _ r(1) requests_small(3)] Cons.prems by (auto simp: links_ready_def)
  obtain B where B: "cmd_corun send recv (coord_ob i) default_observation (sc_B v) =
      ((True, measured_observation (coord_ob i) worker_b), B)" "idle B" "worker B = worker_b"
    using cmd_corun_answered [OF _ r(2) requests_small(4)] Cons.prems by (auto simp: links_ready_def)
  let ?v = "corun_round send recv v i"
  have v: "?v = v\<lparr>sc_A := A, sc_B := B, sc_a_obs := sc_a_obs v @ [measured_observation (coord_oa i) worker_a],
      sc_b_obs := sc_b_obs v @ [measured_observation (coord_ob i) worker_b]\<rparr>"
    using A(1) B(1) by (simp add: corun_round_def)
  have "links_ready idle worker ?v" using A B by (simp add: v links_ready_def)
  from Cons.IH [OF this] show ?case by (auto simp: v)
qed

lemma after_rounds:
  assumes "idle (sc_A v)" "worker (sc_A v) = worker_a"
  shows "\<exists>A. foldl (after_round send recv) v is = v\<lparr>sc_A := A,
      sc_a_after := sc_a_after v @ map (\<lambda>i. measured_observation (coord_oa_after i) worker_a) is\<rparr>"
  using assms
proof (induction "is" arbitrary: v)
  case Nil
  then show ?case by (simp, intro exI [of _ "sc_A v"]) simp
next
  case (Cons i "is")
  have r: "ws_running (worker (sc_A v))" using Cons.prems by (simp add: worker_a_def)
  obtain A where A: "cmd_corun send recv (coord_oa_after i) default_observation (sc_A v) =
      ((True, measured_observation (coord_oa_after i) worker_a), A)" "idle A" "worker A = worker_a"
    using cmd_corun_answered [OF _ r requests_small(5)] Cons.prems by auto
  let ?v = "after_round send recv v i"
  have v: "?v = v\<lparr>sc_A := A, sc_a_after := sc_a_after v @ [measured_observation (coord_oa_after i) worker_a]\<rparr>"
    using A(1) by (simp add: after_round_def)
  from Cons.IH [of ?v] A show ?case by (auto simp: v)
qed

end

subsection \<open>The comparisons of the scenarios\<close>

lemma record_all_frame:
  "i_baselines (record_all obs s) = i_baselines s" "i_recoveries (record_all obs s) = i_recoveries s"
proof -
  have "i_baselines (snd (record_observation ob s)) = i_baselines s"
    "i_recoveries (snd (record_observation ob s)) = i_recoveries s" for ob s
    by (simp_all add: record_unfold split: option.split)
  then show "i_baselines (record_all obs s) = i_baselines s" "i_recoveries (record_all obs s) = i_recoveries s"
    by (induction obs arbitrary: s) (simp_all add: record_all_def)
qed

lemma scenario_select:
  "fst (select_baseline coord_wa [(Id 700, got_a), (Id 701, got_b)]) = Some got_a"
  "fst (select_baseline coord_wb [(Id 700, got_a), (Id 701, got_b)]) = Some got_b"
  by code_simp+

lemma scenario_fresh:
  "snd (freshness_window got_a (last_timestamp a_reports) default_policy)"
  "snd (freshness_window got_b (last_timestamp b_reports) default_policy)"
  by code_simp+

lemma scenario_samples:
  "min_samples default_policy \<le> of_nat (length (filter (counted coord_wa got_a) a_reports))"
  "min_samples default_policy \<le> of_nat (length (filter (counted coord_wb got_b) b_reports))"
  by code_simp+

lemma default_policy_valid: "policy_isValid default_policy"
  by code_simp

lemma scenario_evidence:
  assumes "i_baselines s = [(Id 700, got_a), (Id 701, got_b)]"
  shows "evidence_ok coord_wa a_reports default_policy s got_a"
    "evidence_ok coord_wb b_reports default_policy s got_b"
  unfolding evidence_ok_def assms
  by (simp_all only: scenario_select scenario_fresh scenario_samples default_policy_valid)

lemma scenario_confounders:
  "fst (analyse_confounders coord_wa a_reports) = []" "fst (analyse_confounders coord_wb b_reports) = []"
  by code_simp+

lemma scenario_overlap:
  "overlapping coord_wa coord_wb got_a a_reports" "overlapping coord_wb coord_wa got_b b_reports"
  by code_simp+

lemma scenario_magnitude:
  "classify_outcome (scored_magnitude coord_wa a_reports got_a) default_policy = Outcome_InterferenceDetected"
  "classify_outcome (scored_magnitude coord_wb b_reports got_b) default_policy = Outcome_InterferenceDetected"
  by code_simp+

lemma register_baselines [simp]:
  "i_baselines (snd (register_worker wid boot name conn s)) = i_baselines s"
  "i_baselines (snd (register_workload w s)) = i_baselines s"
  "i_recoveries (snd (register_worker wid boot name conn s)) = i_recoveries s"
  "i_recoveries (snd (register_workload w s)) = i_recoveries s"
  by (simp_all add: register_worker_def register_workload_def split: option.split)

lemma got_publishable:
  "publishable got_a" "publishable got_b" "stored_form got_a = got_a" "stored_form got_b = got_b"
  "b_id got_a = Id 700" "b_id got_b = Id 701"
  by code_simp+

lemma publish_baselines:
  "i_baselines (snd (publish_baseline b s)) =
     (if publishable b \<and> map_find (i_baselines s) (b_id b) = None
      then map_assign (i_baselines s) (b_id b) (stored_form b) else i_baselines s)"
  "i_recoveries (snd (publish_baseline b s)) = i_recoveries s"
  by (simp_all add: publish_state)

lemma ingested_baselines:
  assumes "i_baselines s = []"
  shows "i_baselines (ingested s) = [(Id 700, got_a), (Id 701, got_b)]"
  by (simp add: ingested_def publish_baselines assms got_publishable less_id_def map_find_def)

lemma ingested_recoveries: "i_recoveries (ingested s) = i_recoveries s"
  by (simp add: ingested_def publish_baselines)

text \<open>The restarted worker's boot id is not the one the stored baselines are bound to.\<close>

lemma scenario_new_boot:
  assumes "i_baselines s = [(Id 700, got_a), (Id 701, got_b)]"
  shows "p_outcome (fst (compare (coord_wa\<lparr>wl_worker_boot := Id 9999, wl_worker_id := Id 100\<rparr>) coord_wb
    Domain_MemoryBandwidth obs default_policy s)) = Outcome_BaselineInvalid"
proof -
  let ?w = "coord_wa\<lparr>wl_worker_boot := Id 9999, wl_worker_id := Id 100\<rparr>"
  have "select_baseline ?w [(Id 700, got_a), (Id 701, got_b)] = (None, Some got_a)" "policy_isValid default_policy"
    by code_simp+
  then show ?thesis by (simp add: compare_def Let_def assms)
qed

text \<open>Both comparisons of a direction on a state that holds the two reported baselines.\<close>

lemma scenario_verdicts:
  assumes "i_baselines s = [(Id 700, got_a), (Id 701, got_b)]"
  shows "p_outcome (fst (compare coord_wa coord_wb d a_reports default_policy s)) = Outcome_InterferenceDetected"
    "p_outcome (fst (compare coord_wb coord_wa d b_reports default_policy s)) = Outcome_InterferenceDetected"
    "p_attribution (fst (compare coord_wa coord_wb d a_reports default_policy s)) =
       (if (Id 10, Id 20, d) \<in> set (i_recoveries s) then Attribution_StrongCounterfactualEvidence
        else Attribution_ControlledComparison)"
    "p_attribution (fst (compare coord_wb coord_wa d b_reports default_policy s)) =
       (if (Id 20, Id 10, d) \<in> set (i_recoveries s) then Attribution_StrongCounterfactualEvidence
        else Attribution_ControlledComparison)"
proof -
  have ids: "wl_id coord_wa = Id 10" "wl_id coord_wb = Id 20" by (simp_all add: coord_wa_def coord_wb_def)
  note ev = scenario_evidence [OF assms]
  note ss = commit_fst scored_outcome scored_attribution scenario_overlap scenario_magnitude scenario_confounders
    attribution_of_def ids
  show "p_outcome (fst (compare coord_wa coord_wb d a_reports default_policy s)) = Outcome_InterferenceDetected"
    "p_attribution (fst (compare coord_wa coord_wb d a_reports default_policy s)) =
       (if (Id 10, Id 20, d) \<in> set (i_recoveries s) then Attribution_StrongCounterfactualEvidence
        else Attribution_ControlledComparison)"
    by (simp_all add: compare_scored [OF ev(1)] ss)
  show "p_outcome (fst (compare coord_wb coord_wa d b_reports default_policy s)) = Outcome_InterferenceDetected"
    "p_attribution (fst (compare coord_wb coord_wa d b_reports default_policy s)) =
       (if (Id 20, Id 10, d) \<in> set (i_recoveries s) then Attribution_StrongCounterfactualEvidence
        else Attribution_ControlledComparison)"
    by (simp_all add: compare_scored [OF ev(2)] ss)
qed

text \<open>The observatory after scenarios B and C, as functions of the one before.\<close>

definition compared :: "impl \<Rightarrow> impl" where
  "compared s = snd (compare coord_wb coord_wa Domain_MemoryBandwidth b_reports default_policy
     (snd (compare coord_wa coord_wb Domain_MemoryBandwidth a_reports default_policy
       (record_all b_reports (record_all a_reports s)))))"

definition recovered :: "impl \<Rightarrow> impl" where
  "recovered s = snd (record_recovery (Id 10) (Id 20) Domain_MemoryBandwidth (record_all a_after_reports s))"

definition verdict_a :: "impl \<Rightarrow> pairwise" where
  "verdict_a s = fst (compare coord_wa coord_wb Domain_MemoryBandwidth a_reports default_policy
     (record_all b_reports (record_all a_reports s)))"

definition verdict_b :: "impl \<Rightarrow> pairwise" where
  "verdict_b s = fst (compare coord_wb coord_wa Domain_MemoryBandwidth b_reports default_policy
     (snd (compare coord_wa coord_wb Domain_MemoryBandwidth a_reports default_policy
       (record_all b_reports (record_all a_reports s)))))"

lemma compared_frame:
  "i_baselines (compared s) = i_baselines s" "i_recoveries (compared s) = i_recoveries s"
  by (simp_all add: compared_def compare_frame record_all_frame)

lemma recovered_frame:
  "i_baselines (recovered s) = i_baselines s"
  "set (i_recoveries (recovered s)) = insert (Id 10, Id 20, Domain_MemoryBandwidth) (set (i_recoveries s))"
  by (simp_all add: recovered_def record_recovery_def id_is_nil_def record_all_frame)

lemma scenario_verdicts_fresh:
  assumes "i_baselines s = [(Id 700, got_a), (Id 701, got_b)]" "i_recoveries s = []"
  shows "p_outcome (verdict_a s) = Outcome_InterferenceDetected" "p_attribution (verdict_a s) = Attribution_ControlledComparison"
    "p_outcome (verdict_b s) = Outcome_InterferenceDetected" "p_attribution (verdict_b s) = Attribution_ControlledComparison"
    "p_outcome (fst (compare coord_wa coord_wb Domain_MemoryBandwidth a_reports default_policy
       (recovered (compared s)))) = Outcome_InterferenceDetected"
    "p_attribution (fst (compare coord_wa coord_wb Domain_MemoryBandwidth a_reports default_policy
       (recovered (compared s)))) = Attribution_StrongCounterfactualEvidence"
  using assms
  by (simp_all add: verdict_a_def verdict_b_def scenario_verdicts record_all_frame compare_frame
      recovered_frame compared_frame)

context worker_link
begin

lemma run_to_B:
  assumes "links_ready idle worker (scenario_start A B s)"
  shows "\<exists>A' B'. idle A' \<and> worker A' = worker_a \<and>
    scenario_B send recv (scenario_A send recv (scenario_start A B s)) =
      (scenario_start A' B' (compared (ingested s)))\<lparr>sc_a_obs := a_reports, sc_b_obs := b_reports,
        sc_pa := verdict_a (ingested s), sc_pb := verdict_b (ingested s)\<rparr>"
proof -
  let ?v0 = "scenario_start A B s"
  obtain A1 B1 where v1: "scenario_A send recv ?v0 = ?v0\<lparr>sc_A := A1, sc_B := B1, sc_obs := ingested s\<rparr>"
    and r1: "links_ready idle worker (scenario_A send recv ?v0)"
    using scenario_A_ingests [OF assms] by (auto simp: scenario_start_def)
  obtain A2 B2 where f2: "foldl (corun_round send recv) (scenario_A send recv ?v0) loop_index =
      (scenario_start A2 B2 (ingested s))\<lparr>sc_a_obs := a_reports, sc_b_obs := b_reports\<rparr>"
    and r2: "idle A2" "worker A2 = worker_a"
    using corun_rounds [OF r1, of loop_index] unfolding v1
    by (auto simp: links_ready_def scenario_start_def a_reports_def b_reports_def)
  have "scenario_B send recv (scenario_A send recv ?v0) =
      (scenario_start A2 B2 (compared (ingested s)))\<lparr>sc_a_obs := a_reports, sc_b_obs := b_reports,
        sc_pa := verdict_a (ingested s), sc_pb := verdict_b (ingested s)\<rparr>"
    unfolding scenario_B_def f2
    by (simp add: Let_def case_prod_beta compared_def verdict_a_def verdict_b_def scenario_start_def)
  with r2 show ?thesis by blast
qed

lemma run_to_C:
  assumes "idle (sc_A v)" "worker (sc_A v) = worker_a" "sc_a_after v = []" "sc_a_obs v = a_reports"
  shows "\<exists>A' B'. scenario_C send recv v = v\<lparr>sc_A := A', sc_B := B', sc_a_after := a_after_reports,
    sc_obs := snd (compare coord_wa coord_wb Domain_MemoryBandwidth a_reports default_policy (recovered (sc_obs v))),
    sc_pa_recovery := fst (compare coord_wa coord_wb Domain_MemoryBandwidth a_reports default_policy (recovered (sc_obs v)))\<rparr>"
proof -
  let ?v = "v\<lparr>sc_B := snd (send_frame send Msg_ExitProcess [] (sc_B v))\<rparr>"
  obtain A' where f: "foldl (after_round send recv) ?v loop_index = ?v\<lparr>sc_A := A', sc_a_after := a_after_reports\<rparr>"
    using after_rounds [of ?v loop_index] assms by (auto simp: a_after_reports_def)
  show ?thesis unfolding scenario_C_def Let_def f
    by (intro exI [of _ A'] exI [of _ "sc_B ?v"]) (simp add: case_prod_beta recovered_def assms(4))
qed

lemma run_steps:
  fixes connect
  assumes "links_ready idle worker (scenario_start A B s)"
  defines "v \<equiv> run_scenarios connect send recv (scenario_start A B s)" and "s1 \<equiv> ingested s"
  shows "sc_pa v = verdict_a s1" "sc_pb v = verdict_b s1" "sc_A2 v = connect 100 9999"
    "sc_pa_recovery v = fst (compare coord_wa coord_wb Domain_MemoryBandwidth a_reports default_policy
      (recovered (compared s1)))"
    "\<exists>s2. i_baselines s2 = i_baselines s1 \<and>
       sc_pa_stale v = fst (compare (coord_wa\<lparr>wl_worker_boot := Id 9999, wl_worker_id := Id 100\<rparr>) coord_wb
         Domain_MemoryBandwidth a_after_reports default_policy s2)"
proof -
  obtain A' B' where "idle A'" "worker A' = worker_a" and B: "scenario_B send recv (scenario_A send recv
      (scenario_start A B s)) = (scenario_start A' B' (compared s1))\<lparr>sc_a_obs := a_reports, sc_b_obs := b_reports,
        sc_pa := verdict_a s1, sc_pb := verdict_b s1\<rparr>"
    using run_to_B [OF assms(1)] by (auto simp: s1_def)
  then obtain A'' B'' s3 where C: "scenario_C send recv (scenario_B send recv (scenario_A send recv
      (scenario_start A B s))) = (scenario_start A'' B'' s3)\<lparr>sc_a_obs := a_reports, sc_b_obs := b_reports,
        sc_pa := verdict_a s1, sc_pb := verdict_b s1, sc_a_after := a_after_reports, sc_pa_recovery :=
        fst (compare coord_wa coord_wb Domain_MemoryBandwidth a_reports default_policy (recovered (compared s1)))\<rparr>"
    and s3: "i_baselines s3 = i_baselines s1"
    using run_to_C [of "scenario_B send recv (scenario_A send recv (scenario_start A B s))"] unfolding B
    by (auto simp: scenario_start_def compare_frame recovered_frame compared_frame)
  show "sc_pa v = verdict_a s1" "sc_pb v = verdict_b s1" "sc_A2 v = connect 100 9999" "sc_pa_recovery v =
      fst (compare coord_wa coord_wb Domain_MemoryBandwidth a_reports default_policy (recovered (compared s1)))"
    unfolding v_def run_scenarios_def C by (simp_all add: scenario_D_def Let_def case_prod_beta)
  have "i_baselines (snd (register_worker (Id 100) (Id 9999) ''A'' True s3)) = i_baselines s1" by (simp add: s3)
  then show "\<exists>s2. i_baselines s2 = i_baselines s1 \<and>
       sc_pa_stale v = fst (compare (coord_wa\<lparr>wl_worker_boot := Id 9999, wl_worker_id := Id 100\<rparr>) coord_wb
         Domain_MemoryBandwidth a_after_reports default_policy s2)"
    unfolding v_def run_scenarios_def C
    by (intro exI conjI) (assumption, simp add: scenario_D_def Let_def case_prod_beta scenario_start_def)
qed

end

subsection \<open>The whole run\<close>

text \<open>Spawned workers connect, announce themselves and wait for requests.\<close>

definition spawns_workers :: "link spawn_op \<Rightarrow> coord_options \<Rightarrow> bool" where
  "spawns_workers spawn opts \<longleftrightarrow> (\<forall>k boot. \<exists>c.
     spawn (spawn_args (co_worker_exe opts) ''127.0.0.1'' (co_port opts) k boot) = Some c \<and> fst (lk_out c) = [] \<and>
     concat (lk_in c) = frame_bytes Msg_Hello (hello_payload k boot) \<and>
     lk_worker c = \<lparr>ws_id = k, ws_boot = boot, ws_running = True\<rparr>)"

lemma accept_hello_payload:
  "accept_hello (Some \<lparr>f_type = Msg_Hello, f_payload = hello_payload k boot\<rparr>) = Some (k, boot)"
proof -
  have "parses (do { k \<leftarrow> r_u64; boot \<leftarrow> r_u64; State_Monad.return (k, boot) }) (w_u64 k @ w_u64 boot) (k, boot)"
    by (rule read_intros | simp)+
  from parsesD [OF this, of "reader_of (hello_payload k boot)" "w_str (''worker-'' @ decimal (unat k))"]
  show ?thesis by (simp add: accept_hello_def hello_payload_def rd_at_def reader_of_def)
qed

lemma connect_worker_ready:
  assumes "spawns_workers spawn opts"
  shows "\<exists>c. connect_worker spawn link_recv (co_worker_exe opts) (co_port opts) k boot =
      \<lparr>wp_pid = -1, wp_sock = Some c, wp_id = k, wp_boot = boot, wp_connected = True\<rparr> \<and>
    link_idle c \<and> lk_worker c = \<lparr>ws_id = k, ws_boot = boot, ws_running = True\<rparr>"
proof -
  obtain c where c: "spawn (spawn_args (co_worker_exe opts) ''127.0.0.1'' (co_port opts) k boot) = Some c"
    "fst (lk_out c) = []" "concat (lk_in c) = frame_bytes Msg_Hello (hello_payload k boot) @ []"
    "lk_worker c = \<lparr>ws_id = k, ws_boot = boot, ws_running = True\<rparr>"
    using assms(1) unfolding spawns_workers_def by (metis append_Nil2)
  from link_stream.recv_frame_ok [OF c(3) hello_small] obtain c' where
    r: "recv_frame link_recv c = (Inr \<lparr>f_type = Msg_Hello, f_payload = hello_payload k boot\<rparr>, c')" "concat (lk_in c') = []"
    using msg_request_canonical(5) by (auto simp: msg_canonical_def)
  then show ?thesis
    using link_recv_frame_keeps [OF r(1)] c
    by (auto simp: connect_worker_def accept_one_def no_worker_def accept_hello_payload link_idle_def)
qed

lemma coordinator_runs:
  assumes "coord_config argv = Some opts" "listen (co_port opts)" "spawns_workers spawn opts"
    and "coord_start (co_restart_from opts) (co_epoch opts) fs = Inr s"
  defines "connect \<equiv> connect_worker spawn link_recv (co_worker_exe opts) (co_port opts)"
  shows "\<exists>A B v fs'. links_ready link_idle lk_worker (scenario_start A B s) \<and>
    v = run_scenarios connect link_send link_recv (scenario_start A B s) \<and>
    coordinator_main listen spawn link_send link_recv io argv fs =
      Some (0, Some (v\<lparr>sc_A2 := snd (terminate_worker (exit_worker link_send (connect 100 9999)))\<rparr>), fs')"
proof -
  obtain A where A: "connect 100 1000 =
      \<lparr>wp_pid = -1, wp_sock = Some A, wp_id = 100, wp_boot = 1000, wp_connected = True\<rparr>" "link_idle A" "lk_worker A = worker_a"
    using connect_worker_ready [OF assms(3), of 100 1000] by (auto simp: worker_a_def connect_def)
  obtain B where B: "connect 200 2000 =
      \<lparr>wp_pid = -1, wp_sock = Some B, wp_id = 200, wp_boot = 2000, wp_connected = True\<rparr>" "link_idle B" "lk_worker B = worker_b"
    using connect_worker_ready [OF assms(3), of 200 2000] by (auto simp: worker_b_def connect_def)
  have r: "links_ready link_idle lk_worker (scenario_start A B s)"
    using A B by (simp add: links_ready_def scenario_start_def)
  let ?v = "run_scenarios connect link_send link_recv (scenario_start A B s)"
  have "\<exists>fs'. coordinator_main listen spawn link_send link_recv io argv fs =
      Some (0, Some (?v\<lparr>sc_A2 := snd (terminate_worker (exit_worker link_send (connect 100 9999)))\<rparr>), fs')"
    using A(1) B(1) assms(1,2,4) live.run_steps(3) [OF r, of connect]
    by (simp add: coordinator_main_def Let_def connect_def [symmetric])
  with r show ?thesis by blast
qed

text \<open>C5. The distributed run does what it reports. Started without a state file, with workers that
  connect and answer however the sockets cut the data, the coordinator exits with code 0 having
  found detected interference in both directions, with controlled attribution; after the neighbour
  is removed and the recovery recorded, the comparison keeps its outcome and claims counterfactual
  evidence; the restarted worker connects with its new boot id, and for that boot the old baseline
  is rejected as invalid.\<close>

theorem coordinator_scenarios:
  assumes "coord_config argv = Some opts" "listen (co_port opts)" "spawns_workers spawn opts"
    and "co_restart_from opts = []"
  shows "\<exists>v fs'. coordinator_main listen spawn link_send link_recv io argv fs = Some (0, Some v, fs') \<and>
    p_outcome (sc_pa v) = Outcome_InterferenceDetected \<and> p_attribution (sc_pa v) = Attribution_ControlledComparison \<and>
    p_outcome (sc_pb v) = Outcome_InterferenceDetected \<and> p_attribution (sc_pb v) = Attribution_ControlledComparison \<and>
    p_outcome (sc_pa_recovery v) = Outcome_InterferenceDetected \<and>
    p_attribution (sc_pa_recovery v) = Attribution_StrongCounterfactualEvidence \<and>
    p_outcome (sc_pa_stale v) = Outcome_BaselineInvalid \<and> wp_connected (sc_A2 v) \<and> wp_boot (sc_A2 v) = 9999"
proof -
  let ?s = "new_observatory (Id 1) (Id 1)"
  let ?c = "connect_worker spawn link_recv (co_worker_exe opts) (co_port opts)"
  have "coord_start (co_restart_from opts) (co_epoch opts) fs = Inr ?s" by (simp add: coord_start_def assms(4))
  from coordinator_runs [where listen = listen and io = io, OF assms(1-3) this] obtain A B v fs' where
    r: "links_ready link_idle lk_worker (scenario_start A B ?s)"
    and v: "v = run_scenarios ?c link_send link_recv (scenario_start A B ?s)"
    and m: "coordinator_main listen spawn link_send link_recv io argv fs =
      Some (0, Some (v\<lparr>sc_A2 := snd (terminate_worker (exit_worker link_send (?c 100 9999)))\<rparr>), fs')" by blast
  note st = live.run_steps [OF r, of ?c, folded v]
  have b: "i_baselines (ingested ?s) = [(Id 700, got_a), (Id 701, got_b)]" "i_recoveries (ingested ?s) = []"
    by (simp_all add: ingested_baselines ingested_recoveries new_observatory_def)
  note sv = scenario_verdicts_fresh [OF b]
  have "p_outcome (sc_pa_stale v) = Outcome_BaselineInvalid" using st(5) b(1) scenario_new_boot by auto
  moreover have "wp_connected (snd (terminate_worker (exit_worker link_send (?c 100 9999)))) \<and>
      wp_boot (snd (terminate_worker (exit_worker link_send (?c 100 9999)))) = 9999"
    using connect_worker_ready [OF assms(3), of 100 9999] by (auto simp: exit_worker_def terminate_worker_def)
  ultimately show ?thesis unfolding m using sv by (simp add: st(1,2,4))
qed

text \<open>A system in which every started worker connects and sends its greeting in two pieces.\<close>

definition ex_spawn :: "link spawn_op" where
  "ex_spawn argv = (case worker_config argv of
     Some (Inr (host, port, k, boot)) \<Rightarrow>
       (let greeting = frame_bytes Msg_Hello (hello_payload k boot) in
        Some \<lparr>lk_in = [take 5 greeting, drop 5 greeting], lk_out = ([], [1, 1]), lk_cuts = [3],
          lk_worker = \<lparr>ws_id = k, ws_boot = boot, ws_running = True\<rparr>\<rparr>)
   | _ \<Rightarrow> None)"

lemma ex_spawns:
  "co_worker_exe opts \<notin> {''--connect'', ''--id'', ''--boot''} \<Longrightarrow> 0 < co_port opts \<Longrightarrow> spawns_workers ex_spawn opts"
  by (simp add: spawns_workers_def ex_spawn_def worker_config_spawned Let_def)

lemma default_port: "arg_value argv key (decimal (unat port)) = decimal (unat port) \<Longrightarrow> arg_port argv key port = Some port"
  by (simp add: arg_port_def)

theorem coordinator_scenarios_witness:
  "\<exists>v fs'. coordinator_main (\<lambda>_. True) ex_spawn link_send link_recv no_faults [''io-coordinator''] (\<lambda>_. None) =
      Some (0, Some v, fs') \<and>
    p_outcome (sc_pa v) = Outcome_InterferenceDetected \<and> p_attribution (sc_pa v) = Attribution_ControlledComparison \<and>
    p_outcome (sc_pb v) = Outcome_InterferenceDetected \<and> p_attribution (sc_pb v) = Attribution_ControlledComparison \<and>
    p_outcome (sc_pa_recovery v) = Outcome_InterferenceDetected \<and>
    p_attribution (sc_pa_recovery v) = Attribution_StrongCounterfactualEvidence \<and>
    p_outcome (sc_pa_stale v) = Outcome_BaselineInvalid \<and> wp_connected (sc_A2 v) \<and> wp_boot (sc_A2 v) = 9999"
proof -
  have "arg_port [''io-coordinator''] ''--port'' 39000 = Some 39000" by (rule default_port) simp
  then have c: "coord_config [''io-coordinator''] = Some \<lparr>co_state = ''iobs-dist.bin'', co_worker_exe = ''io-worker'',
      co_port = 39000, co_epoch = parse_u64 ''1'', co_restart_from = []\<rparr>" by (simp add: coord_config_def)
  have "0 < (39000 :: u16)" by code_simp
  then show ?thesis by (intro coordinator_scenarios [OF c]) (simp_all add: ex_spawns)
qed

subsection \<open>Restarting the coordinator\<close>

definition withdrawn_a :: baseline where
  "withdrawn_a = got_a\<lparr>b_freshness := Freshness_RevalidationRequired\<rparr>"

definition withdrawn_b :: baseline where
  "withdrawn_b = got_b\<lparr>b_freshness := Freshness_RevalidationRequired\<rparr>"

lemma restart_baselines:
  assumes "i_baselines s = [(Id 700, got_a), (Id 701, got_b)]" "i_epoch s \<noteq> e"
  shows "i_baselines (ingested (set_coordinator_epoch e s)) = [(Id 700, withdrawn_a), (Id 701, withdrawn_b)]"
proof -
  have "revalidate_baseline got_a = withdrawn_a" "revalidate_baseline got_b = withdrawn_b" by code_simp+
  then have "i_baselines (set_coordinator_epoch e s) = [(Id 700, withdrawn_a), (Id 701, withdrawn_b)]"
    using assms by (simp add: set_coordinator_epoch_def map_update_all_def)
  then show ?thesis
    by (simp add: ingested_def publish_baselines got_publishable map_find_def)
qed

lemma restart_outcomes:
  assumes "i_baselines s = [(Id 700, withdrawn_a), (Id 701, withdrawn_b)]"
  shows "p_outcome (fst (compare coord_wa coord_wb d obs default_policy s)) = Outcome_RevalidationRequired"
    "p_outcome (fst (compare coord_wb coord_wa d obs default_policy s)) = Outcome_RevalidationRequired"
proof -
  have "select_baseline coord_wa [(Id 700, withdrawn_a), (Id 701, withdrawn_b)] = (Some withdrawn_a, Some withdrawn_a)"
    "select_baseline coord_wb [(Id 700, withdrawn_a), (Id 701, withdrawn_b)] = (Some withdrawn_b, Some withdrawn_b)"
    by code_simp+
  moreover have "b_freshness withdrawn_a = Freshness_RevalidationRequired"
    "b_freshness withdrawn_b = Freshness_RevalidationRequired" by (simp_all add: withdrawn_a_def withdrawn_b_def)
  ultimately show "p_outcome (fst (compare coord_wa coord_wb d obs default_policy s)) = Outcome_RevalidationRequired"
    "p_outcome (fst (compare coord_wb coord_wa d obs default_policy s)) = Outcome_RevalidationRequired"
    by (simp_all add: compare_def Let_def assms freshness_window_def default_policy_valid)
qed

text \<open>C14. A restarted coordinator cannot use the workers it has. When it restores a state that holds the
  baselines of an earlier run, under a new epoch, and its workers report their baselines again,
  under the same ids, both comparisons still answer that revalidation is required: the second
  publication is taken for a duplicate and does not make the evidence current again.\<close>

theorem coordinator_restart_stays_withdrawn:
  assumes "coord_config argv = Some opts" "listen (co_port opts)" "spawns_workers spawn opts"
    and "co_restart_from opts \<noteq> []"
    and "load (co_restart_from opts) fs (new_observatory (Id 1) (Id 1)) = (Status_Ok, s0)"
    and "i_baselines s0 = [(Id 700, got_a), (Id 701, got_b)]" "i_epoch s0 \<noteq> Id (co_epoch opts)"
  shows "\<exists>v fs'. coordinator_main listen spawn link_send link_recv io argv fs = Some (0, Some v, fs') \<and>
    p_outcome (sc_pa v) = Outcome_RevalidationRequired \<and> p_outcome (sc_pb v) = Outcome_RevalidationRequired"
proof -
  let ?s = "set_coordinator_epoch (Id (co_epoch opts)) s0"
  let ?c = "connect_worker spawn link_recv (co_worker_exe opts) (co_port opts)"
  have "coord_start (co_restart_from opts) (co_epoch opts) fs = Inr ?s" using assms(4,5) by (simp add: coord_start_def)
  from coordinator_runs [where listen = listen and io = io, OF assms(1-3) this] obtain A B v fs' where
    r: "links_ready link_idle lk_worker (scenario_start A B ?s)"
    and v: "v = run_scenarios ?c link_send link_recv (scenario_start A B ?s)"
    and m: "coordinator_main listen spawn link_send link_recv io argv fs =
      Some (0, Some (v\<lparr>sc_A2 := snd (terminate_worker (exit_worker link_send (?c 100 9999)))\<rparr>), fs')" by blast
  note b = restart_baselines [OF assms(6,7)]
  have "p_outcome (verdict_a (ingested ?s)) = Outcome_RevalidationRequired"
    "p_outcome (verdict_b (ingested ?s)) = Outcome_RevalidationRequired"
    by (simp_all add: verdict_a_def verdict_b_def restart_outcomes record_all_frame compare_frame b)
  then show ?thesis unfolding m by (simp add: live.run_steps(1,2) [OF r, of ?c, folded v])
qed

definition ex_saved :: impl where
  "ex_saved = (new_observatory (Id 1) (Id 1))\<lparr>i_baselines := [(Id 700, got_a), (Id 701, got_b)]\<rparr>"

lemma ex_saved_ok: "serial_ok ex_saved" "length (serialize_state ex_saved) \<le> kMaxPayload"
proof -
  have ok: "baseline_ok (Id 700, got_a)" "baseline_ok (Id 701, got_b)"
    using measured_baseline_ok [of coord_ba worker_a] measured_baseline_ok [of coord_bb worker_b] requests_small(1,2)
      got_publishable(5,6) by (simp_all add: got_a_def got_b_def small_baseline_def)
  show "serial_ok ex_saved"
    using ok by (simp add: ex_saved_def new_observatory_def serial_ok_def section_ok_def count_ok_def map_inv_def
        set_inv_def less_id_def)
  show "length (serialize_state ex_saved) \<le> kMaxPayload"
    by (simp add: serialize_state_def ex_saved_def new_observatory_def w_counted_def w_baseline_def kMaxPayload_def
        got_a_def got_b_def measured_baseline_def coord_ba_def coord_bb_def)
qed

theorem coordinator_restart_stays_withdrawn_witness:
  "\<exists>fs v fs'. coordinator_main (\<lambda>_. True) ex_spawn link_send link_recv no_faults
      [''io-coordinator'', ''--restart-from'', ''a'', ''--epoch'', ''2''] fs = Some (0, Some v, fs') \<and>
    p_outcome (sc_pa v) = Outcome_RevalidationRequired \<and> p_outcome (sc_pb v) = Outcome_RevalidationRequired"
proof -
  let ?argv = "[''io-coordinator'', ''--restart-from'', ''a'', ''--epoch'', ''2'']"
  obtain bs where bs: "encode (serialize_state ex_saved) = Inr bs" using ex_saved_ok(2) by (auto simp: encode_def Let_def)
  let ?fs = "\<lambda>p. if p = ''a'' then Some bs else None" and ?t = "new_observatory (Id 1) (Id 1)"
  have l: "load ''a'' ?fs ?t = (Status_Ok, restored ex_saved ?t)" using load_saved [OF ex_saved_ok(1) bs] by simp
  have b: "i_baselines (restored ex_saved ?t) = [(Id 700, got_a), (Id 701, got_b)]" "i_epoch (restored ex_saved ?t) \<noteq> Id 2"
    by (simp_all add: restored_def ex_saved_def new_observatory_def)
  have e: "parse_u64 ''2'' = 2" by (simp add: parse_u64_def strip_sign_def is_space_def is_digit_def)
  have "arg_port ?argv ''--port'' 39000 = Some 39000" by (rule default_port) simp
  then have c: "coord_config ?argv = Some \<lparr>co_state = ''iobs-dist.bin'', co_worker_exe = ''io-worker'',
      co_port = 39000, co_epoch = 2, co_restart_from = ''a''\<rparr>" by (simp add: coord_config_def e)
  have "0 < (39000 :: u16)" by code_simp
  then show ?thesis
    using l b by (intro exI [of _ ?fs] coordinator_restart_stays_withdrawn [OF c]) (simp_all add: ex_spawns)
qed

end
