(* ===== verification/Executions.thy ===== *)
theory Executions
  imports Reload
begin

text \<open>
  Executions of observatories that save and load. \<open>reachable\<close> is the set of states that observatories
  can be in when every file they load was written by \<open>save\<close> of such an observatory, by this process or
  another, in a state the format can represent (\<open>serial_ok\<close>), or is refused by the envelope check: it is closed under \<open>obs_step\<close> and under \<open>load\<close>, into an
  observatory in any reachable state. Files that nobody saved but that carry a valid checksum are
  left out, because \<open>deserialize_state\<close> stores what they contain without validation. \<open>session_step\<close> follows
  one observatory through operations and restarts from its own file.
\<close>

subsection \<open>Reachable states\<close>

definition saved_image :: "impl \<Rightarrow> bytes \<Rightarrow> bool" where
  "saved_image t bs \<longleftrightarrow> serial_ok t \<and> encode (serialize_state t) = Inr bs"

definition refused :: "bytes option \<Rightarrow> bool" where
  "refused file \<longleftrightarrow> (case file of None \<Rightarrow> True | Some bs \<Rightarrow> bs = [] \<or> (case decode bs of Inl _ \<Rightarrow> True | Inr _ \<Rightarrow> False))"

inductive reachable :: "impl \<Rightarrow> bool" where
  reach_new: "reachable (new_observatory oid gen)"
| reach_step: "reachable s \<Longrightarrow> obs_step s s' \<Longrightarrow> reachable s'"
| reach_load: "reachable s \<Longrightarrow> reachable t \<Longrightarrow> saved_image t bs \<Longrightarrow> fs path = Some bs \<Longrightarrow>
    reachable (snd (load path fs s))"
| reach_refused: "reachable s \<Longrightarrow> refused (fs path) \<Longrightarrow> reachable (snd (load path fs s))"

lemma load_image: "saved_image t bs \<Longrightarrow> fs path = Some bs \<Longrightarrow> load path fs s = (Status_Ok, restored t s)"
  using load_saved [of t bs fs path s] by (simp add: saved_image_def)

lemma load_refused: "refused (fs path) \<Longrightarrow> load path fs s = (Status_PersistenceCorrupt, s)"
  by (auto simp: load_def refused_def split: option.splits sum.splits)

lemma reachable_steps: "obs_step\<^sup>*\<^sup>* s s' \<Longrightarrow> reachable s \<Longrightarrow> reachable s'"
  by (induction rule: rtranclp_induct) (auto intro: reach_step)

lemma restored_simps [simp]:
  "i_baselines (restored t s) = i_baselines t" "i_observations (restored t s) = i_observations t"
  "i_epoch (restored t s) = i_epoch t" "i_recoveries (restored t s) = i_recoveries t"
  "i_comparisons (restored t s) = i_comparisons t" "i_matrix (restored t s) = replay_matrix (i_matrix s) (i_comparisons t)"
  by (simp_all add: restored_def)

lemma replay_wf:
  assumes "map_wf cell_wf m" "\<forall>(c, r)\<in>set cs. comparison_wf c r"
  shows "map_wf cell_wf (replay_matrix m cs)"
  using assms
proof (induction cs arbitrary: m)
  case (Cons x cs)
  have "map_wf cell_wf (matrix_set m (cell_of (snd x)) (snd x))"
    unfolding matrix_set_def using Cons.prems(2)
    by (intro map_wf_assign [OF Cons.prems(1)]) (auto simp: cell_wf_def cell_of_def comparison_wf_def)
  with Cons show ?case by (simp add: replay_matrix_def)
qed (simp add: replay_matrix_def)

lemma wf_restored: "wf t \<Longrightarrow> wf s \<Longrightarrow> wf (restored t s)"
  using replay_wf [of "i_matrix s" "i_comparisons t"] by (auto simp: wf_def restored_def map_wf_def)

lemma reachable_is_wf: "reachable s \<Longrightarrow> wf s"
  by (induction rule: reachable.induct) (auto simp: wf_new wf_step wf_restored load_image load_refused)

text \<open>C4. Every state that an observatory can be in is well formed, when the files it loads were written
  by \<open>save\<close> of such an observatory whose state the format can represent, or are refused by the
  envelope check: whatever public operations are called, \<open>load\<close> included, all containers are ordered
  maps keyed by the id of the stored value, stored baselines and observations passed their
  validation, every recorded comparison and matrix cell carries a verdict with a confidence in [0, 1],
  a non-negative degradation, never direct resource evidence, and every episode is closed and indicates
  interference.\<close>

theorem reachable_wf:
  assumes "reachable s"
  shows "wf s"
  using assms by (rule reachable_is_wf)

lemma ex_reachable: "reachable ex_state" "reachable ex_first" "reachable ex_second"
proof -
  show 0: "reachable ex_state" using reachable_steps [OF ex_state_reachable reach_new] .
  show 1: "reachable ex_first" unfolding ex_first_def by (rule reach_step [OF 0 step_compare])
  show "reachable ex_second" unfolding ex_second_def by (rule reach_step [OF 1 step_compare])
qed

lemma ex_second_image: "\<exists>bs. saved_image ex_second bs"
  using ex_second_serial ex_second_length by (auto simp: saved_image_def encode_def Let_def)

text \<open>An observatory that loads, over a state of its own, the file another one saved.\<close>

theorem reachable_wf_witness:
  "\<exists>fs. wf (snd (load ''a'' fs ex_first)) \<and> length (i_comparisons (snd (load ''a'' fs ex_first))) = 2"
proof -
  obtain bs where bs: "saved_image ex_second bs" using ex_second_image by blast
  let ?fs = "\<lambda>p. if p = ''a'' then Some bs else None"
  have "wf (snd (load ''a'' ?fs ex_first))"
    by (rule reachable_wf) (rule reach_load [OF ex_reachable(2,3) bs], simp)
  moreover have "i_comparisons (snd (load ''a'' ?fs ex_first)) = i_comparisons ex_second"
    using load_image [OF bs, of ?fs "''a''"] by simp
  ultimately show ?thesis using ex_second_state(1) by (intro exI [of _ ?fs]) simp
qed

subsection \<open>One observatory across restarts\<close>

text \<open>A restart saves the observatory and loads that file into another object, whatever that object held.\<close>

definition obs_restart :: "impl \<Rightarrow> impl \<Rightarrow> bool" where
  "obs_restart s s' \<longleftrightarrow> (\<exists>bs fs path t. saved_image s bs \<and> fs path = Some bs \<and> s' = snd (load path fs t))"

definition session_step :: "impl \<Rightarrow> impl \<Rightarrow> bool" where
  "session_step s s' \<longleftrightarrow> obs_step s s' \<or> obs_restart s s'"

lemma obs_restart_baselines: "obs_restart s s' \<Longrightarrow> i_baselines s' = i_baselines s"
  by (auto simp: obs_restart_def load_image)

lemma session_baselines:
  assumes "session_step s s'"
  obtains "i_baselines s' = i_baselines s"
    | "i_baselines s' = map_update_all revalidate_baseline (i_baselines s)"
    | b where "map_find (i_baselines s) (b_id b) = None" "i_baselines s' = map_assign (i_baselines s) (b_id b) (stored_form b)"
proof (cases "obs_restart s s'")
  case True
  then show ?thesis using that(1) obs_restart_baselines by blast
next
  case False
  then have "obs_step s s'" using assms by (simp add: session_step_def)
  then show ?thesis by (rule step_baselines) (use that in blast)+
qed

definition withdrawn :: "BaselineId \<Rightarrow> baseline \<Rightarrow> impl \<Rightarrow> bool" where
  "withdrawn k b s \<longleftrightarrow> map_find (i_baselines s) k = Some b \<and> b_freshness b = Freshness_RevalidationRequired"

lemma withdrawn_step: "withdrawn k b s \<Longrightarrow> session_step s s' \<Longrightarrow> withdrawn k b s'"
  by (erule session_baselines) (auto simp: withdrawn_def revalidate_baseline_def)

text \<open>C13. Withdrawal is permanent: a baseline whose freshness became RevalidationRequired keeps it,
  whatever operations other than \<open>load\<close> are called, and also across any number of restarts in which the
  observatory is saved, in a state the format can represent, and that file is loaded into an object in
  any state; in all those states the stored baseline cannot justify a verdict. (Loads of other files,
  such as one saved before the withdrawal, are not among these steps.)\<close>

theorem revalidation_is_permanent:
  assumes "session_step\<^sup>*\<^sup>* s s'" "map_find (i_baselines s) k = Some b"
    and "b_freshness b = Freshness_RevalidationRequired"
  shows "map_find (i_baselines s') k = Some b \<and> \<not> evidence_ok affected obs p s' b"
proof -
  have "withdrawn k b s" using assms(2,3) by (simp add: withdrawn_def)
  with assms(1) have "withdrawn k b s'"
    by (induction rule: rtranclp_induct) (auto intro: withdrawn_step)
  then show ?thesis by (simp add: withdrawn_def evidence_ok_def freshness_window_ok)
qed

theorem revalidation_is_permanent_witness:
  "map_find (i_baselines (snd (publish_baseline ex_baseline (set_coordinator_epoch (Id 2) ex_state)))) (Id 9) =
     Some (ex_baseline\<lparr>b_freshness := Freshness_RevalidationRequired\<rparr>)"
proof -
  have "session_step\<^sup>*\<^sup>* (set_coordinator_epoch (Id 2) ex_state)
      (snd (publish_baseline ex_baseline (set_coordinator_epoch (Id 2) ex_state)))"
    by (intro r_into_rtranclp) (simp add: session_step_def step_publish)
  moreover have "map_find (i_baselines (set_coordinator_epoch (Id 2) ex_state)) (Id 9) =
      Some (ex_baseline\<lparr>b_freshness := Freshness_RevalidationRequired\<rparr>)" by code_simp
  ultimately show ?thesis using revalidation_is_permanent by fastforce
qed

subsection \<open>After an epoch change\<close>

text \<open>What is left of the baselines stored before: the same but for the freshness, which is Current only for
  historical ones.\<close>

definition demoted :: "(BaselineId, baseline) std_map \<Rightarrow> impl \<Rightarrow> bool" where
  "demoted bs s \<longleftrightarrow> map_inv (i_baselines s) \<and> (\<forall>k b. map_find bs k = Some b \<longrightarrow>
     (\<exists>c. map_find (i_baselines s) k = Some c \<and> same_but_freshness b c \<and>
        (b_freshness c = Freshness_Current \<longrightarrow> b_type b = BaselineType_HistoricalIsolated)))"

lemma demotedD:
  assumes "demoted bs s" "map_find bs k = Some b"
  obtains c where "map_find (i_baselines s) k = Some c" "same_but_freshness b c"
    "b_freshness c = Freshness_Current \<Longrightarrow> b_type b = BaselineType_HistoricalIsolated"
  using assms unfolding demoted_def by blast

lemma demoted_epoch: "map_inv (i_baselines s) \<Longrightarrow> e \<noteq> i_epoch s \<Longrightarrow> demoted (i_baselines s) (set_coordinator_epoch e s)"
  using revalidate_baseline_keeps(4) by (auto simp: demoted_def set_epoch_baselines)

lemma same_but_freshness_fields:
  assumes "same_but_freshness b c"
  shows "b_type c = b_type b" "concerns w c = concerns w b"
proof -
  note c = assms [unfolded same_but_freshness_def]
  show "b_type c = b_type b" by (subst c) simp
  show "concerns w c = concerns w b" by (subst c) (simp add: concerns_def)
qed

lemma demoted_revalidate:
  assumes "same_but_freshness b c" "b_freshness c = Freshness_Current \<longrightarrow> b_type b = BaselineType_HistoricalIsolated"
  shows "same_but_freshness b (revalidate_baseline c)"
    "b_freshness (revalidate_baseline c) = Freshness_Current \<longrightarrow> b_type b = BaselineType_HistoricalIsolated"
proof -
  show "same_but_freshness b (revalidate_baseline c)"
    using same_but_freshness_trans [OF assms(1) same_but_freshness_revalidate] .
  show "b_freshness (revalidate_baseline c) = Freshness_Current \<longrightarrow> b_type b = BaselineType_HistoricalIsolated"
    using revalidate_baseline_keeps(4) [of c] same_but_freshness_fields(1) [OF assms(1)] by simp
qed

lemma demoted_step:
  assumes "demoted bs s" "session_step s s'"
  shows "demoted bs s'"
  using assms(2)
proof (cases rule: session_baselines)
  case 1
  then show ?thesis using assms(1) by (simp add: demoted_def)
next
  case 2
  then show ?thesis using assms(1) demoted_revalidate unfolding demoted_def by fastforce
next
  case (3 b)
  have "map_find bs k \<noteq> None \<Longrightarrow> k \<noteq> b_id b" for k using 3(1) by (auto elim: demotedD [OF assms(1)])
  then show ?thesis using assms(1) unfolding demoted_def 3(2) by (simp add: map_inv_assign)
qed

text \<open>C12. Advancing the coordinator epoch withdraws current evidence: as long as no new baseline has been
  stored, in every state that operations other than \<open>load\<close> and restarts from the observatory's own file,
  saved in a state the format can represent, lead to from a reachable state, no comparison reaches a verdict unless a baseline of type HistoricalIsolated was stored for the
  victim before the change. (Stored baselines are never removed, so that the set of baseline ids is
  unchanged says that none was stored.)\<close>

theorem epoch_advance_withdraws:
  assumes "reachable s" "e \<noteq> i_epoch s" "session_step\<^sup>*\<^sup>* (set_coordinator_epoch e s) s'"
    and "fst ` set (i_baselines s') = fst ` set (i_baselines s)"
    and "p_outcome (fst (compare affected associated domain obs p s')) \<in> verdicts"
  shows "\<exists>b\<in>snd ` set (i_baselines s). concerns affected b \<and> b_type b = BaselineType_HistoricalIsolated"
proof -
  have inv: "map_inv (i_baselines s)" using reachable_is_wf [OF assms(1)] by (simp add: wf_def map_wf_def)
  from assms(3) have d: "demoted (i_baselines s) s'"
    by (induction rule: rtranclp_induct) (auto intro: demoted_epoch [OF inv assms(2)] demoted_step)
  obtain c where "fst (select_baseline affected (i_baselines s')) = Some c" "b_freshness c = Freshness_Current"
    using assms(5) by (auto simp: compare_verdict_iff_evidence evidence_ok_def freshness_window_ok)
  then have c: "c \<in> snd ` set (i_baselines s')" "concerns affected c" "b_freshness c = Freshness_Current"
    using select_baseline_SomeD by blast+
  then obtain k where k: "(k, c) \<in> set (i_baselines s')" by force
  then have "k \<in> fst ` set (i_baselines s)" using assms(4) by force
  then obtain b where b: "map_find (i_baselines s) k = Some b" "b \<in> snd ` set (i_baselines s)"
    using map_find_in [OF inv] by force
  moreover have "map_inv (i_baselines s')" using d by (simp add: demoted_def)
  with k have "map_find (i_baselines s') k = Some c" by (simp add: map_find_in)
  ultimately have "same_but_freshness b c" "b_type b = BaselineType_HistoricalIsolated"
    using c(3) by (auto elim: demotedD [OF d])
  moreover from this(1) have "concerns affected b" using c(2) same_but_freshness_fields(2) by simp
  ultimately show ?thesis using b(2) by blast
qed

text \<open>A historical baseline goes on deciding after an epoch change and a recovery.\<close>

theorem epoch_advance_withdraws_witness:
  "\<exists>b\<in>snd ` set (i_baselines ex_historical). concerns (ex_workload 7) b \<and> b_type b = BaselineType_HistoricalIsolated"
proof (rule epoch_advance_withdraws)
  let ?e = "set_coordinator_epoch (Id 2) ex_historical"
  let ?s = "snd (record_recovery (Id 7) (Id 8) Domain_Cache ?e)"
  show "reachable ex_historical" unfolding ex_historical_def by (rule reach_step [OF reach_new step_publish])
  show "Id 2 \<noteq> i_epoch ex_historical" by code_simp
  show "session_step\<^sup>*\<^sup>* ?e ?s" by (intro r_into_rtranclp) (simp add: session_step_def step_recover)
  have b: "i_baselines ?s = i_baselines ?e" by (simp add: record_recovery_def)
  have "fst ` set (i_baselines ?e) = fst ` set (i_baselines ex_historical)" by code_simp
  then show "fst ` set (i_baselines ?s) = fst ` set (i_baselines ex_historical)" by (simp only: b)
  show "p_outcome (fst (compare (ex_workload 7) (ex_workload 8) Domain_Cache ex_observations default_policy ?s)) \<in> verdicts"
    using ex_historical_verdict by (simp add: compare_verdict_iff_evidence evidence_ok_cong [OF b])
qed

end
