(* ===== verification/Abstract_Spec.thy ===== *)
theory Abstract_Spec
  imports Executions
begin

text \<open>
  What the observatory promises, as an abstract specification. An abstract state has finite maps and
  sets in place of the ordered containers and forgets registrations and episodes; its steps are
  described by what they establish: a withdrawal of current evidence, a publication under a fresh id,
  an observation, a recovery, and a verdict that an authoritative baseline justifies. Loading a
  specified state replaces everything by it except the matrix, over which its log is laid. The locale
  \<open>simulation\<close> is the contract between two transition systems; its interpretation on the observatory gives
  the refinement and carries abstract invariants to the code's states.
\<close>

locale simulation = transition_system +
  fixes abs_of :: "'a \<Rightarrow> 'b" and astep :: "'b \<Rightarrow> 'b \<Rightarrow> bool"
  assumes sim_step: "inv s \<Longrightarrow> step s s' \<Longrightarrow> astep\<^sup>*\<^sup>* (abs_of s) (abs_of s')"
begin

lemma sim_steps:
  assumes "step\<^sup>*\<^sup>* s s'" "inv s"
  shows "astep\<^sup>*\<^sup>* (abs_of s) (abs_of s')"
  using assms
proof (induction rule: rtranclp_induct)
  case (step y z)
  then show ?case using sim_step inv_steps rtranclp_trans by metis
qed simp

lemma transfer_inv:
  assumes "step\<^sup>*\<^sup>* s s'" "inv s" "I (abs_of s)" "\<And>a a'. I a \<Longrightarrow> astep a a' \<Longrightarrow> I a'"
  shows "I (abs_of s')"
  using sim_steps [OF assms(1,2)] assms(3,4) by (induction rule: rtranclp_induct) auto

end

subsection \<open>Abstract states and steps\<close>

record abs_state =
  A_epoch :: CoordinatorEpoch
  A_baselines :: "BaselineId \<rightharpoonup> baseline"
  A_observations :: "ObservationId \<rightharpoonup> observation"
  A_recoveries :: "recovery_key set"
  A_log :: "ComparisonId \<rightharpoonup> pairwise"
  A_matrix :: "recovery_key \<rightharpoonup> pairwise"

definition spec_init :: abs_state where
  "spec_init = \<lparr>A_epoch = Id 1, A_baselines = Map.empty, A_observations = Map.empty,
     A_recoveries = {}, A_log = Map.empty, A_matrix = Map.empty\<rparr>"

text \<open>A baseline is authoritative for a comparison when it is usable, bound to the workload as it is now
  and the most recent such baseline of the workload on its device (the one with the largest id among
  those with the latest timestamp), is current and young enough, and enough measurements refer to
  its metric.\<close>

definition authoritative ::
  "abs_state \<Rightarrow> workload_descriptor \<Rightarrow> observation list \<Rightarrow> policy \<Rightarrow> baseline \<Rightarrow> bool" where
  "authoritative a w obs p b \<longleftrightarrow> policy_isValid p \<and> A_baselines a (b_id b) = Some b \<and>
     b_workload_id b = wl_id w \<and> b_device_id b = wl_device_id w \<and> is_usable b \<and> baseline_binding b = workload_binding w \<and>
     (\<forall>k c. A_baselines a k = Some c \<and> b_workload_id c = wl_id w \<and> b_device_id c = wl_device_id w \<and> is_usable c \<and>
        baseline_binding c = workload_binding w \<longrightarrow>
        sint (b_timestamp_ms c) < sint (b_timestamp_ms b) \<or>
        sint (b_timestamp_ms c) = sint (b_timestamp_ms b) \<and> id_value (b_id c) \<le> id_value (b_id b)) \<and>
     b_freshness b = Freshness_Current \<and>
     sint (last_timestamp obs - b_timestamp_ms b) \<le> sint (stale_after_ms p) \<and>
     min_samples p \<le> of_nat (length (filter (counted w b) obs))"

definition justified :: "abs_state \<Rightarrow> recovery_key \<Rightarrow> baseline \<Rightarrow> pairwise \<Rightarrow> bool" where
  "justified a k b r \<longleftrightarrow> k = (p_victim r, p_neighbor r, p_domain r) \<and> p_baseline_id r = b_id b \<and>
     b_workload_id b = p_victim r \<and> p_epoch r = A_epoch a \<and> result_wf r \<and>
     (p_attribution r = Attribution_StrongCounterfactualEvidence \<longrightarrow> k \<in> A_recoveries a)"

inductive spec_step :: "abs_state \<Rightarrow> abs_state \<Rightarrow> bool" where
  spec_epoch: "e \<noteq> A_epoch a \<Longrightarrow>
    spec_step a (a\<lparr>A_epoch := e, A_baselines := \<lambda>k. map_option revalidate_baseline (A_baselines a k)\<rparr>)"
| spec_publish: "A_baselines a (b_id b) = None \<Longrightarrow> publishable b \<Longrightarrow> b_freshness b \<noteq> Freshness_Unknown \<Longrightarrow>
    spec_step a (a\<lparr>A_baselines := (A_baselines a)(b_id b \<mapsto> b)\<rparr>)"
| spec_observe: "A_observations a (o_id ob) = None \<Longrightarrow> recordable ob \<Longrightarrow>
    spec_step a (a\<lparr>A_observations := (A_observations a)(o_id ob \<mapsto> ob)\<rparr>)"
| spec_recover: "recovery_wf k \<Longrightarrow> spec_step a (a\<lparr>A_recoveries := insert k (A_recoveries a)\<rparr>)"
| spec_verdict: "authoritative a w obs p b \<Longrightarrow> justified a k b r \<Longrightarrow>
    spec_step a (a\<lparr>A_log := (A_log a)(p_comparison_id r \<mapsto> r), A_matrix := (A_matrix a)(k \<mapsto> r)\<rparr>)"

inductive_cases spec_stepE: "spec_step a a'"

text \<open>Loading \<open>a'\<close> into \<open>a\<close>: a cell for which the loaded log has comparisons becomes the one with the largest id,
  every other cell stays.\<close>

definition cell_log :: "abs_state \<Rightarrow> recovery_key \<Rightarrow> ComparisonId set" where
  "cell_log a k = {c. \<exists>r. A_log a c = Some r \<and> k = (p_victim r, p_neighbor r, p_domain r)}"

definition spec_reload :: "abs_state \<Rightarrow> abs_state \<Rightarrow> abs_state" where
  "spec_reload a' a = a'\<lparr>A_matrix := \<lambda>k. if cell_log a' k = {} then A_matrix a k else A_log a' (Max (cell_log a' k))\<rparr>"

inductive spec_run :: "abs_state \<Rightarrow> bool" where
  spec_start: "spec_run spec_init"
| spec_move: "spec_run a \<Longrightarrow> spec_step a b \<Longrightarrow> spec_run b"
| spec_load: "spec_run a \<Longrightarrow> spec_run a' \<Longrightarrow> spec_run (spec_reload a' a)"

definition abs_of :: "impl \<Rightarrow> abs_state" where
  "abs_of s = \<lparr>A_epoch = i_epoch s, A_baselines = map_find (i_baselines s),
     A_observations = map_find (i_observations s), A_recoveries = set (i_recoveries s),
     A_log = map_find (i_comparisons s), A_matrix = (\<lambda>(v, n, d). map_find (i_matrix s) (CellKey v n d))\<rparr>"

subsection \<open>Decisions depend on the abstract state only\<close>

lemma evidence_authoritative:
  assumes "wf s"
  shows "evidence_ok w obs p s b \<longleftrightarrow> authoritative (abs_of s) w obs p b"
proof -
  have all: "(\<forall>c\<in>snd ` set (i_baselines s). Q c) \<longleftrightarrow> (\<forall>k c. map_find (i_baselines s) k = Some c \<longrightarrow> Q c)" for Q
    using baseline_entry [OF assms] baseline_key [OF assms] by metis
  show ?thesis
    unfolding evidence_ok_def selected_newest [OF assms] all baseline_entry [OF assms]
    by (auto simp: authoritative_def abs_of_def freshness_window_ok concerns_def eligible_def binding_matches_iff not_newer_def)
qed

subsection \<open>Simulation\<close>

lemma abs_of_simps [simp]:
  "A_epoch (abs_of s) = i_epoch s" "A_baselines (abs_of s) = map_find (i_baselines s)"
  "A_observations (abs_of s) = map_find (i_observations s)" "A_recoveries (abs_of s) = set (i_recoveries s)"
  "A_log (abs_of s) = map_find (i_comparisons s)"
  "A_matrix (abs_of s) (v, n, d) = map_find (i_matrix s) (CellKey v n d)"
  by (simp_all add: abs_of_def)

lemma abs_eqI:
  assumes "i_epoch s' = i_epoch s" "i_baselines s' = i_baselines s" "i_observations s' = i_observations s"
    "i_recoveries s' = i_recoveries s" "i_comparisons s' = i_comparisons s" "i_matrix s' = i_matrix s"
  shows "abs_of s' = abs_of s"
  using assms by (simp add: abs_of_def)

lemma sim_registers:
  "abs_of (snd (register_source sid gen name caps s)) = abs_of s"
  "abs_of (snd (register_worker wid boot name conn s)) = abs_of s"
  "abs_of (snd (register_workload w s)) = abs_of s"
  by (auto simp: register_source_def register_worker_def register_workload_def
      intro!: abs_eqI split: option.splits)

lemma sim_epoch: "spec_step\<^sup>*\<^sup>* (abs_of s) (abs_of (set_coordinator_epoch e s))"
proof (cases "e = i_epoch s")
  case False
  then have "abs_of (set_coordinator_epoch e s) = (abs_of s)\<lparr>A_epoch := e,
      A_baselines := \<lambda>k. map_option revalidate_baseline (A_baselines (abs_of s) k)\<rparr>"
    by (simp add: abs_of_def set_coordinator_epoch_def map_find_update_all fun_eq_iff)
  then show ?thesis using spec_epoch [of e "abs_of s"] False by auto
qed (simp add: set_coordinator_epoch_def)

lemma sim_publish: "spec_step\<^sup>*\<^sup>* (abs_of s) (abs_of (snd (publish_baseline b s)))"
proof (cases "publishable b \<and> map_find (i_baselines s) (b_id b) = None")
  case True
  have "b_id (stored_form b) = b_id b" "publishable (stored_form b) = publishable b"
    "b_freshness (stored_form b) \<noteq> Freshness_Unknown"
    by (simp_all add: stored_form_def publishable_def is_usable_def)
  moreover from True have "abs_of (snd (publish_baseline b s)) = (abs_of s)\<lparr>A_baselines :=
      (A_baselines (abs_of s))(b_id b \<mapsto> stored_form b)\<rparr>"
    by (simp add: publish_state abs_of_def fun_eq_iff)
  ultimately show ?thesis using spec_publish [of "abs_of s" "stored_form b"] True by auto
qed (auto simp: publish_state)

lemma sim_observe: "spec_step\<^sup>*\<^sup>* (abs_of s) (abs_of (snd (record_observation ob s)))"
proof (cases "recordable ob \<and> map_find (i_observations s) (o_id ob) = None")
  case True
  then have "abs_of (snd (record_observation ob s)) = (abs_of s)\<lparr>A_observations :=
      (A_observations (abs_of s))(o_id ob \<mapsto> ob)\<rparr>"
    by (simp add: record_unfold abs_of_def fun_eq_iff)
  then show ?thesis using spec_observe [of "abs_of s" ob] True by auto
qed (auto simp: record_unfold split: option.splits)

lemma sim_recover: "spec_step\<^sup>*\<^sup>* (abs_of s) (abs_of (snd (record_recovery v n d s)))"
proof (cases "recovery_wf (v, n, d)")
  case True
  then have "abs_of (snd (record_recovery v n d s)) =
      (abs_of s)\<lparr>A_recoveries := insert (v, n, d) (A_recoveries (abs_of s))\<rparr>"
    by (simp add: record_recovery_def abs_of_def recovery_wf_def)
  then show ?thesis using spec_recover [OF True, of "abs_of s"] by auto
qed (auto simp: record_recovery_def recovery_wf_def)

lemma sim_compare:
  assumes "wf s"
  shows "spec_step\<^sup>*\<^sup>* (abs_of s) (abs_of (snd (compare affected associated domain obs p s)))"
proof (cases "\<exists>b. evidence_ok affected obs p s b")
  case True
  then obtain b where b: "evidence_ok affected obs p s b" ..
  let ?r = "scored_result affected associated domain obs p s b"
  let ?k = "(wl_id affected, wl_id associated, domain)"
  have "concerns affected b" using b select_baseline_SomeD(2) by (auto simp: evidence_ok_def)
  then have "justified (abs_of s) ?k b ?r"
    using result_wf_scored [OF b]
    by (auto simp: justified_def scored_keys concerns_def scored_attribution attribution_of_def split: if_splits)
  moreover have "abs_of (snd (compare affected associated domain obs p s)) =
      (abs_of s)\<lparr>A_log := (A_log (abs_of s))(p_comparison_id ?r \<mapsto> ?r), A_matrix := (A_matrix (abs_of s))(?k \<mapsto> ?r)\<rparr>"
    by (simp add: compare_scored [OF b] abs_of_def commit_frame fun_eq_iff)
  ultimately show ?thesis
    using spec_verdict [of "abs_of s" affected obs p b ?k ?r] b evidence_authoritative [OF assms] by auto
qed (simp add: compare_unscored)

lemma sim_obs_step: "wf s \<Longrightarrow> obs_step s s' \<Longrightarrow> spec_step\<^sup>*\<^sup>* (abs_of s) (abs_of s')"
  by (erule obs_stepE) (simp_all add: sim_registers sim_epoch sim_publish sim_observe sim_recover sim_compare)

interpretation obs_sim: simulation obs_init obs_step wf abs_of spec_step
  by unfold_locales (rule sim_obs_step)

lemma sim_restored:
  assumes "map_inv (i_comparisons t)"
  shows "abs_of (restored t s) = spec_reload (abs_of t) (abs_of s)"
proof -
  have log: "c \<in> cell_log (abs_of t) k \<longleftrightarrow> (\<exists>r. (c, r) \<in> set (i_comparisons t) \<and> k = (p_victim r, p_neighbor r, p_domain r))" for c k
    by (simp add: cell_log_def map_find_in [OF assms])
  have fin: "finite (cell_log (abs_of t) k)" for k
    by (rule finite_subset [of _ "fst ` set (i_comparisons t)"]) (force simp: log)+
  have "matrix_get (replay_matrix (i_matrix s) (i_comparisons t)) (CellKey v n d) =
      (if cell_log (abs_of t) (v, n, d) = {} then matrix_get (i_matrix s) (CellKey v n d)
       else map_find (i_comparisons t) (Max (cell_log (abs_of t) (v, n, d))))" for v n d
  proof (cases "cell_log (abs_of t) (v, n, d) = {}")
    case True
    then have "\<forall>x\<in>set (i_comparisons t). cell_of (snd x) \<noteq> CellKey v n d" by (auto simp: cell_of_def set_eq_iff log) blast
    with True show ?thesis by (simp add: replay_matrix_other)
  next
    case False
    let ?c = "Max (cell_log (abs_of t) (v, n, d))"
    obtain r where r: "(?c, r) \<in> set (i_comparisons t)" "(v, n, d) = (p_victim r, p_neighbor r, p_domain r)"
      using Max_in [OF fin False] by (auto simp: log)
    have "\<forall>(c, x)\<in>set (i_comparisons t). cell_of x = cell_of r \<longrightarrow> c \<le> ?c"
    proof clarify
      fix c x
      assume "(c, x) \<in> set (i_comparisons t)" "cell_of x = cell_of r"
      then have "c \<in> cell_log (abs_of t) (v, n, d)" unfolding log using r(2) by (auto simp: cell_of_def intro!: exI [of _ x])
      then show "c \<le> ?c" by (rule Max_ge [OF fin])
    qed
    from replay_matrix_last [OF assms r(1) this] r show ?thesis
      using False map_find_in [OF assms, THEN iffD1, OF r(1)] by (simp add: cell_of_def)
  qed
  then show ?thesis by (simp add: abs_of_def spec_reload_def fun_eq_iff matrix_get_def)
qed

lemma spec_run_steps: "spec_step\<^sup>*\<^sup>* a b \<Longrightarrow> spec_run a \<Longrightarrow> spec_run b"
  by (induction rule: rtranclp_induct) (auto intro: spec_move)

lemma abs_of_new: "abs_of (new_observatory oid gen) = spec_init"
  by (simp add: abs_of_def spec_init_def new_observatory_def fun_eq_iff)

lemma reachable_spec_run: "reachable s \<Longrightarrow> spec_run (abs_of s)"
proof (induction rule: reachable.induct)
  case (reach_new oid gen)
  then show ?case using spec_start by (simp add: abs_of_new)
next
  case (reach_step s s')
  then show ?case using sim_obs_step spec_run_steps reachable_is_wf by blast
next
  case (reach_load s t bs fs path)
  have "map_inv (i_comparisons t)" using reachable_is_wf [OF reach_load(2)] by (simp add: wf_def map_wf_def)
  then show ?case using reach_load spec_load by (simp add: load_image sim_restored)
qed (simp add: load_refused)

subsection \<open>Refinement\<close>

text \<open>C3. The observatory refines its specification: every state an observatory can be in, with any public
  operations called and any files loaded that such observatories saved or that the envelope check
  refuses, abstracts to a state the specification can reach, and in it the answers of the code are
  those of the specification: \<open>lookup_baseline\<close> reads the abstract map, the matrix cell of a victim,
  neighbour and domain is the abstract one, and a comparison reaches a verdict exactly when some
  baseline is authoritative in the abstract state. (Saved means saved in a state that the format can
  represent.)\<close>

theorem observatory_refines_spec:
  assumes "reachable s"
  shows "spec_run (abs_of s) \<and>
    lookup_baseline k s = A_baselines (abs_of s) k \<and>
    matrix_get (pairwise_matrix s) (CellKey v n d) = A_matrix (abs_of s) (v, n, d) \<and>
    (p_outcome (fst (compare w w' d obs p s)) \<in> verdicts \<longleftrightarrow> (\<exists>b. authoritative (abs_of s) w obs p b))"
proof (intro conjI)
  show "spec_run (abs_of s)" using assms by (rule reachable_spec_run)
  show "p_outcome (fst (compare w w' d obs p s)) \<in> verdicts \<longleftrightarrow> (\<exists>b. authoritative (abs_of s) w obs p b)"
    using reachable_is_wf [OF assms] by (simp add: compare_verdict_iff_evidence evidence_authoritative)
qed (simp_all add: lookup_baseline_def pairwise_matrix_def matrix_get_def)

theorem observatory_refines_spec_witness:
  "spec_run (abs_of ex_state) \<and>
   authoritative (abs_of ex_state) (ex_workload 7) ex_observations default_policy ex_baseline"
  using observatory_refines_spec [OF ex_reachable(1)] ex_evidence evidence_authoritative [OF ex_state_wf] by blast

subsection \<open>Traceability\<close>

text \<open>A recorded result names a stored baseline of its victim, and one that claims counterfactual evidence
  has its recovery on record.\<close>

definition backed :: "abs_state \<Rightarrow> recovery_key \<Rightarrow> pairwise \<Rightarrow> bool" where
  "backed a k r \<longleftrightarrow> (p_attribution r = Attribution_StrongCounterfactualEvidence \<longrightarrow> k \<in> A_recoveries a) \<and>
     (\<exists>b. A_baselines a (p_baseline_id r) = Some b \<and> b_workload_id b = fst k)"

definition traceable_log :: "abs_state \<Rightarrow> bool" where
  "traceable_log a \<longleftrightarrow> (\<forall>c r. A_log a c = Some r \<longrightarrow> backed a (p_victim r, p_neighbor r, p_domain r) r)"

definition traceable :: "abs_state \<Rightarrow> bool" where
  "traceable a \<longleftrightarrow> traceable_log a \<and> (\<forall>k r. A_matrix a k = Some r \<longrightarrow> backed a k r)"

lemma backed_step:
  assumes "backed a k r" "spec_step a a'"
  shows "backed a' k r"
  using assms(2)
proof cases
  case (spec_epoch e)
  have "b_workload_id (revalidate_baseline b) = b_workload_id b" for b by (simp add: revalidate_baseline_def)
  then show ?thesis using assms(1) by (auto simp: backed_def spec_epoch)
qed (use assms(1) in \<open>auto simp: backed_def\<close>)

lemma backed_verdict: "authoritative a w obs p b \<Longrightarrow> justified a k b r \<Longrightarrow> backed a k r"
  by (auto simp: backed_def justified_def authoritative_def)

lemma traceable_log_step:
  assumes "traceable_log a" "spec_step a a'"
  shows "traceable_log a'"
  unfolding traceable_log_def
proof (intro allI impI)
  fix c r
  assume "A_log a' c = Some r"
  with assms have "backed a (p_victim r, p_neighbor r, p_domain r) r"
    by (cases rule: spec_step.cases [OF assms(2)])
      (auto simp: traceable_log_def justified_def dest: backed_verdict split: if_splits)
  then show "backed a' (p_victim r, p_neighbor r, p_domain r) r" using backed_step assms(2) by blast
qed

lemma traceable_step:
  assumes "traceable a" "spec_step a a'"
  shows "traceable a'"
proof -
  have "A_matrix a' k = Some r \<Longrightarrow> backed a k r" for k r
    using assms by (cases rule: spec_step.cases [OF assms(2)])
      (auto simp: traceable_def simp del: split_paired_All dest: backed_verdict split: if_splits)
  then show ?thesis
    using traceable_log_step backed_step assms unfolding traceable_def by blast
qed

lemma traceable_reload:
  assumes "traceable_log a'"
  shows "traceable_log (spec_reload a' a)"
    "A_matrix a = Map.empty \<Longrightarrow> traceable (spec_reload a' a)"
proof -
  have b: "backed (spec_reload a' a) k r = backed a' k r" for k r by (simp add: backed_def spec_reload_def)
  show l: "traceable_log (spec_reload a' a)" using assms by (simp add: traceable_log_def b) (simp add: spec_reload_def)
  assume e: "A_matrix a = Map.empty"
  have "backed a' k r" if m: "A_matrix (spec_reload a' a) k = Some r" for k r
  proof -
    have ne: "cell_log a' k \<noteq> {}" and r: "A_log a' (Max (cell_log a' k)) = Some r"
      using m e by (auto simp: spec_reload_def split: if_splits)
    have "UNIV = range (Id :: u64 \<Rightarrow> ComparisonId)" by (metis UNIV_eq_I id.exhaust rangeI)
    then have "finite (UNIV :: ComparisonId set)" by (metis finite finite_imageI)
    then have "finite (cell_log a' k)" by (rule finite_subset [OF subset_UNIV])
    from Max_in [OF this ne] r have "k = (p_victim r, p_neighbor r, p_domain r)" by (auto simp: cell_log_def)
    with r assms show ?thesis by (auto simp: traceable_log_def)
  qed
  with l show "traceable (spec_reload a' a)" by (simp add: traceable_def b)
qed

lemma traceable_init: "traceable spec_init"
  by (simp add: traceable_def traceable_log_def spec_init_def)

lemma reachable_traceable_log: "spec_run a \<Longrightarrow> traceable_log a"
proof (induction rule: spec_run.induct)
  case spec_start
  then show ?case using traceable_init by (simp add: traceable_def)
qed (auto intro: traceable_log_step traceable_reload)

text \<open>How the programs use \<open>load\<close>: on an observatory they have just made.\<close>

definition started :: "impl \<Rightarrow> bool" where
  "started s \<longleftrightarrow> (\<exists>oid gen. s = new_observatory oid gen \<or>
     (\<exists>t bs fs path. reachable t \<and> saved_image t bs \<and> fs path = Some bs \<and> s = snd (load path fs (new_observatory oid gen))))"

lemma started_traceable:
  assumes "started s"
  shows "wf s" "traceable (abs_of s)"
proof -
  consider oid gen where "s = new_observatory oid gen"
    | oid gen t bs fs path where "reachable t" "saved_image t bs" "fs path = Some bs" "s = snd (load path fs (new_observatory oid gen))"
    using assms unfolding started_def by blast
  then have "wf s \<and> traceable (abs_of s)"
  proof cases
    case 1
    then show ?thesis using traceable_init abs_of_new by (simp add: wf_new)
  next
    case 2
    have inv: "map_inv (i_comparisons t)" using reachable_is_wf [OF 2(1)] by (simp add: wf_def map_wf_def)
    have "A_matrix (abs_of (new_observatory oid gen)) = Map.empty" by (simp only: abs_of_new) (simp add: spec_init_def)
    from traceable_reload(2) [OF reachable_traceable_log [OF reachable_spec_run [OF 2(1)]] this]
    have "traceable (abs_of (restored t (new_observatory oid gen)))" by (simp only: sim_restored [OF inv])
    then show ?thesis using 2 wf_restored [OF reachable_is_wf [OF 2(1)] wf_new] by (simp add: load_image)
  qed
  then show "wf s" "traceable (abs_of s)" by blast+
qed

text \<open>C17. Every recorded conclusion is traceable. An observatory starts empty or, as all programs of the
  repository do it, by loading into the new object a file that an observatory saved; from then on,
  whatever operations other than \<open>load\<close> are called, a matrix cell of a victim names a baseline of that
  victim that is still stored, and a cell that claims counterfactual evidence has its recovery on
  record; the same holds of every comparison in the log. (A load into an observatory that already has
  cells keeps them without their baselines.)\<close>

theorem recorded_cells_traceable:
  assumes "started s\<^sub>0" "obs_step\<^sup>*\<^sup>* s\<^sub>0 s"
    and "matrix_get (pairwise_matrix s) (CellKey v n d) = Some r \<or>
      (\<exists>c. map_find (i_comparisons s) c = Some r \<and> v = p_victim r \<and> n = p_neighbor r \<and> d = p_domain r)"
  shows "(\<exists>b. lookup_baseline (p_baseline_id r) s = Some b \<and> b_workload_id b = v) \<and>
    (p_attribution r = Attribution_StrongCounterfactualEvidence \<longrightarrow> (v, n, d) \<in> set (i_recoveries s))"
proof -
  note st = started_traceable [OF assms(1)]
  have t: "traceable (abs_of s)"
    by (rule obs_sim.transfer_inv [where I = traceable, OF assms(2) st]) (rule traceable_step)
  have "A_matrix (abs_of s) (v, n, d) = Some r \<or>
      (\<exists>c. A_log (abs_of s) c = Some r \<and> v = p_victim r \<and> n = p_neighbor r \<and> d = p_domain r)"
    using assms(3) by (simp add: pairwise_matrix_def matrix_get_def)
  with t have "backed (abs_of s) (v, n, d) r" by (auto simp: traceable_def traceable_log_def)
  then show ?thesis by (auto simp: backed_def lookup_baseline_def)
qed

text \<open>A new observatory loads a saved file with two comparisons.\<close>

theorem recorded_cells_traceable_witness:
  "\<exists>fs b. lookup_baseline (Id 9) (snd (load ''a'' fs (new_observatory (Id 3) (Id 1)))) = Some b \<and> b_workload_id b = Id 7 \<and>
     matrix_get (pairwise_matrix (snd (load ''a'' fs (new_observatory (Id 3) (Id 1))))) (CellKey (Id 7) (Id 8) Domain_Cache) \<noteq> None"
proof -
  obtain bs where bs: "saved_image ex_second bs" using ex_second_image by blast
  let ?fs = "\<lambda>p. if p = ''a'' then Some bs else None" and ?r = "ex_result ex_observations"
  let ?s = "snd (load ''a'' ?fs (new_observatory (Id 3) (Id 1)))"
  have f: "?fs ''a'' = Some bs" by simp
  have st: "started ?s" unfolding started_def
    by (rule exI [of _ "Id 3"], rule exI [of _ "Id 1"], rule disjI2, rule exI [of _ ex_second], rule exI [of _ bs],
        rule exI [of _ ?fs], rule exI [of _ "''a''"]) (intro conjI ex_reachable(3) bs f refl)
  have inv: "map_inv (i_comparisons ex_second)" using ex_second_serial by (simp add: serial_ok_def)
  have mem: "(p_comparison_id ?r, ?r) \<in> set (i_comparisons ex_second)"
    "\<forall>(c, x)\<in>set (i_comparisons ex_second). cell_of x = cell_of ?r \<longrightarrow> c \<le> p_comparison_id ?r"
    using ex_digest_order by (simp_all add: ex_second_state ex_result_ids)
  have l: "?s = restored ex_second (new_observatory (Id 3) (Id 1))"
    using load_image [where fs = ?fs and path = "''a''", OF bs f] by simp
  have cell: "matrix_get (pairwise_matrix ?s) (CellKey (Id 7) (Id 8) Domain_Cache) = Some ?r"
    using replay_matrix_last [OF inv mem, of "i_matrix (new_observatory (Id 3) (Id 1))"]
    unfolding l pairwise_matrix_def restored_simps ex_result_ids .
  have "p_baseline_id ?r = Id 9" by (simp add: ex_result_def scored_keys ex_ids)
  with recorded_cells_traceable [OF st rtranclp.rtrancl_refl disjI1 [OF cell]]
  obtain b where "lookup_baseline (Id 9) ?s = Some b" "b_workload_id b = Id 7" by auto
  with cell show ?thesis by blast
qed

end
