(* ===== verification/Cli.thy ===== *)
theory Cli
  imports Reload Args
begin

text \<open>
  The command line tool (\<open>tools/io-observatory.cpp\<close>): the argument helpers, the demonstration it
  builds, and \<open>main\<close> as a function of the arguments and the file system. The result is the exit code,
  what is printed and the file system afterwards. A printed line is a value that names the line and
  carries the data shown in it; the decimal formatting of \<open>printf\<close> is left out.
\<close>

subsection \<open>Arguments\<close>

definition has_flag :: "string list \<Rightarrow> string \<Rightarrow> bool" where
  "has_flag args flag \<longleftrightarrow> flag \<in> set args"

subsection \<open>The demonstration\<close>

definition wl :: "u64 \<Rightarrow> string \<Rightarrow> string \<Rightarrow> string \<Rightarrow> workload_descriptor" where
  "wl wid name cfg sz = \<lparr>wl_id = Id wid, wl_generation = Id (wid * 100 + 10), wl_name = name,
     wl_config_fingerprint = cfg, wl_problem_size_fingerprint = sz, wl_device_id = Id 11,
     wl_device_generation = Id 33, wl_worker_id = Id 22, wl_worker_boot = Id 1,
     wl_policy_generation = ''pol-v1'', wl_runtime_generation = ''rt-cuda-12.9'',
     wl_kernel_generation = ''kernel-v1'', wl_topology_generation = Id 44, wl_start_ms = 0, wl_end_ms = 0,
     wl_attempt_id = 1, wl_priority_class = ''io''\<rparr>"

definition bl :: "u64 \<Rightarrow> u64 \<Rightarrow> double \<Rightarrow> metric_kind \<Rightarrow> string \<Rightarrow> string \<Rightarrow> baseline" where
  "bl bid wid mean kind cfg sz = \<lparr>b_id = Id bid, b_generation = Id (bid * 100 + 10),
     b_type = BaselineType_Isolated, b_workload_id = Id wid, b_workload_generation = Id (wid * 100 + 10),
     b_device_id = Id 11, b_device_generation = Id 33, b_worker_id = Id 22, b_worker_boot = Id 1,
     b_config_fingerprint = cfg, b_problem_size_fingerprint = sz, b_runtime_generation = ''rt-cuda-12.9'',
     b_kernel_generation = ''kernel-v1'', b_policy_generation = ''pol-v1'', b_topology_generation = Id 44,
     b_source_generation = Id 55, b_evidence_generation = Id 66, b_timestamp_ms = 100000,
     b_interval_ms = 2000, b_provenance = Provenance_Controlled, b_freshness = Freshness_Current,
     b_sample_count = 20, b_variance = f64_lit 3 1, b_confidence = f64_lit 92 100, b_mean_value = mean,
     b_metric_kind = kind, b_valid = True\<rparr>"

definition make_obs :: "u64 \<Rightarrow> u64 \<Rightarrow> u64 \<Rightarrow> double \<Rightarrow> metric_kind \<Rightarrow> u64 \<Rightarrow> observation" where
  "make_obs oid wid wgen val kind ts = default_observation\<lparr>o_id := Id oid, o_generation := Id (500000 + oid),
     o_source_id := Id 77, o_source_generation := Id 55, o_worker_id := Id 22, o_worker_boot := Id 1,
     o_workload_id := Id wid, o_workload_generation := Id wgen, o_device_id := Id 11,
     o_device_generation := Id 33, o_timestamp_ms := ts,
     o_measurement := default_measurement\<lparr>m_kind := kind, m_value := val,
       m_unit := (if kind = Metric_Latency then ''ms'' else ''ops/s''), m_sample_count := 1, m_variance := f64_zero\<rparr>,
     o_provenance := Provenance_Measured, o_freshness := Freshness_Current, o_source_health := Health_Healthy,
     o_capabilities := default_capabilities\<lparr>cuda_device_discovery := True, cuda_memory_alloc := True,
       cuda_h2d := True, cuda_d2h := True, cuda_kernels := True, cuda_events := True\<rparr>\<rparr>"

definition demo_a_obs :: "observation list" where
  "demo_a_obs = map (\<lambda>i. (make_obs (1000 + i) 10 1010 (f64_lit 158 1) Metric_Latency (100001 + i))
     \<lparr>o_co_run_peers := [Id 20]\<rparr>) [0, 1, 2, 3, 4, 5, 6, 7]"

definition demo_b_obs :: "observation list" where
  "demo_b_obs = map (\<lambda>i. (make_obs (2000 + i) 20 1020 (f64_lit 1310 1) Metric_Throughput (100001 + i))
     \<lparr>o_co_run_peers := [Id 10]\<rparr>) [0, 1, 2, 3, 4, 5, 6, 7]"

definition demo_wa :: workload_descriptor where
  "demo_wa = wl 10 ''matrix-scale-A'' ''cfg-A'' ''size-2048''"

definition demo_wb :: workload_descriptor where
  "demo_wb = wl 20 ''bandwidth-B'' ''cfg-B'' ''size-2048''"

definition demo_setup :: impl where
  "demo_setup =
     (let s = new_observatory (Id 1) (Id 1);
          s = snd (register_workload demo_wa s);
          s = snd (register_workload demo_wb s);
          s = snd (register_workload (wl 30 ''idle-C'' ''cfg-C'' ''size-1'') s);
          s = snd (register_worker (Id 22) (Id 1) ''worker-a'' True s);
          s = snd (publish_baseline (bl 500 10 (f64_lit 120 1) Metric_Latency ''cfg-A'' ''size-2048'') s)
      in snd (publish_baseline (bl 501 20 (f64_lit 1500 1) Metric_Throughput ''cfg-B'' ''size-2048'') s))"

subsection \<open>Printed lines\<close>

datatype cli_line =
    Out_help
  | Out_demo string outcome attribution_strength double
  | Out_persisted string
  | Out_stats ObservatoryId CoordinatorEpoch "nat list"
  | Out_digest string
  | Out_workload_cell cell_key outcome double u64 double
  | Out_episode EpisodeId WorkloadId outcome double i64 i64
  | Out_pair cell_key outcome attribution_strength double double
  | Out_sources nat
  | Out_capability string
  | Out_unsupported
  | Out_compare u64 u64 string outcome attribution_strength double double
  | Out_explain WorkloadId WorkloadId interference_domain outcome attribution_strength double bool
  | Out_strengthen string
  | Out_replay string bool
  | Out_valid string string
  | Err_demo status
  | Err_load status
  | Err_needs string
  | Err_domain string
  | Err_no_comparison u64 u64 string
  | Err_replay status

definition first_relative :: "degradation \<Rightarrow> double" where
  "first_relative g = (if g_deltas g = [] then f64_zero else d_relative (hd (g_deltas g)))"

definition build_demo :: "io_faults \<Rightarrow> string \<Rightarrow> file_system \<Rightarrow> status \<times> cli_line list \<times> file_system" where
  "build_demo io out fs =
     (case compare demo_wa demo_wb Domain_MemoryBandwidth demo_a_obs default_policy demo_setup of (pa, s) \<Rightarrow>
      case compare demo_wb demo_wa Domain_MemoryBandwidth demo_b_obs default_policy s of (pb, s) \<Rightarrow>
      case save io out s fs of (st, fs') \<Rightarrow>
        (st, [Out_demo ''A->B'' (p_outcome pa) (p_attribution pa)
                (f64_mul (first_relative (p_degradation pa)) (f64_lit 100 1)),
              Out_demo ''B->A'' (p_outcome pb) (p_attribution pb)
                (f64_mul (first_relative (p_degradation pb)) (f64_lit 100 1))], fs'))"

definition stats :: "string \<Rightarrow> file_system \<Rightarrow> int \<times> cli_line list" where
  "stats path fs =
     (case load path fs (new_observatory (Id 1) (Id 1)) of (st, s) \<Rightarrow>
        if st \<noteq> Status_Ok then (2, [Err_load st])
        else (0, [Out_stats (observatory_id s) (coordinator_epoch s) [workload_count s, source_count s,
                    worker_count s, baseline_count s, observation_count s, episode_count s, length (pairwise_matrix s)],
                  Out_digest (canonical_digest s)]))"

subsection \<open>Commands on a loaded state\<close>

definition cmd_cells :: "impl \<Rightarrow> cli_line list" where
  "cmd_cells s = map (\<lambda>(k, v). Out_workload_cell k (p_outcome v) (p_confidence v) (p_sample_count v)
     (first_relative (p_degradation v))) (pairwise_matrix s)"

definition cmd_episodes :: "impl \<Rightarrow> cli_line list" where
  "cmd_episodes s = map (\<lambda>e. Out_episode (e_id e) (e_affected e) (e_classification e) (e_confidence e)
     (e_start_ms e) (e_end_ms e)) (list_episodes s)"

definition cmd_pairwise :: "impl \<Rightarrow> cli_line list" where
  "cmd_pairwise s = map (\<lambda>(k, v). Out_pair k (p_outcome v) (p_attribution v)
     (first_relative (p_degradation v)) (p_confidence v)) (pairwise_matrix s)"

definition cmd_capabilities :: "cli_line list" where
  "cmd_capabilities = map Out_capability (available (default_capabilities\<lparr>cuda_device_discovery := True,
     cuda_memory_alloc := True, cuda_h2d := True, cuda_d2h := True, cuda_kernels := True, cuda_events := True,
     cuda_memory_accounting := True, nvml_utilization := True\<rparr>)) @ [Out_unsupported]"

text \<open>\<open>--victim\<close>, \<open>--neighbor\<close> and \<open>--domain\<close> as \<open>main\<close> reads them: the ids stay 0 without the flag.\<close>

definition flag_id :: "string list \<Rightarrow> string \<Rightarrow> u64" where
  "flag_id raw key = (if has_flag raw key then parse_u64 (arg_value raw key []) else 0)"

definition cmd_compare :: "string list \<Rightarrow> impl \<Rightarrow> int \<times> cli_line list" where
  "cmd_compare raw s =
     (let v = flag_id raw ''--victim''; n = flag_id raw ''--neighbor'';
          dom = arg_value raw ''--domain'' ''MEMORY_BANDWIDTH'' in
      if \<not> has_flag raw ''--victim'' \<or> \<not> has_flag raw ''--neighbor'' then (2, [Err_needs ''compare''])
      else case parse_interference_domain dom of
        None \<Rightarrow> (2, [Err_domain dom])
      | Some d \<Rightarrow>
          (case matrix_get (pairwise_matrix s) (CellKey (Id v) (Id n) d) of
             None \<Rightarrow> (3, [Err_no_comparison v n dom])
           | Some c \<Rightarrow> (0, [Out_compare v n dom (p_outcome c) (p_attribution c)
                 (first_relative (p_degradation c)) (p_confidence c)])))"

definition cmd_explain :: "string list \<Rightarrow> impl \<Rightarrow> int \<times> cli_line list" where
  "cmd_explain raw s =
     (let v = flag_id raw ''--victim''; n = flag_id raw ''--neighbor'';
          dom = arg_value raw ''--domain'' ''MEMORY_BANDWIDTH'' in
      if \<not> has_flag raw ''--victim'' \<or> \<not> has_flag raw ''--neighbor'' then (2, [Err_needs ''explain''])
      else case parse_interference_domain dom of
        None \<Rightarrow> (2, [Err_domain dom])
      | Some d \<Rightarrow>
          let ex = explain (Id v) (Id n) d default_policy s in
          (0, Out_explain (x_affected ex) (hd (x_associated ex)) (x_domain ex) (x_outcome ex)
                (x_attribution ex) (x_confidence ex) (x_authority_only ex) #
              map Out_strengthen (x_what_would_strengthen_evidence ex)))"

definition cmd_replay :: "string \<Rightarrow> file_system \<Rightarrow> impl \<Rightarrow> int \<times> cli_line list" where
  "cmd_replay state fs s =
     (case load state fs (new_observatory (Id 1) (Id 1)) of (st2, s2) \<Rightarrow>
        if st2 \<noteq> Status_Ok then (2, [Err_replay st2])
        else (if canonical_digest s = canonical_digest s2 then 0 else 1,
              [Out_replay (canonical_digest s2) (canonical_digest s = canonical_digest s2)]))"

definition on_state :: "string \<Rightarrow> string \<Rightarrow> string list \<Rightarrow> file_system \<Rightarrow> impl \<Rightarrow> int \<times> cli_line list" where
  "on_state command state raw fs s =
     (if command = ''workloads'' then (0, cmd_cells s)
      else if command = ''episodes'' then (0, cmd_episodes s)
      else if command = ''pairwise'' then (0, cmd_pairwise s)
      else if command = ''sources'' then (0, [Out_sources (source_count s)])
      else if command = ''capabilities'' then (0, cmd_capabilities)
      else if command = ''compare'' then cmd_compare raw s
      else if command = ''explain'' then cmd_explain raw s
      else if command = ''replay'' then cmd_replay state fs s
      else if command = ''validate-state'' then (0, [Out_valid state (canonical_digest s)])
      else (1, [Out_help]))"

text \<open>\<open>main\<close>; the list holds \<open>argv[1]\<close> and what follows.\<close>

definition cli_main :: "io_faults \<Rightarrow> string list \<Rightarrow> file_system \<Rightarrow> int \<times> cli_line list \<times> file_system" where
  "cli_main io argv fs = (case argv of
     [] \<Rightarrow> (1, [Out_help], fs)
   | command # raw \<Rightarrow>
       let state = arg_value raw ''--state'' ''iobs-state.bin'' in
       if command = ''help'' \<or> command = ''--help'' then (0, [Out_help], fs)
       else if command = ''demo'' then
         let out = arg_value raw ''--out'' ''iobs-state.bin'' in
         (case build_demo io out fs of (st, lines, fs') \<Rightarrow>
            if st \<noteq> Status_Ok then (2, lines @ [Err_demo st], fs') else (0, lines @ [Out_persisted out], fs'))
       else if command = ''summary'' \<or> command = ''digest'' then
         (case stats state fs of (code, lines) \<Rightarrow> (code, lines, fs))
       else
         (case load state fs (new_observatory (Id 1) (Id 1)) of (st, s) \<Rightarrow>
            if st \<noteq> Status_Ok then (2, [Err_load st], fs)
            else case on_state command state raw fs s of (code, lines) \<Rightarrow> (code, lines, fs)))"

subsection \<open>Effects\<close>

lemma save_other_files: "save io path s fs = (st, fs') \<Longrightarrow> p = path \<or> p = path @ ''.tmp'' \<or> fs' p = fs p"
  by (auto simp: save_def remove_tmp_def Let_def split: sum.splits option.splits if_splits)

text \<open>C30. The tool is read-only except for its demonstration: every command leaves the file system as it
  was, but for \<open>demo\<close>, which can change only the file named by \<open>--out\<close> and its temporary sibling; and
  the exit code is always one of 0, 1, 2 and 3.\<close>

theorem cli_effects:
  "case cli_main io argv fs of (code, lines, fs') \<Rightarrow> code \<in> {0, 1, 2, 3} \<and>
     (fs' = fs \<or> (\<exists>raw. argv = ''demo'' # raw \<and>
        (\<forall>p. p = arg_value raw ''--out'' ''iobs-state.bin'' \<or>
             p = arg_value raw ''--out'' ''iobs-state.bin'' @ ''.tmp'' \<or> fs' p = fs p)))"
proof (cases argv)
  case Nil
  then show ?thesis by (simp add: cli_main_def)
next
  case (Cons command raw)
  have st: "fst (stats path fs) \<in> {0, 1, 2, 3}" for path by (simp add: stats_def case_prod_beta)
  have on: "fst (on_state command state raw fs s) \<in> {0, 1, 2, 3}" for state s
    by (auto simp: on_state_def cmd_compare_def cmd_explain_def cmd_replay_def Let_def split: option.splits prod.splits)
  show ?thesis
  proof (cases "command = ''demo''")
    case True
    obtain st lines fs' where d: "build_demo io (arg_value raw ''--out'' ''iobs-state.bin'') fs = (st, lines, fs')"
      by (metis prod_cases3)
    then have "p = arg_value raw ''--out'' ''iobs-state.bin'' \<or>
        p = arg_value raw ''--out'' ''iobs-state.bin'' @ ''.tmp'' \<or> fs' p = fs p" for p
      by (auto simp: build_demo_def split: prod.splits dest: save_other_files)
    then show ?thesis using True Cons d by (simp add: cli_main_def)
  next
    case False
    then show ?thesis using Cons st on by (auto simp: cli_main_def Let_def split: prod.splits) (metis fst_conv)+
  qed
qed

subsection \<open>The demonstration, persisted and queried\<close>

definition demo_ba :: baseline where
  "demo_ba = bl 500 10 (f64_lit 120 1) Metric_Latency ''cfg-A'' ''size-2048''"

definition demo_bb :: baseline where
  "demo_bb = bl 501 20 (f64_lit 1500 1) Metric_Throughput ''cfg-B'' ''size-2048''"

lemma demo_select:
  "fst (select_baseline demo_wa [(Id 500, demo_ba), (Id 501, demo_bb)]) = Some demo_ba"
  "fst (select_baseline demo_wb [(Id 500, demo_ba), (Id 501, demo_bb)]) = Some demo_bb"
  by code_simp+

lemma demo_fresh:
  "snd (freshness_window demo_ba (last_timestamp demo_a_obs) default_policy)"
  "snd (freshness_window demo_bb (last_timestamp demo_b_obs) default_policy)"
  by code_simp+

lemma demo_samples:
  "min_samples default_policy \<le> of_nat (length (filter (counted demo_wa demo_ba) demo_a_obs))"
  "min_samples default_policy \<le> of_nat (length (filter (counted demo_wb demo_bb) demo_b_obs))"
  by code_simp+

lemma demo_evidence:
  assumes "i_baselines s = [(Id 500, demo_ba), (Id 501, demo_bb)]"
  shows "evidence_ok demo_wa demo_a_obs default_policy s demo_ba"
    "evidence_ok demo_wb demo_b_obs default_policy s demo_bb"
proof -
  have "policy_isValid default_policy" by code_simp
  then show "evidence_ok demo_wa demo_a_obs default_policy s demo_ba"
    "evidence_ok demo_wb demo_b_obs default_policy s demo_bb"
    unfolding evidence_ok_def assms by (simp_all only: demo_select demo_fresh demo_samples)
qed

lemma demo_outcomes:
  "classify_outcome (scored_magnitude demo_wa demo_a_obs demo_ba) default_policy = Outcome_InterferenceDetected"
  "classify_outcome (scored_magnitude demo_wb demo_b_obs demo_bb) default_policy = Outcome_InterferenceDetected"
  "overlapping demo_wa demo_wb demo_ba demo_a_obs" "overlapping demo_wb demo_wa demo_bb demo_b_obs"
  "analyse_confounders demo_wa demo_a_obs = ([], [])" "analyse_confounders demo_wb demo_b_obs = ([], [])"
  by code_simp+

lemma demo_publishable:
  "publishable demo_ba" "publishable demo_bb" "stored_form demo_ba = demo_ba" "stored_form demo_bb = demo_bb"
  "b_id demo_ba = Id 500" "b_id demo_bb = Id 501"
  by code_simp+

lemma demo_setup_state:
  "demo_setup = (new_observatory (Id 1) (Id 1))\<lparr>
     i_workloads := [(Id 10, demo_wa), (Id 20, demo_wb), (Id 30, wl 30 ''idle-C'' ''cfg-C'' ''size-1'')],
     i_workers := [(Id 22, \<lparr>wk_boot = Id 1, wk_name = ''worker-a'', wk_connected = True\<rparr>)],
     i_baselines := [(Id 500, demo_ba), (Id 501, demo_bb)]\<rparr>"
proof -
  have ids: "wl_id demo_wa = Id 10" "wl_id demo_wb = Id 20" "wl_id (wl 30 n c z) = Id 30"
    "wl_generation demo_wa = Id 1010" "wl_generation demo_wb = Id 2010" "wl_generation (wl 30 n c z) = Id 3010" for n c z
    by (simp_all add: demo_wa_def demo_wb_def wl_def)
  show ?thesis
    unfolding demo_setup_def Let_def demo_ba_def [symmetric] demo_bb_def [symmetric]
    by (simp add: register_workload_def register_worker_def new_observatory_def publish_state demo_publishable ids
        id_is_nil_def less_id_def map_find_def map_emplace_def)
qed

lemma demo_serial: "serial_ok demo_setup"
proof -
  have "baseline_ok (Id 500, demo_ba)" "baseline_ok (Id 501, demo_bb)"
    by (simp_all add: baseline_ok_def demo_ba_def demo_bb_def bl_def str_ok_def canonical_def
        baseline_type_of_u8_def provenance_of_u8_def freshness_of_u8_def metric_kind_of_u8_def)
  moreover have "workload_ok (Id 10, demo_wa)" "workload_ok (Id 20, demo_wb)"
    "workload_ok (Id 30, wl 30 ''idle-C'' ''cfg-C'' ''size-1'')"
    by (simp_all add: workload_ok_def demo_wa_def demo_wb_def wl_def str_ok_def)
  ultimately show ?thesis
    by (simp add: demo_setup_state new_observatory_def serial_ok_def section_ok_def count_ok_def map_inv_def
        set_inv_def less_id_def worker_ok_def str_ok_def)
qed

text \<open>The two results and the state that is saved.\<close>

definition demo_pa :: pairwise where
  "demo_pa = scored_result demo_wa demo_wb Domain_MemoryBandwidth demo_a_obs default_policy demo_setup demo_ba"

definition demo_pb :: pairwise where
  "demo_pb = scored_result demo_wb demo_wa Domain_MemoryBandwidth demo_b_obs default_policy demo_setup demo_bb"

definition demo_mid :: impl where
  "demo_mid = snd (compare demo_wa demo_wb Domain_MemoryBandwidth demo_a_obs default_policy demo_setup)"

definition demo_final :: impl where
  "demo_final = snd (compare demo_wb demo_wa Domain_MemoryBandwidth demo_b_obs default_policy demo_mid)"

lemma demo_baselines:
  "i_baselines demo_setup = [(Id 500, demo_ba), (Id 501, demo_bb)]"
  "i_baselines demo_mid = [(Id 500, demo_ba), (Id 501, demo_bb)]"
  by (simp_all add: demo_mid_def compare_frame demo_setup_state)

lemmas demo_ev = demo_evidence(1) [OF demo_baselines(1)] demo_evidence(2) [OF demo_baselines(2)]

lemma demo_commits:
  "compare demo_wa demo_wb Domain_MemoryBandwidth demo_a_obs default_policy demo_setup =
     commit demo_wa demo_wb Domain_MemoryBandwidth demo_a_obs demo_ba demo_pa demo_setup"
  "compare demo_wb demo_wa Domain_MemoryBandwidth demo_b_obs default_policy demo_mid =
     commit demo_wb demo_wa Domain_MemoryBandwidth demo_b_obs demo_bb demo_pb demo_mid"
proof -
  show "compare demo_wa demo_wb Domain_MemoryBandwidth demo_a_obs default_policy demo_setup =
     commit demo_wa demo_wb Domain_MemoryBandwidth demo_a_obs demo_ba demo_pa demo_setup"
    by (simp only: compare_scored [OF demo_ev(1)] demo_pa_def)
  have "i_epoch demo_mid = i_epoch demo_setup" "i_recoveries demo_mid = i_recoveries demo_setup"
    by (simp_all add: demo_mid_def compare_frame)
  then show "compare demo_wb demo_wa Domain_MemoryBandwidth demo_b_obs default_policy demo_mid =
     commit demo_wb demo_wa Domain_MemoryBandwidth demo_b_obs demo_bb demo_pb demo_mid"
    unfolding compare_scored [OF demo_ev(2)] demo_pb_def by (simp only: scored_result_cong [of demo_mid demo_setup])
qed

lemma demo_ids: "wl_id demo_wa = Id 10" "wl_id demo_wb = Id 20"
  by (simp_all add: demo_wa_def demo_wb_def wl_def)

lemma demo_verdicts:
  "p_outcome demo_pa = Outcome_InterferenceDetected" "p_attribution demo_pa = Attribution_ControlledComparison"
  "p_outcome demo_pb = Outcome_InterferenceDetected" "p_attribution demo_pb = Attribution_ControlledComparison"
proof -
  have "i_recoveries demo_setup = []" by (simp add: demo_setup_state new_observatory_def)
  then show "p_outcome demo_pa = Outcome_InterferenceDetected" "p_attribution demo_pa = Attribution_ControlledComparison"
    "p_outcome demo_pb = Outcome_InterferenceDetected" "p_attribution demo_pb = Attribution_ControlledComparison"
    by (simp_all add: demo_pa_def demo_pb_def scored_outcome scored_attribution demo_outcomes attribution_of_def)
qed

lemma demo_final_log:
  "i_comparisons demo_final = map_assign (map_assign [] (p_comparison_id demo_pa) demo_pa) (p_comparison_id demo_pb) demo_pb"
proof -
  have "i_comparisons demo_setup = []" by (simp add: demo_setup_state new_observatory_def)
  then have mid: "i_comparisons demo_mid = map_assign [] (p_comparison_id demo_pa) demo_pa"
    by (simp only: demo_mid_def demo_commits(1) commit_frame)
  have "i_comparisons demo_final = map_assign (i_comparisons demo_mid) (p_comparison_id demo_pb) demo_pb"
    by (simp only: demo_final_def demo_commits(2) commit_frame)
  then show ?thesis unfolding mid .
qed

lemma demo_log:
  "map_find (i_comparisons demo_final) (p_comparison_id demo_pa) = Some demo_pa"
  "map_find (i_comparisons demo_final) (p_comparison_id demo_pb) = Some demo_pb"
  "map_find (i_comparisons demo_final) c = Some r \<Longrightarrow> r = demo_pa \<or> r = demo_pb"
proof -
  have n: "length (filter (counted demo_wa demo_ba) demo_a_obs) = 8" "length (filter (counted demo_wb demo_bb) demo_b_obs) = 8"
    by code_simp+
  have pid: "p_comparison_id demo_pa = comparison_digest (Id 10) (Id 20) Domain_MemoryBandwidth (Id 500) 8"
    "p_comparison_id demo_pb = comparison_digest (Id 20) (Id 10) Domain_MemoryBandwidth (Id 501) 8"
    by (simp_all add: demo_pa_def demo_pb_def scored_simps demo_ids demo_publishable aggregate_obs_simps n demo_outcomes)
  have "comparison_digest (Id 10) (Id 20) Domain_MemoryBandwidth (Id 500) 8 \<noteq>
      comparison_digest (Id 20) (Id 10) Domain_MemoryBandwidth (Id 501) 8" by code_simp
  then have ne: "p_comparison_id demo_pa \<noteq> p_comparison_id demo_pb" by (simp add: pid)
  note log = demo_final_log
  show "map_find (i_comparisons demo_final) (p_comparison_id demo_pa) = Some demo_pa"
    "map_find (i_comparisons demo_final) (p_comparison_id demo_pb) = Some demo_pb"
    "map_find (i_comparisons demo_final) c = Some r \<Longrightarrow> r = demo_pa \<or> r = demo_pb"
    unfolding log using ne by (auto simp del: map_assign.simps split: if_splits)
qed

lemma demo_confounders_ok:
  "confounders_ok (p_unresolved_confounders (scored_result demo_wa demo_wb d demo_a_obs p s b))"
  "confounders_ok (p_unresolved_confounders (scored_result demo_wb demo_wa d demo_b_obs p s b))"
  by (simp_all add: scored_simps demo_outcomes confounders_ok_def count_ok_def)

lemma demo_final_serial: "serial_ok demo_final"
proof -
  have c: "canonical interference_domain_u8 interference_domain_of_u8 Domain_MemoryBandwidth"
    by (simp add: canonical_def interference_domain_of_u8_def)
  have e: "i_comparisons demo_setup = []" "i_episodes demo_setup = []" by (simp_all add: demo_setup_state new_observatory_def)
  have "serial_ok demo_mid" unfolding demo_mid_def
    by (rule serial_compare [OF demo_serial demo_ev(1) c demo_confounders_ok(1)]) (simp_all add: e)
  moreover have "length (i_comparisons demo_mid) < 50000000" "length (i_episodes demo_mid) < 50000000"
    by (simp_all add: demo_mid_def demo_commits(1) commit_frame commit_episodes e)
  ultimately show ?thesis unfolding demo_final_def
    by (rule serial_compare [OF _ demo_ev(2) c demo_confounders_ok(2)])
qed

lemma demo_final_length: "length (serialize_state demo_final) \<le> kMaxPayload"
proof -
  have e: "i_comparisons demo_setup = []" "i_episodes demo_setup = []" by (simp_all add: demo_setup_state new_observatory_def)
  let ?ka = "episode_digest (Id 10) Domain_MemoryBandwidth (Id 500)"
  let ?kb = "episode_digest (Id 20) Domain_MemoryBandwidth (Id 501)"
  let ?ea = "make_episode demo_wa demo_wb Domain_MemoryBandwidth demo_a_obs demo_setup demo_ba demo_pa"
  let ?eb = "make_episode demo_wb demo_wa Domain_MemoryBandwidth demo_b_obs demo_mid demo_bb demo_pb"
  have len: "length (w_comparison (k, demo_pa)) \<le> 300" "length (w_comparison (k, demo_pb)) \<le> 300"
    "length (w_episode (k', ?ea)) \<le> 400" "length (w_episode (k', ?eb)) \<le> 400" for k k'
    unfolding demo_pa_def demo_pb_def by (simp_all add: scored_lengths demo_outcomes)
  have "i_episodes demo_mid = map_assign [] ?ka ?ea"
    by (simp add: demo_mid_def demo_commits(1) commit_episodes e demo_verdicts indicates_interference_def demo_ids demo_publishable)
  then have eps: "i_episodes demo_final = map_assign (map_assign [] ?ka ?ea) ?kb ?eb"
    by (simp add: demo_final_def demo_commits(2) commit_episodes demo_verdicts indicates_interference_def demo_ids demo_publishable
       del: map_assign.simps)
  have rest: "i_workloads demo_final = [(Id 10, demo_wa), (Id 20, demo_wb), (Id 30, wl 30 ''idle-C'' ''cfg-C'' ''size-1'')]"
    "i_baselines demo_final = [(Id 500, demo_ba), (Id 501, demo_bb)]" "i_sources demo_final = []"
    "i_workers demo_final = [(Id 22, \<lparr>wk_boot = Id 1, wk_name = ''worker-a'', wk_connected = True\<rparr>)]" "i_observations demo_final = []"
    "i_recoveries demo_final = []"
    by (simp_all add: demo_final_def demo_mid_def compare_frame) (simp_all add: demo_setup_state new_observatory_def)
  have wb: "length (w_baseline (Id 500, demo_ba)) \<le> 300" "length (w_baseline (Id 501, demo_bb)) \<le> 300"
    by (simp_all add: w_baseline_def demo_ba_def demo_bb_def bl_def)
  have ww: "length (w_workload (Id 10, demo_wa)) \<le> 300" "length (w_workload (Id 20, demo_wb)) \<le> 300"
    "length (w_workload (Id 30, wl 30 ''idle-C'' ''cfg-C'' ''size-1'')) \<le> 300"
    by (simp_all add: w_workload_def demo_wa_def demo_wb_def wl_def)
  have "length (serialize_state demo_final) \<le> 5000"
    unfolding serialize_state_def demo_final_log eps rest
    using wb ww len(1) [of "p_comparison_id demo_pa"] len(2) [of "p_comparison_id demo_pb"] len(3) [of ?ka] len(4) [of ?kb]
      len(2) [of "p_comparison_id demo_pa"] len(4) [of ?ka]
    by (simp add: w_counted_def w_worker_def)
  then show ?thesis by (simp add: kMaxPayload_def)
qed

lemma demo_saved:
  "\<exists>bs. encode (serialize_state demo_final) = Inr bs \<and>
     save no_faults p demo_final fs = (Status_Ok, fs(p \<mapsto> bs, p @ ''.tmp'' := None))"
  using demo_final_length by (auto simp: save_def no_faults_def encode_def Let_def fun_eq_iff)

lemma demo_cells:
  "matrix_get (pairwise_matrix (restored demo_final t)) (CellKey (Id 10) (Id 20) Domain_MemoryBandwidth) = Some demo_pa"
  "matrix_get (pairwise_matrix (restored demo_final t)) (CellKey (Id 20) (Id 10) Domain_MemoryBandwidth) = Some demo_pb"
proof -
  have inv: "map_inv (i_comparisons demo_final)" using demo_final_serial by (simp add: serial_ok_def)
  have cells: "cell_of demo_pa = CellKey (Id 10) (Id 20) Domain_MemoryBandwidth"
    "cell_of demo_pb = CellKey (Id 20) (Id 10) Domain_MemoryBandwidth"
    by (simp_all add: cell_of_def demo_pa_def demo_pb_def scored_keys demo_ids)
  have only: "\<forall>(c, x)\<in>set (i_comparisons demo_final). cell_of x = cell_of demo_pa \<longrightarrow> c \<le> p_comparison_id demo_pa"
    "\<forall>(c, x)\<in>set (i_comparisons demo_final). cell_of x = cell_of demo_pb \<longrightarrow> c \<le> p_comparison_id demo_pb"
    unfolding demo_final_log by (auto simp: cells)
  have mem: "(p_comparison_id demo_pa, demo_pa) \<in> set (i_comparisons demo_final)"
    "(p_comparison_id demo_pb, demo_pb) \<in> set (i_comparisons demo_final)"
    using demo_log(1,2) inv by (simp_all add: map_find_in)
  show "matrix_get (pairwise_matrix (restored demo_final t)) (CellKey (Id 10) (Id 20) Domain_MemoryBandwidth) = Some demo_pa"
    "matrix_get (pairwise_matrix (restored demo_final t)) (CellKey (Id 20) (Id 10) Domain_MemoryBandwidth) = Some demo_pb"
    using replay_matrix_last [OF inv mem(1) only(1)] replay_matrix_last [OF inv mem(2) only(2)]
    by (simp_all add: restored_def pairwise_matrix_def cells)
qed


lemma demo_args: "parse_u64 ''10'' = 10" "parse_u64 ''20'' = 20"
  "parse_interference_domain ''MEMORY_BANDWIDTH'' = Some Domain_MemoryBandwidth"
  by (simp_all add: parse_u64_def strip_sign_def is_space_def is_digit_def parse_interference_domain_def)

text \<open>C10. The demonstration end to end: on a file system that accepts the write, \<open>demo --out p\<close> exits with 0
  after reporting interference under a controlled comparison in both directions; \<open>compare --state p\<close> then
  reads the same verdicts back from the file, in both directions, and \<open>replay --state p\<close> finds the
  digests equal.\<close>

theorem cli_demo_roundtrip:
  "case cli_main no_faults [''demo'', ''--out'', p] fs of (code, lines, fs') \<Rightarrow>
     code = 0 \<and>
     (\<exists>a b. lines = [Out_demo ''A->B'' Outcome_InterferenceDetected Attribution_ControlledComparison a,
        Out_demo ''B->A'' Outcome_InterferenceDetected Attribution_ControlledComparison b, Out_persisted p]) \<and>
     (\<exists>r c. cli_main io [''compare'', ''--victim'', ''10'', ''--neighbor'', ''20'', ''--state'', p] fs' =
       (0, [Out_compare 10 20 ''MEMORY_BANDWIDTH'' Outcome_InterferenceDetected Attribution_ControlledComparison r c], fs')) \<and>
     (\<exists>r c. cli_main io [''compare'', ''--victim'', ''20'', ''--neighbor'', ''10'', ''--state'', p] fs' =
       (0, [Out_compare 20 10 ''MEMORY_BANDWIDTH'' Outcome_InterferenceDetected Attribution_ControlledComparison r c], fs')) \<and>
     (\<exists>d. cli_main io [''replay'', ''--state'', p] fs' = (0, [Out_replay d True], fs'))"
proof -
  obtain bs where bs: "encode (serialize_state demo_final) = Inr bs"
    "save no_faults p demo_final fs = (Status_Ok, fs(p \<mapsto> bs, p @ ''.tmp'' := None))" using demo_saved by blast
  let ?c = "compare demo_wa demo_wb Domain_MemoryBandwidth demo_a_obs default_policy demo_setup"
  let ?d = "compare demo_wb demo_wa Domain_MemoryBandwidth demo_b_obs default_policy demo_mid"
  have c: "snd ?c = demo_mid" "snd ?d = demo_final" by (simp_all only: demo_mid_def demo_final_def)
  have v: "p_outcome (fst ?c) = p_outcome demo_pa" "p_attribution (fst ?c) = p_attribution demo_pa"
    "p_outcome (fst ?d) = p_outcome demo_pb" "p_attribution (fst ?d) = p_attribution demo_pb"
    by (simp_all add: demo_commits commit_fst)
  let ?fs = "fs(p \<mapsto> bs, p @ ''.tmp'' := None)"
  have demo: "\<exists>a b. cli_main no_faults [''demo'', ''--out'', p] fs =
      (0, [Out_demo ''A->B'' Outcome_InterferenceDetected Attribution_ControlledComparison a,
           Out_demo ''B->A'' Outcome_InterferenceDetected Attribution_ControlledComparison b, Out_persisted p], ?fs)"
    by (simp add: cli_main_def build_demo_def case_prod_beta c v bs(2) demo_verdicts)
  have ld: "load p ?fs t = (Status_Ok, restored demo_final t)" for t
    by (rule load_saved [OF demo_final_serial bs(1)]) simp
  have queries: "\<exists>r c. cli_main io [''compare'', ''--victim'', ''10'', ''--neighbor'', ''20'', ''--state'', p] ?fs =
      (0, [Out_compare 10 20 ''MEMORY_BANDWIDTH'' Outcome_InterferenceDetected Attribution_ControlledComparison r c], ?fs)"
    "\<exists>r c. cli_main io [''compare'', ''--victim'', ''20'', ''--neighbor'', ''10'', ''--state'', p] ?fs =
      (0, [Out_compare 20 10 ''MEMORY_BANDWIDTH'' Outcome_InterferenceDetected Attribution_ControlledComparison r c], ?fs)"
    "\<exists>d. cli_main io [''replay'', ''--state'', p] ?fs = (0, [Out_replay d True], ?fs)"
    by (simp_all add: cli_main_def ld on_state_def cmd_compare_def cmd_replay_def flag_id_def has_flag_def demo_args
        demo_cells demo_verdicts del: fun_upd_apply)
  from demo obtain a b where "cli_main no_faults [''demo'', ''--out'', p] fs =
      (0, [Out_demo ''A->B'' Outcome_InterferenceDetected Attribution_ControlledComparison a,
           Out_demo ''B->A'' Outcome_InterferenceDetected Attribution_ControlledComparison b, Out_persisted p], ?fs)"
    by blast
  then show ?thesis using queries by simp
qed

end
