(* ===== verification/Calls.thy ===== *)
theory Calls
  imports Prelude "HOL-Library.State_Monad" "HOL-Library.Multiset"
begin

text \<open>
  Programs over an operating system or a device library. What such a library answers is a parameter,
  a function of the history of the calls made so far; a program is an action of the state monad over
  that history, so the calls it makes, in their order, are part of its meaning. \<open>exec\<close> is the
  history after a program and \<open>result\<close> the value it returns.
\<close>

type_synonym ('c, 'a) prog = "('c list, 'a) state"

definition call :: "'c \<Rightarrow> ('c, unit) prog" where
  "call c = State (\<lambda>tr. ((), tr @ [c]))"

definition ask :: "('c list \<Rightarrow> 'a) \<Rightarrow> ('c, 'a) prog" where
  "ask f = State (\<lambda>tr. (f tr, tr))"

definition exec :: "('c, 'a) prog \<Rightarrow> 'c list \<Rightarrow> 'c list" where
  "exec m tr = snd (run_state m tr)"

definition result :: "('c, 'a) prog \<Rightarrow> 'c list \<Rightarrow> 'a" where
  "result m tr = fst (run_state m tr)"

lemma exec_simps [simp]:
  "exec (State_Monad.bind m f) tr = exec (f (result m tr)) (exec m tr)"
  "exec (State_Monad.return x) tr = tr" "exec (call c) tr = tr @ [c]" "exec (ask g) tr = tr"
  "exec (case p of (a, b) \<Rightarrow> h a b) tr = exec (h (fst p) (snd p)) tr"
  by (simp_all add: exec_def result_def call_def ask_def State_Monad.bind_def State_Monad.return_def split: prod.splits)

lemma result_simps [simp]:
  "result (State_Monad.bind m f) tr = result (f (result m tr)) (exec m tr)"
  "result (State_Monad.return x) tr = x" "result (ask g) tr = g tr"
  "result (case p of (a, b) \<Rightarrow> h a b) tr = result (h (fst p) (snd p)) tr"
  by (simp_all add: exec_def result_def ask_def State_Monad.bind_def State_Monad.return_def split: prod.splits)

lemma exec_if [simp]: "exec (if b then m else n) tr = (if b then exec m tr else exec n tr)"
  by simp

lemma result_if [simp]: "result (if b then m else n) tr = (if b then result m tr else result n tr)"
  by simp

end
