(* ===== verification/Sockets.thy ===== *)
theory Sockets
  imports Calls
begin

text \<open>
  The socket layer of \<open>src/protocol.cpp\<close> on POSIX: opening a connection, listening, accepting and
  closing. The system calls are a parameter (\<open>posix\<close>), which answers from the history of calls. The
  property is that error paths leak nothing: a failing function leaves the open descriptors as they
  were, a successful one adds exactly the descriptor it returns.
\<close>

subsection \<open>System calls\<close>

datatype sys_call =
    Sys_socket int
  | Sys_connect int u32 u16
  | Sys_setsockopt int
  | Sys_bind int u16
  | Sys_listen int int
  | Sys_accept int int
  | Sys_close int

text \<open>The descriptors of \<open>socket\<close> and \<open>accept\<close> (negative on failure), the results of \<open>connect\<close>,
  \<open>bind\<close> and \<open>listen\<close> (0 on success) and the address \<open>inet_pton\<close> writes; its result is not looked at.\<close>

record posix =
  px_socket :: "sys_call list \<Rightarrow> int"
  px_connect :: "sys_call list \<Rightarrow> int \<Rightarrow> u32 \<Rightarrow> u16 \<Rightarrow> int"
  px_bind :: "sys_call list \<Rightarrow> int \<Rightarrow> u16 \<Rightarrow> int"
  px_listen :: "sys_call list \<Rightarrow> int \<Rightarrow> int \<Rightarrow> int"
  px_accept :: "sys_call list \<Rightarrow> int \<Rightarrow> int"
  px_inet_pton :: "string \<Rightarrow> u32"

type_synonym 'a sys = "(sys_call, 'a) prog"

definition sys_socket :: "posix \<Rightarrow> int sys" where
  "sys_socket px = do { s \<leftarrow> ask (px_socket px); call (Sys_socket s); State_Monad.return s }"

definition sys_accept :: "posix \<Rightarrow> int \<Rightarrow> int sys" where
  "sys_accept px l = do { c \<leftarrow> ask (\<lambda>tr. px_accept px tr l); call (Sys_accept l c); State_Monad.return c }"

subsection \<open>The functions of the source\<close>

text \<open>The result \<open>-1\<close> with a message in \<open>err\<close> is the left alternative.\<close>

definition socket_close :: "int \<Rightarrow> unit sys" where
  "socket_close h = call (Sys_close h)"

definition socket_connect :: "posix \<Rightarrow> string \<Rightarrow> u16 \<Rightarrow> (string + int) sys" where
  "socket_connect px host port = do {
     let addr = px_inet_pton px host;
     s \<leftarrow> sys_socket px;
     if s < 0 then State_Monad.return (Inl ''socket failed'')
     else do {
       rc \<leftarrow> ask (\<lambda>tr. px_connect px tr s addr port);
       call (Sys_connect s addr port);
       if rc \<noteq> 0 then do { call (Sys_close s); State_Monad.return (Inl ''connect failed'') }
       else State_Monad.return (Inr s) } }"

definition socket_listen :: "posix \<Rightarrow> u16 \<Rightarrow> (string + int) sys" where
  "socket_listen px port = do {
     s \<leftarrow> sys_socket px;
     if s < 0 then State_Monad.return (Inl ''socket failed'')
     else do {
       call (Sys_setsockopt s);
       rc \<leftarrow> ask (\<lambda>tr. px_bind px tr s port);
       call (Sys_bind s port);
       if rc \<noteq> 0 then do { call (Sys_close s); State_Monad.return (Inl ''bind failed'') }
       else do {
         rc \<leftarrow> ask (\<lambda>tr. px_listen px tr s 16);
         call (Sys_listen s 16);
         if rc \<noteq> 0 then do { call (Sys_close s); State_Monad.return (Inl ''listen failed'') }
         else State_Monad.return (Inr s) } } }"

definition socket_accept :: "posix \<Rightarrow> int \<Rightarrow> (string + int) sys" where
  "socket_accept px listener = do {
     c \<leftarrow> sys_accept px listener;
     State_Monad.return (if c < 0 then Inl ''accept failed'' else Inr c) }"

subsection \<open>Open descriptors\<close>

fun open_step :: "int multiset \<Rightarrow> sys_call \<Rightarrow> int multiset" where
  "open_step m (Sys_socket s) = (if s < 0 then m else add_mset s m)"
| "open_step m (Sys_accept l c) = (if c < 0 then m else add_mset c m)"
| "open_step m (Sys_close s) = m - {#s#}"
| "open_step m _ = m"

definition open_sockets :: "sys_call list \<Rightarrow> int multiset" where
  "open_sockets tr = foldl open_step {#} tr"

lemma open_append [simp]: "open_sockets (tr @ cs) = foldl open_step (open_sockets tr) cs"
  by (simp add: open_sockets_def)

lemma sys_ops [simp]:
  "exec (sys_socket px) tr = tr @ [Sys_socket (px_socket px tr)]" "result (sys_socket px) tr = px_socket px tr"
  "exec (sys_accept px l) tr = tr @ [Sys_accept l (px_accept px tr l)]" "result (sys_accept px l) tr = px_accept px tr l"
  by (simp_all add: sys_socket_def sys_accept_def)

text \<open>A function that opens at most the descriptor it returns.\<close>

definition opens_result :: "(string + int) sys \<Rightarrow> sys_call list \<Rightarrow> bool" where
  "opens_result m tr \<longleftrightarrow> (case result m tr of
     Inl err \<Rightarrow> err \<noteq> [] \<and> open_sockets (exec m tr) = open_sockets tr
   | Inr h \<Rightarrow> 0 \<le> h \<and> open_sockets (exec m tr) = add_mset h (open_sockets tr))"

text \<open>C31. The socket layer leaks no descriptor: whatever the system answers, \<open>socket_connect\<close>,
  \<open>socket_listen\<close> and \<open>socket_accept\<close> either fail with a message and leave the open descriptors as they
  were, or return a valid descriptor that is the only one added; and connecting and closing
  again restores what was open before.\<close>

theorem sockets_do_not_leak:
  "opens_result (socket_connect px host port) tr \<and> opens_result (socket_listen px port) tr \<and>
   opens_result (socket_accept px listener) tr \<and>
   open_sockets (exec (do { r \<leftarrow> socket_connect px host port;
     case r of Inl _ \<Rightarrow> State_Monad.return () | Inr h \<Rightarrow> socket_close h }) tr) = open_sockets tr"
  by (auto simp: opens_result_def socket_connect_def socket_listen_def socket_accept_def socket_close_def Let_def)

end
