(* ===== verification/Cuda_Backend.thy ===== *)
theory Cuda_Backend
  imports Calls Double64
begin

text \<open>
  The CUDA backend (\<open>src/cuda/cuda_backend.cu\<close>). Its host functions are programs over the CUDA
  runtime, which is a parameter: \<open>cuda_rt\<close> answers the calls that return something, from the
  history of calls. A host function is an action of the state monad over that history, so the calls it
  makes, in their order, are part of its result. Two readings of a history carry the properties: the
  resources that are held (\<open>live\<close>) and the streams with unfinished work (\<open>flight\<close>). The locale
  \<open>timed_launch\<close> is the contract of the three timed runs; the pair of runs that stands for a co-run is
  analysed once, in it.
\<close>

subsection \<open>Calls of the runtime\<close>

type_synonym stream = "nat option"

datatype cuda_work =
    Compute_heavy u32 u64 "nat option"
  | Memory_heavy u32 "nat option" u64
  | Copy_to_device "nat option" "nat option" u64
  | Copy_to_host "nat option" "nat option" u64

datatype cuda_call =
    Stream_create stream
  | Stream_destroy stream
  | Malloc "nat option"
  | Free nat
  | Host_malloc "nat option"
  | Host_free "nat option"
  | Event_create "nat option"
  | Event_destroy "nat option"
  | Event_record "nat option" stream
  | Event_synchronize "nat option"
  | Device_synchronize
  | Enqueue stream cuda_work

record cuda_props =
  prop_name :: string
  prop_major :: int
  prop_minor :: int
  prop_total :: u64

text \<open>\<open>rt_dangling\<close> is what the machine does when a program prints a string through a pointer whose array is
  gone: it prints some text, or the program dies (\<open>None\<close>).\<close>

record cuda_rt =
  rt_device :: "int + cuda_props"
  rt_free_memory :: "cuda_call list \<Rightarrow> u64"
  rt_stream :: "cuda_call list \<Rightarrow> stream"
  rt_malloc :: "cuda_call list \<Rightarrow> u64 \<Rightarrow> nat option"
  rt_host_malloc :: "cuda_call list \<Rightarrow> u64 \<Rightarrow> nat option"
  rt_event :: "cuda_call list \<Rightarrow> nat option"
  rt_elapsed :: "cuda_call list \<Rightarrow> nat option \<Rightarrow> nat option \<Rightarrow> double"
  rt_dangling :: "string option"

type_synonym 'a cuda = "(cuda_call list, 'a) state"

subsection \<open>The host functions\<close>

definition make_stream :: "cuda_rt \<Rightarrow> stream cuda" where
  "make_stream rt = do { s \<leftarrow> ask (rt_stream rt); call (Stream_create s); State_Monad.return s }"

text \<open>\<open>iobs_cuda_probe\<close>: the error code, or 0 with name, compute capability and memory size. The name is the
  address of an array in \<open>prop\<close>, a local variable: when the caller gets it, the array is gone.\<close>

datatype c_string = Live_string string | Dangling

definition iobs_cuda_probe :: "cuda_rt \<Rightarrow> int + c_string \<times> int \<times> u64" where
  "iobs_cuda_probe rt = (case rt_device rt of
     Inl e \<Rightarrow> Inl e
   | Inr p \<Rightarrow> Inr (Dangling, prop_major p * 10 + prop_minor p, prop_total p))"

definition iobs_cuda_free_memory_bytes :: "cuda_rt \<Rightarrow> u64 cuda" where
  "iobs_cuda_free_memory_bytes rt = ask (rt_free_memory rt)"

definition alloc_buffer :: "cuda_rt \<Rightarrow> u64 \<Rightarrow> nat option cuda" where
  "alloc_buffer rt n = do { b \<leftarrow> ask (\<lambda>tr. rt_malloc rt tr n); call (Malloc b); State_Monad.return b }"

definition free_buffer :: "nat option \<Rightarrow> unit cuda" where
  "free_buffer b = (case b of None \<Rightarrow> State_Monad.return () | Some h \<Rightarrow> call (Free h))"

definition new_event :: "cuda_rt \<Rightarrow> nat option cuda" where
  "new_event rt = do { e \<leftarrow> ask (rt_event rt); call (Event_create e); State_Monad.return e }"

definition sync_current :: "unit cuda" where
  "sync_current = call Device_synchronize"

definition launch_compute :: "cuda_rt \<Rightarrow> u64 \<Rightarrow> u64 \<Rightarrow> stream \<Rightarrow> double cuda" where
  "launch_compute rt iters blocks stream = do {
     sink \<leftarrow> alloc_buffer rt 64;
     start \<leftarrow> new_event rt; stop \<leftarrow> new_event rt;
     call (Enqueue stream (Compute_heavy (ucast blocks) iters sink));
     call Device_synchronize;
     call (Event_record start stream);
     call (Enqueue stream (Compute_heavy (ucast blocks) iters sink));
     call (Event_record stop stream);
     call (Event_synchronize stop);
     ms \<leftarrow> ask (\<lambda>tr. rt_elapsed rt tr start stop);
     call (Event_destroy start); call (Event_destroy stop);
     free_buffer sink;
     State_Monad.return ms }"

text \<open>Bytes per second in GiB, 0 for a run that took no time.\<close>

definition bandwidth :: "double \<Rightarrow> double \<Rightarrow> double" where
  "bandwidth moved ms =
     (let sec = f64_div ms (f64_lit 1000 1) in
      if f64_lt f64_zero sec
      then f64_div moved (f64_mul (f64_mul (f64_mul sec (f64_lit 1024 1)) (f64_lit 1024 1)) (f64_lit 1024 1))
      else f64_zero)"

definition launch_memory :: "cuda_rt \<Rightarrow> u64 \<Rightarrow> stream \<Rightarrow> (double \<times> double) cuda" where
  "launch_memory rt bytes stream = do {
     buf \<leftarrow> alloc_buffer rt bytes;
     let n = bytes div 4; let grid = ucast ((n + 255) div 256);
     start \<leftarrow> new_event rt; stop \<leftarrow> new_event rt;
     call (Enqueue stream (Memory_heavy grid buf n));
     call Device_synchronize;
     call (Event_record start stream);
     call (Enqueue stream (Memory_heavy grid buf n));
     call (Event_record stop stream);
     call (Event_synchronize stop);
     ms \<leftarrow> ask (\<lambda>tr. rt_elapsed rt tr start stop);
     call (Event_destroy start); call (Event_destroy stop);
     free_buffer buf;
     State_Monad.return (ms, bandwidth (f64_mul (f64_of_u64 n) (f64_lit 4 1)) ms) }"

definition launch_transfer :: "cuda_rt \<Rightarrow> u64 \<Rightarrow> stream \<Rightarrow> (double \<times> double) cuda" where
  "launch_transfer rt bytes stream = do {
     dev \<leftarrow> alloc_buffer rt bytes;
     host_data \<leftarrow> ask (\<lambda>tr. rt_host_malloc rt tr bytes);
     call (Host_malloc host_data);
     start \<leftarrow> new_event rt; stop \<leftarrow> new_event rt;
     call (Enqueue stream (Copy_to_device dev host_data bytes));
     call (Enqueue stream (Copy_to_host host_data dev bytes));
     call Device_synchronize;
     call (Event_record start stream);
     call (Enqueue stream (Copy_to_device dev host_data bytes));
     call (Enqueue stream (Copy_to_host host_data dev bytes));
     call (Event_record stop stream);
     call (Event_synchronize stop);
     ms \<leftarrow> ask (\<lambda>tr. rt_elapsed rt tr start stop);
     call (Event_destroy start); call (Event_destroy stop);
     free_buffer dev;
     call (Host_free host_data);
     State_Monad.return (ms, bandwidth (f64_mul (f64_lit 2 1) (f64_of_u64 bytes)) ms) }"

text \<open>The bodies of the three \<open>..._alone\<close> and the three \<open>..._concurrent\<close> functions are the same up to
  the run they time.\<close>

definition run_alone :: "cuda_rt \<Rightarrow> (stream \<Rightarrow> 'a cuda) \<Rightarrow> 'a cuda" where
  "run_alone rt launch = do {
     s \<leftarrow> make_stream rt;
     r \<leftarrow> launch s;
     call (Stream_destroy s);
     sync_current;
     State_Monad.return r }"

definition run_pair :: "cuda_rt \<Rightarrow> (stream \<Rightarrow> 'a cuda) \<Rightarrow> ('a \<times> 'a) cuda" where
  "run_pair rt launch = do {
     sa \<leftarrow> make_stream rt; sb \<leftarrow> make_stream rt;
     ma \<leftarrow> launch sa;
     mb \<leftarrow> launch sb;
     call (Stream_destroy sa); call (Stream_destroy sb);
     sync_current;
     State_Monad.return (ma, mb) }"

definition iobs_cuda_compute_alone :: "cuda_rt \<Rightarrow> u64 \<Rightarrow> u64 \<Rightarrow> (double \<times> double) cuda" where
  "iobs_cuda_compute_alone rt iters blocks = do {
     ms \<leftarrow> run_alone rt (launch_compute rt iters blocks);
     State_Monad.return (ms, f64_zero) }"

definition iobs_cuda_compute_concurrent :: "cuda_rt \<Rightarrow> u64 \<Rightarrow> u64 \<Rightarrow> (double \<times> double) cuda" where
  "iobs_cuda_compute_concurrent rt iters blocks = run_pair rt (launch_compute rt iters blocks)"

definition iobs_cuda_memory_alone :: "cuda_rt \<Rightarrow> u64 \<Rightarrow> (double \<times> double) cuda" where
  "iobs_cuda_memory_alone rt bytes = run_alone rt (launch_memory rt bytes)"

definition iobs_cuda_memory_concurrent :: "cuda_rt \<Rightarrow> u64 \<Rightarrow> (double \<times> double) cuda" where
  "iobs_cuda_memory_concurrent rt bytes = do {
     (a, b) \<leftarrow> run_pair rt (launch_memory rt bytes);
     State_Monad.return (fst a, fst b) }"

definition iobs_cuda_transfer_alone :: "cuda_rt \<Rightarrow> u64 \<Rightarrow> (double \<times> double) cuda" where
  "iobs_cuda_transfer_alone rt bytes = run_alone rt (launch_transfer rt bytes)"

definition iobs_cuda_transfer_concurrent :: "cuda_rt \<Rightarrow> u64 \<Rightarrow> (double \<times> double) cuda" where
  "iobs_cuda_transfer_concurrent rt bytes = do {
     (a, b) \<leftarrow> run_pair rt (launch_transfer rt bytes);
     State_Monad.return (fst a, fst b) }"

subsection \<open>Reading a history\<close>

datatype resource = Res_stream nat | Res_buffer nat | Res_host nat | Res_event nat

definition opt_res :: "(nat \<Rightarrow> resource) \<Rightarrow> nat option \<Rightarrow> resource multiset" where
  "opt_res f h = (case h of None \<Rightarrow> {#} | Some k \<Rightarrow> {#f k#})"

fun live_step :: "resource multiset \<Rightarrow> cuda_call \<Rightarrow> resource multiset" where
  "live_step m (Stream_create s) = m + opt_res Res_stream s"
| "live_step m (Stream_destroy s) = m - opt_res Res_stream s"
| "live_step m (Malloc b) = m + opt_res Res_buffer b"
| "live_step m (Free b) = m - {#Res_buffer b#}"
| "live_step m (Host_malloc h) = m + opt_res Res_host h"
| "live_step m (Host_free h) = m - opt_res Res_host h"
| "live_step m (Event_create e) = m + opt_res Res_event e"
| "live_step m (Event_destroy e) = m - opt_res Res_event e"
| "live_step m _ = m"

definition live :: "cuda_call list \<Rightarrow> resource multiset" where
  "live tr = foldl live_step {#} tr"

text \<open>Streams with unfinished work, and for each event the stream whose whole work so far it marks.
  Waiting for an event finishes the work before its record; waiting for the device finishes all.\<close>

record flight =
  fl_busy :: "stream set"
  fl_marks :: "nat \<rightharpoonup> stream"

fun flight_step :: "flight \<Rightarrow> cuda_call \<Rightarrow> flight" where
  "flight_step f (Enqueue s w) = f\<lparr>fl_busy := insert s (fl_busy f),
     fl_marks := (\<lambda>e. if fl_marks f e = Some s then None else fl_marks f e)\<rparr>"
| "flight_step f (Event_record (Some e) s) = f\<lparr>fl_marks := (fl_marks f)(e \<mapsto> s)\<rparr>"
| "flight_step f (Event_synchronize (Some e)) =
     (case fl_marks f e of None \<Rightarrow> f | Some s \<Rightarrow> f\<lparr>fl_busy := fl_busy f - {s}\<rparr>)"
| "flight_step f Device_synchronize = f\<lparr>fl_busy := {}\<rparr>"
| "flight_step f _ = f"

definition flight_of :: "cuda_call list \<Rightarrow> flight" where
  "flight_of tr = foldl flight_step \<lparr>fl_busy = {}, fl_marks = Map.empty\<rparr> tr"

definition quiet :: "cuda_call list \<Rightarrow> bool" where
  "quiet tr \<longleftrightarrow> fl_busy (flight_of tr) = {}"

text \<open>No work was ever given to a stream while another one was busy.\<close>

definition serial :: "cuda_call list \<Rightarrow> bool" where
  "serial tr \<longleftrightarrow> (\<forall>pre s w post. tr = pre @ Enqueue s w # post \<longrightarrow> fl_busy (flight_of pre) \<subseteq> {s})"

subsection \<open>Lemmas on histories\<close>

definition events_ok :: "cuda_rt \<Rightarrow> bool" where
  "events_ok rt \<longleftrightarrow> (\<forall>tr. rt_event rt tr \<noteq> None)"

lemma exec_ops [simp]:
  "exec (make_stream rt) tr = tr @ [Stream_create (rt_stream rt tr)]"
  "exec (alloc_buffer rt n) tr = tr @ [Malloc (rt_malloc rt tr n)]"
  "exec (new_event rt) tr = tr @ [Event_create (rt_event rt tr)]"
  "exec sync_current tr = tr @ [Device_synchronize]"
  "exec (free_buffer b) tr = tr @ (case b of None \<Rightarrow> [] | Some h \<Rightarrow> [Free h])"
  by (simp_all add: make_stream_def alloc_buffer_def new_event_def sync_current_def free_buffer_def split: option.splits)

lemma result_ops [simp]:
  "result (make_stream rt) tr = rt_stream rt tr"
  "result (alloc_buffer rt n) tr = rt_malloc rt tr n"
  "result (new_event rt) tr = rt_event rt tr"
  by (simp_all add: make_stream_def alloc_buffer_def new_event_def)

lemma live_append: "live (tr @ cs) = foldl live_step (live tr) cs" by (simp add: live_def)

lemma flight_append: "flight_of (tr @ cs) = foldl flight_step (flight_of tr) cs" by (simp add: flight_of_def)

fun serial_from :: "flight \<Rightarrow> cuda_call list \<Rightarrow> bool" where
  "serial_from f [] = True"
| "serial_from f (c # cs) =
     ((case c of Enqueue s w \<Rightarrow> fl_busy f \<subseteq> {s} | _ \<Rightarrow> True) \<and> serial_from (flight_step f c) cs)"

lemma serial_from_append: "serial_from f (xs @ ys) \<longleftrightarrow> serial_from f xs \<and> serial_from (foldl flight_step f xs) ys"
  by (induction f xs rule: serial_from.induct) auto

lemma serial_from_iff:
  "serial_from f cs \<longleftrightarrow> (\<forall>pre s w post. cs = pre @ Enqueue s w # post \<longrightarrow> fl_busy (foldl flight_step f pre) \<subseteq> {s})"
proof (induction f cs rule: serial_from.induct)
  case (2 f c cs)
  have lists: "(\<forall>pre. Q pre) \<longleftrightarrow> Q [] \<and> (\<forall>x pre. Q (x # pre))" for Q :: "cuda_call list \<Rightarrow> bool"
    by (metis list.exhaust)
  show ?case unfolding serial_from.simps 2 by (subst (2) lists) (auto split: cuda_call.splits)
qed simp

lemma serial_append: "serial (tr @ cs) \<longleftrightarrow> serial tr \<and> serial_from (flight_of tr) cs"
  by (simp only: serial_def flight_of_def serial_from_iff [symmetric] serial_from_append)

subsection \<open>A timed run\<close>

text \<open>The calls all three runs make between allocating and freeing their buffers.\<close>

definition timed_calls :: "stream \<Rightarrow> cuda_work list \<Rightarrow> nat option \<Rightarrow> nat option \<Rightarrow> cuda_call list" where
  "timed_calls s ws start stop =
     [Event_create start, Event_create stop] @ map (Enqueue s) ws @ [Device_synchronize, Event_record start s] @
     map (Enqueue s) ws @ [Event_record stop s, Event_synchronize stop, Event_destroy start, Event_destroy stop]"

definition free_calls :: "nat option \<Rightarrow> cuda_call list" where
  "free_calls b = (case b of None \<Rightarrow> [] | Some h \<Rightarrow> [Free h])"

lemma live_enqueue: "foldl live_step m (map (Enqueue s) ws) = m"
  by (induction ws) auto

lemma timed_live: "foldl live_step m (timed_calls s ws start stop) = m"
  by (simp add: timed_calls_def live_enqueue)

lemma free_live: "foldl live_step (m + opt_res Res_buffer b) (free_calls b) = m"
  by (simp add: free_calls_def opt_res_def split: option.split)

lemma busy_enqueue:
  "fl_busy f \<subseteq> {s} \<Longrightarrow> fl_busy (foldl flight_step f (map (Enqueue s) ws)) \<subseteq> {s} \<and> serial_from f (map (Enqueue s) ws)"
  by (induction ws arbitrary: f) auto

lemma record_quiet: "fl_busy (flight_step f (Event_record e s)) = fl_busy f"
  by (cases e) auto

lemma timed_quiet:
  assumes "fl_busy f = {}" "stop \<noteq> None"
  shows "fl_busy (foldl flight_step f (timed_calls s ws start stop)) = {} \<and> serial_from f (timed_calls s ws start stop)"
proof -
  obtain e where e: "stop = Some e" using assms(2) by blast
  let ?f1 = "foldl flight_step f (map (Enqueue s) ws)"
  let ?f2 = "flight_step (?f1\<lparr>fl_busy := {}\<rparr>) (Event_record start s)"
  let ?f3 = "foldl flight_step ?f2 (map (Enqueue s) ws)"
  have 1: "serial_from f (map (Enqueue s) ws)" using busy_enqueue [of f s ws] assms(1) by simp
  have "fl_busy ?f2 \<subseteq> {s}" by (simp add: record_quiet)
  then have 3: "fl_busy ?f3 \<subseteq> {s}" "serial_from ?f2 (map (Enqueue s) ws)" using busy_enqueue by blast+
  have "fl_busy ?f3 - {s} = {}" using 3(1) by blast
  then show ?thesis using 1 3 by (simp add: timed_calls_def serial_from_append e)
qed

lemma free_quiet: "foldl flight_step f (free_calls b) = f" "serial_from f (free_calls b)"
  by (simp_all add: free_calls_def split: option.split)

lemmas launch_exec = timed_calls_def free_calls_def Let_def

lemma launch_compute_calls:
  "\<exists>b ws start stop. exec (launch_compute rt iters blocks s) tr = tr @ Malloc b # timed_calls s ws start stop @ free_calls b \<and>
     (events_ok rt \<longrightarrow> stop \<noteq> None)"
  unfolding launch_compute_def events_ok_def
  by (rule exI [of _ "rt_malloc rt tr 64"], rule exI [of _ "[Compute_heavy (ucast blocks) iters (rt_malloc rt tr 64)]"])
    (auto simp: launch_exec split: option.splits)

lemma launch_memory_calls:
  "\<exists>b ws start stop. exec (launch_memory rt n s) tr = tr @ Malloc b # timed_calls s ws start stop @ free_calls b \<and>
     (events_ok rt \<longrightarrow> stop \<noteq> None)"
  unfolding launch_memory_def events_ok_def
  by (rule exI [of _ "rt_malloc rt tr n"],
      rule exI [of _ "[Memory_heavy (ucast ((n div 4 + 255) div 256)) (rt_malloc rt tr n) (n div 4)]"])
    (auto simp: launch_exec split: option.splits)

lemma launch_transfer_calls:
  "\<exists>b h ws start stop. exec (launch_transfer rt n s) tr =
     tr @ Malloc b # Host_malloc h # timed_calls s ws start stop @ free_calls b @ [Host_free h] \<and>
     (events_ok rt \<longrightarrow> stop \<noteq> None)"
proof -
  let ?b = "rt_malloc rt tr n"
  let ?h = "rt_host_malloc rt (tr @ [Malloc ?b]) n"
  show ?thesis unfolding launch_transfer_def events_ok_def
    by (rule exI [of _ ?b], rule exI [of _ ?h], rule exI [of _ "[Copy_to_device ?b ?h n, Copy_to_host ?h ?b n]"])
      (auto simp: launch_exec split: option.splits)
qed

subsection \<open>One run and two runs\<close>

locale timed_launch =
  fixes launch :: "cuda_rt \<Rightarrow> stream \<Rightarrow> 'a cuda"
  assumes keeps_live: "live (exec (launch rt s) tr) = live tr"
    and ends_quiet: "events_ok rt \<Longrightarrow> quiet tr \<Longrightarrow> quiet (exec (launch rt s) tr)"
    and stays_serial: "events_ok rt \<Longrightarrow> quiet tr \<Longrightarrow> serial tr \<Longrightarrow> serial (exec (launch rt s) tr)"
begin

lemma alone_live: "live (exec (run_alone rt (launch rt)) tr) = live tr"
  by (simp add: run_alone_def live_append keeps_live)

lemma pair_live: "live (exec (run_pair rt (launch rt)) tr) = live tr"
  by (simp add: run_pair_def live_append keeps_live)

lemma pair_serial:
  assumes "events_ok rt" "quiet tr" "serial tr"
  shows "serial (exec (run_pair rt (launch rt)) tr)" "quiet (exec (run_pair rt (launch rt)) tr)"
proof -
  let ?t0 = "tr @ [Stream_create (rt_stream rt tr)]"
  let ?t1 = "?t0 @ [Stream_create (rt_stream rt ?t0)]"
  have "quiet ?t1" "serial ?t1" using assms by (simp_all add: quiet_def flight_append serial_append)
  note 1 = ends_quiet [OF assms(1) this(1)] stays_serial [OF assms(1) this]
  note 2 = ends_quiet [OF assms(1) 1(1)] stays_serial [OF assms(1) 1]
  then show "serial (exec (run_pair rt (launch rt)) tr)" "quiet (exec (run_pair rt (launch rt)) tr)"
    by (simp_all add: run_pair_def serial_append quiet_def flight_append)
qed

end

lemma run_contract:
  assumes "exec m tr = tr @ Malloc b # timed_calls s ws start stop @ free_calls b \<or>
    exec m tr = tr @ Malloc b # Host_malloc h # timed_calls s ws start stop @ free_calls b @ [Host_free h]"
  shows "live (exec m tr) = live tr"
    "quiet tr \<Longrightarrow> stop \<noteq> None \<Longrightarrow> quiet (exec m tr)"
    "quiet tr \<Longrightarrow> stop \<noteq> None \<Longrightarrow> serial tr \<Longrightarrow> serial (exec m tr)"
proof -
  have swap: "foldl live_step (m + opt_res Res_buffer b + opt_res Res_host h) (free_calls b) = m + opt_res Res_host h" for m
    using free_live [of "m + opt_res Res_host h" b] by (simp add: ac_simps)
  show "live (exec m tr) = live tr"
    using assms by (auto simp: live_append timed_live free_live swap)
  show "quiet (exec m tr)" if "quiet tr" "stop \<noteq> None"
    using assms timed_quiet [of "flight_of tr" stop s ws start] that by (auto simp: quiet_def flight_append free_quiet)
  show "serial (exec m tr)" if "quiet tr" "stop \<noteq> None" "serial tr"
    using assms timed_quiet [of "flight_of tr" stop s ws start] that
    by (auto simp: quiet_def flight_append free_quiet serial_append serial_from_append)
qed

interpretation compute_run: timed_launch "\<lambda>rt. launch_compute rt iters blocks" for iters blocks
proof
  fix rt s tr
  obtain b ws start stop where c: "exec (launch_compute rt iters blocks s) tr =
      tr @ Malloc b # timed_calls s ws start stop @ free_calls b" "events_ok rt \<longrightarrow> stop \<noteq> None"
    using launch_compute_calls by blast
  note r = run_contract [OF disjI1 [OF c(1)]]
  show "live (exec (launch_compute rt iters blocks s) tr) = live tr" by (rule r(1))
  show "events_ok rt \<Longrightarrow> quiet tr \<Longrightarrow> quiet (exec (launch_compute rt iters blocks s) tr)" using r(2) c(2) by blast
  show "events_ok rt \<Longrightarrow> quiet tr \<Longrightarrow> serial tr \<Longrightarrow> serial (exec (launch_compute rt iters blocks s) tr)"
    using r(3) c(2) by blast
qed

interpretation memory_run: timed_launch "\<lambda>rt. launch_memory rt n" for n
proof
  fix rt s tr
  obtain b ws start stop where c: "exec (launch_memory rt n s) tr =
      tr @ Malloc b # timed_calls s ws start stop @ free_calls b" "events_ok rt \<longrightarrow> stop \<noteq> None"
    using launch_memory_calls by blast
  note r = run_contract [OF disjI1 [OF c(1)]]
  show "live (exec (launch_memory rt n s) tr) = live tr" by (rule r(1))
  show "events_ok rt \<Longrightarrow> quiet tr \<Longrightarrow> quiet (exec (launch_memory rt n s) tr)" using r(2) c(2) by blast
  show "events_ok rt \<Longrightarrow> quiet tr \<Longrightarrow> serial tr \<Longrightarrow> serial (exec (launch_memory rt n s) tr)" using r(3) c(2) by blast
qed

interpretation transfer_run: timed_launch "\<lambda>rt. launch_transfer rt n" for n
proof
  fix rt s tr
  obtain b h ws start stop where c: "exec (launch_transfer rt n s) tr =
      tr @ Malloc b # Host_malloc h # timed_calls s ws start stop @ free_calls b @ [Host_free h]"
    "events_ok rt \<longrightarrow> stop \<noteq> None"
    using launch_transfer_calls by blast
  note r = run_contract [OF disjI2 [OF c(1)]]
  show "live (exec (launch_transfer rt n s) tr) = live tr" by (rule r(1))
  show "events_ok rt \<Longrightarrow> quiet tr \<Longrightarrow> quiet (exec (launch_transfer rt n s) tr)" using r(2) c(2) by blast
  show "events_ok rt \<Longrightarrow> quiet tr \<Longrightarrow> serial tr \<Longrightarrow> serial (exec (launch_transfer rt n s) tr)" using r(3) c(2) by blast
qed

lemma cuda_entries_live [simp]:
  "live (exec (iobs_cuda_compute_alone rt iters blocks) tr) = live tr"
  "live (exec (iobs_cuda_compute_concurrent rt iters blocks) tr) = live tr"
  "live (exec (iobs_cuda_memory_alone rt bytes) tr) = live tr"
  "live (exec (iobs_cuda_memory_concurrent rt bytes) tr) = live tr"
  "live (exec (iobs_cuda_transfer_alone rt bytes) tr) = live tr"
  "live (exec (iobs_cuda_transfer_concurrent rt bytes) tr) = live tr"
  by (simp_all add: iobs_cuda_compute_alone_def iobs_cuda_compute_concurrent_def iobs_cuda_memory_alone_def
      iobs_cuda_memory_concurrent_def iobs_cuda_transfer_alone_def iobs_cuda_transfer_concurrent_def
      compute_run.alone_live compute_run.pair_live memory_run.alone_live memory_run.pair_live
      transfer_run.alone_live transfer_run.pair_live)

text \<open>C24. The CUDA backend releases everything it takes: each of its six entry points leaves the device
  and the host with exactly the buffers, streams and events they had before, also when an allocation
  or the creation of a stream or event fails.\<close>

theorem cuda_releases_everything:
  "live (exec (iobs_cuda_compute_alone rt iters blocks) tr) = live tr \<and>
   live (exec (iobs_cuda_compute_concurrent rt iters blocks) tr) = live tr \<and>
   live (exec (iobs_cuda_memory_alone rt bytes) tr) = live tr \<and>
   live (exec (iobs_cuda_memory_concurrent rt bytes) tr) = live tr \<and>
   live (exec (iobs_cuda_transfer_alone rt bytes) tr) = live tr \<and>
   live (exec (iobs_cuda_transfer_concurrent rt bytes) tr) = live tr"
  by simp

text \<open>C23. The concurrent measurements never run concurrently: started on an idle device, with events that
  can be created, the compute, memory and transfer pairs give work to their second stream only after
  all work of the first has been waited for, and no stream ever gets work while another is busy. What
  they report as a co-run is two runs one after the other.\<close>

theorem cuda_pairs_run_serially:
  assumes "events_ok rt" "quiet tr" "serial tr"
  shows "serial (exec (iobs_cuda_compute_concurrent rt iters blocks) tr) \<and>
    serial (exec (iobs_cuda_memory_concurrent rt bytes) tr) \<and>
    serial (exec (iobs_cuda_transfer_concurrent rt bytes) tr)"
  using compute_run.pair_serial [OF assms] memory_run.pair_serial [OF assms] transfer_run.pair_serial [OF assms]
  by (simp add: iobs_cuda_compute_concurrent_def iobs_cuda_memory_concurrent_def iobs_cuda_transfer_concurrent_def)

text \<open>A runtime in which every call succeeds with fresh handles.\<close>

definition ex_rt :: cuda_rt where
  "ex_rt = \<lparr>rt_device = Inr \<lparr>prop_name = ''gpu'', prop_major = 12, prop_minor = 0, prop_total = 34359738368\<rparr>,
     rt_free_memory = (\<lambda>_. 1073741824), rt_stream = (\<lambda>tr. Some (length tr)),
     rt_malloc = (\<lambda>tr _. Some (length tr)), rt_host_malloc = (\<lambda>tr _. Some (length tr)),
     rt_event = (\<lambda>tr. Some (length tr)), rt_elapsed = (\<lambda>_ _ _. f64_lit 5 2),
     rt_dangling = Some ''?''\<rparr>"

theorem cuda_pairs_run_serially_witness:
  "serial (exec (iobs_cuda_compute_concurrent ex_rt 4000000 2048) []) \<and>
   (\<exists>a b. a \<noteq> b \<and> Enqueue a (Compute_heavy 2048 4000000 (Some 2)) \<in> set (exec (iobs_cuda_compute_concurrent ex_rt 4000000 2048) []) \<and>
     Enqueue b (Compute_heavy 2048 4000000 (Some 14)) \<in> set (exec (iobs_cuda_compute_concurrent ex_rt 4000000 2048) []))"
proof
  have "events_ok ex_rt" "quiet []" "serial []"
    by (simp_all add: events_ok_def ex_rt_def quiet_def flight_of_def serial_def)
  from cuda_pairs_run_serially [OF this] show "serial (exec (iobs_cuda_compute_concurrent ex_rt 4000000 2048) [])" by blast
  show "\<exists>a b. a \<noteq> b \<and> Enqueue a (Compute_heavy 2048 4000000 (Some 2)) \<in> set (exec (iobs_cuda_compute_concurrent ex_rt 4000000 2048) []) \<and>
     Enqueue b (Compute_heavy 2048 4000000 (Some 14)) \<in> set (exec (iobs_cuda_compute_concurrent ex_rt 4000000 2048) [])"
    by (rule exI [of _ "Some 0"], rule exI [of _ "Some 1"], code_simp)
qed

end
