(* ===== verification/Cuda_Experiment.thy ===== *)
theory Cuda_Experiment
  imports Cuda_Backend Serialize
begin

text \<open>
  The CUDA experiment (\<open>tools/io-cuda-experiment.cpp\<close>): it probes the device, measures compute, memory
  and transfer runs alone and in pairs through the backend, checks that the device memory is back,
  and feeds the compute and the memory measurements to an observatory as baselines and co-run
  observations. \<open>cuda_main\<close> is its \<open>main\<close>, on the runtime of \<open>Cuda_Backend\<close> and a file system.
\<close>

definition pct :: "double \<Rightarrow> double \<Rightarrow> double" where
  "pct a b = (if f64_lt f64_zero a then f64_mul (f64_div (f64_sub b a) a) (f64_lit 100 1) else f64_zero)"

record cuda_run =
  cr_mem_before :: i64
  cr_alone :: double
  cr_c_a :: double
  cr_c_b :: double
  cr_m_alone :: double
  cr_m_bw :: double
  cr_m_a :: double
  cr_m_b :: double
  cr_t_alone :: double
  cr_t_bw :: double
  cr_t_a :: double
  cr_t_b :: double
  cr_mem_after :: i64

definition cuda_measure :: "cuda_rt \<Rightarrow> cuda_run cuda" where
  "cuda_measure rt = do {
     mem_before \<leftarrow> iobs_cuda_free_memory_bytes rt;
     (alone, _) \<leftarrow> iobs_cuda_compute_alone rt 4000000 2048;
     (c_a, c_b) \<leftarrow> iobs_cuda_compute_concurrent rt 4000000 2048;
     let bytes = 512 * 1024 * 1024;
     (m_alone, m_bw) \<leftarrow> iobs_cuda_memory_alone rt bytes;
     (m_a, m_b) \<leftarrow> iobs_cuda_memory_concurrent rt bytes;
     (t_alone, t_bw) \<leftarrow> iobs_cuda_transfer_alone rt bytes;
     (t_a, t_b) \<leftarrow> iobs_cuda_transfer_concurrent rt bytes;
     mem_after \<leftarrow> iobs_cuda_free_memory_bytes rt;
     State_Monad.return \<lparr>cr_mem_before = mem_before, cr_alone = alone, cr_c_a = c_a, cr_c_b = c_b,
       cr_m_alone = m_alone, cr_m_bw = m_bw, cr_m_a = m_a, cr_m_b = m_b, cr_t_alone = t_alone, cr_t_bw = t_bw,
       cr_t_a = t_a, cr_t_b = t_b, cr_mem_after = mem_after\<rparr> }"

definition cuda_closed :: "cuda_run \<Rightarrow> bool" where
  "cuda_closed r = (let delta = sint (cr_mem_after r - cr_mem_before r) in
     - 16 * 1024 * 1024 \<le> delta \<and> delta \<le> 16 * 1024 * 1024)"

definition cuda_wa :: "int \<Rightarrow> workload_descriptor" where
  "cuda_wa cc = \<lparr>wl_id = Id 10, wl_generation = Id 1010, wl_name = ''cuda-compute'',
     wl_config_fingerprint = ''cfg-compute'', wl_problem_size_fingerprint = ''size-4096'', wl_device_id = Id 1,
     wl_device_generation = Id (of_int cc), wl_worker_id = Id 22, wl_worker_boot = Id 1,
     wl_policy_generation = ''pol-v1'', wl_runtime_generation = ''cuda-12.9'', wl_kernel_generation = ''kernel-v1'',
     wl_topology_generation = Id 44, wl_start_ms = 0, wl_end_ms = 0, wl_attempt_id = 1, wl_priority_class = ''io''\<rparr>"

definition cuda_wb :: "int \<Rightarrow> workload_descriptor" where
  "cuda_wb cc = \<lparr>wl_id = Id 20, wl_generation = Id 1020, wl_name = ''cuda-neighbor'',
     wl_config_fingerprint = ''cfg-neighbor'', wl_problem_size_fingerprint = ''size-4096'', wl_device_id = Id 1,
     wl_device_generation = Id (of_int cc), wl_worker_id = Id 22, wl_worker_boot = Id 1,
     wl_policy_generation = ''pol-v1'', wl_runtime_generation = ''cuda-12.9'', wl_kernel_generation = ''kernel-v1'',
     wl_topology_generation = Id 44, wl_start_ms = 0, wl_end_ms = 0, wl_attempt_id = 1, wl_priority_class = ''io''\<rparr>"

definition cuda_bl :: "int \<Rightarrow> double \<Rightarrow> baseline" where
  "cuda_bl cc alone = default_baseline\<lparr>b_id := Id 700, b_generation := Id 7100, b_type := BaselineType_Isolated,
     b_workload_id := Id 10, b_workload_generation := Id 1010, b_device_id := Id 1,
     b_device_generation := Id (of_int cc), b_worker_id := Id 22, b_worker_boot := Id 1,
     b_config_fingerprint := ''cfg-compute'', b_problem_size_fingerprint := ''size-4096'',
     b_runtime_generation := ''cuda-12.9'', b_kernel_generation := ''kernel-v1'', b_policy_generation := ''pol-v1'',
     b_topology_generation := Id 44, b_source_generation := Id 55, b_evidence_generation := Id 66,
     b_timestamp_ms := 100000, b_interval_ms := 1000, b_provenance := Provenance_Measured,
     b_freshness := Freshness_Current, b_sample_count := 10, b_variance := f64_lit 2 1,
     b_confidence := f64_lit 9 10, b_mean_value := alone, b_metric_kind := Metric_Latency, b_valid := True\<rparr>"

definition cuda_mb :: "int \<Rightarrow> double \<Rightarrow> double \<Rightarrow> baseline" where
  "cuda_mb cc alone m_alone = (cuda_bl cc alone)\<lparr>b_id := Id 701, b_mean_value := m_alone, b_metric_kind := Metric_Latency\<rparr>"

definition cuda_obs :: "int \<Rightarrow> u64 \<Rightarrow> u64 \<Rightarrow> double \<Rightarrow> u64 \<Rightarrow> observation" where
  "cuda_obs cc base gen v i = default_observation\<lparr>o_id := Id (base + i), o_generation := Id (gen + i), o_source_id := Id 77,
     o_source_generation := Id 55, o_worker_id := Id 22, o_worker_boot := Id 1, o_workload_id := Id 10,
     o_workload_generation := Id 1010, o_device_id := Id 1, o_device_generation := Id (of_int cc),
     o_timestamp_ms := 100001 + i, o_measurement := default_measurement\<lparr>m_kind := Metric_Latency, m_value := v,
       m_unit := ''ms'', m_sample_count := 1, m_variance := f64_zero\<rparr>, o_provenance := Provenance_Measured,
     o_freshness := Freshness_Current, o_source_health := Health_Healthy, o_co_run_peers := [Id 20]\<rparr>"

definition cuda_co_obs :: "int \<Rightarrow> double \<Rightarrow> observation list" where
  "cuda_co_obs cc c_a = map (cuda_obs cc 1000 10000 c_a) [0, 1, 2, 3, 4, 5]"

definition cuda_m_obs :: "int \<Rightarrow> double \<Rightarrow> observation list" where
  "cuda_m_obs cc m_a = map (cuda_obs cc 2000 20000 m_a) [0, 1, 2, 3, 4, 5]"

text \<open>The measurements in the observatory: the compute and the memory comparison and the final state.\<close>

definition cuda_observe :: "int \<Rightarrow> cuda_run \<Rightarrow> pairwise \<times> pairwise \<times> impl" where
  "cuda_observe cc r =
     (let s = new_observatory (Id 1) (Id 1);
          s = snd (register_workload (cuda_wa cc) s);
          s = snd (register_workload (cuda_wb cc) s);
          s = snd (publish_baseline (cuda_bl cc (cr_alone r)) s);
          (p, s) = compare (cuda_wa cc) (cuda_wb cc) Domain_ComputeExecution (cuda_co_obs cc (cr_c_a r)) default_policy s;
          s = snd (publish_baseline (cuda_mb cc (cr_alone r) (cr_m_alone r)) s);
          (pm, s) = compare (cuda_wa cc) (cuda_wb cc) Domain_MemoryBandwidth (cuda_m_obs cc (cr_m_a r)) default_policy s
      in (p, pm, s))"

text \<open>\<open>printf("%s", name)\<close>\<close>

definition print_string :: "cuda_rt \<Rightarrow> c_string \<Rightarrow> string option" where
  "print_string rt c = (case c of Live_string t \<Rightarrow> Some t | Dangling \<Rightarrow> rt_dangling rt)"

record cuda_report =
  rep_device :: string
  rep_run :: cuda_run
  rep_degradations :: "double list"
  rep_closed :: bool
  rep_p :: pairwise
  rep_pm :: pairwise

text \<open>\<open>main\<close>: the exit code, what is printed and the files; \<open>None\<close> when the program dies at the line that prints
  the device's name.\<close>

definition cuda_main :: "cuda_rt \<Rightarrow> io_faults \<Rightarrow> file_system \<Rightarrow> (int \<times> cuda_report option \<times> file_system) option" where
  "cuda_main rt io fs =
     (case iobs_cuda_probe rt of
        Inl rc \<Rightarrow> Some (1, None, fs)
      | Inr (name, cc, total_mem) \<Rightarrow>
          (case print_string rt name of
             None \<Rightarrow> None
           | Some device \<Rightarrow>
               let r = result (cuda_measure rt) [];
                   (p, pm, s) = cuda_observe cc r
               in Some (0, Some \<lparr>rep_device = device, rep_run = r, rep_degradations = [pct (cr_alone r) (cr_c_a r),
                     pct (cr_alone r) (cr_c_b r), pct (cr_m_alone r) (cr_m_a r), pct (cr_t_alone r) (cr_t_a r)],
                     rep_closed = cuda_closed r, rep_p = p, rep_pm = pm\<rparr>, snd (save io ''iobs-cuda-state.bin'' s fs))))"

subsection \<open>Where the measured values come from\<close>

lemma elapsed_launch:
  assumes "\<And>tr a b. P (rt_elapsed rt tr a b)"
  shows "P (result (launch_compute rt iters blocks s) tr)"
    "P (fst (result (launch_memory rt n s) tr))" "P (fst (result (launch_transfer rt n s) tr))"
  using assms by (simp_all add: launch_compute_def launch_memory_def launch_transfer_def Let_def)

lemma cuda_measure_elapsed:
  assumes "\<And>tr a b. P (rt_elapsed rt tr a b)"
  shows "P (cr_alone (result (cuda_measure rt) []))" "P (cr_c_a (result (cuda_measure rt) []))"
    "P (cr_m_alone (result (cuda_measure rt) []))" "P (cr_m_a (result (cuda_measure rt) []))"
  using elapsed_launch [of P, OF assms]
  by (simp_all add: cuda_measure_def Let_def iobs_cuda_compute_alone_def iobs_cuda_compute_concurrent_def
      iobs_cuda_memory_alone_def iobs_cuda_memory_concurrent_def run_alone_def run_pair_def)

lemma cuda_measure_live: "live (exec (cuda_measure rt) []) = {#}"
  by (simp add: cuda_measure_def Let_def iobs_cuda_free_memory_bytes_def) (simp add: live_def)

subsection \<open>The verdicts\<close>

lemma cuda_publishable:
  assumes "is_finite_nonneg v" "is_finite_nonneg w"
  shows "publishable (cuda_bl cc v)" "publishable (cuda_mb cc v w)"
    "stored_form (cuda_bl cc v) = cuda_bl cc v" "stored_form (cuda_mb cc v w) = cuda_mb cc v w"
proof -
  have n: "f64_lt f64_zero (f64_lit 9 10)" "is_finite (f64_lit 9 10)" "\<not> f64_lt (f64_lit 9 10) f64_zero"
    "\<not> f64_lt f64_one (f64_lit 9 10)" "is_finite (f64_lit 2 1)" "\<not> f64_lt (f64_lit 2 1) f64_zero" "known_metric Metric_Latency"
    "f64_le (f64_lit 9 10) f64_one" "f64_le f64_zero (f64_lit 2 1)"
    by code_simp+
  show "publishable (cuda_bl cc v)" "publishable (cuda_mb cc v w)"
    using assms n by (simp_all add: publishable_def is_usable_def cuda_bl_def cuda_mb_def id_is_nil_def is_finite_def)
  show "stored_form (cuda_bl cc v) = cuda_bl cc v" "stored_form (cuda_mb cc v w) = cuda_mb cc v w"
    by (simp_all add: stored_form_def cuda_bl_def cuda_mb_def)
qed

lemma cuda_counted:
  assumes "is_finite_nonneg v" "b_metric_kind b = Metric_Latency"
  shows "counted (cuda_wa cc) b (cuda_obs cc base gen v i)"
proof -
  have "is_finite_nonneg f64_zero" by code_simp
  then show ?thesis using assms by (simp add: counted_def cuda_wa_def cuda_obs_def measurement_is_valid_def)
qed

lemma cuda_select:
  assumes "is_finite_nonneg v" "is_finite_nonneg w"
  shows "fst (select_baseline (cuda_wa cc) [(Id 700, cuda_bl cc v)]) = Some (cuda_bl cc v)"
    "fst (select_baseline (cuda_wa cc) [(Id 700, cuda_bl cc v), (Id 701, cuda_mb cc v w)]) = Some (cuda_mb cc v w)"
proof -
  have n: "f64_lt f64_zero (f64_lit 9 10)" by code_simp
  have c: "concerns (cuda_wa cc) (cuda_bl cc v)" "concerns (cuda_wa cc) (cuda_mb cc v w)"
    "eligible (cuda_wa cc) (cuda_bl cc v)" "eligible (cuda_wa cc) (cuda_mb cc v w)"
    "supersedes (cuda_mb cc v w) (cuda_bl cc v)"
    using assms n by (simp_all add: concerns_def eligible_def supersedes_def is_usable_def binding_matches_def
        workload_binding_def cuda_wa_def cuda_bl_def cuda_mb_def)
  show "fst (select_baseline (cuda_wa cc) [(Id 700, cuda_bl cc v)]) = Some (cuda_bl cc v)"
    "fst (select_baseline (cuda_wa cc) [(Id 700, cuda_bl cc v), (Id 701, cuda_mb cc v w)]) = Some (cuda_mb cc v w)"
    using c by (simp_all add: select_baseline_def select_step_def)
qed

lemma cuda_evidence:
  assumes "is_finite_nonneg v" "is_finite_nonneg w" "is_finite_nonneg x"
  shows "i_baselines s = [(Id 700, cuda_bl cc v)] \<Longrightarrow>
      evidence_ok (cuda_wa cc) (cuda_co_obs cc x) default_policy s (cuda_bl cc v)"
    "i_baselines s = [(Id 700, cuda_bl cc v), (Id 701, cuda_mb cc v w)] \<Longrightarrow>
      evidence_ok (cuda_wa cc) (cuda_m_obs cc x) default_policy s (cuda_mb cc v w)"
proof -
  have p: "policy_isValid default_policy" by code_simp
  have t: "last_timestamp (cuda_co_obs cc x) = 100006" "last_timestamp (cuda_m_obs cc x) = 100006"
    by (simp_all add: cuda_co_obs_def cuda_m_obs_def last_timestamp_def cuda_obs_def)
  have k: "b_metric_kind (cuda_bl cc v) = Metric_Latency" "b_metric_kind (cuda_mb cc v w) = Metric_Latency"
    "b_freshness (cuda_bl cc v) = Freshness_Current" "b_freshness (cuda_mb cc v w) = Freshness_Current"
    "b_timestamp_ms (cuda_bl cc v) = 100000" "b_timestamp_ms (cuda_mb cc v w) = 100000"
    by (simp_all add: cuda_bl_def cuda_mb_def)
  have d: "sint (100006 - 100000 :: i64) \<le> sint (stale_after_ms default_policy)" "min_samples default_policy \<le> 6"
    by code_simp+
  show "evidence_ok (cuda_wa cc) (cuda_co_obs cc x) default_policy s (cuda_bl cc v)"
    if "i_baselines s = [(Id 700, cuda_bl cc v)]"
    using d by (simp add: evidence_ok_def p that cuda_select [OF assms(1,2)] t freshness_window_def k)
      (simp add: cuda_co_obs_def cuda_counted [OF assms(3)] k)
  show "evidence_ok (cuda_wa cc) (cuda_m_obs cc x) default_policy s (cuda_mb cc v w)"
    if "i_baselines s = [(Id 700, cuda_bl cc v), (Id 701, cuda_mb cc v w)]"
    using d by (simp add: evidence_ok_def p that cuda_select [OF assms(1,2)] t freshness_window_def k)
      (simp add: cuda_m_obs_def cuda_counted [OF assms(3)] k)
qed

text \<open>The outcome for a time alone and a co-run time measured six times.\<close>

definition six_mean :: "double \<Rightarrow> double" where
  "six_mean x = f64_div (f64_add (f64_add (f64_add (f64_add (f64_add (f64_add f64_zero x) x) x) x) x) x) (f64_lit 6 1)"

definition latency_outcome :: "double \<Rightarrow> double \<Rightarrow> outcome" where
  "latency_outcome alone corun =
     (let rel = (if f64_le alone f64_zero then f64_zero else f64_div (f64_sub (six_mean corun) alone) alone)
      in classify_outcome (if f64_lt f64_zero rel then f64_fabs rel else f64_zero) default_policy)"

lemma cuda_scored:
  fixes cc base gen x b s d
  assumes "is_finite_nonneg x" "b_metric_kind b = Metric_Latency" "i_recoveries s = []"
  defines "obs \<equiv> map (cuda_obs cc base gen x) [0, 1, 2, 3, 4, 5]"
  shows "p_attribution (scored_result (cuda_wa cc) (cuda_wb cc) d obs default_policy s b) = Attribution_ControlledComparison"
    "p_outcome (scored_result (cuda_wa cc) (cuda_wb cc) d obs default_policy s b) = latency_outcome (b_mean_value b) x"
proof -
  note c = cuda_counted [OF assms(1,2)]
  have o: "overlapping (cuda_wa cc) (cuda_wb cc) b obs"
    unfolding overlapping_def obs_def using c [of cc base gen 0]
    by (intro bexI [of _ "cuda_obs cc base gen x 0"]) (simp_all add: cuda_obs_def cuda_wb_def)
  have nc: "o_confounders (cuda_obs cc base gen x j) = []" for j
    by (simp add: cuda_obs_def default_observation_def)
  have "analyse_confounders (cuda_wa cc) obs = ([], [])" by (simp add: analyse_confounders_def obs_def nc)
  then show "p_attribution (scored_result (cuda_wa cc) (cuda_wb cc) d obs default_policy s b) = Attribution_ControlledComparison"
    using o assms(3) by (simp add: scored_attribution attribution_of_def)
  have six: "f64_of_u64 6 = f64_lit 6 1" by code_simp
  have v: "m_value (o_measurement (cuda_obs cc base gen x j)) = x" for j by (simp add: cuda_obs_def)
  have m: "mean_of (map (\<lambda>ob. m_value (o_measurement ob)) (filter (counted (cuda_wa cc) b) obs))
      (of_nat (length (filter (counted (cuda_wa cc) b) obs))) = six_mean x"
    unfolding obs_def by (simp add: c v mean_of_def six_mean_def six)
  show "p_outcome (scored_result (cuda_wa cc) (cuda_wb cc) d obs default_policy s b) = latency_outcome (b_mean_value b) x"
    using o by (simp add: scored_outcome scored_magnitude_def m assms(2) latency_outcome_def relative_degradation_def
        degradation_magnitude_def metric_is_worse_def Let_def)
qed

lemma cuda_verdict:
  fixes cc base gen x b s and d :: interference_domain
  assumes "evidence_ok (cuda_wa cc) (map (cuda_obs cc base gen x) [0, 1, 2, 3, 4, 5]) default_policy s b"
    "is_finite_nonneg x" "b_metric_kind b = Metric_Latency" "i_recoveries s = []"
  defines "r \<equiv> fst (compare (cuda_wa cc) (cuda_wb cc) d (map (cuda_obs cc base gen x) [0, 1, 2, 3, 4, 5]) default_policy s)"
  shows "p_baseline_id r = b_id b" "p_attribution r = Attribution_ControlledComparison"
    "p_outcome r = latency_outcome (b_mean_value b) x"
  unfolding r_def compare_scored [OF assms(1)]
  using cuda_scored [OF assms(2-4)] by (simp_all add: commit_fst scored_keys)

lemma cuda_observed:
  assumes "is_finite_nonneg (cr_alone r)" "is_finite_nonneg (cr_c_a r)" "is_finite_nonneg (cr_m_alone r)"
    "is_finite_nonneg (cr_m_a r)" "cuda_observe cc r = (p, pm, s)"
  shows "p_baseline_id p = Id 700" "p_attribution p = Attribution_ControlledComparison"
    "p_outcome p = latency_outcome (cr_alone r) (cr_c_a r)"
    "p_baseline_id pm = Id 701" "p_attribution pm = Attribution_ControlledComparison"
    "p_outcome pm = latency_outcome (cr_m_alone r) (cr_m_a r)"
proof -
  let ?bl = "cuda_bl cc (cr_alone r)" and ?mb = "cuda_mb cc (cr_alone r) (cr_m_alone r)"
  let ?s1 = "snd (publish_baseline ?bl (snd (register_workload (cuda_wb cc) (snd (register_workload (cuda_wa cc)
      (new_observatory (Id 1) (Id 1)))))))"
  let ?c1 = "compare (cuda_wa cc) (cuda_wb cc) Domain_ComputeExecution (cuda_co_obs cc (cr_c_a r)) default_policy ?s1"
  let ?s2 = "snd (publish_baseline ?mb (snd ?c1))"
  let ?c2 = "compare (cuda_wa cc) (cuda_wb cc) Domain_MemoryBandwidth (cuda_m_obs cc (cr_m_a r)) default_policy ?s2"
  have p: "p = fst ?c1" "pm = fst ?c2" using assms(5) by (simp_all add: cuda_observe_def Let_def case_prod_beta)
  note pub = cuda_publishable [OF assms(1,3)]
  have ids: "b_id ?bl = Id 700" "b_id ?mb = Id 701" "b_mean_value ?bl = cr_alone r" "b_mean_value ?mb = cr_m_alone r"
    "b_metric_kind ?bl = Metric_Latency" "b_metric_kind ?mb = Metric_Latency" by (simp_all add: cuda_bl_def cuda_mb_def)
  have s1: "i_baselines ?s1 = [(Id 700, ?bl)]" "i_recoveries ?s1 = []"
    using pub ids by (simp_all add: publish_state register_workload_def new_observatory_def)
  have s2: "i_baselines ?s2 = [(Id 700, ?bl), (Id 701, ?mb)]" "i_recoveries ?s2 = []"
    using pub ids s1 by (simp_all add: publish_state compare_frame map_find_def less_id_def)
  note e1 = cuda_evidence(1) [OF assms(1,3,2) s1(1)] and e2 = cuda_evidence(2) [OF assms(1,3,4) s2(1)]
  note v1 = cuda_verdict [OF e1 [unfolded cuda_co_obs_def] assms(2) ids(5) s1(2), folded cuda_co_obs_def]
  note v2 = cuda_verdict [OF e2 [unfolded cuda_m_obs_def] assms(4) ids(6) s2(2), folded cuda_m_obs_def]
  show "p_baseline_id p = Id 700" "p_attribution p = Attribution_ControlledComparison"
    "p_outcome p = latency_outcome (cr_alone r) (cr_c_a r)"
    using v1 unfolding p ids by blast+
  show "p_baseline_id pm = Id 701" "p_attribution pm = Attribution_ControlledComparison"
    "p_outcome pm = latency_outcome (cr_m_alone r) (cr_m_a r)"
    using v2 unfolding p ids by blast+
qed

text \<open>Each measured time comes from the entry point it is named after.\<close>

lemma cuda_measure_sources:
  "\<exists>t\<^sub>1 t\<^sub>2 t\<^sub>3 t\<^sub>4. cr_alone (result (cuda_measure rt) []) = fst (result (iobs_cuda_compute_alone rt 4000000 2048) t\<^sub>1) \<and>
    cr_c_a (result (cuda_measure rt) []) = fst (result (iobs_cuda_compute_concurrent rt 4000000 2048) t\<^sub>2) \<and>
    cr_m_alone (result (cuda_measure rt) []) = fst (result (iobs_cuda_memory_alone rt (512 * 1024 * 1024)) t\<^sub>3) \<and>
    cr_m_a (result (cuda_measure rt) []) = fst (result (iobs_cuda_memory_concurrent rt (512 * 1024 * 1024)) t\<^sub>4)"
  unfolding cuda_measure_def by (simp add: Let_def case_prod_beta) blast

text \<open>C25. The CUDA experiment judges each load by its own two measurements: on a device that answers the probe,
  with elapsed times that are finite and not negative, and if printing the device's name through the
  pointer that \<open>iobs_cuda_probe\<close> leaves dangling does not kill the program, it exits with 0 with
  everything it took from the device given back; the compute verdict rests on baseline 700 and is the
  class of the relative increase from the compute time measured alone to the mean of six times the
  first co-run compute time, the memory verdict rests on baseline 701 and is the class of the relative
  increase from the memory time alone to the mean of the co-run memory time, and both claim a
  controlled comparison. The increase over a time of 0 counts as 0.\<close>

theorem cuda_experiment_verdicts:
  assumes "iobs_cuda_probe rt = Inr (name, cc, total_mem)" "\<forall>tr a b. is_finite_nonneg (rt_elapsed rt tr a b)"
    and "rt_dangling rt = Some text"
  shows "\<exists>rep fs'. cuda_main rt io fs = Some (0, Some rep, fs') \<and> live (exec (cuda_measure rt) []) = {#} \<and>
    p_baseline_id (rep_p rep) = Id 700 \<and> p_attribution (rep_p rep) = Attribution_ControlledComparison \<and>
    p_outcome (rep_p rep) = latency_outcome (cr_alone (rep_run rep)) (cr_c_a (rep_run rep)) \<and>
    p_baseline_id (rep_pm rep) = Id 701 \<and> p_attribution (rep_pm rep) = Attribution_ControlledComparison \<and>
    p_outcome (rep_pm rep) = latency_outcome (cr_m_alone (rep_run rep)) (cr_m_a (rep_run rep)) \<and>
    (\<exists>t\<^sub>1 t\<^sub>2 t\<^sub>3 t\<^sub>4. cr_alone (rep_run rep) = fst (result (iobs_cuda_compute_alone rt 4000000 2048) t\<^sub>1) \<and>
      cr_c_a (rep_run rep) = fst (result (iobs_cuda_compute_concurrent rt 4000000 2048) t\<^sub>2) \<and>
      cr_m_alone (rep_run rep) = fst (result (iobs_cuda_memory_alone rt (512 * 1024 * 1024)) t\<^sub>3) \<and>
      cr_m_a (rep_run rep) = fst (result (iobs_cuda_memory_concurrent rt (512 * 1024 * 1024)) t\<^sub>4))"
proof -
  let ?r = "result (cuda_measure rt) []"
  note e = cuda_measure_elapsed [of is_finite_nonneg rt]
  obtain p pm s where o: "cuda_observe cc ?r = (p, pm, s)" by (cases "cuda_observe cc ?r") auto
  note v = cuda_observed [OF e(1) e(2) e(3) e(4) o]
  have "name = Dangling" using assms(1) by (auto simp: iobs_cuda_probe_def split: sum.splits)
  then obtain rep fs' where "cuda_main rt io fs = Some (0, Some rep, fs')" "rep_p rep = p" "rep_pm rep = pm" "rep_run rep = ?r"
    by (simp add: cuda_main_def assms(1,3) print_string_def o Let_def)
  with v assms(2) cuda_measure_live [of rt] cuda_measure_sources [of rt] show ?thesis
    by (intro exI [of _ rep] exI [of _ fs']) simp
qed

text \<open>A runtime in which every timed run takes 2.5 ms.\<close>

theorem cuda_experiment_verdicts_witness:
  "\<exists>rep fs'. cuda_main ex_rt no_faults (\<lambda>_. None) = Some (0, Some rep, fs') \<and>
    p_outcome (rep_p rep) = Outcome_NoInterferenceDetected \<and> p_baseline_id (rep_pm rep) = Id 701"
proof -
  have "iobs_cuda_probe ex_rt = Inr (Dangling, 120, 34359738368)" by (simp add: iobs_cuda_probe_def ex_rt_def)
  moreover have "is_finite_nonneg (f64_lit 5 2)" by code_simp
  then have f: "\<forall>tr a b. is_finite_nonneg (rt_elapsed ex_rt tr a b)" by (simp add: ex_rt_def)
  moreover have "rt_dangling ex_rt = Some ''?''" by (simp add: ex_rt_def)
  moreover have "fst (result (iobs_cuda_compute_alone ex_rt i b) t) = f64_lit 5 2"
    "fst (result (iobs_cuda_compute_concurrent ex_rt i b) t) = f64_lit 5 2" for i b t
    using elapsed_launch(1) [where P = "\<lambda>x. x = f64_lit 5 2" and rt = ex_rt]
    by (simp_all add: iobs_cuda_compute_alone_def iobs_cuda_compute_concurrent_def run_alone_def run_pair_def)
      (simp_all add: ex_rt_def)
  moreover have "latency_outcome (f64_lit 5 2) (f64_lit 5 2) = Outcome_NoInterferenceDetected" by code_simp
  ultimately show ?thesis
    using cuda_experiment_verdicts [of ex_rt Dangling 120 34359738368 "''?''" no_faults "\<lambda>_. None"] by auto
qed

end
