(* ===== verification/Cuda_Kernels.thy ===== *)
theory Cuda_Kernels
  imports Double64 "HOL-Library.Multiset"
begin

text \<open>
  The two kernels of \<open>src/cuda/cuda_backend.cu\<close>, thread by thread. The device's binary32 arithmetic, which
  depends on how the device compiler contracts and flushes, is a parameter; the index arithmetic is
  that of the source. A thread of the memory kernel is shown to end, and the grid to read every element
  of the buffer exactly once; the compute kernel is shown able to write outside the buffer it is given.
\<close>

record 'f device_float =
  df_of_u32 :: "u32 \<Rightarrow> 'f"
  df_lit :: "int \<Rightarrow> int \<Rightarrow> 'f"
  df_add :: "'f \<Rightarrow> 'f \<Rightarrow> 'f"
  df_mul :: "'f \<Rightarrow> 'f \<Rightarrow> 'f"
  df_fma :: "'f \<Rightarrow> 'f \<Rightarrow> 'f \<Rightarrow> 'f"
  df_eq :: "'f \<Rightarrow> 'f \<Rightarrow> bool"

subsection \<open>The compute kernel\<close>

text \<open>The writes of one thread to \<open>out\<close>, as index and value.\<close>

definition compute_heavy_kernel :: "'f device_float \<Rightarrow> u64 \<Rightarrow> u32 \<Rightarrow> u32 \<Rightarrow> (u32 \<times> 'f) list" where
  "compute_heavy_kernel fl iters block thread =
     (let a = df_add fl (df_of_u32 fl thread) (df_mul fl (df_of_u32 fl block) (df_lit fl 1 2));
          b = df_lit fl 10000001 10000000;
          a = ((\<lambda>a. df_fma fl a b (df_lit fl 10000001 10000000)) ^^ unat iters) a
      in if df_eq fl a (df_lit fl 123456 1) then [(block, a)] else [])"

text \<open>A launch runs the kernel once per thread of every block.\<close>

definition launch_grid :: "u32 \<Rightarrow> u32 \<Rightarrow> (u32 \<times> u32) list" where
  "launch_grid grid bdim = concat (map (\<lambda>b. map (\<lambda>t. (of_nat b, of_nat t)) [0..<unat bdim]) [0..<unat grid])"

definition compute_writes :: "'f device_float \<Rightarrow> u64 \<Rightarrow> u32 \<Rightarrow> (u32 \<times> 'f) list" where
  "compute_writes fl iters blocks = concat (map (\<lambda>(b, t). compute_heavy_kernel fl iters b t) (launch_grid blocks 256))"

subsection \<open>The memory kernel\<close>

text \<open>The loop of a thread; \<open>buf\<close> is what its reads return. The value is the list of indices read and the
  sum, or nothing when the loop never ends.\<close>

partial_function (option) memory_loop ::
  "'f device_float \<Rightarrow> (u64 \<Rightarrow> 'f) \<Rightarrow> u64 \<Rightarrow> u64 \<Rightarrow> u64 \<Rightarrow> 'f \<Rightarrow> (u64 list \<times> 'f) option" where
  "memory_loop fl buf n stride i s =
     (if i < n
      then Option.bind (memory_loop fl buf n stride (i + stride) (df_add fl s (buf i))) (\<lambda>(is, s'). Some (i # is, s'))
      else Some ([], s))"

text \<open>A thread: the indices it reads and its write to \<open>buf[0]\<close>, if any.\<close>

definition memory_heavy_kernel ::
  "'f device_float \<Rightarrow> (u64 \<Rightarrow> 'f) \<Rightarrow> u64 \<Rightarrow> u32 \<Rightarrow> u32 \<Rightarrow> u32 \<Rightarrow> u32 \<Rightarrow> (u64 list \<times> (u64 \<times> 'f) list) option" where
  "memory_heavy_kernel fl buf n grid bdim block thread =
     (let idx = ucast block * ucast bdim + ucast thread;
          stride = ucast grid * ucast bdim
      in Option.bind (memory_loop fl buf n stride idx (df_lit fl 0 1))
           (\<lambda>(is, s). Some (is, if df_eq fl s (df_lit fl 123456 1) then [(0, s)] else [])))"

definition memory_launch :: "'f device_float \<Rightarrow> (u32 \<times> u32 \<Rightarrow> u64 \<Rightarrow> 'f) \<Rightarrow> u64 \<Rightarrow> u32 \<Rightarrow> (u64 list \<times> (u64 \<times> 'f) list) list option" where
  "memory_launch fl buf n grid =
     those (map (\<lambda>(b, t). memory_heavy_kernel fl (buf (b, t)) n grid 256 b t) (launch_grid grid 256))"

subsection \<open>A grid-stride loop\<close>

lemma mset_partition:
  assumes "distinct ts" "\<forall>x\<in>set xs. g x \<in> set ts"
  shows "mset (concat (map (\<lambda>t. filter (\<lambda>x. g x = t) xs) ts)) = mset xs"
  using assms
proof (induction ts arbitrary: xs)
  case (Cons t ts)
  let ?ys = "filter (\<lambda>x. g x \<noteq> t) xs"
  have "filter (\<lambda>x. g x = u) ?ys = filter (\<lambda>x. g x = u) xs" if "u \<in> set ts" for u
    using that Cons.prems(1) by (auto intro: filter_cong)
  then have "map (\<lambda>t. filter (\<lambda>x. g x = t) xs) ts = map (\<lambda>t. filter (\<lambda>x. g x = t) ?ys) ts" by simp
  moreover have "mset (concat (map (\<lambda>t. filter (\<lambda>x. g x = t) ?ys) ts)) = mset ?ys"
    using Cons.prems by (intro Cons.IH) auto
  ultimately have "mset (concat (map (\<lambda>t. filter (\<lambda>x. g x = t) xs) ts)) = mset ?ys" by (simp only:)
  then show ?case using multiset_partition [of "mset xs" "\<lambda>x. g x = t"] by simp
qed simp

lemma upt_mod_step:
  assumes "0 < S" "i < n"
  shows "filter (\<lambda>j. j mod S = i mod S) [i..<n] = i # filter (\<lambda>j. j mod S = i mod S) [i + S..<n]"
proof -
  have no: "j mod S \<noteq> i mod S" if "i < j" "j < i + S" for j
  proof
    assume "j mod S = i mod S"
    then have "S dvd j - i" using that(1) by (simp add: mod_eq_dvd_iff_nat)
    then show False using that by (auto dest: dvd_imp_le)
  qed
  have "[i..<n] = i # [Suc i..<min n (i + S)] @ [i + S..<n]"
  proof (cases "i + S \<le> n")
    case True
    then show ?thesis using assms upt_add_eq_append [of "Suc i" "i + S" "n - (i + S)"] by (simp add: upt_conv_Cons)
  next
    case False
    then show ?thesis using assms by (simp add: upt_conv_Cons)
  qed
  moreover have "filter (\<lambda>j. j mod S = i mod S) [Suc i..<min n (i + S)] = []"
    using no by (auto simp: filter_empty_conv)
  ultimately show ?thesis by simp
qed

lemma memory_loop_reads:
  assumes "0 < S" "S \<le> 2 ^ 62" "n \<le> 2 ^ 62" "i \<le> 2 ^ 63"
  shows "\<exists>s'. memory_loop fl buf (of_nat n) (of_nat S) (of_nat i) s =
    Some (map of_nat (filter (\<lambda>j. j mod S = i mod S) [i..<n]), s')"
  using assms
proof (induction "n - i" arbitrary: i s rule: less_induct)
  case less
  have u: "unat (of_nat i :: u64) = i" "unat (of_nat n :: u64) = n" using less.prems by (simp_all add: unat_of_nat)
  show ?case
  proof (cases "i < n")
    case True
    then have lt: "(of_nat i :: u64) < of_nat n" by (simp add: word_less_nat_alt u)
    obtain s' where "memory_loop fl buf (of_nat n) (of_nat S) (of_nat (i + S)) (df_add fl s (buf (of_nat i))) =
        Some (map of_nat (filter (\<lambda>j. j mod S = (i + S) mod S) [i + S..<n]), s')"
      using less.hyps [of "i + S"] less.prems True by fastforce
    then show ?thesis
      using lt upt_mod_step [OF less.prems(1) True] by (subst memory_loop.simps) simp
  next
    case False
    then have "\<not> (of_nat i :: u64) < of_nat n" by (simp add: word_less_nat_alt u)
    then show ?thesis using False by (subst memory_loop.simps) simp
  qed
qed

lemma grid_indices:
  "map (\<lambda>(b, t). unat b * 256 + unat t) (launch_grid grid 256) = [0..<unat grid * 256]"
proof -
  have "map (\<lambda>(b, t). unat b * 256 + unat t) (concat (map (\<lambda>b. map (\<lambda>t. (of_nat b :: u32, of_nat t :: u32)) [0..<256]) [0..<k])) = [0..<k * 256]"
    if "k \<le> unat grid" for k
    using that
  proof (induction k)
    case (Suc k)
    have "k < 2 ^ 32" using Suc.prems unsigned_less [of grid, where ?'a = nat] by simp
    then have "unat (of_nat k :: u32) = k" by (simp add: unat_of_nat)
    moreover have "map (\<lambda>t. k * 256 + unat (of_nat t :: u32)) [0..<256] = map (\<lambda>t. k * 256 + t) [0..<256]"
      by (rule map_cong) (auto simp: unat_of_nat)
    moreover have "map (\<lambda>t. k * 256 + t) [0..<256] = [k * 256..<k * 256 + 256]"
      using map_add_upt [of "k * 256" 256] by (simp add: add.commute)
    moreover have "[0..<Suc k * 256] = [0..<k * 256] @ [k * 256..<k * 256 + 256]"
      using upt_add_eq_append [of 0 "k * 256" 256] by (simp add: add.commute)
    ultimately show ?case using Suc by (simp add: comp_def)
  qed simp
  from this [of "unat grid"] show ?thesis by (simp add: launch_grid_def)
qed

lemma those_map: "\<forall>x\<in>set xs. \<exists>w. f x = Some (g x, w) \<Longrightarrow> \<exists>rs. those (map f xs) = Some rs \<and> map fst rs = map g xs"
  by (induction xs) auto

lemma memory_thread_reads:
  assumes "grid \<noteq> 0" "unat n \<le> 2 ^ 62" "(b, t) \<in> set (launch_grid grid 256)"
  shows "\<exists>w. memory_heavy_kernel fl buf n grid 256 b t =
    Some (map of_nat (filter (\<lambda>j. j mod (unat grid * 256) = unat b * 256 + unat t) [0..<unat n]), w)"
proof -
  let ?S = "unat grid * 256" and ?i = "unat b * 256 + unat t"
  have g: "0 < unat grid" "unat grid < 2 ^ 32" using assms(1) unsigned_less [of grid, where ?'a = nat] by (simp_all add: unat_gt_0)
  have i: "?i < ?S" using imageI [OF assms(3), of "\<lambda>(b, t). unat b * 256 + unat t"] grid_indices [of grid]
    by (simp flip: set_map)
  have w: "(ucast b * ucast (256 :: u32) + ucast t :: u64) = of_nat ?i" "(ucast grid * ucast (256 :: u32) :: u64) = of_nat ?S"
    "n = of_nat (unat n)" by (simp_all add: of_nat_unat)
  obtain s where "memory_loop fl buf (of_nat (unat n)) (of_nat ?S) (of_nat ?i) (df_lit fl 0 1) =
      Some (map of_nat (filter (\<lambda>j. j mod ?S = ?i mod ?S) [?i..<unat n]), s)"
    using memory_loop_reads [of ?S "unat n" ?i] g i assms(2) by fastforce
  moreover have "filter (\<lambda>j. j mod ?S = ?i) [0..<unat n] = filter (\<lambda>j. j mod ?S = ?i mod ?S) [?i..<unat n]"
  proof (cases "?i \<le> unat n")
    case True
    have "filter (\<lambda>j. j mod ?S = ?i) [0..<?i] = []" using i by (auto simp: filter_empty_conv)
    then show ?thesis using i upt_add_eq_append [of 0 ?i "unat n - ?i"] True by simp
  next
    case False
    then show ?thesis using i by (auto simp: filter_empty_conv)
  qed
  ultimately show ?thesis by (simp add: memory_heavy_kernel_def Let_def w(1,2)) 
qed

text \<open>C27. The memory kernel reads its buffer exactly once: whenever the launch has a block and the buffer
  fewer than \<open>2 ^ 62\<close> elements, which every byte count gives, all threads end, whatever the grid, and
  together they read each of the \<open>n\<close> elements once and nothing outside the buffer.\<close>

theorem memory_kernel_reads_once:
  assumes "grid \<noteq> 0" "n = bytes div 4"
  shows "\<exists>rs. memory_launch fl buf n grid = Some rs \<and> mset (concat (map fst rs)) = mset (map of_nat [0..<unat n])"
proof -
  let ?g = "\<lambda>(b, t). unat b * 256 + unat t" and ?S = "unat grid * 256"
  let ?r = "\<lambda>k. map of_nat (filter (\<lambda>j. j mod ?S = k) [0..<unat n]) :: u64 list"
  have n: "unat n \<le> 2 ^ 62" using assms(2) unsigned_less [of bytes, where ?'a = nat] by (simp add: unat_div)
  obtain rs where rs: "memory_launch fl buf n grid = Some rs" "map fst rs = map (\<lambda>x. ?r (?g x)) (launch_grid grid 256)"
    unfolding memory_launch_def
    using those_map [of "launch_grid grid 256" "\<lambda>(b, t). memory_heavy_kernel fl (buf (b, t)) n grid 256 b t" "\<lambda>x. ?r (?g x)"]
      memory_thread_reads [OF assms(1) n] by fastforce
  have "map fst rs = map ?r (map ?g (launch_grid grid 256))" by (simp add: rs(2))
  also have "\<dots> = map (map of_nat) (map (\<lambda>k. filter (\<lambda>j. j mod ?S = k) [0..<unat n]) [0..<?S])"
    unfolding grid_indices by simp
  finally have "mset (concat (map fst rs)) =
      image_mset of_nat (mset (concat (map (\<lambda>k. filter (\<lambda>j. j mod ?S = k) [0..<unat n]) [0..<?S])))"
    by (simp only: map_concat [symmetric] mset_map)
  also have "\<dots> = image_mset of_nat (mset [0..<unat n])"
    using assms(1) by (subst mset_partition) (simp_all add: unat_gt_0)
  finally show ?thesis using rs(1) by simp
qed

text \<open>Binary64 arithmetic in place of the device's.\<close>

definition ex_float :: "double device_float" where
  "ex_float = \<lparr>df_of_u32 = (\<lambda>w. f64_of_u64 (ucast w)), df_lit = f64_lit, df_add = f64_add, df_mul = f64_mul,
     df_fma = (\<lambda>a b c. f64_add (f64_mul a b) c), df_eq = f64_eq\<rparr>"

theorem memory_kernel_reads_once_witness:
  "\<exists>rs. memory_launch ex_float (\<lambda>_ _. f64_one) 25 1 = Some rs \<and> mset (concat (map fst rs)) = mset (map of_nat [0..<25])"
  using memory_kernel_reads_once [of 1 25 100 ex_float "\<lambda>_ _. f64_one"] by simp

subsection \<open>Writes of the compute kernel\<close>

lemma launch_grid_member: "(b, t) \<in> set (launch_grid grid bdim) \<longleftrightarrow> b < grid \<and> t < bdim"
proof -
  have in_range: "(\<exists>k<unat w. x = of_nat k) \<longleftrightarrow> x < w" for x w :: u32
    by (auto simp: word_less_nat_alt intro: exI [of _ "unat x"]) (metis unat_of_nat mod_less_eq_dividend le_less_trans)
  have "(b, t) \<in> set (launch_grid grid bdim) \<longleftrightarrow> (\<exists>k<unat grid. b = of_nat k) \<and> (\<exists>k<unat bdim. t = of_nat k)"
    unfolding launch_grid_def set_concat set_map by (auto intro!: bexI imageI)
  then show ?thesis by (simp only: in_range)
qed

lemma compute_writes_block: "(i, v) \<in> set (compute_writes fl iters blocks) \<Longrightarrow> i < blocks"
  by (auto simp: compute_writes_def compute_heavy_kernel_def launch_grid_member Let_def split: if_splits)

text \<open>The compute kernel may write outside its buffer. \<open>launch_compute\<close> gives it 64 bytes, sixteen
  elements, whatever the number of blocks, and a block writes at its own index. With at most sixteen
  blocks every write is inside; with arithmetic that multiplies and adds these small integers exactly,
  more than 246912 blocks and no iterations make a thread write element 246912.\<close>

lemma compute_kernel_out_of_bounds:
  assumes "df_mul fl (df_of_u32 fl 246912) (df_lit fl 1 2) = df_lit fl 123456 1"
    "df_add fl (df_of_u32 fl 0) (df_lit fl 123456 1) = df_lit fl 123456 1"
    "df_eq fl (df_lit fl 123456 1) (df_lit fl 123456 1)" "246912 < blocks"
  shows "(\<exists>(i, v)\<in>set (compute_writes fl 0 blocks). 64 div 4 \<le> i) \<and>
    (\<forall>iters small i v. small \<le> 64 div 4 \<longrightarrow> (i, v) \<in> set (compute_writes fl iters small) \<longrightarrow> i < 64 div 4)"
proof
  have "(246912, 0) \<in> set (launch_grid blocks 256)"
    using assms(4) by (simp add: launch_grid_member)
  moreover have "compute_heavy_kernel fl 0 246912 0 = [(246912, df_lit fl 123456 1)]"
    by (simp add: compute_heavy_kernel_def assms(1-3))
  ultimately have "(246912, df_lit fl 123456 1) \<in> set (compute_writes fl 0 blocks)" 
    unfolding compute_writes_def set_concat set_map by (intro UnionI [OF imageI]) auto
  then show "\<exists>(i, v)\<in>set (compute_writes fl 0 blocks). 64 div 4 \<le> i" by (rule bexI [rotated]) simp
  show "\<forall>iters small i v. small \<le> 64 div 4 \<longrightarrow> (i, v) \<in> set (compute_writes fl iters small) \<longrightarrow> i < 64 div 4"
    by (intro allI impI) (rule order_less_le_trans [OF compute_writes_block])
qed

lemma compute_kernel_out_of_bounds_f64:
  "\<exists>(i, v)\<in>set (compute_writes ex_float 0 246913). 64 div 4 \<le> i"
proof -
  have "df_mul ex_float (df_of_u32 ex_float 246912) (df_lit ex_float 1 2) = df_lit ex_float 123456 1"
    "df_add ex_float (df_of_u32 ex_float 0) (df_lit ex_float 123456 1) = df_lit ex_float 123456 1"
    "df_eq ex_float (df_lit ex_float 123456 1) (df_lit ex_float 123456 1)"
    unfolding ex_float_def by code_simp+
  then show ?thesis using compute_kernel_out_of_bounds [of ex_float 246913] by simp
qed

end
