(* ===== verification/Examples.thy ===== *)
theory Examples
  imports Serialize
begin

text \<open>
  The documented scenarios of \<open>examples/example_scenarios.cpp\<close>: eight short histories of an observatory
  and the conclusions the program prints for them. Each example is a function of its own, and the
  theorem at the end evaluates all of them on the model.
\<close>

definition eg_workload :: "u64 \<Rightarrow> workload_descriptor" where
  "eg_workload k = \<lparr>wl_id = Id k, wl_generation = Id (k + 1000), wl_name = ''wl-'' @ decimal (unat k),
     wl_config_fingerprint = ''cfg-v1'', wl_problem_size_fingerprint = ''size-2048'', wl_device_id = Id 11,
     wl_device_generation = Id 33, wl_worker_id = Id 22, wl_worker_boot = Id 1, wl_policy_generation = ''pol-v1'',
     wl_runtime_generation = ''rt-v1'', wl_kernel_generation = ''kernel-v1'', wl_topology_generation = Id 44,
     wl_start_ms = 0, wl_end_ms = 0, wl_attempt_id = 1, wl_priority_class = ''io''\<rparr>"

definition eg_baseline :: "u64 \<Rightarrow> u64 \<Rightarrow> double \<Rightarrow> baseline" where
  "eg_baseline k w mean = default_baseline\<lparr>b_id := Id k, b_generation := Id (k + 2000), b_type := BaselineType_Isolated,
     b_workload_id := Id w, b_workload_generation := Id (w + 1000), b_device_id := Id 11,
     b_device_generation := Id 33, b_worker_id := Id 22, b_worker_boot := Id 1,
     b_config_fingerprint := ''cfg-v1'', b_problem_size_fingerprint := ''size-2048'',
     b_runtime_generation := ''rt-v1'', b_kernel_generation := ''kernel-v1'', b_policy_generation := ''pol-v1'',
     b_topology_generation := Id 44, b_source_generation := Id 55, b_evidence_generation := Id 66,
     b_timestamp_ms := 100000, b_interval_ms := 1000, b_provenance := Provenance_Controlled,
     b_freshness := Freshness_Current, b_sample_count := 10, b_variance := f64_lit 2 1,
     b_confidence := f64_lit 9 10, b_mean_value := mean, b_metric_kind := Metric_Latency, b_valid := True\<rparr>"

definition eg_observation ::
  "u64 \<Rightarrow> u64 \<Rightarrow> double \<Rightarrow> u64 \<Rightarrow> WorkloadId list \<Rightarrow> confounder list \<Rightarrow> observation" where
  "eg_observation k w v ts peers confs = default_observation\<lparr>o_id := Id k, o_generation := Id (k + 3000),
     o_source_id := Id 77, o_source_generation := Id 55, o_worker_id := Id 22, o_worker_boot := Id 1,
     o_workload_id := Id w, o_workload_generation := Id (w + 1000), o_device_id := Id 11,
     o_device_generation := Id 33, o_timestamp_ms := ts, o_measurement := default_measurement\<lparr>m_kind := Metric_Latency,
       m_value := v, m_unit := ''ms'', m_sample_count := 1, m_variance := f64_zero\<rparr>,
     o_provenance := Provenance_Measured, o_freshness := Freshness_Current, o_source_health := Health_Healthy,
     o_capabilities := default_capabilities\<lparr>cuda_kernels := True\<rparr>, o_co_run_peers := peers, o_confounders := confs\<rparr>"

text \<open>An observatory that knows both workloads, and the five observations of workload 10 most examples use.\<close>

definition eg_start :: impl where
  "eg_start = snd (register_workload (eg_workload 20) (snd (register_workload (eg_workload 10)
     (new_observatory (Id 1) (Id 1)))))"

definition eg_obs :: "u64 \<Rightarrow> u64 \<Rightarrow> u64 \<Rightarrow> double \<Rightarrow> confounder list \<Rightarrow> observation list" where
  "eg_obs base w peer v confs = map (\<lambda>i. eg_observation (base + i) w v (100001 + i) [Id peer] confs) [0, 1, 2, 3, 4]"

definition example_1 :: "pairwise \<times> pairwise" where
  "example_1 =
     (let s = snd (publish_baseline (eg_baseline 1 10 (f64_lit 100 1)) eg_start);
          s = snd (publish_baseline (eg_baseline 2 20 (f64_lit 100 1)) s);
          (ab, s) = compare (eg_workload 10) (eg_workload 20) Domain_MemoryBandwidth
            (eg_obs 10 10 20 (f64_lit 135 1) []) default_policy s;
          (ba, s) = compare (eg_workload 20) (eg_workload 10) Domain_MemoryBandwidth
            (eg_obs 20 20 10 (f64_lit 103 1) []) default_policy s
      in (ab, ba))"

text \<open>The observatory of examples 2 to 7: one baseline, of workload 10.\<close>

definition eg_one :: impl where
  "eg_one = snd (publish_baseline (eg_baseline 1 10 (f64_lit 100 1)) eg_start)"

definition example_2 :: pairwise where
  "example_2 = fst (compare (eg_workload 10) (eg_workload 20) Domain_MemoryBandwidth
     (eg_obs 10 10 20 (f64_lit 1005 10) []) default_policy eg_one)"

definition example_3 :: pairwise where
  "example_3 = fst (compare (eg_workload 10) (eg_workload 20) Domain_MemoryBandwidth
     [eg_observation 10 10 (f64_lit 135 1) 100001 [Id 20] []] default_policy eg_one)"

definition example_4 :: pairwise where
  "example_4 = fst (compare (eg_workload 10) (eg_workload 20) Domain_MemoryBandwidth
     (eg_obs 10 10 20 (f64_lit 135 1) [Confounder_ThermalThrottling]) default_policy eg_one)"

definition example_5 :: pairwise where
  "example_5 = fst (compare (eg_workload 10) (eg_workload 20) Domain_MemoryBandwidth
     (map (\<lambda>i. eg_observation (10 + i) 10 (f64_lit 135 1) (100000 + max_age_ms default_policy + 5000) [Id 20] [])
       [0, 1, 2, 3, 4]) default_policy
     (snd (publish_baseline ((eg_baseline 1 10 (f64_lit 100 1))\<lparr>b_timestamp_ms := 100000\<rparr>) eg_start)))"

text \<open>Two observatories are built one after the other by the same calls, and their digests compared.\<close>

definition example_6 :: "string \<times> bool" where
  "example_6 =
     (let a = eg_obs 10 10 20 (f64_lit 135 1) [];
          o1 = new_observatory (Id 1) (Id 1);
          o1 = snd (register_workload (eg_workload 10) o1);
          o1 = snd (register_workload (eg_workload 20) o1);
          o1 = snd (publish_baseline (eg_baseline 1 10 (f64_lit 100 1)) o1);
          o1 = snd (compare (eg_workload 10) (eg_workload 20) Domain_MemoryBandwidth a default_policy o1);
          o2 = new_observatory (Id 1) (Id 1);
          o2 = snd (register_workload (eg_workload 10) o2);
          o2 = snd (register_workload (eg_workload 20) o2);
          o2 = snd (publish_baseline (eg_baseline 1 10 (f64_lit 100 1)) o2);
          o2 = snd (compare (eg_workload 10) (eg_workload 20) Domain_MemoryBandwidth a default_policy o2)
      in (canonical_digest o1, canonical_digest o1 = canonical_digest o2))"

definition example_7 :: pairwise where
  "example_7 =
     (let s = snd (register_worker (Id 22) (Id 1) ''w'' True eg_start);
          s = snd (publish_baseline (eg_baseline 1 10 (f64_lit 100 1)) s)
      in fst (compare ((eg_workload 10)\<lparr>wl_worker_boot := Id 999\<rparr>) (eg_workload 20) Domain_MemoryBandwidth
           (eg_obs 10 10 20 (f64_lit 135 1) []) default_policy s))"

definition example_8 :: "CoordinatorEpoch \<times> freshness option" where
  "example_8 =
     (let s = set_coordinator_epoch (Id 2) eg_one
      in (coordinator_epoch s, map_option b_freshness (lookup_baseline (Id 1) s)))"

subsection \<open>Their conclusions\<close>

lemma eg_publishable:
  "publishable (eg_baseline 1 10 (f64_lit 100 1))" "publishable (eg_baseline 2 20 (f64_lit 100 1))"
  "stored_form (eg_baseline k w m) = eg_baseline k w m" "b_id (eg_baseline k w m) = Id k"
  by (code_simp, code_simp, simp_all add: stored_form_def eg_baseline_def)

lemma eg_baselines:
  "i_baselines eg_start = []" "i_baselines eg_one = [(Id 1, eg_baseline 1 10 (f64_lit 100 1))]"
  "i_recoveries eg_start = []" "i_recoveries eg_one = []"
  by (simp_all add: eg_one_def eg_start_def publish_state eg_publishable register_workload_def new_observatory_def)

lemma eg_evidence:
  assumes "i_baselines s = bs" "fst (select_baseline w bs) = Some b" "snd (freshness_window b (last_timestamp obs) default_policy)"
    "min_samples default_policy \<le> of_nat (length (filter (counted w b) obs))"
  shows "evidence_ok w obs default_policy s b"
proof -
  have "policy_isValid default_policy" by code_simp
  then show ?thesis using assms by (simp add: evidence_ok_def)
qed

lemma eg_verdict:
  assumes "evidence_ok w obs default_policy s b" "overlapping w w' b obs"
    "classify_outcome (scored_magnitude w obs b) default_policy = v" "fst (analyse_confounders w obs) = hard" "i_recoveries s = []"
  shows "p_outcome (fst (compare w w' d obs default_policy s)) = v"
    "p_attribution (fst (compare w w' d obs default_policy s)) = attribution_of True hard False"
  unfolding compare_scored [OF assms(1)]
  using assms(2-5) by (simp_all add: commit_fst scored_outcome scored_attribution)

text \<open>The guards of the scored examples, evaluated.\<close>

lemma eg_guards:
  fixes bl :: baseline
  defines "bl \<equiv> eg_baseline 1 10 (f64_lit 100 1)" and "bl' \<equiv> eg_baseline 2 20 (f64_lit 100 1)"
  shows "fst (select_baseline (eg_workload 10) [(Id 1, bl)]) = Some bl"
    "fst (select_baseline (eg_workload 10) [(Id 1, bl), (Id 2, bl')]) = Some bl"
    "fst (select_baseline (eg_workload 20) [(Id 1, bl), (Id 2, bl')]) = Some bl'"
  unfolding bl_def bl'_def by code_simp+

lemma eg_obs_guards:
  fixes bl :: baseline
  defines "bl \<equiv> eg_baseline 1 10 (f64_lit 100 1)" and "bl' \<equiv> eg_baseline 2 20 (f64_lit 100 1)"
    and "a \<equiv> eg_obs 10 10 20 (f64_lit 135 1) []" and "b \<equiv> eg_obs 20 20 10 (f64_lit 103 1) []"
    and "c \<equiv> eg_obs 10 10 20 (f64_lit 1005 10) []" and "t \<equiv> eg_obs 10 10 20 (f64_lit 135 1) [Confounder_ThermalThrottling]"
  shows "snd (freshness_window bl (last_timestamp a) default_policy)" "snd (freshness_window bl' (last_timestamp b) default_policy)"
    "snd (freshness_window bl (last_timestamp c) default_policy)" "snd (freshness_window bl (last_timestamp t) default_policy)"
    "min_samples default_policy \<le> of_nat (length (filter (counted (eg_workload 10) bl) a))"
    "min_samples default_policy \<le> of_nat (length (filter (counted (eg_workload 20) bl') b))"
    "min_samples default_policy \<le> of_nat (length (filter (counted (eg_workload 10) bl) c))"
    "min_samples default_policy \<le> of_nat (length (filter (counted (eg_workload 10) bl) t))"
    "overlapping (eg_workload 10) (eg_workload 20) bl a" "overlapping (eg_workload 20) (eg_workload 10) bl' b"
    "overlapping (eg_workload 10) (eg_workload 20) bl c" "overlapping (eg_workload 10) (eg_workload 20) bl t"
    "classify_outcome (scored_magnitude (eg_workload 10) a bl) default_policy = Outcome_InterferenceDetected"
    "classify_outcome (scored_magnitude (eg_workload 20) b bl') default_policy = Outcome_PotentialInterference"
    "classify_outcome (scored_magnitude (eg_workload 10) c bl) default_policy = Outcome_NoInterferenceDetected"
    "classify_outcome (scored_magnitude (eg_workload 10) t bl) default_policy = Outcome_InterferenceDetected"
    "fst (analyse_confounders (eg_workload 10) a) = []" "fst (analyse_confounders (eg_workload 20) b) = []"
    "fst (analyse_confounders (eg_workload 10) c) = []"
    "fst (analyse_confounders (eg_workload 10) t) = [Confounder_ThermalThrottling]"
  unfolding bl_def bl'_def a_def b_def c_def t_def by code_simp+

lemma example_1_conclusion:
  "p_outcome (fst example_1) = Outcome_InterferenceDetected" "p_outcome (snd example_1) = Outcome_PotentialInterference"
proof -
  let ?s = "snd (publish_baseline (eg_baseline 2 20 (f64_lit 100 1)) eg_one)"
  let ?c = "compare (eg_workload 10) (eg_workload 20) Domain_MemoryBandwidth (eg_obs 10 10 20 (f64_lit 135 1) []) default_policy ?s"
  have s: "i_baselines ?s = [(Id 1, eg_baseline 1 10 (f64_lit 100 1)), (Id 2, eg_baseline 2 20 (f64_lit 100 1))]"
    "i_recoveries ?s = []" by (simp_all add: publish_state eg_publishable eg_baselines map_find_def less_id_def)
  then have s': "i_baselines (snd ?c) = [(Id 1, eg_baseline 1 10 (f64_lit 100 1)), (Id 2, eg_baseline 2 20 (f64_lit 100 1))]"
    "i_recoveries (snd ?c) = []" by (simp_all add: compare_frame)
  have e: "fst example_1 = fst ?c" "snd example_1 = fst (compare (eg_workload 20) (eg_workload 10) Domain_MemoryBandwidth
      (eg_obs 20 20 10 (f64_lit 103 1) []) default_policy (snd ?c))"
    by (simp_all add: example_1_def eg_one_def Let_def case_prod_beta)
  show "p_outcome (fst example_1) = Outcome_InterferenceDetected" unfolding e
    by (rule eg_verdict(1) [OF eg_evidence [OF s(1) eg_guards(2) eg_obs_guards(1,5)] eg_obs_guards(9,13,17) s(2)])
  show "p_outcome (snd example_1) = Outcome_PotentialInterference" unfolding e
    by (rule eg_verdict(1) [OF eg_evidence [OF s'(1) eg_guards(3) eg_obs_guards(2,6)] eg_obs_guards(10,14,18) s'(2)])
qed

lemma example_24_conclusion:
  "p_outcome example_2 = Outcome_NoInterferenceDetected" "p_outcome example_4 = Outcome_InterferenceDetected"
  "p_attribution example_4 = Attribution_Correlated"
proof -
  note e2 = eg_evidence [OF eg_baselines(2) eg_guards(1) eg_obs_guards(3,7)]
  note e4 = eg_evidence [OF eg_baselines(2) eg_guards(1) eg_obs_guards(4,8)]
  show "p_outcome example_2 = Outcome_NoInterferenceDetected" unfolding example_2_def
    by (rule eg_verdict(1) [OF e2 eg_obs_guards(11,15,19) eg_baselines(4)])
  show "p_outcome example_4 = Outcome_InterferenceDetected" unfolding example_4_def
    by (rule eg_verdict(1) [OF e4 eg_obs_guards(12,16,20) eg_baselines(4)])
  show "p_attribution example_4 = Attribution_Correlated" unfolding example_4_def
    by (subst eg_verdict(2) [OF e4 eg_obs_guards(12,16,20) eg_baselines(4)]) (simp add: attribution_of_def)
qed

lemma example_357_conclusion:
  "p_outcome example_3 = Outcome_InsufficientEvidence" "p_outcome example_5 = Outcome_RevalidationRequired"
  "p_outcome example_7 = Outcome_BaselineInvalid"
proof -
  let ?bl = "eg_baseline 1 10 (f64_lit 100 1)" and ?w = "(eg_workload 10)\<lparr>wl_worker_boot := Id 999\<rparr>"
  let ?o3 = "[eg_observation 10 10 (f64_lit 135 1) 100001 [Id 20] []]"
  let ?o5 = "map (\<lambda>i. eg_observation (10 + i) 10 (f64_lit 135 1) (100000 + max_age_ms default_policy + 5000) [Id 20] [])
     [0, 1, 2, 3, 4]"
  have p: "policy_isValid default_policy" by code_simp
  have sel: "select_baseline (eg_workload 10) [(Id 1, ?bl)] = (Some ?bl, Some ?bl)"
    "select_baseline ?w [(Id 1, ?bl)] = (None, Some ?bl)" by code_simp+
  have f: "freshness_window ?bl (last_timestamp ?o3) default_policy = (Freshness_Current, True)"
    "freshness_window ?bl (last_timestamp ?o5) default_policy = (Freshness_Expired, False)"
    "length (filter (counted (eg_workload 10) ?bl) ?o3) = 1" "1 < min_samples default_policy" by code_simp+
  show "p_outcome example_3 = Outcome_InsufficientEvidence"
    using f(4) by (simp only: example_3_def compare_def Let_def p eg_baselines sel f(1) prod.case option.case)
      (simp add: aggregate_obs_simps f(3))
  have t: "?bl\<lparr>b_timestamp_ms := 100000\<rparr> = ?bl" by (simp add: eg_baseline_def)
  show "p_outcome example_5 = Outcome_RevalidationRequired"
    unfolding example_5_def t eg_one_def [symmetric] by (simp only: compare_def Let_def p eg_baselines sel f(2) prod.case option.case) simp
  have "i_baselines (snd (publish_baseline ?bl (snd (register_worker (Id 22) (Id 1) ''w'' True eg_start)))) = [(Id 1, ?bl)]"
    by (simp add: publish_state eg_publishable register_worker_def eg_baselines split: option.splits)
  then show "p_outcome example_7 = Outcome_BaselineInvalid"
    by (simp add: example_7_def compare_def Let_def p sel)
qed

text \<open>The documented examples conclude what the program says of them: the asymmetric pair is interference
  one way and potential interference the other; a neighbour without measurable effect is no
  interference; one sample is insufficient evidence; a thermal confounder leaves a mere correlation; an
  expired baseline and a restarted coordinator require revalidation; and a restarted worker's old
  baseline is invalid. (The digests that example 6 compares are equal because the operations of the
  observatory are functions of the state.)\<close>

lemma examples_conclude:
  "p_outcome (fst example_1) = Outcome_InterferenceDetected \<and> p_outcome (snd example_1) = Outcome_PotentialInterference \<and>
   p_outcome example_2 = Outcome_NoInterferenceDetected \<and> p_outcome example_3 = Outcome_InsufficientEvidence \<and>
   p_outcome example_4 = Outcome_InterferenceDetected \<and> p_attribution example_4 = Attribution_Correlated \<and>
   p_outcome example_5 = Outcome_RevalidationRequired \<and> p_outcome example_7 = Outcome_BaselineInvalid \<and>
   example_8 = (Id 2, Some Freshness_RevalidationRequired)"
proof -
  have "i_epoch eg_one = Id 1" by (simp add: eg_one_def eg_start_def publish_state register_workload_def new_observatory_def)
  moreover have "b_freshness (revalidate_baseline (eg_baseline 1 10 (f64_lit 100 1))) = Freshness_RevalidationRequired"
    by (simp add: revalidate_baseline_def eg_baseline_def)
  ultimately have "example_8 = (Id 2, Some Freshness_RevalidationRequired)"
    by (simp add: example_8_def Let_def set_coordinator_epoch_def coordinator_epoch_def lookup_baseline_def eg_baselines
        map_update_all_def map_find_def)
  then show ?thesis using example_1_conclusion example_24_conclusion example_357_conclusion by simp
qed

end
