(* ===== verification/Bench.thy ===== *)
theory Bench
  imports Reload
begin

text \<open>
  The benchmark (\<open>benchmarks/bench.cpp\<close>) without its clocks: one round records \<open>n\<close> observations,
  compares over all of them, saves the state and loads it into a second observatory. The theorem says
  that a round of any of the benchmark's sizes does the work it is timed for.
\<close>

definition bench_wl :: "u64 \<Rightarrow> workload_descriptor" where
  "bench_wl k = \<lparr>wl_id = Id k, wl_generation = Id (k + 1000), wl_name = [], wl_config_fingerprint = ''cfg'',
     wl_problem_size_fingerprint = ''size'', wl_device_id = Id 11, wl_device_generation = Id 33,
     wl_worker_id = Id 22, wl_worker_boot = Id 1, wl_policy_generation = ''pol'', wl_runtime_generation = ''rt'',
     wl_kernel_generation = ''k'', wl_topology_generation = Id 44, wl_start_ms = 0, wl_end_ms = 0,
     wl_attempt_id = 1, wl_priority_class = []\<rparr>"

definition bench_obs :: "u64 \<Rightarrow> observation" where
  "bench_obs k = default_observation\<lparr>o_id := Id k, o_generation := Id (k + 3000), o_source_id := Id 77,
     o_source_generation := Id 55, o_worker_id := Id 22, o_worker_boot := Id 1, o_workload_id := Id 10,
     o_workload_generation := Id 1010, o_device_id := Id 11, o_device_generation := Id 33, o_timestamp_ms := 100001,
     o_measurement := default_measurement\<lparr>m_kind := Metric_Latency, m_value := f64_lit 130 1, m_unit := ''ms'',
       m_sample_count := 1\<rparr>, o_provenance := Provenance_Measured, o_freshness := Freshness_Current,
     o_source_health := Health_Healthy, o_co_run_peers := [Id 20]\<rparr>"

definition bench_bl :: baseline where
  "bench_bl = \<lparr>b_id = Id 1, b_generation = Id 2100, b_type = BaselineType_Isolated, b_workload_id = Id 10,
     b_workload_generation = Id 1010, b_device_id = Id 11, b_device_generation = Id 33, b_worker_id = Id 22,
     b_worker_boot = Id 1, b_config_fingerprint = ''cfg'', b_problem_size_fingerprint = ''size'',
     b_runtime_generation = ''rt'', b_kernel_generation = ''k'', b_policy_generation = ''pol'',
     b_topology_generation = Id 44, b_source_generation = Id 55, b_evidence_generation = Id 66,
     b_timestamp_ms = 100000, b_interval_ms = 1000, b_provenance = Provenance_Controlled,
     b_freshness = Freshness_Current, b_sample_count = 10, b_variance = f64_lit 2 1, b_confidence = f64_lit 9 10,
     b_mean_value = f64_lit 100 1, b_metric_kind = Metric_Latency, b_valid = True\<rparr>"

definition bench_setup :: impl where
  "bench_setup = snd (publish_baseline bench_bl (snd (register_workload (bench_wl 20)
     (snd (register_workload (bench_wl 10) (new_observatory (Id 1) (Id 1)))))))"

text \<open>\<open>for (i = 0; i < n; ++i) o.record_observation(obs(ObservationId(i + 1)))\<close>\<close>

definition bench_ingest :: "nat \<Rightarrow> impl \<Rightarrow> impl" where
  "bench_ingest n s = foldl (\<lambda>s i. snd (record_observation (bench_obs (of_nat i + 1)) s)) s [0..<n]"

text \<open>One round: the observatory, what \<open>save\<close> answered, what \<open>load\<close> answered, the second observatory,
  and the disk. \<open>main\<close> runs a round per size, each on the disk the last one left.\<close>

definition bench_round :: "io_faults \<Rightarrow> nat \<Rightarrow> file_system \<Rightarrow> (impl \<times> status \<times> status \<times> impl) \<times> file_system" where
  "bench_round io n fs =
     (let s = bench_ingest n bench_setup;
          all = observations_for (Id 10) s;
          s = snd (compare (bench_wl 10) (bench_wl 20) Domain_MemoryBandwidth all default_policy s);
          path = ''bench_'' @ decimal n @ ''.bin'';
          (st, fs) = save io path s fs;
          (st2, s2) = load path fs (new_observatory (Id 1) (Id 1))
      in ((s, st, st2, s2), fs))"

fun bench_rounds :: "io_faults \<Rightarrow> nat list \<Rightarrow> file_system \<Rightarrow> (impl \<times> status \<times> status \<times> impl) list" where
  "bench_rounds io [] fs = []"
| "bench_rounds io (n # ns) fs = (let (r, fs) = bench_round io n fs in r # bench_rounds io ns fs)"

definition bench_main :: "io_faults \<Rightarrow> file_system \<Rightarrow> (impl \<times> status \<times> status \<times> impl) list" where
  "bench_main io fs = bench_rounds io [100, 1000, 10000, 100000] fs"

subsection \<open>Ingest\<close>

lemma bench_recordable: "k \<noteq> 0 \<Longrightarrow> k + 3000 \<noteq> 0 \<Longrightarrow> recordable (bench_obs k)"
proof -
  have "is_finite_nonneg (f64_lit 130 1)" "is_finite_nonneg f64_zero" by code_simp+
  then show "k \<noteq> 0 \<Longrightarrow> k + 3000 \<noteq> 0 \<Longrightarrow> recordable (bench_obs k)"
    by (simp add: recordable_def bench_obs_def id_is_nil_def measurement_is_valid_def default_measurement_def)
qed

definition bench_entries :: "nat \<Rightarrow> (ObservationId, observation) std_map" where
  "bench_entries n = map (\<lambda>i. (Id (of_nat i + 1), bench_obs (of_nat i + 1))) [0..<n]"

lemma bench_word: "i < 2 ^ 32 \<Longrightarrow> unat (of_nat i + 1 :: u64) = Suc i"
  by (simp add: unat_word_ariths unat_of_nat)

lemma bench_below: "n < 2 ^ 32 \<Longrightarrow> k \<in> fst ` set (bench_entries n) \<Longrightarrow> k < Id (of_nat n + 1)"
  by (auto simp: bench_entries_def less_id_def word_less_nat_alt bench_word)

lemma bench_ingested:
  assumes "i_observations s = []" "n < 2 ^ 32"
  shows "bench_ingest n s = s\<lparr>i_observations := bench_entries n\<rparr>"
  using assms(2)
proof (induction n)
  case 0
  then show ?case using assms(1) by (simp add: bench_ingest_def bench_entries_def)
next
  case (Suc n)
  let ?k = "of_nat n + 1 :: u64"
  have u: "unat ?k = Suc n" using Suc.prems by (simp add: bench_word)
  moreover have "unat (?k + 3000) = (unat ?k + 3000) mod 2 ^ 64" by (subst unat_word_ariths) simp
  ultimately have "unat (?k + 3000) = Suc n + 3000" using Suc.prems by simp
  with u have rec: "recordable (bench_obs ?k)" by (intro bench_recordable) (auto simp del: add_Suc simp: unat_eq_zero [symmetric])
  have below: "\<forall>k\<in>fst ` set (bench_entries n). k < Id ?k" using bench_below [of n] Suc.prems by simp
  then have none: "map_find (bench_entries n) (Id ?k) = None" by (auto simp: map_find_def map_of_eq_None_iff)
  have "o_id (bench_obs ?k) = Id ?k" by (simp add: bench_obs_def)
  moreover have "bench_ingest (Suc n) s = snd (record_observation (bench_obs ?k) (bench_ingest n s))"
    by (simp add: bench_ingest_def)
  ultimately show ?case
    using Suc rec none map_assign_above [OF below, of "bench_obs ?k"]
    by (simp add: record_unfold bench_entries_def)
qed

lemma bench_inv: "n < 2 ^ 32 \<Longrightarrow> map_inv (bench_entries n)"
proof (induction n)
  case (Suc n)
  have "bench_entries (Suc n) = bench_entries n @ [(Id (of_nat n + 1), bench_obs (of_nat n + 1))]" by (simp add: bench_entries_def)
  then show ?case using Suc bench_below [of n] by (simp add: map_inv_def sorted_wrt_append)
qed (simp add: bench_entries_def)

subsection \<open>The rest of a round\<close>

lemma bench_setup_state:
  "bench_setup = (new_observatory (Id 1) (Id 1))\<lparr>i_workloads := [(Id 10, bench_wl 10), (Id 20, bench_wl 20)],
     i_baselines := [(Id 1, bench_bl)]\<rparr>"
proof -
  have "publishable bench_bl" by code_simp
  moreover have "stored_form bench_bl = bench_bl" "b_id bench_bl = Id 1" by (simp_all add: stored_form_def bench_bl_def)
  ultimately show ?thesis
    by (simp add: bench_setup_def publish_state register_workload_def new_observatory_def bench_wl_def id_is_nil_def less_id_def)
qed

lemma bench_all: "observations_for (Id 10) (s\<lparr>i_observations := bench_entries n\<rparr>) = map (\<lambda>i. bench_obs (of_nat i + 1)) [0..<n]"
  by (simp add: observations_for_def bench_entries_def comp_def filter_map bench_obs_def)

lemma bench_counted: "filter (counted (bench_wl 10) bench_bl) (map (\<lambda>i. bench_obs (f i)) is) = map (\<lambda>i. bench_obs (f i)) is"
proof -
  have "is_finite_nonneg (f64_lit 130 1)" "is_finite_nonneg f64_zero" by code_simp+
  then have "counted (bench_wl 10) bench_bl (bench_obs k)" for k
    by (simp add: counted_def bench_wl_def bench_bl_def bench_obs_def measurement_is_valid_def default_measurement_def)
  then show ?thesis by simp
qed

lemma bench_evidence:
  assumes "3 \<le> n" "n < 2 ^ 32" "i_baselines s = [(Id 1, bench_bl)]"
  shows "evidence_ok (bench_wl 10) (map (\<lambda>i. bench_obs (of_nat i + 1)) [0..<n]) default_policy s bench_bl"
proof -
  have g: "policy_isValid default_policy" "fst (select_baseline (bench_wl 10) [(Id 1, bench_bl)]) = Some bench_bl"
    "snd (freshness_window bench_bl 100001 default_policy)" "min_samples default_policy = 3" by code_simp+
  have "last_timestamp (map (\<lambda>i. bench_obs (of_nat i + 1)) [0..<n]) = 100001"
    using assms(1) by (simp add: last_timestamp_def last_map bench_obs_def)
  moreover have "(3 :: u64) \<le> of_nat n" using assms(1,2) by (simp add: word_le_nat_alt unat_of_nat)
  ultimately show ?thesis using g by (simp add: evidence_ok_def assms(3) bench_counted)
qed

lemma bench_confounders: "analyse_confounders (bench_wl 10) (map (\<lambda>i. bench_obs (f i)) is) = ([], [])"
proof -
  have nc: "o_confounders (bench_obs k) = []" for k by (simp add: bench_obs_def default_observation_def)
  have "foldl (\<lambda>acc ob. if o_workload_id ob \<noteq> wl_id (bench_wl 10) then acc
      else foldl confounder_step acc (o_confounders ob)) a (map (\<lambda>i. bench_obs (f i)) is) = a" for a
    by (induction "is") (simp_all add: nc)
  then show ?thesis by (simp add: analyse_confounders_def)
qed

lemma bench_serial:
  assumes "n \<le> 100000"
  shows "serial_ok (bench_setup\<lparr>i_observations := bench_entries n\<rparr>)"
proof -
  have "observation_ok (Id k, bench_obs k)" for k
    by (simp add: observation_ok_def bench_obs_def default_observation_def default_measurement_def str_ok_def canonical_def
        count_ok_def confounders_ok_def metric_kind_of_u8_def provenance_of_u8_def freshness_of_u8_def source_health_of_u8_def)
  then have o: "section_ok observation_ok (bench_entries n)"
    using assms by (auto simp: section_ok_def count_ok_def bench_entries_def)
  have "n < 2 ^ 32" using assms by simp
  from bench_inv [OF this] o show ?thesis
    by (simp add: bench_setup_state new_observatory_def serial_ok_def section_ok_def count_ok_def map_inv_def set_inv_def
        less_id_def baseline_ok_def workload_ok_def bench_bl_def bench_wl_def str_ok_def canonical_def
        baseline_type_of_u8_def provenance_of_u8_def freshness_of_u8_def metric_kind_of_u8_def)
qed

definition bench_final :: "nat \<Rightarrow> impl" where
  "bench_final n = snd (compare (bench_wl 10) (bench_wl 20) Domain_MemoryBandwidth (map (\<lambda>i. bench_obs (of_nat i + 1)) [0..<n])
     default_policy (bench_setup\<lparr>i_observations := bench_entries n\<rparr>))"

lemma bench_final_serial:
  assumes "3 \<le> n" "n \<le> 100000"
  shows "serial_ok (bench_final n)"
proof -
  have c: "canonical interference_domain_u8 interference_domain_of_u8 Domain_MemoryBandwidth"
    by (simp add: canonical_def interference_domain_of_u8_def)
  have b: "i_baselines (bench_setup\<lparr>i_observations := bench_entries n\<rparr>) = [(Id 1, bench_bl)]" by (simp add: bench_setup_state)
  show ?thesis unfolding bench_final_def using assms
    by (intro serial_compare [OF bench_serial bench_evidence [OF _ _ b] c])
      (simp_all add: bench_setup_state new_observatory_def scored_simps bench_confounders confounders_ok_def count_ok_def)
qed

lemma counted_length: "\<forall>x\<in>set xs. length (enc x) \<le> k \<Longrightarrow> length (w_counted enc xs) \<le> 4 + k * length xs"
  by (induction xs) (auto simp: w_counted_def)

lemma assign_one_length:
  assumes "length (enc (k, v)) \<le> m"
  shows "length (w_counted enc (map_assign [] k v)) \<le> 4 + m"
  using assms by (simp add: w_counted_def)

lemma bench_final_length:
  assumes "3 \<le> n" "n \<le> 100000"
  shows "length (serialize_state (bench_final n)) \<le> kMaxPayload"
proof -
  let ?s = "bench_setup\<lparr>i_observations := bench_entries n\<rparr>" and ?obs = "map (\<lambda>i. bench_obs (of_nat i + 1)) [0..<n]"
  let ?r = "scored_result (bench_wl 10) (bench_wl 20) Domain_MemoryBandwidth ?obs default_policy ?s bench_bl"
  have "evidence_ok (bench_wl 10) ?obs default_policy ?s bench_bl"
    using assms by (intro bench_evidence) (simp_all add: bench_setup_state)
  note sc = compare_scored [OF this]
  note len = scored_lengths [OF bench_confounders]
  have ob: "length (w_observation (Id k, bench_obs k)) \<le> 300" for k
    by (simp add: w_observation_def bench_obs_def default_observation_def default_measurement_def w_counted_def)
  then have "length (w_counted w_observation (bench_entries n)) \<le> 4 + 300 * length (bench_entries n)"
    by (intro counted_length) (auto simp: bench_entries_def)
  then have o: "length (w_counted w_observation (i_observations (bench_final n))) \<le> 4 + 300 * n"
    by (simp add: bench_final_def compare_frame bench_entries_def)
  have z: "i_episodes ?s = []" "i_comparisons ?s = []" by (simp_all add: bench_setup_state new_observatory_def)
  have one: "length (w_counted w_episode (map_assign [] k (make_episode (bench_wl 10) (bench_wl 20) Domain_MemoryBandwidth ?obs ?s bench_bl ?r))) \<le> 404"
    "length (w_counted w_comparison (map_assign [] j ?r)) \<le> 304" for k j
    using assign_one_length [where enc = w_episode, OF len(2)] assign_one_length [where enc = w_comparison, OF len(1)] by simp_all
  have e: "length (w_counted w_episode (i_episodes (bench_final n))) \<le> 404"
    unfolding bench_final_def sc commit_episodes z using one(1)
    by (simp add: w_counted_def del: map_assign.simps split: if_split)
  have c: "length (w_counted w_comparison (i_comparisons (bench_final n))) \<le> 304"
    unfolding bench_final_def sc commit_frame z by (rule one(2))
  have rest: "i_workloads (bench_final n) = [(Id 10, bench_wl 10), (Id 20, bench_wl 20)]" "i_sources (bench_final n) = []"
    "i_baselines (bench_final n) = [(Id 1, bench_bl)]" "i_workers (bench_final n) = []" "i_recoveries (bench_final n) = []"
    by (simp_all add: bench_final_def compare_frame) (simp_all add: bench_setup_state new_observatory_def)
  have w: "length (w_workload (Id k, bench_wl k)) \<le> 300" "length (w_baseline (Id 1, bench_bl)) \<le> 300" for k
    by (simp_all add: w_workload_def w_baseline_def bench_wl_def bench_bl_def)
  have "length (serialize_state (bench_final n)) \<le> 3000 + 300 * n"
    unfolding serialize_state_def rest using o e c w(1) [of 10] w(1) [of 20] w(2) by (simp add: w_counted_def)
  then show ?thesis using assms(2) by (simp add: kMaxPayload_def)
qed

lemma bench_round_work:
  assumes "3 \<le> n" "n \<le> 100000"
  shows "\<exists>s s2 fs'. bench_round no_faults n fs = ((s, Status_Ok, Status_Ok, s2), fs') \<and>
    observation_count s = n \<and> canonical_digest s2 = canonical_digest s"
proof -
  obtain bs where bs: "encode (serialize_state (bench_final n)) = Inr bs"
    using bench_final_length [OF assms] by (auto simp: encode_def Let_def)
  let ?t = "new_observatory (Id 1) (Id 1)" and ?p = "''bench_'' @ decimal n @ ''.bin''"
  have s: "save no_faults p (bench_final n) fs = (Status_Ok, fs(p \<mapsto> bs, p @ ''.tmp'' := None))" for p
    using bs by (auto simp: save_def no_faults_def fun_eq_iff)
  have l: "load ?p (fs(?p \<mapsto> bs, ?p @ ''.tmp'' := None)) ?t = (Status_Ok, restored (bench_final n) ?t)"
    by (rule load_saved [OF bench_final_serial [OF assms] bs]) simp
  have "i_observations bench_setup = []" by (simp add: bench_setup_state new_observatory_def)
  from bench_ingested [OF this, of n] assms(2)
  have "bench_ingest n bench_setup = bench_setup\<lparr>i_observations := bench_entries n\<rparr>" by simp
  then have "bench_round no_faults n fs = ((bench_final n, Status_Ok, Status_Ok, restored (bench_final n) ?t), fs(?p \<mapsto> bs, ?p @ ''.tmp'' := None))"
    using l by (simp add: bench_round_def bench_all s bench_final_def [symmetric] Let_def del: fun_upd_apply append_assoc)
  moreover have "observation_count (bench_final n) = n"
    by (simp add: observation_count_def bench_final_def compare_frame bench_entries_def)
  ultimately show ?thesis by (simp add: canonical_digest_def hash_state_def serialize_restored)
qed

text \<open>C39. The benchmark does the work it times. On a disk that accepts its writes, each of the four
  rounds records exactly the 100, 1000, 10000 and 100000 observations of its row, its state stays below
  the persistence bound, so that saving and loading both succeed, and the loaded observatory has the
  digest of the one that was saved.\<close>

theorem benchmark_rounds_complete:
  "map (\<lambda>(s, st, st2, s2). (observation_count s, st, st2, canonical_digest s2 = canonical_digest s)) (bench_main no_faults fs) =
   [(100, Status_Ok, Status_Ok, True), (1000, Status_Ok, Status_Ok, True), (10000, Status_Ok, Status_Ok, True),
    (100000, Status_Ok, Status_Ok, True)]"
proof -
  have "map (\<lambda>(s, st, st2, s2). (observation_count s, st, st2, canonical_digest s2 = canonical_digest s)) (bench_rounds no_faults ns fs) =
    map (\<lambda>n. (n, Status_Ok, Status_Ok, True)) ns" if "\<forall>n\<in>set ns. 3 \<le> n \<and> n \<le> 100000" for ns
    using that
  proof (induction ns arbitrary: fs)
    case (Cons n ns)
    then obtain s s2 fs' where "bench_round no_faults n fs = ((s, Status_Ok, Status_Ok, s2), fs')"
      "observation_count s = n" "canonical_digest s2 = canonical_digest s" using bench_round_work [of n fs] by auto
    with Cons show ?case by simp
  qed simp
  from this [of "[100, 1000, 10000, 100000]"] show ?thesis by (simp add: bench_main_def)
qed

end
